(* ===== verification/Prelude.thy ===== *)
theory Prelude
  imports Main "HOL-Library.Word"
begin

text \<open>
  Shared vocabulary of the development: Go errors and their wrapping chains, panics, the
  result type of every operation, the combinators that stand for the Go idiom
  \<open>x, err := op(); if err != nil { return ... }\<close>, and the generic lemmas on lists and
  maps that the components share.
\<close>

named_theorems res_simps \<open>evaluation of the result combinators\<close>
named_theorems res_success \<open>what a successful composite operation says of its parts\<close>

type_synonym u64 = "64 word"
type_synonym bytes = string

section \<open>Errors, panics, results\<close>

text \<open>
  A Go \<open>error\<close> as far as the program looks at one: its text, its \<open>%w\<close> chain, and the
  three sentinel or typed errors it tests for: \<open>relay.ErrSubmitTxProofCritical\<close>
  (\<open>internal/relay/txprocessor.go\<close>), \<open>leveldb.ErrNotFound\<close> and \<open>io.EOF\<close>.
\<close>

datatype goerr =
    ErrText string
  | ErrWrap string goerr
  | ErrCritical goerr
  | ErrNotFound
  | ErrEOF

text \<open>The text of an error, \<open>err.Error()\<close>: \<open>fmt.Errorf("p: %w", e)\<close> is \<open>ErrWrap p e\<close>.\<close>

fun err_text :: "goerr \<Rightarrow> string" where
  "err_text (ErrText s) = s"
| "err_text (ErrWrap p e) = p @ '': '' @ err_text e"
| "err_text (ErrCritical e) = ''failed to submit tx proof: '' @ err_text e"
| "err_text ErrNotFound = ''leveldb: not found''"
| "err_text ErrEOF = ''EOF''"

text \<open>
  \<open>errors.Unwrap\<close>: only \<open>%w\<close> errors have an \<open>Unwrap\<close> method;
  \<open>ErrSubmitTxProofCritical\<close> keeps its details private.
\<close>

fun errors_Unwrap :: "goerr \<Rightarrow> goerr option" where
  "errors_Unwrap (ErrWrap p e) = Some e"
| "errors_Unwrap _ = None"

text \<open>\<open>errors.As(err, &critErr)\<close> and \<open>errors.Is(err, leveldb.ErrNotFound)\<close> walk the chain.\<close>

fun errors_As_critical :: "goerr \<Rightarrow> bool" where
  "errors_As_critical (ErrCritical e) = True"
| "errors_As_critical (ErrWrap p e) = errors_As_critical e"
| "errors_As_critical _ = False"

fun errors_Is_NotFound :: "goerr \<Rightarrow> bool" where
  "errors_Is_NotFound ErrNotFound = True"
| "errors_Is_NotFound (ErrWrap p e) = errors_Is_NotFound e"
| "errors_Is_NotFound _ = False"

text \<open>
  An operation returns a value, returns an error, or panics (an index out of range, a nil
  pointer). A panic is never wrapped: it unwinds to the top of the goroutine. A loop that
  need not end is modelled with fuel; \<open>OutOfFuel\<close> says that it had not ended by then.
\<close>

datatype fault = GoErr goerr | GoPanic string | OutOfFuel

type_synonym 'a res = "fault + 'a"

abbreviation Ok :: "'a \<Rightarrow> 'a res" where
  "Ok x \<equiv> Inr x"

abbreviation Err :: "goerr \<Rightarrow> 'a res" where
  "Err e \<equiv> Inl (GoErr e)"

abbreviation Panic :: "string \<Rightarrow> 'a res" where
  "Panic s \<equiv> Inl (GoPanic s)"

fun wrap_fault :: "string \<Rightarrow> fault \<Rightarrow> fault" where
  "wrap_fault p (GoErr e) = GoErr (ErrWrap p e)"
| "wrap_fault p (GoPanic s) = GoPanic s"
| "wrap_fault p OutOfFuel = OutOfFuel"

lemma wrap_fault_OutOfFuel [simp]: "wrap_fault p f = OutOfFuel \<longleftrightarrow> f = OutOfFuel"
  by (cases f) auto

lemma wrap_fault_GoErr_iff: "wrap_fault p f = GoErr e \<longleftrightarrow> (\<exists>e'. f = GoErr e' \<and> e = ErrWrap p e')"
  by (cases f) auto

section \<open>The error idiom\<close>

text \<open>
  \<open>go_try m p k\<close> is \<open>x, err := m; if err != nil { return fmt.Errorf("p: %w", err) }; k x\<close>
  over an explicit state; \<open>go_then\<close> returns the error as it is. \<open>res_try\<close> and
  \<open>res_then\<close> are the same for operations without state.
\<close>

definition go_try :: "'a res \<times> 's \<Rightarrow> string \<Rightarrow> ('a \<Rightarrow> 's \<Rightarrow> 'b res \<times> 's) \<Rightarrow> 'b res \<times> 's" where
  "go_try m p k = (case m of (Inl f, s) \<Rightarrow> (Inl (wrap_fault p f), s) | (Inr x, s) \<Rightarrow> k x s)"

definition go_then :: "'a res \<times> 's \<Rightarrow> ('a \<Rightarrow> 's \<Rightarrow> 'b res \<times> 's) \<Rightarrow> 'b res \<times> 's" where
  "go_then m k = (case m of (Inl f, s) \<Rightarrow> (Inl f, s) | (Inr x, s) \<Rightarrow> k x s)"

definition res_try :: "'a res \<Rightarrow> string \<Rightarrow> ('a \<Rightarrow> 'b res) \<Rightarrow> 'b res" where
  "res_try m p k = (case m of Inl f \<Rightarrow> Inl (wrap_fault p f) | Inr x \<Rightarrow> k x)"

definition res_then :: "'a res \<Rightarrow> ('a \<Rightarrow> 'b res) \<Rightarrow> 'b res" where
  "res_then m k = (case m of Inl f \<Rightarrow> Inl f | Inr x \<Rightarrow> k x)"

lemma go_try_simps [simp, res_simps]:
  "go_try (Inr x, s) p k = k x s"
  "go_try (Inl f, s) p k = (Inl (wrap_fault p f), s)"
  by (simp_all add: go_try_def)

lemma go_then_simps [simp, res_simps]:
  "go_then (Inr x, s) k = k x s"
  "go_then (Inl f, s) k = (Inl f, s)"
  by (simp_all add: go_then_def)

lemma res_try_simps [simp, res_simps]:
  "res_try (Inr x) p k = k x"
  "res_try (Inl f) p k = Inl (wrap_fault p f)"
  by (simp_all add: res_try_def)

lemma res_then_simps [simp, res_simps]:
  "res_then (Inr x) k = k x"
  "res_then (Inl f) k = Inl f"
  by (simp_all add: res_then_def)

lemma go_try_Inr_iff [res_success]:
  "go_try m p k = (Inr y, s') \<longleftrightarrow> (\<exists>x s. m = (Inr x, s) \<and> k x s = (Inr y, s'))"
  by (cases m; cases "fst m") (auto simp: go_try_def)

lemma go_then_Inr_iff [res_success]:
  "go_then m k = (Inr y, s') \<longleftrightarrow> (\<exists>x s. m = (Inr x, s) \<and> k x s = (Inr y, s'))"
  by (cases m; cases "fst m") (auto simp: go_then_def)

lemma res_try_Inr_iff [res_success]:
  "res_try m p k = Inr y \<longleftrightarrow> (\<exists>x. m = Inr x \<and> k x = Inr y)"
  by (cases m) auto

lemma res_then_Inr_iff [res_success]:
  "res_then m k = Inr y \<longleftrightarrow> (\<exists>x. m = Inr x \<and> k x = Inr y)"
  by (cases m) auto

lemma go_try_Inl_iff:
  "go_try m p k = (Inl f, s') \<longleftrightarrow>
     (\<exists>g. m = (Inl g, s') \<and> f = wrap_fault p g) \<or> (\<exists>x s. m = (Inr x, s) \<and> k x s = (Inl f, s'))"
  by (cases m; cases "fst m") (auto simp: go_try_def)

lemma go_then_Inl_iff:
  "go_then m k = (Inl f, s') \<longleftrightarrow>
     m = (Inl f, s') \<or> (\<exists>x s. m = (Inr x, s) \<and> k x s = (Inl f, s'))"
  by (cases m; cases "fst m") (auto simp: go_then_def)

text \<open>Congruence rules: a recursive call may sit in the continuation of a try.\<close>

lemma go_try_cong [fundef_cong]:
  "m = m' \<Longrightarrow> p = p' \<Longrightarrow> (\<And>x s. m' = (Inr x, s) \<Longrightarrow> k x s = k' x s) \<Longrightarrow>
   go_try m p k = go_try m' p' k'"
  by (cases m'; cases "fst m'") (auto simp: go_try_def)

lemma go_then_cong [fundef_cong]:
  "m = m' \<Longrightarrow> (\<And>x s. m' = (Inr x, s) \<Longrightarrow> k x s = k' x s) \<Longrightarrow> go_then m k = go_then m' k'"
  by (cases m'; cases "fst m'") (auto simp: go_then_def)

lemma res_try_cong [fundef_cong]:
  "m = m' \<Longrightarrow> p = p' \<Longrightarrow> (\<And>x. m' = Inr x \<Longrightarrow> k x = k' x) \<Longrightarrow> res_try m p k = res_try m' p' k'"
  by (cases m') auto

lemma res_then_assoc: "res_then (res_then m k) l = res_then m (\<lambda>x. res_then (k x) l)"
  by (cases m) simp_all

lemma res_then_Ok [simp]: "res_then m Ok = m"
  by (cases m) simp_all

lemma res_then_cong [fundef_cong]:
  "m = m' \<Longrightarrow> (\<And>x. m' = Inr x \<Longrightarrow> k x = k' x) \<Longrightarrow> res_then m k = res_then m' k'"
  by (cases m') auto

text \<open>
  A state property survives a composite operation when each part keeps it: the frame rule
  of the error idiom, for values and errors alike.
\<close>

lemma go_try_state:
  "P (snd m) \<Longrightarrow> (\<And>x s. m = (Inr x, s) \<Longrightarrow> P s \<Longrightarrow> P (snd (k x s))) \<Longrightarrow> P (snd (go_try m p k))"
  by (cases m; cases "fst m") (auto simp: go_try_def)

lemma go_then_state:
  "P (snd m) \<Longrightarrow> (\<And>x s. m = (Inr x, s) \<Longrightarrow> P s \<Longrightarrow> P (snd (k x s))) \<Longrightarrow> P (snd (go_then m k))"
  by (cases m; cases "fst m") (auto simp: go_then_def)

section \<open>Lifting an operation on a part of the state\<close>

text \<open>
  A component works on its own record; \<open>on_part get put f\<close> runs its operation \<open>f\<close> on
  the part of a larger state that \<open>get\<close> reads and \<open>put\<close> writes back.
\<close>

definition on_part ::
  "('s \<Rightarrow> 'c) \<Rightarrow> ('c \<Rightarrow> 's \<Rightarrow> 's) \<Rightarrow> ('c \<Rightarrow> 'a \<times> 'c) \<Rightarrow> 's \<Rightarrow> 'a \<times> 's" where
  "on_part get put f s = (case f (get s) of (r, c) \<Rightarrow> (r, put c s))"

section \<open>Lists and maps\<close>

lemma map_upd_other [simp]: "k' \<noteq> k \<Longrightarrow> (m(k := v)) k' = m k'"
  by simp

lemma append_eq_same_length:
  "length a = length c \<Longrightarrow> a @ b = c @ d \<longleftrightarrow> a = c \<and> b = d"
  by simp

lemma append_eq_same_length_tail:
  "length b = length d \<Longrightarrow> a @ b = c @ d \<longleftrightarrow> a = c \<and> b = d"
  by simp

lemma list_all_append_D: "list_all P (xs @ ys) \<Longrightarrow> list_all P ys"
  by simp

end
