(* ===== verification/Strconv.thy ===== *)
theory Strconv
  imports Prelude
begin

text \<open>
  What the program uses of Go's \<open>strconv\<close>, \<open>strings\<close>, \<open>fmt\<close> and \<open>encoding/hex\<close>:
  decimal printing and parsing of unsigned and signed 64-bit integers, lower-casing,
  joining and substring search, hex encoding and decoding. Strings are byte strings.
\<close>

section \<open>Decimal numbers\<close>

definition digit_char :: "nat \<Rightarrow> char" where
  "digit_char d = char_of (48 + d)"

definition is_digit :: "char \<Rightarrow> bool" where
  "is_digit c \<longleftrightarrow> 48 \<le> (of_char c :: nat) \<and> (of_char c :: nat) \<le> 57"

definition digit_val :: "char \<Rightarrow> nat" where
  "digit_val c = of_char c - 48"

lemma of_char_digit_char [simp]: "d < 10 \<Longrightarrow> (of_char (digit_char d) :: nat) = 48 + d"
  by (simp add: digit_char_def of_char_of)

lemma is_digit_digit_char [simp]: "d < 10 \<Longrightarrow> is_digit (digit_char d)"
  by (simp add: is_digit_def)

lemma digit_val_digit_char [simp]: "d < 10 \<Longrightarrow> digit_val (digit_char d) = d"
  by (simp add: digit_val_def)

text \<open>\<open>strconv.FormatUint(n, 10)\<close>, also \<open>%d\<close> of an unsigned value.\<close>

fun format_nat :: "nat \<Rightarrow> string" where
  "format_nat n = (if n < 10 then [digit_char n] else format_nat (n div 10) @ [digit_char (n mod 10)])"

declare format_nat.simps [simp del]

definition FormatUint :: "u64 \<Rightarrow> string" where
  "FormatUint n = format_nat (unat n)"

text \<open>\<open>%d\<close> of a signed value.\<close>

definition FormatInt :: "int \<Rightarrow> string" where
  "FormatInt i = (if i < 0 then CHR ''-'' # format_nat (nat (- i)) else format_nat (nat i))"

text \<open>
  \<open>strconv.ParseUint(s, 10, 64)\<close>: an empty string or a byte that is not a decimal digit
  is a syntax error (no sign, no underscore in base 10); a value of \<open>2^64\<close> or more is a
  range error.
\<close>

definition digits_val :: "string \<Rightarrow> nat" where
  "digits_val s = foldl (\<lambda>a c. 10 * a + digit_val c) 0 s"

definition ParseUint :: "string \<Rightarrow> u64 res" where
  "ParseUint s =
     (if s = [] \<or> \<not> list_all is_digit s
      then Err (ErrText (''strconv.ParseUint: parsing '' @ s @ '': invalid syntax''))
      else if digits_val s < 2 ^ 64 then Ok (word_of_nat (digits_val s))
      else Err (ErrText (''strconv.ParseUint: parsing '' @ s @ '': value out of range'')))"

text \<open>
  \<open>strconv.Atoi\<close> on a 64-bit platform: an optional sign, then decimal digits, within the
  range of \<open>int64\<close>.
\<close>

definition Atoi :: "string \<Rightarrow> int res" where
  "Atoi s =
     (let neg = (s \<noteq> [] \<and> hd s = CHR ''-'');
          body = (if s \<noteq> [] \<and> (hd s = CHR ''-'' \<or> hd s = CHR ''+'') then tl s else s);
          v = (if neg then - int (digits_val body) else int (digits_val body))
      in if body = [] \<or> \<not> list_all is_digit body
         then Err (ErrText (''strconv.Atoi: parsing '' @ s @ '': invalid syntax''))
         else if - (2 ^ 63) \<le> v \<and> v < 2 ^ 63 then Ok v
         else Err (ErrText (''strconv.Atoi: parsing '' @ s @ '': value out of range'')))"

lemma digits_val_append: "digits_val (xs @ [c]) = 10 * digits_val xs + digit_val c"
  by (simp add: digits_val_def)

lemma format_nat_digits: "list_all is_digit (format_nat n)"
proof (induction n rule: format_nat.induct)
  case (1 n)
  then show ?case by (subst format_nat.simps) auto
qed

lemma format_nat_nonempty [simp]: "format_nat n \<noteq> []"
  by (subst format_nat.simps) simp

lemma digits_val_format_nat [simp]: "digits_val (format_nat n) = n"
proof (induction n rule: format_nat.induct)
  case (1 n)
  show ?case
  proof (cases "n < 10")
    case True
    then show ?thesis by (subst format_nat.simps) (simp add: digits_val_def)
  next
    case False
    with 1 show ?thesis by (subst format_nat.simps) (simp add: digits_val_append)
  qed
qed

lemma format_nat_inj: "format_nat m = format_nat n \<Longrightarrow> m = n"
  by (metis digits_val_format_nat)

lemma FormatUint_digits [simp]: "list_all is_digit (FormatUint n)"
  by (simp add: FormatUint_def format_nat_digits)

lemma FormatUint_nonempty [simp]: "FormatUint n \<noteq> []"
  by (simp add: FormatUint_def)

lemma FormatUint_inj [simp]: "FormatUint m = FormatUint n \<longleftrightarrow> m = n"
  by (auto simp: FormatUint_def word_unat_eq_iff dest: format_nat_inj)

lemma unat_u64_less [simp]: "unat (n :: u64) < 18446744073709551616"
  using unsigned_less [of n, where 'a = nat] by simp

text \<open>Parsing what was printed gives the number back; on any string, the value read is exact.\<close>

lemma ParseUint_FormatUint [simp]: "ParseUint (FormatUint n) = Ok n"
  by (simp add: ParseUint_def) (simp add: FormatUint_def)

lemma ParseUint_Ok_iff:
  "ParseUint s = Ok n \<longleftrightarrow> s \<noteq> [] \<and> list_all is_digit s \<and> digits_val s = unat n"
proof -
  have "unat n < 2 ^ 64" by simp
  moreover have "word_of_nat m = n \<longleftrightarrow> m = unat n" if "m < 2 ^ 64" for m
    using that by (auto simp: word_unat_eq_iff unsigned_of_nat take_bit_nat_eq_self)
  ultimately show ?thesis by (auto simp: ParseUint_def)
qed

lemma digit_not_sign [simp]: "is_digit c \<Longrightarrow> c \<noteq> CHR ''-''" "is_digit c \<Longrightarrow> c \<noteq> CHR ''+''"
  by (auto simp: is_digit_def)

lemma Atoi_FormatInt:
  assumes "- (2 ^ 63) \<le> i" "i < 2 ^ 63"
  shows "Atoi (FormatInt i) = Ok i"
proof -
  have "hd (format_nat n) \<noteq> CHR ''-''" "hd (format_nat n) \<noteq> CHR ''+''" for n
    using format_nat_digits [of n] format_nat_nonempty [of n] by (cases "format_nat n"; auto)+
  with assms show ?thesis by (simp add: Atoi_def FormatInt_def format_nat_digits)
qed

text \<open>A decimal number has at most twenty bytes: the space that keys leave for the hash.\<close>

lemma length_format_nat_le: "n < 10 ^ k \<Longrightarrow> 0 < k \<Longrightarrow> length (format_nat n) \<le> k"
proof (induction n arbitrary: k rule: format_nat.induct)
  case (1 n)
  show ?case
  proof (cases "n < 10")
    case True
    with 1 show ?thesis by (subst format_nat.simps) simp
  next
    case False
    with "1.prems" have k: "1 < k"
      by (metis less_one linorder_neqE_nat not_less_zero power_one_right)
    with "1.prems" have "n div 10 < 10 ^ (k - 1)"
      by (metis Suc_diff_1 less_mult_imp_div_less mult.commute power_Suc)
    with "1.IH" [OF False, of "k - 1"] k have "length (format_nat (n div 10)) \<le> k - 1" by simp
    with False k show ?thesis by (subst format_nat.simps) simp
  qed
qed

lemma length_FormatUint_le: "length (FormatUint n) \<le> 20"
proof -
  have "unat n < 10 ^ 20" by (rule less_trans [OF unat_u64_less]) simp
  then show ?thesis unfolding FormatUint_def by (rule length_format_nat_le) simp
qed

section \<open>Strings\<close>

definition lower_char :: "char \<Rightarrow> char" where
  "lower_char c = (if 65 \<le> (of_char c :: nat) \<and> (of_char c :: nat) \<le> 90 then char_of (of_char c + (32::nat)) else c)"

text \<open>\<open>strings.ToLower\<close>, on ASCII.\<close>

definition ToLower :: "string \<Rightarrow> string" where
  "ToLower s = map lower_char s"

text \<open>\<open>strings.Join(parts, sep)\<close>.\<close>

fun str_join :: "string \<Rightarrow> string list \<Rightarrow> string" where
  "str_join sep [] = []"
| "str_join sep [x] = x"
| "str_join sep (x # y # xs) = x @ sep @ str_join sep (y # xs)"

definition HasPrefix :: "string \<Rightarrow> string \<Rightarrow> bool" where
  "HasPrefix s p \<longleftrightarrow> take (length p) s = p"

text \<open>\<open>strings.Contains(s, sub)\<close>.\<close>

fun str_contains :: "string \<Rightarrow> string \<Rightarrow> bool" where
  "str_contains [] sub = (sub = [])"
| "str_contains (c # cs) sub = (HasPrefix (c # cs) sub \<or> str_contains cs sub)"

lemma HasPrefix_append [simp]: "HasPrefix (p @ s) p"
  by (simp add: HasPrefix_def)

lemma HasPrefix_iff: "HasPrefix s p \<longleftrightarrow> (\<exists>t. s = p @ t)"
  by (metis HasPrefix_append HasPrefix_def append_take_drop_id)

lemma str_contains_iff: "str_contains s sub \<longleftrightarrow> (\<exists>a b. s = a @ sub @ b)"
proof (induction s)
  case Nil
  then show ?case by auto
next
  case (Cons c cs)
  show ?case
  proof
    assume "str_contains (c # cs) sub"
    then consider "HasPrefix (c # cs) sub" | "str_contains cs sub" by auto
    then show "\<exists>a b. c # cs = a @ sub @ b"
    proof cases
      case 1
      then show ?thesis by (metis HasPrefix_iff append_Nil)
    next
      case 2
      with Cons.IH show ?thesis by (metis append_Cons)
    qed
  next
    assume "\<exists>a b. c # cs = a @ sub @ b"
    then obtain a b where ab: "c # cs = a @ sub @ b" by blast
    show "str_contains (c # cs) sub"
    proof (cases a)
      case Nil
      with ab have "HasPrefix (c # cs) sub" by simp
      then show ?thesis by simp
    next
      case (Cons d ds)
      with ab have "cs = ds @ sub @ b" by simp
      with Cons.IH show ?thesis by auto
    qed
  qed
qed

section \<open>Hex\<close>

definition hex_char :: "nat \<Rightarrow> char" where
  "hex_char d = (if d < 10 then char_of (48 + d) else char_of (87 + d))"

definition hex_val :: "char \<Rightarrow> nat option" where
  "hex_val c =
     (let n = of_char c :: nat
      in if 48 \<le> n \<and> n \<le> 57 then Some (n - 48)
         else if 97 \<le> n \<and> n \<le> 102 then Some (n - 87)
         else if 65 \<le> n \<and> n \<le> 70 then Some (n - 55)
         else None)"

text \<open>\<open>hex.EncodeToString\<close>: two lower-case digits per byte.\<close>

fun hex_encode :: "bytes \<Rightarrow> string" where
  "hex_encode [] = []"
| "hex_encode (b # bs) = hex_char (of_char b div 16) # hex_char (of_char b mod 16) # hex_encode bs"

text \<open>\<open>hex.DecodeString\<close>: both cases accepted; a bad digit or an odd length is an error.\<close>

fun hex_decode :: "string \<Rightarrow> bytes res" where
  "hex_decode [] = Ok []"
| "hex_decode [c] =
     (case hex_val c of
        None \<Rightarrow> Err (ErrText ''encoding/hex: invalid byte'')
      | Some _ \<Rightarrow> Err (ErrText ''encoding/hex: odd length hex string''))"
| "hex_decode (c # d # cs) =
     (case (hex_val c, hex_val d) of
        (Some h, Some l) \<Rightarrow> res_then (hex_decode cs) (\<lambda>bs. Ok (char_of (16 * h + l) # bs))
      | _ \<Rightarrow> Err (ErrText ''encoding/hex: invalid byte''))"

lemma hex_val_hex_char [simp]: "d < 16 \<Longrightarrow> hex_val (hex_char d) = Some d"
  by (auto simp: hex_val_def hex_char_def of_char_of Let_def)

lemma of_char_div_16_less [simp]: "(of_char c :: nat) div 16 < 16"
  using nat_of_char_less_256 [of c] by (simp add: less_mult_imp_div_less del: nat_of_char_less_256)

lemma hex_decode_encode [simp]: "hex_decode (hex_encode bs) = Ok bs"
  by (induction bs) (auto simp: mult.commute)

lemma length_hex_encode [simp]: "length (hex_encode bs) = 2 * length bs"
  by (induction bs) auto

lemma hex_encode_inj [simp]: "hex_encode a = hex_encode b \<longleftrightarrow> a = b"
  by (metis hex_decode_encode sum.inject(2))

end
