(* ===== verification/Json_Roundtrip.thy ===== *)
theory Json_Roundtrip
  imports Json
begin

text \<open>
  Parsing a printed JSON document gives the document back, with every invalid UTF-8 byte of
  its strings replaced by U+FFFD (\<open>json_clean\<close>). This is what lets the storage theories
  read a record from the database as the record that was written.
\<close>

section \<open>Strings\<close>

lemma bytes_of_codes:
  "[char_of (239::nat), char_of (191::nat), char_of (189::nat)] = ufffd"
  "[char_of (226::nat), char_of (128::nat), char_of (168::nat)] = [CHR 0xE2, CHR 0x80, CHR 0xA8]"
  "[char_of (226::nat), char_of (128::nat), char_of (169::nat)] = [CHR 0xE2, CHR 0x80, CHR 0xA9]"
  by (simp_all add: ufffd_def char_of_eq_iff)

lemma prepend_Some [simp]: "prepend b (Some (s, r)) = Some (b @ s, r)"
  by (simp add: prepend_def)

lemma parse_chars_ascii:
  assumes "byte c < 128"
  shows "parse_chars (quote_ascii c @ t) = prepend [c] (parse_chars t)"
proof -
  have u00: "parse_chars ((CHR 0x5C # ''u00'' @ hex2 (byte c)) @ t) = prepend [c] (parse_chars t)"
    using assms
    by (simp add: parse_chars.simps simple_escape_def unescape_u_def hex4_def hex2_def
        hex_val_def [of "CHR ''0''"] utf8_encode_def Let_def)
  have esc: "parse_chars (CHR 0x5C # e # t) = prepend [x] (parse_chars t)"
    if "simple_escape e = Some x" for e x
    using that by (simp add: parse_chars.simps)
  have plain: "parse_chars (c # t) = prepend [c] (parse_chars t)"
    if "c \<noteq> CHR 0x22" "c \<noteq> CHR 0x5C" "\<not> byte c < 32"
    using that assms by (simp add: parse_chars.simps)
  show ?thesis
    unfolding quote_ascii_def using u00 plain by (auto simp: esc simple_escape_def)
qed

lemma parse_chars_multi:
  assumes "utf8_len ch = length ch" "2 \<le> length ch"
  shows "parse_chars (ch @ t) = prepend ch (parse_chars t)"
proof -
  obtain a r where ch: "ch = a # r" using assms by (cases ch) auto
  have a: "128 \<le> byte a" using assms by (intro utf8_len_first [of a r]) (auto simp: ch)
  have n: "utf8_len (ch @ t) = length ch"
    using utf8_len_prefix [OF assms(1), of t] by (simp add: ch del: utf8_len.simps)
  have "parse_chars (a # (r @ t)) = prepend (take (length ch) (a # (r @ t))) (parse_chars (drop (length ch) (a # (r @ t))))"
    using a n assms by (subst parse_chars.simps) (auto simp: ch simp del: utf8_len.simps)
  then show ?thesis by (simp add: ch)
qed

lemma parse_chars_rune:
  assumes "rune_ok x"
  shows "parse_chars (quote_rune x @ t) = prepend (rune_clean x) (parse_chars t)"
proof (cases x)
  case None
  then show ?thesis
    by (simp add: quote_rune_def rune_clean_def parse_chars.simps simple_escape_def unescape_u_def
        hex4_def hex_val_def utf8_encode_def Let_def bytes_of_codes)
next
  case (Some ch)
  with assms have ch: "ch \<noteq> []" "utf8_len ch = length ch" by (auto simp: rune_ok_def)
  show ?thesis
  proof (cases "length ch = 1")
    case True
    then obtain c where c: "ch = [c]" by (auto simp: length_Suc_conv)
    with ch have "byte c < 128" by (auto split: if_splits)
    then show ?thesis by (simp add: Some c quote_rune_def rune_clean_def parse_chars_ascii)
  next
    case False
    with ch have len: "2 \<le> length ch" by (cases ch) (auto simp: Suc_le_eq)
    then obtain a b r where abr: "ch = a # b # r" by (cases ch; cases "tl ch") auto
    have q: "quote_rune x = (if ch = [CHR 0xE2, CHR 0x80, CHR 0xA8] then CHR 0x5C # ''u2028''
         else if ch = [CHR 0xE2, CHR 0x80, CHR 0xA9] then CHR 0x5C # ''u2029'' else ch)"
      by (simp add: Some quote_rune_def abr)
    have ls: "parse_chars (CHR 0x5C # ''u2028'' @ t) = prepend [CHR 0xE2, CHR 0x80, CHR 0xA8] (parse_chars t)"
      by (simp add: parse_chars.simps simple_escape_def unescape_u_def hex4_def hex_val_def
          utf8_encode_def Let_def bytes_of_codes)
    have ps: "parse_chars (CHR 0x5C # ''u2029'' @ t) = prepend [CHR 0xE2, CHR 0x80, CHR 0xA9] (parse_chars t)"
      by (simp add: parse_chars.simps simple_escape_def unescape_u_def hex4_def hex_val_def
          utf8_encode_def Let_def bytes_of_codes)
    show ?thesis
      unfolding q using ls ps parse_chars_multi [OF ch(2) len, of t]
      by (auto simp: Some rune_clean_def)
  qed
qed

lemma parse_chars_runes:
  "list_all rune_ok xs \<Longrightarrow>
   parse_chars (concat (map quote_rune xs) @ CHR 0x22 # t) = Some (concat (map rune_clean xs), t)"
  by (induction xs) (auto simp: parse_chars_rune parse_chars.simps)

lemma parse_chars_quote_str:
  "parse_chars (tl (quote_str s) @ t) = Some (utf8_clean s, t)"
  by (simp add: quote_str_def utf8_clean_def parse_chars_runes runes_ok)

lemma quote_str_Cons: "quote_str s = CHR 0x22 # tl (quote_str s)"
  by (simp add: quote_str_def)

section \<open>Documents\<close>

fun json_clean :: "json \<Rightarrow> json" where
  "json_clean (JStr s) = JStr (utf8_clean s)"
| "json_clean (JArr vs) = JArr (map json_clean vs)"
| "json_clean (JObj ms) = JObj (map (\<lambda>(k, v). (utf8_clean k, json_clean v)) ms)"
| "json_clean v = v"

definition number_ok :: "string \<Rightarrow> bool" where
  "number_ok n \<longleftrightarrow> valid_number n \<and> list_all is_num_char n"

fun json_ok :: "json \<Rightarrow> bool" where
  "json_ok (JNum n) = number_ok n"
| "json_ok (JArr vs) = list_all json_ok vs"
| "json_ok (JObj ms) = list_all (\<lambda>(k, v). json_ok v) ms"
| "json_ok v = True"

text \<open>A document followed by \<open>t\<close> ends where it should when \<open>t\<close> starts no number.\<close>

definition ends_value :: "string \<Rightarrow> bool" where
  "ends_value t \<longleftrightarrow> (case t of [] \<Rightarrow> True | c # _ \<Rightarrow> \<not> is_num_char c)"

lemma ends_value_simps [simp]:
  "ends_value []" "ends_value (CHR '','' # t)" "ends_value (CHR '']'' # t)" "ends_value (CHR ''}'' # t)"
  by (simp_all add: ends_value_def is_num_char_def is_digit_def)

lemma skip_ws_Cons [simp]: "\<not> is_ws c \<Longrightarrow> skip_ws (c # r) = c # r"
  by (simp add: skip_ws_def)

lemma not_ws_simps [simp]:
  "\<not> is_ws (CHR 0x22)" "\<not> is_ws (CHR '','')" "\<not> is_ws (CHR '':'')" "\<not> is_ws (CHR ''}'')"
  "\<not> is_ws (CHR '']'')" "\<not> is_ws (CHR ''{'')" "\<not> is_ws (CHR ''['')" "\<not> is_ws (CHR ''n'')"
  "\<not> is_ws (CHR ''t'')" "\<not> is_ws (CHR ''f'')"
  by (simp_all add: is_ws_def)

lemma is_num_char_not:
  "is_num_char c \<Longrightarrow> \<not> is_ws c \<and> c \<noteq> CHR ''{'' \<and> c \<noteq> CHR ''['' \<and> c \<noteq> CHR 0x22 \<and>
     c \<noteq> CHR ''n'' \<and> c \<noteq> CHR ''t'' \<and> c \<noteq> CHR ''f'' \<and> c \<noteq> CHR ''}'' \<and> c \<noteq> CHR '']''"
  by (auto simp: is_num_char_def is_ws_def is_digit_def)

lemma number_ok_parts:
  assumes "number_ok n"
  obtains c r where "n = c # r" "is_num_char c"
  using assms by (cases n) (auto simp: number_ok_def valid_number_def)

lemma number_ok_span:
  assumes "number_ok n" "ends_value t"
  shows "takeWhile is_num_char (n @ t) = n" "dropWhile is_num_char (n @ t) = t"
proof -
  have all: "\<forall>c\<in>set n. is_num_char c" using assms by (simp add: number_ok_def list_all_iff)
  then show "takeWhile is_num_char (n @ t) = n"
    using assms(2) by (cases t) (auto simp: ends_value_def)
  show "dropWhile is_num_char (n @ t) = t"
    using all assms(2) by (cases t) (auto simp: ends_value_def)
qed

lemma takeWhile_digits: "list_all is_digit s \<Longrightarrow> takeWhile is_digit s = s \<and> dropWhile is_digit s = []"
  by (induction s) auto

lemma format_nat_hd: "0 < n \<Longrightarrow> hd (format_nat n) \<noteq> CHR ''0''"
proof (induction n rule: format_nat.induct)
  case (1 n)
  show ?case
  proof (cases "n < 10")
    case True
    have "byte (digit_char n) \<noteq> byte (CHR ''0'')" using True 1 by simp
    then have "digit_char n \<noteq> CHR ''0''" by metis
    with True show ?thesis by (subst format_nat.simps) simp
  next
    case False
    with 1 show ?thesis by (subst format_nat.simps) simp
  qed
qed

lemma valid_number_format_nat:
  "valid_number (format_nat n)" "valid_number (CHR ''-'' # format_nat n)"
proof -
  let ?s = "format_nat n"
  have d: "list_all is_digit ?s" by (rule format_nat_digits)
  obtain c r where cr: "?s = c # r" using format_nat_nonempty [of n] by (cases ?s) auto
  with d have c: "is_digit c" by simp
  then have "c \<noteq> CHR ''-''" by (auto simp: is_digit_def)
  moreover have "hd ?s = CHR ''0'' \<longrightarrow> length ?s = 1"
  proof
    assume "hd ?s = CHR ''0''"
    then have "n = 0" using format_nat_hd [of n] by auto
    then show "length ?s = 1" by (simp add: format_nat.simps)
  qed
  ultimately show "valid_number ?s" "valid_number (CHR ''-'' # ?s)"
    using takeWhile_digits [OF d] by (auto simp: valid_number_def cr Let_def is_digit_def)
qed

lemma num_chars_format_nat: "list_all is_num_char (format_nat n)"
  using format_nat_digits [of n] by (auto simp: is_num_char_def list_all_iff)

lemma number_ok_FormatUint [simp]: "number_ok (FormatUint n)"
  by (simp add: number_ok_def FormatUint_def valid_number_format_nat num_chars_format_nat)

lemma number_ok_FormatInt [simp]: "number_ok (FormatInt i)"
  using num_chars_format_nat by (auto simp: number_ok_def FormatInt_def valid_number_format_nat is_num_char_def)

text \<open>The first byte of a printed document is never white space and never closes a bracket.\<close>

lemma json_text_first:
  assumes "json_ok v"
  obtains c r where "json_text v = c # r" "\<not> is_ws c" "c \<noteq> CHR '']''" "c \<noteq> CHR ''}''"
proof (cases v)
  case (JNum n)
  with assms obtain c r where "n = c # r" "is_num_char c" by (auto elim: number_ok_parts)
  with JNum is_num_char_not that show thesis by auto
next
  case (JBool b)
  then show thesis using that by (cases b) auto
next
  case (JStr s)
  then show thesis using that by (simp add: quote_str_def)
qed (use that in auto)

lemma length_quote_str: "2 \<le> length (quote_str s)"
  by (simp add: quote_str_def)

lemma length_json_text: "json_ok v \<Longrightarrow> 1 \<le> length (json_text v)"
  by (metis json_text_first length_Cons le_add1 plus_1_eq_Suc)

lemma parse_number_value:
  assumes "number_ok n" "ends_value t"
  shows "parse_value (Suc f) (n @ t) = Some (JNum n, t)"
proof -
  obtain c r where cr: "n = c # r" and c: "is_num_char c" using assms(1) by (rule number_ok_parts)
  have "\<not> HasPrefix (n @ t) ''null''" "\<not> HasPrefix (n @ t) ''true''" "\<not> HasPrefix (n @ t) ''false''"
    using is_num_char_not [OF c] by (auto simp: HasPrefix_def cr)
  with is_num_char_not [OF c] number_ok_span [OF assms] assms(1) show ?thesis
    by (simp add: cr number_ok_def)
qed

lemma parse_str_value: "parse_value (Suc f) (quote_str s @ t) = Some (JStr (utf8_clean s), t)"
proof -
  have "quote_str s @ t = CHR 0x22 # (tl (quote_str s) @ t)"
    by (subst quote_str_Cons) simp
  then show ?thesis by (simp only: parse_value.simps) (simp add: parse_chars_quote_str)
qed

definition parses :: "json \<Rightarrow> bool" where
  "parses v \<longleftrightarrow> (\<forall>f t. length (json_text v) \<le> f \<longrightarrow> ends_value t \<longrightarrow>
     parse_value f (json_text v @ t) = Some (json_clean v, t))"

lemma parse_elems_text:
  assumes "vs \<noteq> []" "\<forall>v\<in>set vs. parses v \<and> json_ok v"
    "length (str_join '','' (map json_text vs)) < f"
  shows "parse_elems f (str_join '','' (map json_text vs) @ CHR '']'' # t) = Some (map json_clean vs, t)"
  using assms
proof (induction vs arbitrary: f)
  case Nil
  then show ?case by simp
next
  case (Cons v vs)
  obtain g where f: "f = Suc g" using Cons.prems(3) by (cases f) auto
  have pv: "parses v" using Cons.prems by simp
  show ?case
  proof (cases vs)
    case Nil
    with Cons.prems f have "length (json_text v) \<le> g" by simp
    with pv have "parse_value g (json_text v @ CHR '']'' # t) = Some (json_clean v, CHR '']'' # t)"
      by (simp add: parses_def)
    with Nil f show ?thesis by simp
  next
    case (Cons w ws)
    let ?rest = "str_join '','' (map json_text vs)"
    have joined: "str_join '','' (map json_text (v # vs)) = json_text v @ CHR '','' # ?rest"
      by (simp add: Cons)
    from Cons.prems(3) f joined have len: "length (json_text v) \<le> g" "length ?rest < g"
      using length_json_text [of v] Cons.prems(2) by (auto simp del: str_join.simps)
    with pv have "parse_value g (json_text v @ CHR '','' # ?rest @ CHR '']'' # t) =
        Some (json_clean v, CHR '','' # ?rest @ CHR '']'' # t)"
      by (simp add: parses_def)
    moreover have "parse_elems g (?rest @ CHR '']'' # t) = Some (map json_clean vs, t)"
      using Cons.prems len Cons by (intro Cons.IH) auto
    ultimately show ?thesis unfolding joined f by simp
  qed
qed

definition member_text :: "string \<times> json \<Rightarrow> string" where
  "member_text m = (case m of (k, v) \<Rightarrow> quote_str k @ CHR '':'' # json_text v)"

lemma parse_members_text:
  assumes "ms \<noteq> []" "\<forall>(k, v)\<in>set ms. parses v \<and> json_ok v"
    "length (str_join '','' (map member_text ms)) < f"
  shows "parse_members f (str_join '','' (map member_text ms) @ CHR ''}'' # t) =
    Some (map (\<lambda>(k, v). (utf8_clean k, json_clean v)) ms, t)"
  using assms
proof (induction ms arbitrary: f)
  case Nil
  then show ?case by simp
next
  case (Cons m ms)
  obtain k v where m: "m = (k, v)" by (cases m)
  obtain g where f: "f = Suc g" using Cons.prems(3) by (cases f) auto
  have pv: "parses v" using Cons.prems m by simp
  have key: "quote_str k @ u = CHR 0x22 # (tl (quote_str k) @ u)" for u
    by (subst quote_str_Cons) simp
  show ?case
  proof (cases ms)
    case Nil
    with Cons.prems f m have "length (json_text v) \<le> g"
      using length_quote_str [of k] by (simp add: member_text_def)
    with pv have "parse_value g (json_text v @ CHR ''}'' # t) = Some (json_clean v, CHR ''}'' # t)"
      by (simp add: parses_def)
    with Nil f m show ?thesis by (simp add: member_text_def key parse_chars_quote_str)
  next
    case (Cons w ws)
    let ?rest = "str_join '','' (map member_text ms)"
    have joined: "str_join '','' (map member_text (m # ms)) = quote_str k @ CHR '':'' # json_text v @ CHR '','' # ?rest"
      by (simp add: Cons member_text_def m)
    from Cons.prems(3) f joined have len: "length (json_text v) \<le> g" "length ?rest < g"
      using length_quote_str [of k] by (auto simp del: str_join.simps)
    with pv have "parse_value g (json_text v @ CHR '','' # ?rest @ CHR ''}'' # t) =
        Some (json_clean v, CHR '','' # ?rest @ CHR ''}'' # t)"
      by (simp add: parses_def)
    moreover have "parse_members g (?rest @ CHR ''}'' # t) =
        Some (map (\<lambda>(k, v). (utf8_clean k, json_clean v)) ms, t)"
      using Cons.prems len Cons by (intro Cons.IH) auto
    ultimately show ?thesis
      unfolding joined f by (simp add: key parse_chars_quote_str m)
  qed
qed

lemma str_join_first: "str_join sep (x # xs) = x @ (if xs = [] then [] else sep @ str_join sep xs)"
  by (cases xs) auto

lemma parses_arr:
  assumes "\<forall>v\<in>set vs. parses v \<and> json_ok v"
  shows "parses (JArr vs)"
proof (cases vs)
  case Nil
  show ?thesis
    unfolding parses_def
  proof (intro allI impI)
    fix f t assume "length (json_text (JArr vs)) \<le> f"
    with Nil obtain g where "f = Suc g" by (cases f) auto
    with Nil show "parse_value f (json_text (JArr vs) @ t) = Some (json_clean (JArr vs), t)" by simp
  qed
next
  case (Cons v ws)
  show ?thesis
    unfolding parses_def
  proof (intro allI impI)
    fix f t assume len: "length (json_text (JArr vs)) \<le> f"
    then obtain g where f: "f = Suc g" by (cases f) auto
    let ?body = "str_join '','' (map json_text vs)"
    from len f have "length ?body < g" by simp
    then have elems: "parse_elems g (?body @ CHR '']'' # t) = Some (map json_clean vs, t)"
      using Cons assms by (intro parse_elems_text) auto
    obtain c r where first: "json_text v = c # r" "\<not> is_ws c" "c \<noteq> CHR '']''"
      using assms Cons by (auto elim: json_text_first)
    then have "take 1 (skip_ws (?body @ CHR '']'' # t)) \<noteq> '']''"
      by (simp add: Cons str_join_first)
    with elems f show "parse_value f (json_text (JArr vs) @ t) = Some (json_clean (JArr vs), t)" by simp
  qed
qed

lemma json_text_obj: "json_text (JObj ms) = CHR ''{'' # str_join '','' (map member_text ms) @ ''}''"
  by (simp add: member_text_def [abs_def])

lemma parses_obj:
  assumes "\<forall>(k, v)\<in>set ms. parses v \<and> json_ok v"
  shows "parses (JObj ms)"
proof (cases ms)
  case Nil
  show ?thesis
    unfolding parses_def
  proof (intro allI impI)
    fix f t assume "length (json_text (JObj ms)) \<le> f"
    with Nil obtain g where "f = Suc g" by (cases f) auto
    with Nil show "parse_value f (json_text (JObj ms) @ t) = Some (json_clean (JObj ms), t)" by simp
  qed
next
  case (Cons m ws)
  show ?thesis
    unfolding parses_def
  proof (intro allI impI)
    fix f t assume len: "length (json_text (JObj ms)) \<le> f"
    then obtain g where f: "f = Suc g" by (cases f) auto
    let ?body = "str_join '','' (map member_text ms)"
    from len f have "length ?body < g" unfolding json_text_obj by simp
    then have mems: "parse_members g (?body @ CHR ''}'' # t) =
        Some (map (\<lambda>(k, v). (utf8_clean k, json_clean v)) ms, t)"
      using Cons assms by (intro parse_members_text) auto
    obtain k v where m: "m = (k, v)" by (cases m)
    have "\<exists>r. ?body = CHR 0x22 # r"
      by (auto simp: Cons str_join_first member_text_def m quote_str_def)
    then have "take 1 (skip_ws (?body @ CHR ''}'' # t)) \<noteq> ''}''" by auto
    with mems f show "parse_value f (json_text (JObj ms) @ t) = Some (json_clean (JObj ms), t)"
      unfolding json_text_obj by simp
  qed
qed

lemma parses_json_ok: "json_ok v \<Longrightarrow> parses v"
proof (induction v)
  case (JArr vs)
  then show ?case by (intro parses_arr) (auto simp: list_all_iff)
next
  case (JObj ms)
  then show ?case by (intro parses_obj) (fastforce simp: list_all_iff)
next
  case (JNum n)
  show ?case
    unfolding parses_def
  proof (intro allI impI)
    fix f t assume "length (json_text (JNum n)) \<le> f" "ends_value t"
    moreover from this JNum obtain g where "f = Suc g"
      using length_json_text [of "JNum n"] by (cases f) auto
    ultimately show "parse_value f (json_text (JNum n) @ t) = Some (json_clean (JNum n), t)"
      using JNum parse_number_value [of n t g] by simp
  qed
next
  case (JStr s)
  show ?case
    unfolding parses_def
  proof (intro allI impI)
    fix f t assume "length (json_text (JStr s)) \<le> f"
    then obtain g where "f = Suc g" using length_quote_str [of s] by (cases f) auto
    then show "parse_value f (json_text (JStr s) @ t) = Some (json_clean (JStr s), t)"
      by (simp only: json_text.simps json_clean.simps parse_str_value)
  qed
next
  case JNull
  show ?case
    unfolding parses_def
  proof (intro allI impI)
    fix f t assume "length (json_text JNull) \<le> f"
    then obtain g where "f = Suc g" by (cases f) auto
    then show "parse_value f (json_text JNull @ t) = Some (json_clean JNull, t)"
      by (simp add: HasPrefix_def)
  qed
next
  case (JBool b)
  show ?case
    unfolding parses_def
  proof (intro allI impI)
    fix f t assume "length (json_text (JBool b)) \<le> f"
    then obtain g where "f = Suc g" by (cases f; cases b) auto
    then show "parse_value f (json_text (JBool b) @ t) = Some (json_clean (JBool b), t)"
      by (simp add: HasPrefix_def)
  qed
qed

text \<open>The two round trips: a whole text, and a value at the head of a stream.\<close>

theorem parse_value_text:
  "json_ok v \<Longrightarrow> length (json_text v) \<le> f \<Longrightarrow> ends_value t \<Longrightarrow>
   parse_value f (json_text v @ t) = Some (json_clean v, t)"
  using parses_json_ok by (simp add: parses_def)

theorem json_parse_text [simp]: "json_ok v \<Longrightarrow> json_parse (json_text v) = Ok (json_clean v)"
  using parse_value_text [of v "Suc (length (json_text v))" "[]"]
  by (simp add: json_parse_def skip_ws_def)

theorem json_decode_first_text [simp]:
  "json_ok v \<Longrightarrow> json_decode_first (json_text v) = Ok (json_clean v)"
proof -
  assume ok: "json_ok v"
  obtain c r where "json_text v = c # r" "\<not> is_ws c" using ok by (rule json_text_first)
  moreover have "parse_value (Suc (length (json_text v))) (json_text v @ []) = Some (json_clean v, [])"
    using ok by (intro parse_value_text) auto
  ultimately show ?thesis by (simp add: json_decode_first_def del: parse_value.simps)
qed

end
