(* ===== verification/Relay_Types.thy ===== *)
theory Relay_Types
  imports Json_Roundtrip
begin

text \<open>
  The data the components exchange and the interfaces they call each other through
  (\<open>internal/relay/*.go\<close>, and the fields the code uses of the Neutron, IBC and CometBFT
  types). An interface is a record of its methods over a state \<open>'s\<close>; a component is
  defined over the interfaces it receives. Types the code only passes along are type
  variables: \<open>'r\<close> an ABCI transaction result, \<open>'y\<close> a packed header (\<open>codectypes.Any\<close>),
  \<open>'x\<close> a validator set or signed header, \<open>'m\<close> an SDK message.
\<close>

section \<open>Data\<close>

text \<open>\<open>crypto.Proof\<close> and \<open>merkle.Proof\<close>: the fields \<open>cryptoProofFromMerkleProof\<close> copies.\<close>

record merkle_Proof =
  mp_Total :: "64 word"
  mp_Index :: "64 word"
  mp_LeafHash :: bytes
  mp_Aunts :: "bytes list"

record crypto_Proof =
  cp_Total :: "64 word"
  cp_Index :: "64 word"
  cp_LeafHash :: bytes
  cp_Aunts :: "bytes list"

record 'r TxValue =
  InclusionProof :: crypto_Proof
  DeliveryProof :: crypto_Proof
  Response :: 'r
  Data :: bytes

text \<open>\<open>relay.Transaction\<close>; \<open>Tx\<close> is a pointer, nil when a cached document says so.\<close>

record 'r Transaction =
  Tx :: "'r TxValue option"
  Height :: u64

record IbcHeight =
  RevisionNumber :: u64
  RevisionHeight :: u64

text \<open>
  \<open>tmclient.Header\<close>: the two fields \<open>trustedHeaderAtHeight\<close> injects, the validator set
  it reads, the height \<open>GetHeight()\<close> returns, and the signed header that is passed along.
\<close>

record 'x tm_Header =
  hd_Height :: IbcHeight
  TrustedHeight :: IbcHeight
  TrustedValidators :: 'x
  ValidatorSet :: 'x
  SignedHeader :: 'x

record ('r, 'y) Block =
  Header :: 'y
  NextBlockHeader :: 'y
  BlockTx :: "'r TxValue option"

record KVKey =
  Path :: string
  Key :: bytes

record StorageValue =
  sv_StoragePrefix :: string
  sv_Key :: bytes
  sv_Value :: bytes
  sv_Proof :: bytes

record RegisteredQuery =
  Id :: u64
  Owner :: string
  QueryType :: string
  Keys :: "KVKey list"
  TransactionsFilter :: string
  ConnectionId :: string
  UpdatePeriod :: u64
  LastSubmittedResultLocalHeight :: u64
  LastSubmittedResultRemoteHeight :: IbcHeight

definition InterchainQueryTypeKV :: string where
  "InterchainQueryTypeKV = ''kv''"

definition InterchainQueryTypeTX :: string where
  "InterchainQueryTypeTX = ''tx''"

record MessageKV =
  kv_QueryId :: u64
  kv_KVKeys :: "KVKey list"

record MessageTX =
  tx_QueryId :: u64
  tx_TransactionsFilter :: string

record PendingSubmittedTxInfo =
  pd_QueryID :: u64
  pd_SubmittedTxHash :: string
  pd_NeutronHash :: string

text \<open>\<open>SubmittedTxStatus\<close> is a Go string with four named values.\<close>

type_synonym SubmittedTxStatus = string

definition Submitted :: SubmittedTxStatus where
  "Submitted = ''Submitted''"

definition ErrorOnSubmit :: SubmittedTxStatus where
  "ErrorOnSubmit = ''ErrorOnSubmit''"

definition Committed :: SubmittedTxStatus where
  "Committed = ''Committed''"

definition ErrorOnCommit :: SubmittedTxStatus where
  "ErrorOnCommit = ''ErrorOnCommit''"

lemmas status_defs = Submitted_def ErrorOnSubmit_def Committed_def ErrorOnCommit_def

lemma status_distinct [simp]:
  "Submitted \<noteq> ErrorOnSubmit" "Submitted \<noteq> Committed" "Submitted \<noteq> ErrorOnCommit"
  "ErrorOnSubmit \<noteq> Submitted" "ErrorOnSubmit \<noteq> Committed" "ErrorOnSubmit \<noteq> ErrorOnCommit"
  "Committed \<noteq> Submitted" "Committed \<noteq> ErrorOnSubmit" "Committed \<noteq> ErrorOnCommit"
  "ErrorOnCommit \<noteq> Submitted" "ErrorOnCommit \<noteq> ErrorOnSubmit" "ErrorOnCommit \<noteq> Committed"
  by (simp_all add: status_defs)

record SubmittedTxInfo =
  ti_Status :: SubmittedTxStatus
  ti_Message :: string

text \<open>\<open>UnsuccessfulTxInfo\<close>; \<open>ErrorTime\<close> is kept as its RFC 3339 text.\<close>

record UnsuccessfulTxInfo =
  un_QueryID :: u64
  un_SubmittedTxHash :: string
  un_NeutronHash :: string
  un_ErrorTime :: string
  un_Status :: SubmittedTxStatus
  un_Message :: string

section \<open>Interfaces\<close>

record ('s, 'r) Storage =
  st_GetAllPendingTxs :: "'s \<Rightarrow> PendingSubmittedTxInfo list res \<times> 's"
  st_GetAllUnsuccessfulTxs :: "'s \<Rightarrow> UnsuccessfulTxInfo list res \<times> 's"
  st_GetCachedTx :: "u64 \<Rightarrow> string \<Rightarrow> 's \<Rightarrow> 'r Transaction res \<times> 's"
  st_GetLastQueryHeight :: "u64 \<Rightarrow> 's \<Rightarrow> (u64 \<times> bool) res \<times> 's"
  st_SetLastQueryHeight :: "u64 \<Rightarrow> u64 \<Rightarrow> 's \<Rightarrow> unit res \<times> 's"
  st_SetTxStatus :: "u64 \<Rightarrow> string \<Rightarrow> string \<Rightarrow> SubmittedTxInfo \<Rightarrow> 'r Transaction option \<Rightarrow>
    's \<Rightarrow> unit res \<times> 's"
  st_TxExists :: "u64 \<Rightarrow> string \<Rightarrow> 's \<Rightarrow> bool res \<times> 's"
  st_Close :: "'s \<Rightarrow> unit res \<times> 's"

text \<open>
  \<open>Submitter\<close>: \<open>SubmitTxProof\<close> returns the hash of the Neutron transaction; every error
  path of its implementation returns the empty string with the error.
\<close>

record ('s, 'r, 'y, 'm) Submitter =
  sb_SubmitKVProof :: "u64 \<Rightarrow> u64 \<Rightarrow> u64 \<Rightarrow> StorageValue list \<Rightarrow> 'm \<Rightarrow> 's \<Rightarrow> unit res \<times> 's"
  sb_SubmitTxProof :: "u64 \<Rightarrow> ('r, 'y) Block \<Rightarrow> 's \<Rightarrow> string res \<times> 's"

record ('s, 'x) TrustedHeaderFetcher =
  hf_Fetch :: "u64 \<Rightarrow> 's \<Rightarrow> 'x tm_Header res \<times> 's"

text \<open>
  \<open>TXQuerier\<close>: the transactions its channel delivers before it is closed, and the error
  then read from the error channel, if any.
\<close>

record ('s, 'r) TXQuerier =
  tq_SearchTransactions :: "string \<Rightarrow> 's \<Rightarrow> ('r Transaction list \<times> goerr option) res \<times> 's"

record ('s, 'r) TXProcessor =
  tp_ProcessAndSubmit :: "u64 \<Rightarrow> 'r Transaction \<Rightarrow> 's \<Rightarrow> unit res \<times> 's"

record 's KVProcessor =
  kp_ProcessAndSubmit :: "MessageKV \<Rightarrow> 's \<Rightarrow> unit res \<times> 's"

text \<open>
  What a component uses of the Go runtime beside its interfaces: the clock (nanoseconds of
  \<open>time.Now()\<close>), the process-wide metrics, and the \<open>go\<close> statement that starts a delayed
  status check.
\<close>

record ('s, 'mx) runtime =
  rt_now :: "'s \<Rightarrow> int \<times> 's"
  rt_metrics :: "('mx \<Rightarrow> 'mx) \<Rightarrow> 's \<Rightarrow> 's"
  rt_go_delayedTxStatusCheck :: "PendingSubmittedTxInfo \<Rightarrow> 's \<Rightarrow> 's"

section \<open>Struct fields of JSON documents\<close>

text \<open>
  \<open>encoding/json\<close> matches a member to the struct field with that name, up to case; unknown
  members are ignored, a missing member leaves the zero value, \<open>null\<close> changes nothing, and
  a value of the wrong kind makes the whole call fail.
\<close>

definition field_is :: "string \<Rightarrow> string \<Rightarrow> bool" where
  "field_is name k \<longleftrightarrow> ToLower k = ToLower name"

definition type_error :: "'a res" where
  "type_error = Err (ErrText ''json: cannot unmarshal value into Go struct field'')"

definition decode_struct :: "('a \<Rightarrow> string \<Rightarrow> json \<Rightarrow> 'a res) \<Rightarrow> 'a \<Rightarrow> json \<Rightarrow> 'a res" where
  "decode_struct step zero v = (case v of
       JNull \<Rightarrow> Ok zero
     | JObj ms \<Rightarrow> foldl (\<lambda>acc (k, x). res_then acc (\<lambda>a. step a k x)) (Ok zero) ms
     | _ \<Rightarrow> type_error)"

definition decode_uint64 :: "u64 \<Rightarrow> json \<Rightarrow> u64 res" where
  "decode_uint64 old v = (case v of
       JNull \<Rightarrow> Ok old
     | JNum n \<Rightarrow> (case ParseUint n of Inr x \<Rightarrow> Ok x | Inl _ \<Rightarrow> type_error)
     | _ \<Rightarrow> type_error)"

definition decode_string :: "string \<Rightarrow> json \<Rightarrow> string res" where
  "decode_string old v = (case v of JNull \<Rightarrow> Ok old | JStr s \<Rightarrow> Ok s | _ \<Rightarrow> type_error)"

lemma decode_uint64_FormatUint [simp]: "decode_uint64 old (JNum (FormatUint n)) = Ok n"
  by (simp add: decode_uint64_def)

lemma decode_string_JStr [simp]: "decode_string old (JStr s) = Ok s"
  by (simp add: decode_string_def)

section \<open>Time values\<close>

text \<open>
  \<open>Time.UnmarshalJSON\<close> accepts RFC 3339: \<open>yyyy-mm-ddThh:mm:ss[.frac](Z|+hh:mm|-hh:mm)\<close>
  with every field in range.
\<close>

definition two_digits :: "string \<Rightarrow> nat option" where
  "two_digits s = (case s of
      a # b # _ \<Rightarrow> if is_digit a \<and> is_digit b then Some (10 * digit_val a + digit_val b) else None
    | _ \<Rightarrow> None)"

definition two_digits_in :: "nat \<Rightarrow> nat \<Rightarrow> string \<Rightarrow> bool" where
  "two_digits_in lo hi s = (case two_digits s of None \<Rightarrow> False | Some n \<Rightarrow> lo \<le> n \<and> n \<le> hi)"

definition days_in :: "nat \<Rightarrow> nat \<Rightarrow> nat" where
  "days_in m y =
     (if m = 2 then (if y mod 4 = 0 \<and> (y mod 100 \<noteq> 0 \<or> y mod 400 = 0) then 29 else 28)
      else if m = 4 \<or> m = 6 \<or> m = 9 \<or> m = 11 then 30 else 31)"

definition zone_ok :: "string \<Rightarrow> bool" where
  "zone_ok z \<longleftrightarrow> z = ''Z'' \<or>
     (length z = 6 \<and> (hd z = CHR ''+'' \<or> hd z = CHR ''-'') \<and> z ! 3 = CHR '':'' \<and>
      two_digits_in 0 23 (drop 1 z) \<and> two_digits_in 0 59 (drop 4 z))"

definition rfc3339_ok :: "string \<Rightarrow> bool" where
  "rfc3339_ok s \<longleftrightarrow> 20 \<le> length s \<and> list_all is_digit (take 4 s) \<and>
     s ! 4 = CHR ''-'' \<and> s ! 7 = CHR ''-'' \<and> s ! 10 = CHR ''T'' \<and> s ! 13 = CHR '':'' \<and> s ! 16 = CHR '':'' \<and>
     two_digits_in 1 12 (drop 5 s) \<and>
     two_digits_in 1 (days_in (digits_val (take 2 (drop 5 s))) (digits_val (take 4 s))) (drop 8 s) \<and>
     two_digits_in 0 23 (drop 11 s) \<and> two_digits_in 0 59 (drop 14 s) \<and> two_digits_in 0 59 (drop 17 s) \<and>
     (let r = drop 19 s
      in if hd r = CHR ''.'' \<and> takeWhile is_digit (tl r) \<noteq> [] then zone_ok (dropWhile is_digit (tl r))
         else zone_ok r)"

definition decode_time :: "string \<Rightarrow> json \<Rightarrow> string res" where
  "decode_time old v = (case v of
       JNull \<Rightarrow> Ok old
     | JStr s \<Rightarrow> if rfc3339_ok s then Ok s else Err (ErrText (''parsing time '' @ s))
     | _ \<Rightarrow> Err (ErrText ''Time.UnmarshalJSON: input is not a JSON string''))"

section \<open>The documents of the storage\<close>

definition encode_Pending :: "PendingSubmittedTxInfo \<Rightarrow> json" where
  "encode_Pending p = JObj
     [(''query_id'', JNum (FormatUint (pd_QueryID p))),
      (''submitted_tx_hash'', JStr (pd_SubmittedTxHash p)),
      (''neutron_hash'', JStr (pd_NeutronHash p))]"

definition zero_Pending :: PendingSubmittedTxInfo where
  "zero_Pending = \<lparr>pd_QueryID = 0, pd_SubmittedTxHash = [], pd_NeutronHash = []\<rparr>"

definition step_Pending :: "PendingSubmittedTxInfo \<Rightarrow> string \<Rightarrow> json \<Rightarrow> PendingSubmittedTxInfo res" where
  "step_Pending p k v =
     (if field_is ''query_id'' k then res_then (decode_uint64 (pd_QueryID p) v) (\<lambda>x. Ok (p\<lparr>pd_QueryID := x\<rparr>))
      else if field_is ''submitted_tx_hash'' k then
        res_then (decode_string (pd_SubmittedTxHash p) v) (\<lambda>x. Ok (p\<lparr>pd_SubmittedTxHash := x\<rparr>))
      else if field_is ''neutron_hash'' k then
        res_then (decode_string (pd_NeutronHash p) v) (\<lambda>x. Ok (p\<lparr>pd_NeutronHash := x\<rparr>))
      else Ok p)"

definition decode_Pending :: "json \<Rightarrow> PendingSubmittedTxInfo res" where
  "decode_Pending = decode_struct step_Pending zero_Pending"

definition encode_SubmittedTxInfo :: "SubmittedTxInfo \<Rightarrow> json" where
  "encode_SubmittedTxInfo t = JObj [(''status'', JStr (ti_Status t)), (''message'', JStr (ti_Message t))]"

definition step_SubmittedTxInfo :: "SubmittedTxInfo \<Rightarrow> string \<Rightarrow> json \<Rightarrow> SubmittedTxInfo res" where
  "step_SubmittedTxInfo t k v =
     (if field_is ''status'' k then res_then (decode_string (ti_Status t) v) (\<lambda>x. Ok (t\<lparr>ti_Status := x\<rparr>))
      else if field_is ''message'' k then
        res_then (decode_string (ti_Message t) v) (\<lambda>x. Ok (t\<lparr>ti_Message := x\<rparr>))
      else Ok t)"

definition decode_SubmittedTxInfo :: "json \<Rightarrow> SubmittedTxInfo res" where
  "decode_SubmittedTxInfo = decode_struct step_SubmittedTxInfo \<lparr>ti_Status = [], ti_Message = []\<rparr>"

definition encode_Unsuccessful :: "UnsuccessfulTxInfo \<Rightarrow> json" where
  "encode_Unsuccessful u = JObj
     [(''query_id'', JNum (FormatUint (un_QueryID u))),
      (''submitted_tx_hash'', JStr (un_SubmittedTxHash u)),
      (''neutron_hash'', JStr (un_NeutronHash u)),
      (''error_time'', JStr (un_ErrorTime u)),
      (''status'', JStr (un_Status u)),
      (''message'', JStr (un_Message u))]"

definition zero_Unsuccessful :: UnsuccessfulTxInfo where
  "zero_Unsuccessful = \<lparr>un_QueryID = 0, un_SubmittedTxHash = [], un_NeutronHash = [],
     un_ErrorTime = ''0001-01-01T00:00:00Z'', un_Status = [], un_Message = []\<rparr>"

definition step_Unsuccessful :: "UnsuccessfulTxInfo \<Rightarrow> string \<Rightarrow> json \<Rightarrow> UnsuccessfulTxInfo res" where
  "step_Unsuccessful u k v =
     (if field_is ''query_id'' k then res_then (decode_uint64 (un_QueryID u) v) (\<lambda>x. Ok (u\<lparr>un_QueryID := x\<rparr>))
      else if field_is ''submitted_tx_hash'' k then
        res_then (decode_string (un_SubmittedTxHash u) v) (\<lambda>x. Ok (u\<lparr>un_SubmittedTxHash := x\<rparr>))
      else if field_is ''neutron_hash'' k then
        res_then (decode_string (un_NeutronHash u) v) (\<lambda>x. Ok (u\<lparr>un_NeutronHash := x\<rparr>))
      else if field_is ''error_time'' k then
        res_then (decode_time (un_ErrorTime u) v) (\<lambda>x. Ok (u\<lparr>un_ErrorTime := x\<rparr>))
      else if field_is ''status'' k then res_then (decode_string (un_Status u) v) (\<lambda>x. Ok (u\<lparr>un_Status := x\<rparr>))
      else if field_is ''message'' k then
        res_then (decode_string (un_Message u) v) (\<lambda>x. Ok (u\<lparr>un_Message := x\<rparr>))
      else Ok u)"

definition decode_Unsuccessful :: "json \<Rightarrow> UnsuccessfulTxInfo res" where
  "decode_Unsuccessful = decode_struct step_Unsuccessful zero_Unsuccessful"

text \<open>
  \<open>TxValue\<close> is a Neutron type: its JSON codec is a parameter. A nil pointer is \<open>null\<close>.
\<close>

record 'r txcodec =
  tv_marshal :: "'r TxValue \<Rightarrow> json res"
  tv_unmarshal :: "json \<Rightarrow> 'r TxValue res"

definition encode_Transaction :: "'r txcodec \<Rightarrow> 'r Transaction \<Rightarrow> json res" where
  "encode_Transaction C t =
     res_then (case Tx t of None \<Rightarrow> Ok JNull | Some v \<Rightarrow> tv_marshal C v) (\<lambda>j.
       Ok (JObj [(''tx'', j), (''height'', JNum (FormatUint (Height t)))]))"

definition step_Transaction :: "'r txcodec \<Rightarrow> 'r Transaction \<Rightarrow> string \<Rightarrow> json \<Rightarrow> 'r Transaction res" where
  "step_Transaction C t k v =
     (if field_is ''tx'' k then
        (if v = JNull then Ok (t\<lparr>Tx := None\<rparr>)
         else res_then (tv_unmarshal C v) (\<lambda>x. Ok (t\<lparr>Tx := Some x\<rparr>)))
      else if field_is ''height'' k then
        res_then (decode_uint64 (Height t) v) (\<lambda>x. Ok (t\<lparr>Height := x\<rparr>))
      else Ok t)"

definition decode_Transaction :: "'r txcodec \<Rightarrow> json \<Rightarrow> 'r Transaction res" where
  "decode_Transaction C = decode_struct (step_Transaction C) \<lparr>Tx = None, Height = 0\<rparr>"

section \<open>Round trips of the documents\<close>

text \<open>What a record reads back as: its strings with invalid UTF-8 replaced.\<close>

definition clean_Pending :: "PendingSubmittedTxInfo \<Rightarrow> PendingSubmittedTxInfo" where
  "clean_Pending p = p\<lparr>pd_SubmittedTxHash := utf8_clean (pd_SubmittedTxHash p),
     pd_NeutronHash := utf8_clean (pd_NeutronHash p)\<rparr>"

definition clean_Unsuccessful :: "UnsuccessfulTxInfo \<Rightarrow> UnsuccessfulTxInfo" where
  "clean_Unsuccessful u = u\<lparr>un_SubmittedTxHash := utf8_clean (un_SubmittedTxHash u),
     un_NeutronHash := utf8_clean (un_NeutronHash u), un_ErrorTime := utf8_clean (un_ErrorTime u),
     un_Status := utf8_clean (un_Status u), un_Message := utf8_clean (un_Message u)\<rparr>"

definition clean_SubmittedTxInfo :: "SubmittedTxInfo \<Rightarrow> SubmittedTxInfo" where
  "clean_SubmittedTxInfo t = t\<lparr>ti_Status := utf8_clean (ti_Status t), ti_Message := utf8_clean (ti_Message t)\<rparr>"

lemma json_ok_Pending [simp]: "json_ok (encode_Pending p)"
  by (simp add: encode_Pending_def)

lemma json_ok_SubmittedTxInfo [simp]: "json_ok (encode_SubmittedTxInfo t)"
  by (simp add: encode_SubmittedTxInfo_def)

lemma json_ok_Unsuccessful [simp]: "json_ok (encode_Unsuccessful u)"
  by (simp add: encode_Unsuccessful_def)

lemma field_names_ascii [simp]:
  "is_ascii ''query_id''" "is_ascii ''submitted_tx_hash''" "is_ascii ''neutron_hash''"
  "is_ascii ''error_time''" "is_ascii ''status''" "is_ascii ''message''" "is_ascii ''tx''" "is_ascii ''height''"
  by (simp_all add: is_ascii_def)

lemma decode_encode_Pending [simp]:
  "decode_Pending (json_clean (encode_Pending p)) = Ok (clean_Pending p)"
  by (simp add: decode_Pending_def encode_Pending_def decode_struct_def step_Pending_def zero_Pending_def
      field_is_def ToLower_def lower_char_def clean_Pending_def)

lemma decode_encode_SubmittedTxInfo [simp]:
  "decode_SubmittedTxInfo (json_clean (encode_SubmittedTxInfo t)) = Ok (clean_SubmittedTxInfo t)"
  by (simp add: decode_SubmittedTxInfo_def encode_SubmittedTxInfo_def decode_struct_def
      step_SubmittedTxInfo_def field_is_def ToLower_def lower_char_def clean_SubmittedTxInfo_def)

lemma decode_encode_Unsuccessful [simp]:
  "rfc3339_ok (utf8_clean (un_ErrorTime u)) \<Longrightarrow>
   decode_Unsuccessful (json_clean (encode_Unsuccessful u)) = Ok (clean_Unsuccessful u)"
  by (simp add: decode_Unsuccessful_def encode_Unsuccessful_def decode_struct_def step_Unsuccessful_def
      zero_Unsuccessful_def decode_time_def field_is_def ToLower_def lower_char_def clean_Unsuccessful_def)

text \<open>
  The codec's documented behaviour on one transaction: its document is valid JSON, is not
  \<open>null\<close>, and reads back as the transaction.
\<close>

definition tx_roundtrips :: "'r txcodec \<Rightarrow> 'r Transaction \<Rightarrow> bool" where
  "tx_roundtrips C t \<longleftrightarrow> (\<forall>v j. Tx t = Some v \<longrightarrow> tv_marshal C v = Ok j \<longrightarrow>
     json_ok j \<and> json_clean j \<noteq> JNull \<and> tv_unmarshal C (json_clean j) = Ok v)"

lemma decode_encode_Transaction:
  assumes "tx_roundtrips C t" "encode_Transaction C t = Ok j"
  shows "json_ok j \<and> decode_Transaction C (json_clean j) = Ok t"
  using assms
  by (cases t; cases "Tx t")
    (auto simp: encode_Transaction_def decode_Transaction_def decode_struct_def step_Transaction_def
      field_is_def ToLower_def lower_char_def tx_roundtrips_def res_then_Inr_iff)

end
