(* ===== verification/Storage_Model.thy ===== *)
theory Storage_Model
  imports Relay_Types
begin

text \<open>
  \<open>internal/storage/leveldb.go\<close>: the relayer's LevelDB storage. LevelDB itself is a
  parameter: the record \<open>leveldb\<close> of the calls the code makes. Every method runs under the
  storage's mutex, so it is one atomic operation on the database \<open>'d\<close>.
\<close>

section \<open>The database\<close>

text \<open>
  The calls of \<open>goleveldb\<close>: point reads and writes, the iterator over a key prefix (as the
  list of the entries it visits; the code never asks the iterator for an error), and a
  transaction \<open>'t\<close> with its commit and discard.
\<close>

record ('d, 't) leveldb =
  db_Get :: "'d \<Rightarrow> bytes \<Rightarrow> bytes res"
  db_Has :: "'d \<Rightarrow> bytes \<Rightarrow> bool res"
  db_Put :: "'d \<Rightarrow> bytes \<Rightarrow> bytes \<Rightarrow> unit res \<times> 'd"
  db_IterPrefix :: "'d \<Rightarrow> bytes \<Rightarrow> (bytes \<times> bytes) list"
  db_Close :: "'d \<Rightarrow> unit res \<times> 'd"
  db_OpenTransaction :: "'d \<Rightarrow> 't res"
  t_Put :: "'t \<Rightarrow> bytes \<Rightarrow> bytes \<Rightarrow> unit res \<times> 't"
  t_Delete :: "'t \<Rightarrow> bytes \<Rightarrow> unit res \<times> 't"
  t_Commit :: "'t \<Rightarrow> 'd \<Rightarrow> unit res \<times> 't \<times> 'd"
  t_Discard :: "'t \<Rightarrow> 'd \<Rightarrow> 'd"

section \<open>Keys\<close>

definition SubmittedTxStatusPrefix :: string where
  "SubmittedTxStatusPrefix = ''submitted_txs''"

definition UnsuccessfulTxStatusPrefix :: string where
  "UnsuccessfulTxStatusPrefix = ''unsuccessful_txs''"

definition CachedTxs :: string where
  "CachedTxs = ''cached_txs''"

definition uintToBytes :: "u64 \<Rightarrow> bytes" where
  "uintToBytes num = FormatUint num"

definition bytesToUint :: "bytes \<Rightarrow> u64 res" where
  "bytesToUint bs = ParseUint bs"

definition constructTxStatusKey :: "u64 \<Rightarrow> string \<Rightarrow> bytes" where
  "constructTxStatusKey num str = uintToBytes num @ str"

definition constructCacheTxKey :: "u64 \<Rightarrow> string \<Rightarrow> bytes" where
  "constructCacheTxKey queryID hash = CachedTxs @ constructTxStatusKey queryID hash"

definition constructUnsuccessfulQueueKey :: "u64 \<Rightarrow> string \<Rightarrow> bytes" where
  "constructUnsuccessfulQueueKey queryID hash = UnsuccessfulTxStatusPrefix @ constructTxStatusKey queryID hash"

definition constructPendingQueueKey :: "string \<Rightarrow> bytes" where
  "constructPendingQueueKey neutronTXHash = SubmittedTxStatusPrefix @ neutronTXHash"

section \<open>Reads\<close>

text \<open>\<open>json.Unmarshal(data, &x)\<close>.\<close>

definition unmarshal :: "(json \<Rightarrow> 'a res) \<Rightarrow> bytes \<Rightarrow> 'a res" where
  "unmarshal dec data = res_then (json_parse data) dec"

text \<open>The loop over an iterator: the first entry that does not decode ends it with an error.\<close>

fun collect :: "(json \<Rightarrow> 'a res) \<Rightarrow> string \<Rightarrow> (bytes \<times> bytes) list \<Rightarrow> 'a list res" where
  "collect dec msg [] = Ok []"
| "collect dec msg ((k, v) # es) =
     res_try (unmarshal dec v) msg (\<lambda>x. res_then (collect dec msg es) (\<lambda>xs. Ok (x # xs)))"

definition GetAllPendingTxs :: "('d, 't) leveldb \<Rightarrow> 'd \<Rightarrow> PendingSubmittedTxInfo list res \<times> 'd" where
  "GetAllPendingTxs L d =
     (collect decode_Pending ''failed to unmarshal data into PendingSubmittedTxInfo''
        (db_IterPrefix L d SubmittedTxStatusPrefix), d)"

definition GetAllUnsuccessfulTxs :: "('d, 't) leveldb \<Rightarrow> 'd \<Rightarrow> UnsuccessfulTxInfo list res \<times> 'd" where
  "GetAllUnsuccessfulTxs L d =
     (collect decode_Unsuccessful ''failed to unmarshal data into UnsuccessfulTxInfo''
        (db_IterPrefix L d UnsuccessfulTxStatusPrefix), d)"

text \<open>The second unmarshalling in \<open>GetCachedTx\<close>, into \<open>map[string]interface{}\<close>: an object or null.\<close>

definition decode_map :: "json \<Rightarrow> unit res" where
  "decode_map v = (case v of JObj ms \<Rightarrow> Ok () | JNull \<Rightarrow> Ok () | _ \<Rightarrow> type_error)"

definition GetCachedTx ::
  "('d, 't) leveldb \<Rightarrow> 'r txcodec \<Rightarrow> u64 \<Rightarrow> string \<Rightarrow> 'd \<Rightarrow> 'r Transaction res \<times> 'd" where
  "GetCachedTx L C queryID hash d =
     (let key = constructCacheTxKey queryID hash in
      (res_try (db_Get L d key)
         (''failed to get Transaction for query_id + hash {'' @ FormatUint queryID @ '' '' @ hash @ ''}'') (\<lambda>data.
       res_try (unmarshal (decode_Transaction C) data) ''failed to unmarshal data into Transaction'' (\<lambda>txInfo.
       res_try (unmarshal decode_map data) ''failed to unmarshal data into Transaction'' (\<lambda>_.
       Ok txInfo))), d))"

definition GetLastQueryHeight :: "('d, 't) leveldb \<Rightarrow> u64 \<Rightarrow> 'd \<Rightarrow> (u64 \<times> bool) res \<times> 'd" where
  "GetLastQueryHeight L queryID d =
     (case db_Get L d (uintToBytes queryID) of
        Inl (GoErr ErrNotFound) \<Rightarrow> Ok (0, False)
      | Inl f \<Rightarrow> Inl (wrap_fault ''failed getting data from db'' f)
      | Inr data \<Rightarrow>
          res_try (bytesToUint data) ''failed converting bytest to uint'' (\<lambda>res. Ok (res, True)), d)"

definition TxExists :: "('d, 't) leveldb \<Rightarrow> u64 \<Rightarrow> string \<Rightarrow> 'd \<Rightarrow> bool res \<times> 'd" where
  "TxExists L queryID hash d =
     (res_try (db_Has L d (constructTxStatusKey queryID hash)) ''failed to get if storage has key'' Ok, d)"

section \<open>Writes\<close>

definition SetLastQueryHeight :: "('d, 't) leveldb \<Rightarrow> u64 \<Rightarrow> u64 \<Rightarrow> 'd \<Rightarrow> unit res \<times> 'd" where
  "SetLastQueryHeight L queryID block d =
     go_try (db_Put L d (uintToBytes queryID) (uintToBytes block))
       ''failed to save last query height to storage'' (\<lambda>_ d. (Ok (), d))"

definition Close :: "('d, 't) leveldb \<Rightarrow> 'd \<Rightarrow> unit res \<times> 'd" where
  "Close L d = go_try (db_Close L d) ''failed to close db'' (\<lambda>_ d. (Ok (), d))"

definition saveIntoPendingQueue ::
  "('d, 't) leveldb \<Rightarrow> string \<Rightarrow> PendingSubmittedTxInfo \<Rightarrow> 't \<Rightarrow> unit res \<times> 't" where
  "saveIntoPendingQueue L neutronTXHash txInfo t =
     go_try (t_Put L t (constructPendingQueueKey neutronTXHash) (json_text (encode_Pending txInfo)))
       ''failed to save txInfo into the pending queue'' (\<lambda>_ t. (Ok (), t))"

definition removeFromPendingQueue :: "('d, 't) leveldb \<Rightarrow> string \<Rightarrow> 't \<Rightarrow> unit res \<times> 't" where
  "removeFromPendingQueue L neutronTXHash t =
     go_try (t_Delete L t (constructPendingQueueKey neutronTXHash))
       (''failed to remove PendingSubmittedTxInfo with neuton tx hash='' @ neutronTXHash) (\<lambda>_ t. (Ok (), t))"

definition saveIntoUnsuccessfulQueue ::
  "('d, 't) leveldb \<Rightarrow> u64 \<Rightarrow> string \<Rightarrow> UnsuccessfulTxInfo \<Rightarrow> 't \<Rightarrow> unit res \<times> 't" where
  "saveIntoUnsuccessfulQueue L queryID tXHash txInfo t =
     go_try (t_Put L t (constructUnsuccessfulQueueKey queryID tXHash) (json_text (encode_Unsuccessful txInfo)))
       (''failed to save unsuccessful txInfo(queryID='' @ FormatUint queryID @ '' hash='' @ tXHash @ '') into the storage'')
       (\<lambda>_ t. (Ok (), t))"

definition removeFromUnsuccessfulQueue :: "('d, 't) leveldb \<Rightarrow> u64 \<Rightarrow> string \<Rightarrow> 't \<Rightarrow> unit res \<times> 't" where
  "removeFromUnsuccessfulQueue L queryID tXHash t =
     go_try (t_Delete L t (constructUnsuccessfulQueueKey queryID tXHash))
       (''failed to remove UnsuccessfulTxInfo with queryID='' @ FormatUint queryID @ '' hash='' @ tXHash)
       (\<lambda>_ t. (Ok (), t))"

definition removeCachedTx :: "('d, 't) leveldb \<Rightarrow> u64 \<Rightarrow> string \<Rightarrow> 't \<Rightarrow> unit res \<times> 't" where
  "removeCachedTx L queryID tXHash t =
     go_try (t_Delete L t (constructCacheTxKey queryID tXHash))
       (''failed to remove cached tx under with queryID='' @ FormatUint queryID @ '' hash='' @ tXHash)
       (\<lambda>_ t. (Ok (), t))"

definition cacheProcessedTx ::
  "('d, 't) leveldb \<Rightarrow> 'r txcodec \<Rightarrow> u64 \<Rightarrow> string \<Rightarrow> 'r Transaction \<Rightarrow> 't \<Rightarrow> unit res \<times> 't" where
  "cacheProcessedTx L C queryID tXHash tx t =
     go_try (encode_Transaction C tx, t) ''failed to marshal relay.Transaction'' (\<lambda>data t.
     go_try (t_Put L t (constructCacheTxKey queryID tXHash) (json_text data))
       ''failed to save cachedTx in the storage'' (\<lambda>_ t. (Ok (), t)))"

text \<open>
  \<open>SetTxStatus\<close>: the statements between the opening of the transaction and its commit, in
  the code's order. \<open>now\<close> is the RFC 3339 text of \<open>time.Now()\<close>.
\<close>

definition setTxStatus_pending ::
  "('d, 't) leveldb \<Rightarrow> u64 \<Rightarrow> string \<Rightarrow> string \<Rightarrow> SubmittedTxInfo \<Rightarrow> 't \<Rightarrow> unit res \<times> 't" where
  "setTxStatus_pending L queryID hash neutronHash txInfo t =
     (if ti_Status txInfo = Submitted then
        go_try (saveIntoPendingQueue L neutronHash
            \<lparr>pd_QueryID = queryID, pd_SubmittedTxHash = hash, pd_NeutronHash = neutronHash\<rparr> t)
          ''failed to save txInfo into pending queue'' (\<lambda>_ t. (Ok (), t))
      else if ti_Status txInfo = Committed \<or> ti_Status txInfo = ErrorOnCommit then
        go_try (removeFromPendingQueue L neutronHash t)
          ''failed to remove txInfo from pending queue'' (\<lambda>_ t. (Ok (), t))
      else (Ok (), t))"

definition setTxStatus_unsuccessful ::
  "('d, 't) leveldb \<Rightarrow> u64 \<Rightarrow> string \<Rightarrow> string \<Rightarrow> SubmittedTxInfo \<Rightarrow> string \<Rightarrow> 't \<Rightarrow> unit res \<times> 't" where
  "setTxStatus_unsuccessful L queryID hash neutronHash txInfo now t =
     (if ti_Status txInfo = ErrorOnCommit \<or> ti_Status txInfo = ErrorOnSubmit then
        go_try (saveIntoUnsuccessfulQueue L queryID hash
            \<lparr>un_QueryID = queryID, un_SubmittedTxHash = hash, un_NeutronHash = neutronHash,
             un_ErrorTime = now, un_Status = ti_Status txInfo, un_Message = ti_Message txInfo\<rparr> t)
          ''failed to save unsuccessfulTxInfo into Unsuccessful queue'' (\<lambda>_ t. (Ok (), t))
      else (Ok (), t))"

definition setTxStatus_committed :: "('d, 't) leveldb \<Rightarrow> u64 \<Rightarrow> string \<Rightarrow> SubmittedTxInfo \<Rightarrow> 't \<Rightarrow> unit res \<times> 't" where
  "setTxStatus_committed L queryID hash txInfo t =
     (if ti_Status txInfo = Committed then
        go_try (removeFromUnsuccessfulQueue L queryID hash t)
          ''failed to remove txInfo from UnsuccessfulQueue'' (\<lambda>_ t.
        go_try (removeCachedTx L queryID hash t)
          ''failed to remove cachedTxData from the cached queue'' (\<lambda>_ t. (Ok (), t)))
      else (Ok (), t))"

definition setTxStatus_cache ::
  "('d, 't) leveldb \<Rightarrow> 'r txcodec \<Rightarrow> u64 \<Rightarrow> string \<Rightarrow> 'r Transaction option \<Rightarrow> 't \<Rightarrow> unit res \<times> 't" where
  "setTxStatus_cache L C queryID hash processedTx t =
     (case processedTx of
        None \<Rightarrow> (Ok (), t)
      | Some tx \<Rightarrow> go_try (cacheProcessedTx L C queryID hash tx t)
          ''failed to cache processed tx'' (\<lambda>_ t. (Ok (), t)))"

definition setTxStatus_body ::
  "('d, 't) leveldb \<Rightarrow> 'r txcodec \<Rightarrow> u64 \<Rightarrow> string \<Rightarrow> string \<Rightarrow> SubmittedTxInfo \<Rightarrow>
   'r Transaction option \<Rightarrow> string \<Rightarrow> 't \<Rightarrow> unit res \<times> 't" where
  "setTxStatus_body L C queryID hash neutronHash txInfo processedTx now t =
     go_try (t_Put L t (constructTxStatusKey queryID hash) (json_text (encode_SubmittedTxInfo txInfo)))
       ''failed to set tx txInfo'' (\<lambda>_ t.
     go_then (setTxStatus_cache L C queryID hash processedTx t) (\<lambda>_ t.
     go_then (setTxStatus_pending L queryID hash neutronHash txInfo t) (\<lambda>_ t.
     go_then (setTxStatus_unsuccessful L queryID hash neutronHash txInfo now t) (\<lambda>_ t.
     setTxStatus_committed L queryID hash txInfo t))))"

text \<open>The whole method; the deferred \<open>t.Discard()\<close> runs on every path after the opening.\<close>

definition SetTxStatus ::
  "('d, 't) leveldb \<Rightarrow> 'r txcodec \<Rightarrow> u64 \<Rightarrow> string \<Rightarrow> string \<Rightarrow> SubmittedTxInfo \<Rightarrow>
   'r Transaction option \<Rightarrow> string \<Rightarrow> 'd \<Rightarrow> unit res \<times> 'd" where
  "SetTxStatus L C queryID hash neutronHash txInfo processedTx now d =
     (case db_OpenTransaction L d of
        Inl f \<Rightarrow> (Inl (wrap_fault ''failed to open leveldb transaction'' f), d)
      | Inr t \<Rightarrow>
          (case setTxStatus_body L C queryID hash neutronHash txInfo processedTx now t of
             (Inl f, t) \<Rightarrow> (Inl f, t_Discard L t d)
           | (Inr _, t) \<Rightarrow>
               (case t_Commit L t d of (r, t, d) \<Rightarrow> (r, t_Discard L t d))))"

end
