(* ===== verification/Storage_Spec.thy ===== *)
theory Storage_Spec
  imports Storage_Model
begin

text \<open>
  What the storage promises. The abstract state \<open>tx_store\<close> has one map per name space of
  the database; \<open>store_of\<close> reads it off the bytes. The theory shows that the keys of the
  name spaces never collide, that every operation of the model implements its abstract
  counterpart whenever LevelDB behaves as documented (\<open>leveldb_ok\<close>), and states the
  interface \<open>relay.Storage\<close> as a locale, interpreted on the LevelDB implementation.
\<close>

section \<open>The abstract store\<close>

record 'r tx_store =
  heights :: "u64 \<Rightarrow> u64 option"
  statuses :: "u64 \<times> string \<Rightarrow> SubmittedTxInfo option"
  pending :: "string \<Rightarrow> PendingSubmittedTxInfo option"
  unsuccessful :: "u64 \<times> string \<Rightarrow> UnsuccessfulTxInfo option"
  cached :: "u64 \<times> string \<Rightarrow> 'r Transaction option"

text \<open>A transaction hash as the code builds it: 32 bytes in hex.\<close>

definition is_txhash :: "string \<Rightarrow> bool" where
  "is_txhash h \<longleftrightarrow> length h = 64 \<and> is_ascii h"

lemma is_txhash_hex [simp]: "length b = 32 \<Longrightarrow> is_txhash (hex_encode b)"
  by (simp add: is_txhash_def)

lemma utf8_clean_txhash [simp]: "is_txhash h \<Longrightarrow> utf8_clean h = h"
  by (simp add: is_txhash_def)

definition spec_SetHeight :: "u64 \<Rightarrow> u64 \<Rightarrow> 'r tx_store \<Rightarrow> 'r tx_store" where
  "spec_SetHeight q b S = S\<lparr>heights := (heights S)(q \<mapsto> b)\<rparr>"

definition spec_pending_entry :: "u64 \<Rightarrow> string \<Rightarrow> string \<Rightarrow> PendingSubmittedTxInfo" where
  "spec_pending_entry q h n = clean_Pending \<lparr>pd_QueryID = q, pd_SubmittedTxHash = h, pd_NeutronHash = n\<rparr>"

definition spec_unsuccessful_entry ::
  "u64 \<Rightarrow> string \<Rightarrow> string \<Rightarrow> SubmittedTxInfo \<Rightarrow> string \<Rightarrow> UnsuccessfulTxInfo" where
  "spec_unsuccessful_entry q h n ti now = clean_Unsuccessful
     \<lparr>un_QueryID = q, un_SubmittedTxHash = h, un_NeutronHash = n, un_ErrorTime = now,
      un_Status = ti_Status ti, un_Message = ti_Message ti\<rparr>"

text \<open>The state machine of one transaction, as \<open>SetTxStatus\<close> drives it.\<close>

definition spec_SetTxStatus ::
  "u64 \<Rightarrow> string \<Rightarrow> string \<Rightarrow> SubmittedTxInfo \<Rightarrow> 'r Transaction option \<Rightarrow> string \<Rightarrow>
   'r tx_store \<Rightarrow> 'r tx_store" where
  "spec_SetTxStatus q h n ti tx now S = S\<lparr>
     statuses := (statuses S)((q, h) \<mapsto> clean_SubmittedTxInfo ti),
     pending :=
       (if ti_Status ti = Submitted then (pending S)(n \<mapsto> spec_pending_entry q h n)
        else if ti_Status ti = Committed \<or> ti_Status ti = ErrorOnCommit then (pending S)(n := None)
        else pending S),
     unsuccessful :=
       (if ti_Status ti = ErrorOnCommit \<or> ti_Status ti = ErrorOnSubmit
        then (unsuccessful S)((q, h) \<mapsto> spec_unsuccessful_entry q h n ti now)
        else if ti_Status ti = Committed then (unsuccessful S)((q, h) := None)
        else unsuccessful S),
     cached :=
       (if ti_Status ti = Committed then (cached S)((q, h) := None)
        else case tx of None \<Rightarrow> cached S | Some t \<Rightarrow> (cached S)((q, h) \<mapsto> t))\<rparr>"

section \<open>Keys never collide\<close>

lemma uintToBytes_cases:
  obtains c r where "uintToBytes q = c # r" "is_digit c"
  by (metis FormatUint_digits FormatUint_nonempty list.exhaust list.pred_inject(2) uintToBytes_def)

lemma status_key_inj:
  assumes "is_txhash h" "is_txhash h'"
  shows "constructTxStatusKey q h = constructTxStatusKey q' h' \<longleftrightarrow> q = q' \<and> h = h'"
  using assms by (auto simp: constructTxStatusKey_def is_txhash_def uintToBytes_def)

lemma height_key_inj: "uintToBytes q = uintToBytes q' \<longleftrightarrow> q = q'"
  by (simp add: uintToBytes_def)

lemma height_key_status_key:
  assumes "is_txhash h"
  shows "uintToBytes q \<noteq> constructTxStatusKey q' h"
proof
  assume "uintToBytes q = constructTxStatusKey q' h"
  then have "64 \<le> length (uintToBytes q)" using assms by (simp add: constructTxStatusKey_def is_txhash_def)
  then show False using length_FormatUint_le [of q] by (simp add: uintToBytes_def)
qed

lemma digit_key_named_key:
  "uintToBytes q @ x \<noteq> SubmittedTxStatusPrefix @ y"
  "uintToBytes q @ x \<noteq> UnsuccessfulTxStatusPrefix @ y"
  "uintToBytes q @ x \<noteq> CachedTxs @ y"
  by (rule uintToBytes_cases [of q];
      auto simp: SubmittedTxStatusPrefix_def UnsuccessfulTxStatusPrefix_def CachedTxs_def is_digit_def)+

lemma named_keys_distinct:
  "SubmittedTxStatusPrefix @ x \<noteq> UnsuccessfulTxStatusPrefix @ y"
  "SubmittedTxStatusPrefix @ x \<noteq> CachedTxs @ y"
  "UnsuccessfulTxStatusPrefix @ x \<noteq> CachedTxs @ y"
  by (simp_all add: SubmittedTxStatusPrefix_def UnsuccessfulTxStatusPrefix_def CachedTxs_def)

lemma keys_distinct:
  "uintToBytes q \<noteq> constructPendingQueueKey n" "uintToBytes q \<noteq> constructUnsuccessfulQueueKey q' h"
  "uintToBytes q \<noteq> constructCacheTxKey q' h"
  "constructTxStatusKey q h \<noteq> constructPendingQueueKey n"
  "constructTxStatusKey q h \<noteq> constructUnsuccessfulQueueKey q' h'"
  "constructTxStatusKey q h \<noteq> constructCacheTxKey q' h'"
  "constructPendingQueueKey n \<noteq> constructUnsuccessfulQueueKey q h"
  "constructPendingQueueKey n \<noteq> constructCacheTxKey q h"
  "constructUnsuccessfulQueueKey q h \<noteq> constructCacheTxKey q' h'"
  using digit_key_named_key [of q "[]"] digit_key_named_key [of q h] named_keys_distinct
  by (simp_all add: constructPendingQueueKey_def constructUnsuccessfulQueueKey_def
      constructCacheTxKey_def constructTxStatusKey_def)

lemmas keys_distinct_both = keys_distinct keys_distinct [symmetric]

lemma pending_key_inj: "constructPendingQueueKey n = constructPendingQueueKey n' \<longleftrightarrow> n = n'"
  by (simp add: constructPendingQueueKey_def)

lemma unsuccessful_key_inj:
  "is_txhash h \<Longrightarrow> is_txhash h' \<Longrightarrow>
   constructUnsuccessfulQueueKey q h = constructUnsuccessfulQueueKey q' h' \<longleftrightarrow> q = q' \<and> h = h'"
  by (simp add: constructUnsuccessfulQueueKey_def status_key_inj)

lemma cache_key_inj:
  "is_txhash h \<Longrightarrow> is_txhash h' \<Longrightarrow>
   constructCacheTxKey q h = constructCacheTxKey q' h' \<longleftrightarrow> q = q' \<and> h = h'"
  by (simp add: constructCacheTxKey_def status_key_inj)

lemmas key_facts = keys_distinct_both height_key_inj status_key_inj height_key_status_key
  height_key_status_key [symmetric] pending_key_inj unsuccessful_key_inj cache_key_inj

section \<open>From bytes to the abstract store\<close>

definition ok_of :: "'a res \<Rightarrow> 'a option" where
  "ok_of r = (case r of Inl _ \<Rightarrow> None | Inr x \<Rightarrow> Some x)"

lemma ok_of_simps [simp]: "ok_of (Inr x) = Some x" "ok_of (Inl f) = None"
  by (simp_all add: ok_of_def)

lemma ok_of_Some_iff [simp]: "ok_of r = Some x \<longleftrightarrow> r = Inr x"
  by (cases r) auto

definition dec_at :: "(bytes \<Rightarrow> 'a res) \<Rightarrow> (bytes \<Rightarrow> bytes option) \<Rightarrow> bytes \<Rightarrow> 'a option" where
  "dec_at dec m k = (case m k of None \<Rightarrow> None | Some b \<Rightarrow> ok_of (dec b))"

lemma dec_at_upd: "dec_at dec (m(k \<mapsto> b)) k' = (if k' = k then ok_of (dec b) else dec_at dec m k')"
  by (simp add: dec_at_def)

lemma dec_at_del: "dec_at dec (m(k := None)) k' = (if k' = k then None else dec_at dec m k')"
  by (simp add: dec_at_def)

definition store_of :: "'r txcodec \<Rightarrow> (bytes \<Rightarrow> bytes option) \<Rightarrow> 'r tx_store" where
  "store_of C m = \<lparr>
     heights = (\<lambda>q. dec_at bytesToUint m (uintToBytes q)),
     statuses = (\<lambda>(q, h). if is_txhash h
        then dec_at (unmarshal decode_SubmittedTxInfo) m (constructTxStatusKey q h) else None),
     pending = (\<lambda>n. dec_at (unmarshal decode_Pending) m (constructPendingQueueKey n)),
     unsuccessful = (\<lambda>(q, h). if is_txhash h
        then dec_at (unmarshal decode_Unsuccessful) m (constructUnsuccessfulQueueKey q h) else None),
     cached = (\<lambda>(q, h). if is_txhash h
        then dec_at (unmarshal (decode_Transaction C)) m (constructCacheTxKey q h) else None)\<rparr>"

text \<open>
  A well-formed database: what is stored under a key decodes, and every entry of the two
  queues was put there under a key the code builds.
\<close>

definition decodes :: "(bytes \<Rightarrow> 'a res) \<Rightarrow> (bytes \<Rightarrow> bytes option) \<Rightarrow> bytes \<Rightarrow> bool" where
  "decodes dec m k \<longleftrightarrow> (\<forall>b. m k = Some b \<longrightarrow> (\<exists>x. dec b = Inr x))"

definition db_wf :: "'r txcodec \<Rightarrow> (bytes \<Rightarrow> bytes option) \<Rightarrow> bool" where
  "db_wf C m \<longleftrightarrow>
     (\<forall>q. decodes bytesToUint m (uintToBytes q)) \<and>
     (\<forall>q h. is_txhash h \<longrightarrow> decodes (unmarshal decode_SubmittedTxInfo) m (constructTxStatusKey q h)) \<and>
     (\<forall>n. decodes (unmarshal decode_Pending) m (constructPendingQueueKey n)) \<and>
     (\<forall>q h. is_txhash h \<longrightarrow> decodes (unmarshal decode_Unsuccessful) m (constructUnsuccessfulQueueKey q h)) \<and>
     (\<forall>q h. is_txhash h \<longrightarrow> decodes (unmarshal (decode_Transaction C)) m (constructCacheTxKey q h)) \<and>
     (\<forall>k b. m k = Some b \<longrightarrow> HasPrefix k UnsuccessfulTxStatusPrefix \<longrightarrow>
        (\<exists>q h. is_txhash h \<and> k = constructUnsuccessfulQueueKey q h))"

lemma decodes_upd: "decodes dec (m(k \<mapsto> b)) k' \<longleftrightarrow> (if k' = k then (\<exists>x. dec b = Inr x) else decodes dec m k')"
  by (simp add: decodes_def)

lemma decodes_del: "decodes dec (m(k := None)) k' \<longleftrightarrow> k' = k \<or> decodes dec m k'"
  by (auto simp: decodes_def)

lemma dec_at_None_iff: "decodes dec m k \<Longrightarrow> dec_at dec m k = None \<longleftrightarrow> m k = None"
  by (fastforce simp: decodes_def dec_at_def split: option.splits)

lemma unmarshal_text [simp]: "json_ok v \<Longrightarrow> unmarshal dec (json_text v) = dec (json_clean v)"
  by (simp add: unmarshal_def)

lemma not_unsuccessful_prefix [simp]:
  "\<not> HasPrefix (uintToBytes q) UnsuccessfulTxStatusPrefix"
  "\<not> HasPrefix (constructTxStatusKey q h) UnsuccessfulTxStatusPrefix"
  "\<not> HasPrefix (constructPendingQueueKey n) UnsuccessfulTxStatusPrefix"
  "\<not> HasPrefix (constructCacheTxKey q h) UnsuccessfulTxStatusPrefix"
  using digit_key_named_key(2) [of q "[]"] digit_key_named_key(2) [of q h]
    named_keys_distinct(1) named_keys_distinct(3) [symmetric]
  by (auto simp: HasPrefix_iff constructTxStatusKey_def constructPendingQueueKey_def constructCacheTxKey_def)

section \<open>LevelDB as documented\<close>

text \<open>
  \<open>V d\<close> is the content of the database and \<open>W t\<close> what a transaction sees. A read that
  succeeds returns the content; a successful write updates one key; a failed \<open>Put\<close> either
  happened or did not; a transaction starts from the content, changes nothing until its
  commit succeeds, and a failed commit or a discard leaves the content alone; the iterator
  visits exactly the keys with the prefix.
\<close>

definition leveldb_ok ::
  "('d, 't) leveldb \<Rightarrow> ('d \<Rightarrow> bytes \<Rightarrow> bytes option) \<Rightarrow> ('t \<Rightarrow> bytes \<Rightarrow> bytes option) \<Rightarrow> bool" where
  "leveldb_ok L V W \<longleftrightarrow>
     (\<forall>d k v. db_Get L d k = Inr v \<longrightarrow> V d k = Some v) \<and>
     (\<forall>d k. db_Get L d k = Inl (GoErr ErrNotFound) \<longrightarrow> V d k = None) \<and>
     (\<forall>d k f. db_Get L d k = Inl (GoErr f) \<longrightarrow> errors_Is_NotFound f \<longrightarrow> V d k = None) \<and>
     (\<forall>d k b. db_Has L d k = Inr b \<longrightarrow> b = (V d k \<noteq> None)) \<and>
     (\<forall>d k v u d'. db_Put L d k v = (Inr u, d') \<longrightarrow> V d' = (V d)(k \<mapsto> v)) \<and>
     (\<forall>d k v f d'. db_Put L d k v = (Inl f, d') \<longrightarrow> V d' = V d \<or> V d' = (V d)(k \<mapsto> v)) \<and>
     (\<forall>d p. set (db_IterPrefix L d p) = {(k, v). V d k = Some v \<and> HasPrefix k p}) \<and>
     (\<forall>d t. db_OpenTransaction L d = Inr t \<longrightarrow> W t = V d) \<and>
     (\<forall>t k v u t'. t_Put L t k v = (Inr u, t') \<longrightarrow> W t' = (W t)(k \<mapsto> v)) \<and>
     (\<forall>t k u t'. t_Delete L t k = (Inr u, t') \<longrightarrow> W t' = (W t)(k := None)) \<and>
     (\<forall>t d u t' d'. t_Commit L t d = (Inr u, t', d') \<longrightarrow> V d' = W t) \<and>
     (\<forall>t d f t' d'. t_Commit L t d = (Inl f, t', d') \<longrightarrow> V d' = V d) \<and>
     (\<forall>t d. V (t_Discard L t d) = V d)"

lemma leveldb_okD:
  assumes "leveldb_ok L V W"
  shows "db_Get L d k = Inr v \<Longrightarrow> V d k = Some v"
    and "db_Get L d k = Inl (GoErr ErrNotFound) \<Longrightarrow> V d k = None"
    and "db_Get L d k = Inl (GoErr f) \<Longrightarrow> errors_Is_NotFound f \<Longrightarrow> V d k = None"
    and "db_Has L d k = Inr b \<Longrightarrow> b = (V d k \<noteq> None)"
    and "db_Put L d k v = (Inr u, d') \<Longrightarrow> V d' = (V d)(k \<mapsto> v)"
    and "db_Put L d k v = (Inl g, d') \<Longrightarrow> V d' = V d \<or> V d' = (V d)(k \<mapsto> v)"
    and "set (db_IterPrefix L d p) = {(k, v). V d k = Some v \<and> HasPrefix k p}"
    and "db_OpenTransaction L d = Inr t \<Longrightarrow> W t = V d"
    and "t_Put L t k v = (Inr u, t') \<Longrightarrow> W t' = (W t)(k \<mapsto> v)"
    and "t_Delete L t k = (Inr u, t') \<Longrightarrow> W t' = (W t)(k := None)"
    and "t_Commit L t d = (Inr u, t', d') \<Longrightarrow> V d' = W t"
    and "t_Commit L t d = (Inl g, t', d') \<Longrightarrow> V d' = V d"
    and "V (t_Discard L t d) = V d"
  using assms unfolding leveldb_ok_def by (elim conjE, metis)+

section \<open>\<open>SetTxStatus\<close> refines the abstract update\<close>

text \<open>
  First the bytes: a successful body leaves in the transaction exactly the content that
  \<open>raw_SetTxStatus\<close> computes, one point update per statement of the code.
\<close>

definition raw_cache :: "u64 \<Rightarrow> string \<Rightarrow> json option \<Rightarrow> (bytes \<rightharpoonup> bytes) \<Rightarrow> (bytes \<rightharpoonup> bytes)" where
  "raw_cache q h j m = (case j of None \<Rightarrow> m | Some j \<Rightarrow> m(constructCacheTxKey q h \<mapsto> json_text j))"

definition raw_pending :: "u64 \<Rightarrow> string \<Rightarrow> string \<Rightarrow> SubmittedTxInfo \<Rightarrow> (bytes \<rightharpoonup> bytes) \<Rightarrow> (bytes \<rightharpoonup> bytes)" where
  "raw_pending q h n ti m =
     (if ti_Status ti = Submitted then m(constructPendingQueueKey n \<mapsto>
        json_text (encode_Pending \<lparr>pd_QueryID = q, pd_SubmittedTxHash = h, pd_NeutronHash = n\<rparr>))
      else if ti_Status ti = Committed \<or> ti_Status ti = ErrorOnCommit then m(constructPendingQueueKey n := None)
      else m)"

definition raw_unsuccessful ::
  "u64 \<Rightarrow> string \<Rightarrow> string \<Rightarrow> SubmittedTxInfo \<Rightarrow> string \<Rightarrow> (bytes \<rightharpoonup> bytes) \<Rightarrow> (bytes \<rightharpoonup> bytes)" where
  "raw_unsuccessful q h n ti now m =
     (if ti_Status ti = ErrorOnCommit \<or> ti_Status ti = ErrorOnSubmit then
        m(constructUnsuccessfulQueueKey q h \<mapsto> json_text (encode_Unsuccessful
          \<lparr>un_QueryID = q, un_SubmittedTxHash = h, un_NeutronHash = n,
           un_ErrorTime = now, un_Status = ti_Status ti, un_Message = ti_Message ti\<rparr>))
      else m)"

definition raw_committed :: "u64 \<Rightarrow> string \<Rightarrow> SubmittedTxInfo \<Rightarrow> (bytes \<rightharpoonup> bytes) \<Rightarrow> (bytes \<rightharpoonup> bytes)" where
  "raw_committed q h ti m =
     (if ti_Status ti = Committed
      then m(constructUnsuccessfulQueueKey q h := None, constructCacheTxKey q h := None) else m)"

definition raw_SetTxStatus ::
  "u64 \<Rightarrow> string \<Rightarrow> string \<Rightarrow> SubmittedTxInfo \<Rightarrow> json option \<Rightarrow> string \<Rightarrow> (bytes \<rightharpoonup> bytes) \<Rightarrow> (bytes \<rightharpoonup> bytes)" where
  "raw_SetTxStatus q h n ti j now m =
     raw_committed q h ti (raw_unsuccessful q h n ti now (raw_pending q h n ti (raw_cache q h j
       (m(constructTxStatusKey q h \<mapsto> json_text (encode_SubmittedTxInfo ti))))))"

lemma queue_ops_raw:
  assumes "leveldb_ok L V W"
  shows "saveIntoPendingQueue L n p t = (Inr u, t') \<Longrightarrow>
      W t' = (W t)(constructPendingQueueKey n \<mapsto> json_text (encode_Pending p))"
    and "removeFromPendingQueue L n t = (Inr u, t') \<Longrightarrow> W t' = (W t)(constructPendingQueueKey n := None)"
    and "saveIntoUnsuccessfulQueue L q h x t = (Inr u, t') \<Longrightarrow>
      W t' = (W t)(constructUnsuccessfulQueueKey q h \<mapsto> json_text (encode_Unsuccessful x))"
    and "removeFromUnsuccessfulQueue L q h t = (Inr u, t') \<Longrightarrow>
      W t' = (W t)(constructUnsuccessfulQueueKey q h := None)"
    and "removeCachedTx L q h t = (Inr u, t') \<Longrightarrow> W t' = (W t)(constructCacheTxKey q h := None)"
    and "cacheProcessedTx L C q h tx t = (Inr u, t') \<Longrightarrow>
      \<exists>j. encode_Transaction C tx = Inr j \<and> W t' = (W t)(constructCacheTxKey q h \<mapsto> json_text j)"
  by (auto simp: saveIntoPendingQueue_def removeFromPendingQueue_def saveIntoUnsuccessfulQueue_def
      removeFromUnsuccessfulQueue_def removeCachedTx_def cacheProcessedTx_def res_success
      dest: leveldb_okD(9,10) [OF assms])

lemma setTxStatus_steps_raw:
  assumes "leveldb_ok L V W"
  shows "setTxStatus_pending L q h n ti t = (Inr u, t') \<Longrightarrow> W t' = raw_pending q h n ti (W t)"
    and "setTxStatus_unsuccessful L q h n ti now t = (Inr u, t') \<Longrightarrow> W t' = raw_unsuccessful q h n ti now (W t)"
    and "setTxStatus_committed L q h ti t = (Inr u, t') \<Longrightarrow> W t' = raw_committed q h ti (W t)"
    and "setTxStatus_cache L C q h tx t = (Inr u, t') \<Longrightarrow>
      \<exists>j. (case tx of None \<Rightarrow> j = None | Some x \<Rightarrow> \<exists>d. j = Some d \<and> encode_Transaction C x = Inr d) \<and>
          W t' = raw_cache q h j (W t)"
  by (auto simp: setTxStatus_pending_def raw_pending_def setTxStatus_unsuccessful_def raw_unsuccessful_def
      setTxStatus_committed_def raw_committed_def setTxStatus_cache_def raw_cache_def res_success
      split: if_splits option.splits dest!: queue_ops_raw [OF assms])

lemma setTxStatus_body_raw:
  assumes V: "leveldb_ok L V W" and body: "setTxStatus_body L C q h n ti tx now t = (Inr u, t')"
  obtains j where "case tx of None \<Rightarrow> j = None | Some x \<Rightarrow> \<exists>d. j = Some d \<and> encode_Transaction C x = Inr d"
    "W t' = raw_SetTxStatus q h n ti j now (W t)"
proof -
  from body obtain u1 t1 u2 t2 u3 t3 u4 t4 where
    1: "t_Put L t (constructTxStatusKey q h) (json_text (encode_SubmittedTxInfo ti)) = (Inr u1, t1)" and
    2: "setTxStatus_cache L C q h tx t1 = (Inr u2, t2)" and
    3: "setTxStatus_pending L q h n ti t2 = (Inr u3, t3)" and
    4: "setTxStatus_unsuccessful L q h n ti now t3 = (Inr u4, t4)" and
    5: "setTxStatus_committed L q h ti t4 = (Inr u, t')"
    unfolding setTxStatus_body_def res_success by blast
  note steps = setTxStatus_steps_raw [OF V]
  from steps(4) [OF 2] obtain j where
    j: "case tx of None \<Rightarrow> j = None | Some x \<Rightarrow> \<exists>d. j = Some d \<and> encode_Transaction C x = Inr d"
    and "W t2 = raw_cache q h j (W t1)" by blast
  then have "W t' = raw_SetTxStatus q h n ti j now (W t)"
    by (simp add: raw_SetTxStatus_def steps(3) [OF 5] steps(2) [OF 4] steps(1) [OF 3]
        leveldb_okD(9) [OF V 1])
  with j show thesis by (rule that)
qed


text \<open>Then the abstraction: reading the new content gives the abstract update of the old.\<close>

definition tx_json :: "'r txcodec \<Rightarrow> 'r Transaction option \<Rightarrow> json option \<Rightarrow> bool" where
  "tx_json C tx j \<longleftrightarrow> (case tx of None \<Rightarrow> j = None
     | Some x \<Rightarrow> \<exists>d. j = Some d \<and> encode_Transaction C x = Inr d \<and> tx_roundtrips C x)"

lemma store_of_sel:
  "heights (store_of C m) q = dec_at bytesToUint m (uintToBytes q)"
  "statuses (store_of C m) (q, h) = (if is_txhash h
     then dec_at (unmarshal decode_SubmittedTxInfo) m (constructTxStatusKey q h) else None)"
  "pending (store_of C m) n = dec_at (unmarshal decode_Pending) m (constructPendingQueueKey n)"
  "unsuccessful (store_of C m) (q, h) = (if is_txhash h
     then dec_at (unmarshal decode_Unsuccessful) m (constructUnsuccessfulQueueKey q h) else None)"
  "cached (store_of C m) (q, h) = (if is_txhash h
     then dec_at (unmarshal (decode_Transaction C)) m (constructCacheTxKey q h) else None)"
  by (simp_all add: store_of_def)

lemma tx_store_eqI:
  assumes "\<And>q. heights A q = heights B q" "\<And>q h. statuses A (q, h) = statuses B (q, h)"
    "\<And>n. pending A n = pending B n" "\<And>q h. unsuccessful A (q, h) = unsuccessful B (q, h)"
    "\<And>q h. cached A (q, h) = cached B (q, h)"
  shows "A = (B :: 'r tx_store)"
  using assms by (cases A; cases B) (auto intro!: ext)

lemmas raw_simps = raw_SetTxStatus_def raw_cache_def raw_pending_def raw_unsuccessful_def raw_committed_def

lemmas dec_at_point = dec_at_upd dec_at_del

lemma raw_heights:
  "is_txhash h \<Longrightarrow> heights (store_of C (raw_SetTxStatus q h n ti j now m)) q' = heights (store_of C m) q'"
  by (simp add: raw_simps store_of_sel dec_at_point key_facts split: option.splits)

lemma raw_statuses:
  "is_txhash h \<Longrightarrow> statuses (store_of C (raw_SetTxStatus q h n ti j now m)) (q', h') =
     ((statuses (store_of C m))((q, h) \<mapsto> clean_SubmittedTxInfo ti)) (q', h')"
  by (simp add: raw_simps store_of_sel dec_at_point key_facts split: option.splits)

lemma raw_pending:
  "is_txhash h \<Longrightarrow> pending (store_of C (raw_SetTxStatus q h n ti j now m)) n' =
     pending (spec_SetTxStatus q h n ti tx now (store_of C m)) n'"
  by (simp add: raw_simps store_of_sel spec_SetTxStatus_def spec_pending_entry_def dec_at_point key_facts
      split: option.splits)

lemma raw_unsuccessful:
  assumes "is_txhash h"
    "ti_Status ti = ErrorOnSubmit \<or> ti_Status ti = ErrorOnCommit \<longrightarrow> rfc3339_ok (utf8_clean now)"
  shows "unsuccessful (store_of C (raw_SetTxStatus q h n ti j now m)) (q', h') =
     unsuccessful (spec_SetTxStatus q h n ti tx now (store_of C m)) (q', h')"
  using assms
  by (simp add: raw_simps store_of_sel spec_SetTxStatus_def spec_unsuccessful_entry_def dec_at_point key_facts
      split: option.splits)

lemma unmarshal_encode_Transaction:
  "encode_Transaction C x = Inr d \<Longrightarrow> tx_roundtrips C x \<Longrightarrow>
   unmarshal (decode_Transaction C) (json_text d) = Inr x"
  using decode_encode_Transaction [of C x d] by simp

lemma raw_cached:
  assumes "is_txhash h" "tx_json C tx j"
  shows "cached (store_of C (raw_SetTxStatus q h n ti j now m)) (q', h') =
     cached (spec_SetTxStatus q h n ti tx now (store_of C m)) (q', h')"
  using assms
  by (cases tx; cases j)
    (simp_all add: raw_simps store_of_sel spec_SetTxStatus_def dec_at_point key_facts tx_json_def,
      auto simp: unmarshal_encode_Transaction)

lemma store_of_raw_SetTxStatus:
  assumes "is_txhash h" "tx_json C tx j"
    "ti_Status ti = ErrorOnSubmit \<or> ti_Status ti = ErrorOnCommit \<longrightarrow> rfc3339_ok (utf8_clean now)"
  shows "store_of C (raw_SetTxStatus q h n ti j now m) = spec_SetTxStatus q h n ti tx now (store_of C m)"
  by (rule tx_store_eqI)
    (simp_all only: raw_heights [OF assms(1)] raw_statuses [OF assms(1)] raw_pending [OF assms(1)]
      raw_unsuccessful [OF assms(1,3)] raw_cached [OF assms(1,2)], simp_all add: spec_SetTxStatus_def)


section \<open>The operations against the abstract store\<close>

definition time_ok :: "SubmittedTxInfo \<Rightarrow> string \<Rightarrow> bool" where
  "time_ok ti now \<longleftrightarrow>
     (ti_Status ti = ErrorOnSubmit \<or> ti_Status ti = ErrorOnCommit \<longrightarrow> rfc3339_ok (utf8_clean now))"

definition tx_storable :: "'r txcodec \<Rightarrow> 'r Transaction option \<Rightarrow> bool" where
  "tx_storable C tx \<longleftrightarrow> (case tx of None \<Rightarrow> True | Some x \<Rightarrow> tx_roundtrips C x)"

lemma SetTxStatus_Inr_raw:
  assumes V: "leveldb_ok L V W" and S: "tx_storable C tx"
    and op: "SetTxStatus L C q h n ti tx now d = (Inr u, d')"
  obtains j where "tx_json C tx j" "V d' = raw_SetTxStatus q h n ti j now (V d)"
proof -
  from op obtain t t1 t2 d1 u1 where
    1: "db_OpenTransaction L d = Inr t" and
    2: "setTxStatus_body L C q h n ti tx now t = (Inr u1, t1)" and
    3: "t_Commit L t1 d = (Inr u, t2, d1)" and 4: "d' = t_Discard L t2 d1"
    by (auto simp: SetTxStatus_def split: sum.splits prod.splits)
  from setTxStatus_body_raw [OF V 2] obtain j where
    j: "case tx of None \<Rightarrow> j = None | Some x \<Rightarrow> \<exists>d. j = Some d \<and> encode_Transaction C x = Inr d"
    and W: "W t1 = raw_SetTxStatus q h n ti j now (W t)" .
  have "V d' = raw_SetTxStatus q h n ti j now (V d)"
    using W leveldb_okD(8) [OF V 1] leveldb_okD(11) [OF V 3] leveldb_okD(13) [OF V] 4 by simp
  moreover have "tx_json C tx j" using j S by (cases tx) (auto simp: tx_json_def tx_storable_def)
  ultimately show thesis by (rule that [rotated])
qed

lemma SetTxStatus_store:
  assumes "leveldb_ok L V W" "is_txhash h" "tx_storable C tx" "time_ok ti now"
    and "SetTxStatus L C q h n ti tx now d = (Inr u, d')"
  shows "store_of C (V d') = spec_SetTxStatus q h n ti tx now (store_of C (V d))"
proof -
  from SetTxStatus_Inr_raw [OF assms(1,3,5)] obtain j where
    "tx_json C tx j" "V d' = raw_SetTxStatus q h n ti j now (V d)" .
  with assms(2,4) show ?thesis by (simp add: store_of_raw_SetTxStatus time_ok_def)
qed

text \<open>A failed call leaves the whole database as it was, wherever it failed.\<close>

lemma SetTxStatus_fault_unchanged:
  assumes V: "leveldb_ok L V W" and "SetTxStatus L C q h n ti tx now d = (Inl f, d')"
  shows "V d' = V d"
  using assms(2) leveldb_okD(12,13) [OF V]
  by (auto simp: SetTxStatus_def split: sum.splits prod.splits)

lemma raw_wf:
  assumes wf: "db_wf C m" and "is_txhash h" "tx_json C tx j"
    and "ti_Status ti = ErrorOnSubmit \<or> ti_Status ti = ErrorOnCommit \<longrightarrow> rfc3339_ok (utf8_clean now)"
  shows "db_wf C (raw_SetTxStatus q h n ti j now m)"
proof -
  have j: "\<exists>x. unmarshal (decode_Transaction C) (json_text d) = Inr x" if "j = Some d" for d
    using that assms(3) by (cases tx) (auto simp: tx_json_def unmarshal_encode_Transaction)
  note point = decodes_upd decodes_del key_facts
  show ?thesis
    using assms(2,4) j wf unfolding db_wf_def
    apply (intro conjI)
    subgoal by (simp add: raw_simps point split: option.splits)
    subgoal by (simp add: raw_simps point split: option.splits)
    subgoal by (simp add: raw_simps point split: option.splits)
    subgoal by (simp add: raw_simps point split: option.splits)
    subgoal by (simp add: raw_simps point split: option.splits)
    subgoal by (auto simp: raw_simps split: if_splits option.splits)
    done
qed

lemma SetTxStatus_wf:
  assumes "leveldb_ok L V W" "is_txhash h" "tx_storable C tx" "time_ok ti now" "db_wf C (V d)"
    and "SetTxStatus L C q h n ti tx now d = (r, d')"
  shows "db_wf C (V d')"
proof (cases r)
  case (Inl f)
  with assms show ?thesis by (metis SetTxStatus_fault_unchanged)
next
  case (Inr u)
  with assms SetTxStatus_Inr_raw [of L V W C tx] obtain j where
    "tx_json C tx j" "V d' = raw_SetTxStatus q h n ti j now (V d)" by metis
  with assms show ?thesis by (simp add: raw_wf time_ok_def)
qed


lemma SetLastQueryHeight_store:
  assumes V: "leveldb_ok L V W" and "SetLastQueryHeight L q b d = (r, d')"
  shows "case r of Inr _ \<Rightarrow> V d' = (V d)(uintToBytes q \<mapsto> uintToBytes b)
     | Inl _ \<Rightarrow> V d' = V d \<or> V d' = (V d)(uintToBytes q \<mapsto> uintToBytes b)"
  using assms(2) leveldb_okD(5,6) [OF V]
  by (cases "db_Put L d (uintToBytes q) (uintToBytes b)"; cases "fst (db_Put L d (uintToBytes q) (uintToBytes b))")
    (auto simp: SetLastQueryHeight_def)

lemma bytesToUint_uintToBytes [simp]: "bytesToUint (uintToBytes b) = Inr b"
  by (simp add: bytesToUint_def uintToBytes_def)

lemma store_of_set_height:
  "store_of C (m(uintToBytes q \<mapsto> uintToBytes b)) = spec_SetHeight q b (store_of C m)"
  by (rule tx_store_eqI) (simp_all add: store_of_sel spec_SetHeight_def dec_at_point key_facts)

lemma set_height_wf: "db_wf C m \<Longrightarrow> db_wf C (m(uintToBytes q \<mapsto> uintToBytes b))"
  unfolding db_wf_def
  apply (intro conjI)
  subgoal by (simp add: decodes_upd key_facts)
  subgoal by (simp add: decodes_upd key_facts)
  subgoal by (simp add: decodes_upd key_facts)
  subgoal by (simp add: decodes_upd key_facts)
  subgoal by (simp add: decodes_upd key_facts)
  subgoal by (auto split: if_splits)
  done

lemma GetLastQueryHeight_store:
  assumes V: "leveldb_ok L V W" and "GetLastQueryHeight L q d = (Inr (b, ex), d')"
  shows "d' = d \<and> heights (store_of C (V d)) q = (if ex then Some b else None) \<and> (ex \<or> b = 0)"
proof (cases "db_Get L d (uintToBytes q)")
  case (Inl f)
  with assms have "f = GoErr ErrNotFound" "ex = False" "b = 0" "d' = d"
    by (auto simp: GetLastQueryHeight_def split: fault.splits goerr.splits)
  with Inl leveldb_okD(2) [OF V] show ?thesis by (simp add: store_of_sel dec_at_def)
next
  case (Inr v)
  with assms leveldb_okD(1) [OF V Inr] show ?thesis
    by (auto simp: GetLastQueryHeight_def res_success store_of_sel dec_at_def)
qed

lemma TxExists_store:
  assumes V: "leveldb_ok L V W" and "db_wf C (V d)" "is_txhash h" "TxExists L q h d = (Inr b, d')"
  shows "d' = d \<and> b = (statuses (store_of C (V d)) (q, h) \<noteq> None)"
proof -
  have "db_Has L d (constructTxStatusKey q h) = Inr b" "d' = d"
    using assms(4) by (auto simp: TxExists_def res_success)
  moreover have "decodes (unmarshal decode_SubmittedTxInfo) (V d) (constructTxStatusKey q h)"
    using assms(2,3) by (simp add: db_wf_def)
  ultimately show ?thesis
    using leveldb_okD(4) [OF V, of d "constructTxStatusKey q h" b] assms(3)
    by (simp add: store_of_sel dec_at_None_iff)
qed

lemma GetCachedTx_store:
  assumes V: "leveldb_ok L V W" and "is_txhash h" "GetCachedTx L C q h d = (Inr x, d')"
  shows "d' = d \<and> cached (store_of C (V d)) (q, h) = Some x"
  using assms(2,3) leveldb_okD(1) [OF V]
  by (auto simp: GetCachedTx_def res_success store_of_sel dec_at_def)

lemma collect_Inr_set: "collect dec msg es = Inr xs \<Longrightarrow> set xs = {x. \<exists>k v. (k, v) \<in> set es \<and> unmarshal dec v = Inr x}"
  by (induction dec msg es arbitrary: xs rule: collect.induct) (auto simp: res_success, blast+)

lemma GetAllPendingTxs_store:
  assumes V: "leveldb_ok L V W" and op: "GetAllPendingTxs L d = (Inr xs, d')"
  shows "d' = d \<and> set xs = ran (pending (store_of C (V d)))"
proof -
  have "collect decode_Pending ''failed to unmarshal data into PendingSubmittedTxInfo''
    (db_IterPrefix L d SubmittedTxStatusPrefix) = Inr xs" and d: "d' = d"
    using op by (auto simp: GetAllPendingTxs_def)
  from collect_Inr_set [OF this(1)] have
    "set xs = {x. \<exists>k v. V d k = Some v \<and> HasPrefix k SubmittedTxStatusPrefix \<and> unmarshal decode_Pending v = Inr x}"
    by (simp add: leveldb_okD(7) [OF V])
  also have "\<dots> = ran (pending (store_of C (V d)))"
    by (auto simp: ran_def store_of_sel dec_at_def HasPrefix_iff constructPendingQueueKey_def
        split: option.splits)
  finally show ?thesis using d by simp
qed

lemma GetAllUnsuccessfulTxs_store:
  assumes V: "leveldb_ok L V W" and wf: "db_wf C (V d)" and op: "GetAllUnsuccessfulTxs L d = (Inr xs, d')"
  shows "d' = d \<and> set xs = ran (unsuccessful (store_of C (V d)))"
proof -
  have "collect decode_Unsuccessful ''failed to unmarshal data into UnsuccessfulTxInfo''
    (db_IterPrefix L d UnsuccessfulTxStatusPrefix) = Inr xs" and d: "d' = d"
    using op by (auto simp: GetAllUnsuccessfulTxs_def)
  from collect_Inr_set [OF this(1)] have xs:
    "set xs = {x. \<exists>k v. V d k = Some v \<and> HasPrefix k UnsuccessfulTxStatusPrefix \<and> unmarshal decode_Unsuccessful v = Inr x}"
    by (simp add: leveldb_okD(7) [OF V])
  have key: "HasPrefix (constructUnsuccessfulQueueKey q h) UnsuccessfulTxStatusPrefix" for q h
    by (simp add: constructUnsuccessfulQueueKey_def)
  have "set xs = ran (unsuccessful (store_of C (V d)))"
  proof (intro equalityI subsetI)
    fix x assume "x \<in> set xs"
    with xs obtain k v where kv: "V d k = Some v" "HasPrefix k UnsuccessfulTxStatusPrefix"
      "unmarshal decode_Unsuccessful v = Inr x" by auto
    with wf obtain q h where "is_txhash h" "k = constructUnsuccessfulQueueKey q h"
      unfolding db_wf_def by metis
    with kv have "unsuccessful (store_of C (V d)) (q, h) = Some x" by (simp add: store_of_sel dec_at_def)
    then show "x \<in> ran (unsuccessful (store_of C (V d)))" by (rule ranI)
  next
    fix x assume "x \<in> ran (unsuccessful (store_of C (V d)))"
    then obtain q h where "unsuccessful (store_of C (V d)) (q, h) = Some x" by (auto simp: ran_def)
    then obtain v where "V d (constructUnsuccessfulQueueKey q h) = Some v" "unmarshal decode_Unsuccessful v = Inr x"
      by (auto simp: store_of_sel dec_at_def split: if_splits option.splits)
    with xs key show "x \<in> set xs" by blast
  qed
  with d show ?thesis by simp
qed


lemma collect_decodes:
  "\<forall>e \<in> set es. \<exists>x. unmarshal dec (snd e) = Inr x \<Longrightarrow> \<exists>xs. collect dec msg es = Inr xs"
  by (induction dec msg es rule: collect.induct) (auto simp: res_success)

text \<open>In a well-formed database every entry of the two queues can be read.\<close>

lemma db_wf_pending: "db_wf C m \<Longrightarrow> m k = Some b \<Longrightarrow> HasPrefix k SubmittedTxStatusPrefix \<Longrightarrow>
    \<exists>x. unmarshal decode_Pending b = Inr x"
  unfolding db_wf_def decodes_def constructPendingQueueKey_def HasPrefix_iff by metis

lemma db_wf_unsuccessful: "db_wf C m \<Longrightarrow> m k = Some b \<Longrightarrow> HasPrefix k UnsuccessfulTxStatusPrefix \<Longrightarrow>
    \<exists>x. unmarshal decode_Unsuccessful b = Inr x"
  unfolding db_wf_def decodes_def by metis

lemma GetAllPendingTxs_reads:
  assumes V: "leveldb_ok L V W" and wf: "db_wf C (V d)"
  shows "\<exists>xs. GetAllPendingTxs L d = (Inr xs, d)"
proof -
  have "\<exists>x. unmarshal decode_Pending (snd e) = Inr x" if "e \<in> set (db_IterPrefix L d SubmittedTxStatusPrefix)" for e
    using that db_wf_pending [OF wf, of "fst e" "snd e"] by (simp add: leveldb_okD(7) [OF V] split_beta)
  with collect_decodes [of "db_IterPrefix L d SubmittedTxStatusPrefix" decode_Pending
      "''failed to unmarshal data into PendingSubmittedTxInfo''"]
  show ?thesis by (auto simp: GetAllPendingTxs_def)
qed

lemma GetAllUnsuccessfulTxs_reads:
  assumes V: "leveldb_ok L V W" and wf: "db_wf C (V d)"
  shows "\<exists>xs. GetAllUnsuccessfulTxs L d = (Inr xs, d)"
proof -
  have "\<exists>x. unmarshal decode_Unsuccessful (snd e) = Inr x"
    if "e \<in> set (db_IterPrefix L d UnsuccessfulTxStatusPrefix)" for e
    using that db_wf_unsuccessful [OF wf, of "fst e" "snd e"] by (simp add: leveldb_okD(7) [OF V] split_beta)
  with collect_decodes [of "db_IterPrefix L d UnsuccessfulTxStatusPrefix" decode_Unsuccessful
      "''failed to unmarshal data into UnsuccessfulTxInfo''"]
  show ?thesis by (auto simp: GetAllUnsuccessfulTxs_def)
qed


section \<open>The interface of the storage\<close>

text \<open>
  The contract every client of \<open>relay.Storage\<close> relies on: a state \<open>s\<close> in which the storage is
  \<open>ok\<close> has an abstract store; every call keeps \<open>ok\<close>; reads return what the store holds and
  leave it alone; a successful write is the abstract update, a failed \<open>SetTxStatus\<close> no change.
\<close>

locale relay_storage =
  fixes st :: "('s, 'r) Storage"
    and ok :: "'s \<Rightarrow> bool"
    and store :: "'s \<Rightarrow> 'r tx_store"
    and storable :: "'r Transaction option \<Rightarrow> bool"
  assumes get_height: "ok s \<Longrightarrow> st_GetLastQueryHeight st q s = (r1, s') \<Longrightarrow> ok s' \<and> store s' = store s \<and>
      (case r1 of Inl _ \<Rightarrow> True | Inr (b1, ex) \<Rightarrow> heights (store s) q = (if ex then Some b1 else None) \<and> (ex \<or> b1 = 0))"
    and set_height: "ok s \<Longrightarrow> st_SetLastQueryHeight st q b2 s = (r2, s') \<Longrightarrow> ok s' \<and>
      (case r2 of Inl _ \<Rightarrow> store s' \<in> {store s, spec_SetHeight q b2 (store s)}
       | Inr _ \<Rightarrow> store s' = spec_SetHeight q b2 (store s))"
    and tx_exists: "ok s \<Longrightarrow> is_txhash h \<Longrightarrow> st_TxExists st q h s = (r3, s') \<Longrightarrow> ok s' \<and> store s' = store s \<and>
      (case r3 of Inl _ \<Rightarrow> True | Inr b3 \<Rightarrow> b3 = (statuses (store s) (q, h) \<noteq> None))"
    and get_cached: "ok s \<Longrightarrow> is_txhash h \<Longrightarrow> st_GetCachedTx st q h s = (r4, s') \<Longrightarrow> ok s' \<and> store s' = store s \<and>
      (case r4 of Inl _ \<Rightarrow> True | Inr x4 \<Rightarrow> cached (store s) (q, h) = Some x4)"
    and get_pending: "ok s \<Longrightarrow> st_GetAllPendingTxs st s = (r5, s') \<Longrightarrow> ok s' \<and> store s' = store s \<and>
      (case r5 of Inl _ \<Rightarrow> True | Inr xs5 \<Rightarrow> set xs5 = ran (pending (store s)))"
    and get_unsuccessful: "ok s \<Longrightarrow> st_GetAllUnsuccessfulTxs st s = (r6, s') \<Longrightarrow> ok s' \<and> store s' = store s \<and>
      (case r6 of Inl _ \<Rightarrow> True | Inr xs6 \<Rightarrow> set xs6 = ran (unsuccessful (store s)))"
    and set_status: "ok s \<Longrightarrow> is_txhash h \<Longrightarrow> storable tx \<Longrightarrow>
      st_SetTxStatus st q h n ti tx s = (r7, s') \<Longrightarrow> ok s' \<and>
      (case r7 of Inl _ \<Rightarrow> store s' = store s | Inr _ \<Rightarrow> \<exists>now. store s' = spec_SetTxStatus q h n ti tx now (store s))"
    and storable_None: "storable None"
begin

text \<open>What a successful status write leaves in each part of the store, whatever the clock read.\<close>

lemma status_written:
  assumes "ok s" "is_txhash h" "storable tx" "st_SetTxStatus st q h n ti tx s = (Inr u, s')"
  shows "statuses (store s') (q, h) = Some (clean_SubmittedTxInfo ti)"
    and "heights (store s') = heights (store s)"
    and "(q', h') \<noteq> (q, h) \<Longrightarrow> statuses (store s') (q', h') = statuses (store s) (q', h')"
  using set_status [OF assms] by (auto simp: spec_SetTxStatus_def)

lemma submitted_written:
  assumes "ok s" "is_txhash h" "storable tx" "ti_Status ti = Submitted"
    and "st_SetTxStatus st q h n ti tx s = (Inr u, s')"
  shows "pending (store s') n = Some (spec_pending_entry q h n)"
    and "unsuccessful (store s') = unsuccessful (store s)"
  using set_status [OF assms(1-3,5)] assms(4) by (auto simp: spec_SetTxStatus_def)

lemma status_error_frame:
  assumes "ok s" "is_txhash h" "storable tx" "st_SetTxStatus st q h n ti tx s = (Inl f, s')"
  shows "ok s'" "store s' = store s"
  using set_status [OF assms] by auto

lemma heights_frame:
  assumes "ok s" "is_txhash h" "storable tx" "st_SetTxStatus st q h n ti tx s = (r, s')"
  shows "heights (store s') = heights (store s)"
  using set_status [OF assms] by (cases r) (auto simp: spec_SetTxStatus_def)

end

section \<open>The LevelDB storage provides it\<close>

text \<open>
  \<open>LevelDBStorage L C get put clk\<close> is the model of \<open>leveldb.go\<close> as an implementation of the
  interface over any state that holds the database (\<open>get\<close>, \<open>put\<close>). \<open>clk\<close> reads the clock as
  RFC 3339 text, which only an error status does.
\<close>

definition LevelDBStorage ::
  "('d, 't) leveldb \<Rightarrow> 'r txcodec \<Rightarrow> ('s \<Rightarrow> 'd) \<Rightarrow> ('d \<Rightarrow> 's \<Rightarrow> 's) \<Rightarrow> ('s \<Rightarrow> string \<times> 's) \<Rightarrow> ('s, 'r) Storage" where
  "LevelDBStorage L C get put clk = \<lparr>
     st_GetAllPendingTxs = on_part get put (GetAllPendingTxs L),
     st_GetAllUnsuccessfulTxs = on_part get put (GetAllUnsuccessfulTxs L),
     st_GetCachedTx = (\<lambda>q h. on_part get put (GetCachedTx L C q h)),
     st_GetLastQueryHeight = (\<lambda>q. on_part get put (GetLastQueryHeight L q)),
     st_SetLastQueryHeight = (\<lambda>q b. on_part get put (SetLastQueryHeight L q b)),
     st_SetTxStatus = (\<lambda>q h n ti tx s.
       if ti_Status ti = ErrorOnCommit \<or> ti_Status ti = ErrorOnSubmit
       then (case clk s of (now, s) \<Rightarrow> on_part get put (SetTxStatus L C q h n ti tx now) s)
       else on_part get put (SetTxStatus L C q h n ti tx []) s),
     st_TxExists = (\<lambda>q h. on_part get put (TxExists L q h)),
     st_Close = on_part get put (Close L)\<rparr>"

definition part_ok :: "('s \<Rightarrow> 'd) \<Rightarrow> ('d \<Rightarrow> 's \<Rightarrow> 's) \<Rightarrow> bool" where
  "part_ok get put \<longleftrightarrow> (\<forall>d s. get (put d s) = d)"

definition clock_ok :: "('s \<Rightarrow> 'd) \<Rightarrow> ('s \<Rightarrow> string \<times> 's) \<Rightarrow> bool" where
  "clock_ok get clk \<longleftrightarrow> (\<forall>s. get (snd (clk s)) = get s \<and> rfc3339_ok (utf8_clean (fst (clk s))))"

definition leveldb_storage_ok where
  "leveldb_storage_ok L C V W get put clk s \<longleftrightarrow>
     leveldb_ok L V W \<and> part_ok get put \<and> clock_ok get clk \<and> db_wf C (V (get s))"

lemma leveldb_okI: "leveldb_storage_ok L C V W get put clk s \<Longrightarrow> db_wf C (V (get s')) \<Longrightarrow>
  leveldb_storage_ok L C V W get put clk s'"
  by (simp add: leveldb_storage_ok_def)

lemma leveldb_storage_okD:
  assumes "leveldb_storage_ok L C V W get put clk s"
  shows "leveldb_ok L V W" "db_wf C (V (get s))" "get (put d s') = d"
  using assms by (simp_all add: leveldb_storage_ok_def part_ok_def)

lemma on_part_eq: "on_part get put f s = (r, s') \<Longrightarrow> \<exists>d. f (get s) = (r, d) \<and> s' = put d s"
  by (auto simp: on_part_def split: prod.splits)

text \<open>A read runs on the database and leaves it as it was.\<close>

lemma leveldb_read:
  assumes ok: "leveldb_storage_ok L C V W get put clk s" and op: "on_part get put f s = (r, s')"
    and f: "snd (f (get s)) = get s"
  shows "f (get s) = (r, get s) \<and> get s' = get s \<and> leveldb_storage_ok L C V W get put clk s'"
  using on_part_eq [OF op] f leveldb_storage_okD(2,3) [OF ok] by (auto intro!: leveldb_okI [OF ok])

lemma reads_snd [simp]:
  "snd (GetLastQueryHeight L q d) = d" "snd (TxExists L q h d) = d" "snd (GetCachedTx L C q h d) = d"
  "snd (GetAllPendingTxs L d) = d" "snd (GetAllUnsuccessfulTxs L d) = d"
  by (simp_all add: GetLastQueryHeight_def TxExists_def GetCachedTx_def GetAllPendingTxs_def
      GetAllUnsuccessfulTxs_def)

lemma leveldb_set_height:
  assumes ok: "leveldb_storage_ok L C V W get put clk s"
    and "st_SetLastQueryHeight (LevelDBStorage L C get put clk) q b s = (r, s')"
  shows "leveldb_storage_ok L C V W get put clk s' \<and> (case r of
        Inl _ \<Rightarrow> store_of C (V (get s')) \<in> {store_of C (V (get s)), spec_SetHeight q b (store_of C (V (get s)))}
      | Inr _ \<Rightarrow> store_of C (V (get s')) = spec_SetHeight q b (store_of C (V (get s))))"
proof -
  note okD = leveldb_storage_okD [OF ok]
  from assms(2) obtain d where op: "SetLastQueryHeight L q b (get s) = (r, d)" and s': "s' = put d s"
    by (auto simp: LevelDBStorage_def dest: on_part_eq)
  from SetLastQueryHeight_store [OF okD(1) op] s' okD(2,3) show ?thesis
    by (auto simp: store_of_set_height set_height_wf intro!: leveldb_okI [OF ok] split: sum.splits)
qed

lemma leveldb_set_status:
  assumes ok: "leveldb_storage_ok L C V W get put clk s" and h: "is_txhash h" and tx: "tx_storable C tx"
    and op: "st_SetTxStatus (LevelDBStorage L C get put clk) q h n ti tx s = (r, s')"
  shows "leveldb_storage_ok L C V W get put clk s' \<and> (case r of
        Inl _ \<Rightarrow> store_of C (V (get s')) = store_of C (V (get s))
      | Inr _ \<Rightarrow> \<exists>now. store_of C (V (get s')) = spec_SetTxStatus q h n ti tx now (store_of C (V (get s))))"
proof -
  note V = leveldb_storage_okD(1) [OF ok]
  obtain now d where now: "time_ok ti now" "SetTxStatus L C q h n ti tx now (get s) = (r, d)" "get s' = d"
    using op ok
    by (auto simp: LevelDBStorage_def time_ok_def leveldb_storage_ok_def clock_ok_def part_ok_def
        split: if_splits prod.splits dest!: on_part_eq) (metis fst_conv snd_conv)+
  have "db_wf C (V (get s'))"
    using SetTxStatus_wf [OF V h tx now(1) leveldb_storage_okD(2) [OF ok] now(2)] now(3) by simp
  then have "leveldb_storage_ok L C V W get put clk s'" by (rule leveldb_okI [OF ok])
  moreover have "store_of C (V (get s')) = store_of C (V (get s))" if "r = Inl f" for f
    using now that SetTxStatus_fault_unchanged [OF V, of C q h n ti tx now "get s" f d] by simp
  moreover have "store_of C (V (get s')) = spec_SetTxStatus q h n ti tx now (store_of C (V (get s)))" if "r = Inr u" for u
    using now that SetTxStatus_store [OF V h tx now(1), of q n "get s" u d] by simp
  ultimately show ?thesis by (cases r) auto
qed

interpretation leveldb: relay_storage
  "LevelDBStorage L C get put clk" "leveldb_storage_ok L C V W get put clk"
  "\<lambda>s. store_of C (V (get s))" "tx_storable C"
  for L :: "('d, 't) leveldb" and C :: "'r txcodec" and V W and get :: "'s \<Rightarrow> 'd" and put clk
proof (standard, goal_cases)
  case (1 s q r s')
  then have "on_part get put (GetLastQueryHeight L q) s = (r, s')" by (simp add: LevelDBStorage_def)
  with leveldb_read [OF 1(1) this] GetLastQueryHeight_store [OF leveldb_storage_okD(1) [OF 1(1)], of q "get s" _ _ "get s" C]
  show ?case by (auto split: sum.splits)
next
  case (2 s q b r s')
  then show ?case by (rule leveldb_set_height)
next
  case (3 s h q r s')
  then have "on_part get put (TxExists L q h) s = (r, s')" by (simp add: LevelDBStorage_def)
  with leveldb_read [OF 3(1) this] TxExists_store [OF leveldb_storage_okD(1,2) [OF 3(1)] 3(2)]
  show ?case by (auto split: sum.splits)
next
  case (4 s h q r s')
  then have "on_part get put (GetCachedTx L C q h) s = (r, s')" by (simp add: LevelDBStorage_def)
  with leveldb_read [OF 4(1) this] GetCachedTx_store [OF leveldb_storage_okD(1) [OF 4(1)] 4(2), of C q "get s"]
  show ?case by (auto split: sum.splits)
next
  case (5 s r s')
  then have "on_part get put (GetAllPendingTxs L) s = (r, s')" by (simp add: LevelDBStorage_def)
  with leveldb_read [OF 5(1) this] GetAllPendingTxs_store [OF leveldb_storage_okD(1) [OF 5(1)], of "get s" _ _ C]
  show ?case by (auto split: sum.splits)
next
  case (6 s r s')
  then have "on_part get put (GetAllUnsuccessfulTxs L) s = (r, s')" by (simp add: LevelDBStorage_def)
  with leveldb_read [OF 6(1) this] GetAllUnsuccessfulTxs_store [OF leveldb_storage_okD(1,2) [OF 6(1)]]
  show ?case by (auto split: sum.splits)
next
  case (7 s h tx q n ti r s')
  then show ?case by (rule leveldb_set_status)
next
  case 8
  show ?case by (simp add: tx_storable_def)
qed

end
