(* ===== verification/Metrics.thy ===== *)
theory Metrics
  imports Prelude
begin

text \<open>
  \<open>internal/metrics/metrics.go\<close>: the process-wide Prometheus collectors. A counter vector
  is a map from its label to a count, a histogram vector a map from its labels to the
  durations observed, in nanoseconds (the code passes \<open>Duration.Seconds()\<close>), a gauge its
  last value.
\<close>

definition typeSuccess :: string where
  "typeSuccess = ''success''"

definition typeFailed :: string where
  "typeFailed = ''failed''"

record Metrics =
  relayerRequests :: "string \<Rightarrow> nat"
  relayerProofs :: "string \<Rightarrow> nat"
  requestTime :: "string \<times> string \<Rightarrow> int list"
  proofNeutronTime :: "string \<times> string \<Rightarrow> int list"
  actionDurations :: "string \<times> string \<Rightarrow> int list"
  submittedTxCounter :: "string \<Rightarrow> nat"
  unsuccessfulTxsQueueSize :: int
  subscriberTaskQueueNumElements :: int
  queriesToProcess :: int

definition empty_Metrics :: Metrics where
  "empty_Metrics = \<lparr>relayerRequests = (\<lambda>_. 0), relayerProofs = (\<lambda>_. 0), requestTime = (\<lambda>_. []),
     proofNeutronTime = (\<lambda>_. []), actionDurations = (\<lambda>_. []), submittedTxCounter = (\<lambda>_. 0),
     unsuccessfulTxsQueueSize = 0, subscriberTaskQueueNumElements = 0, queriesToProcess = 0\<rparr>"

definition counter_inc :: "string \<Rightarrow> (string \<Rightarrow> nat) \<Rightarrow> string \<Rightarrow> nat" where
  "counter_inc l c = c(l := Suc (c l))"

definition histogram_observe :: "string \<times> string \<Rightarrow> int \<Rightarrow> (string \<times> string \<Rightarrow> int list) \<Rightarrow> string \<times> string \<Rightarrow> int list" where
  "histogram_observe l dur h = h(l := h l @ [dur])"

definition incFailedRequests :: "Metrics \<Rightarrow> Metrics" where
  "incFailedRequests m = m\<lparr>relayerRequests := counter_inc typeFailed (relayerRequests m)\<rparr>"

definition incSuccessRequests :: "Metrics \<Rightarrow> Metrics" where
  "incSuccessRequests m = m\<lparr>relayerRequests := counter_inc typeSuccess (relayerRequests m)\<rparr>"

definition incFailedProofs :: "Metrics \<Rightarrow> Metrics" where
  "incFailedProofs m = m\<lparr>relayerProofs := counter_inc typeFailed (relayerProofs m)\<rparr>"

definition incSuccessProofs :: "Metrics \<Rightarrow> Metrics" where
  "incSuccessProofs m = m\<lparr>relayerProofs := counter_inc typeSuccess (relayerProofs m)\<rparr>"

definition AddFailedRequest :: "string \<Rightarrow> int \<Rightarrow> Metrics \<Rightarrow> Metrics" where
  "AddFailedRequest message dur m = (let m = incFailedRequests m in
     m\<lparr>requestTime := histogram_observe (message, typeFailed) dur (requestTime m)\<rparr>)"

definition AddSuccessRequest :: "string \<Rightarrow> int \<Rightarrow> Metrics \<Rightarrow> Metrics" where
  "AddSuccessRequest message dur m = (let m = incSuccessRequests m in
     m\<lparr>requestTime := histogram_observe (message, typeSuccess) dur (requestTime m)\<rparr>)"

definition AddFailedProof :: "string \<Rightarrow> int \<Rightarrow> Metrics \<Rightarrow> Metrics" where
  "AddFailedProof message dur m = (let m = incFailedProofs m in
     m\<lparr>proofNeutronTime := histogram_observe (message, typeFailed) dur (proofNeutronTime m)\<rparr>)"

definition AddSuccessProof :: "string \<Rightarrow> int \<Rightarrow> Metrics \<Rightarrow> Metrics" where
  "AddSuccessProof message dur m = (let m = incSuccessProofs m in
     m\<lparr>proofNeutronTime := histogram_observe (message, typeSuccess) dur (proofNeutronTime m)\<rparr>)"

definition RecordActionDuration :: "string \<Rightarrow> int \<Rightarrow> Metrics \<Rightarrow> Metrics" where
  "RecordActionDuration action dur m =
     m\<lparr>actionDurations := histogram_observe (action, typeSuccess) dur (actionDurations m)\<rparr>"

definition IncSuccessTxSubmit :: "Metrics \<Rightarrow> Metrics" where
  "IncSuccessTxSubmit m = m\<lparr>submittedTxCounter := counter_inc typeSuccess (submittedTxCounter m)\<rparr>"

definition IncFailedTxSubmit :: "Metrics \<Rightarrow> Metrics" where
  "IncFailedTxSubmit m = m\<lparr>submittedTxCounter := counter_inc typeFailed (submittedTxCounter m)\<rparr>"

definition SetUnsuccessfulTxsSizeQueue :: "nat \<Rightarrow> Metrics \<Rightarrow> Metrics" where
  "SetUnsuccessfulTxsSizeQueue n m = m\<lparr>unsuccessfulTxsQueueSize := int n\<rparr>"

definition SetSubscriberTaskQueueNumElements :: "nat \<Rightarrow> Metrics \<Rightarrow> Metrics" where
  "SetSubscriberTaskQueueNumElements n m = m\<lparr>subscriberTaskQueueNumElements := int n\<rparr>"

definition SetQueriesToProcessNumElements :: "nat \<Rightarrow> Metrics \<Rightarrow> Metrics" where
  "SetQueriesToProcessNumElements n m = m\<lparr>queriesToProcess := int n\<rparr>"

section \<open>Bookkeeping\<close>

text \<open>
  Every request and every proof is counted once and timed once: the counter of a type is
  the number of observations with that type.
\<close>

definition observed :: "(string \<times> string \<Rightarrow> int list) \<Rightarrow> string list \<Rightarrow> string \<Rightarrow> nat" where
  "observed h methods t = sum_list (map (\<lambda>m. length (h (m, t))) methods)"

definition metrics_consistent :: "string list \<Rightarrow> Metrics \<Rightarrow> bool" where
  "metrics_consistent methods m \<longleftrightarrow>
     (\<forall>t \<in> {typeSuccess, typeFailed}.
        relayerRequests m t = observed (requestTime m) methods t \<and>
        relayerProofs m t = observed (proofNeutronTime m) methods t)"

lemma type_labels_distinct [simp]: "typeSuccess \<noteq> typeFailed" "typeFailed \<noteq> typeSuccess"
  by (simp_all add: typeSuccess_def typeFailed_def)

lemma observed_observe:
  assumes "distinct methods" "m \<in> set methods"
  shows "observed (histogram_observe (m, t) d h) methods t' = observed h methods t' + (if t' = t then 1 else 0)"
  using assms
proof (induction methods)
  case (Cons a methods)
  have frame: "observed (histogram_observe (m, t) d h) methods t' = observed h methods t'" if "m \<notin> set methods"
    using that unfolding observed_def histogram_observe_def
    by (intro arg_cong [where f = sum_list]) auto
  show ?case
  proof (cases "a = m")
    case True
    with Cons.prems frame show ?thesis by (auto simp: observed_def histogram_observe_def)
  next
    case False
    with Cons show ?thesis by (auto simp: observed_def histogram_observe_def)
  qed
qed simp

lemma Add_consistent:
  assumes "distinct methods" "message \<in> set methods" "metrics_consistent methods m"
  shows "metrics_consistent methods (AddFailedRequest message d m)"
    and "metrics_consistent methods (AddSuccessRequest message d m)"
    and "metrics_consistent methods (AddFailedProof message d m)"
    and "metrics_consistent methods (AddSuccessProof message d m)"
  using assms(3)
  by (simp_all add: metrics_consistent_def AddFailedRequest_def AddSuccessRequest_def AddFailedProof_def
      AddSuccessProof_def incFailedRequests_def incSuccessRequests_def incFailedProofs_def
      incSuccessProofs_def counter_inc_def observed_observe [OF assms(1,2)] Let_def)

end
