(* ===== verification/Retry.thy ===== *)
theory Retry
  imports Prelude
begin

text \<open>
  \<open>retry.Do(f, ...)\<close> of \<open>avast/retry-go\<close> is a parameter wherever the code uses it. What it
  documents is the relation \<open>retried\<close>: it calls \<open>f\<close> again after an error, returns when a call
  succeeds, gives up with an error of its own after the last attempt or when the context is
  done, and does not catch panics. A variable \<open>f\<close> assigns in the code is its result here.
\<close>

type_synonym ('s, 'a) retry = "('s \<Rightarrow> 'a res \<times> 's) \<Rightarrow> 's \<Rightarrow> 'a res \<times> 's"

inductive retried :: "('s \<Rightarrow> 'a res \<times> 's) \<Rightarrow> 's \<Rightarrow> 'a res \<Rightarrow> 's \<Rightarrow> bool" for f where
  succeeds: "f s = (Inr x, s') \<Longrightarrow> retried f s (Inr x) s'"
| again: "f s = (Err e, s1) \<Longrightarrow> retried f s1 r s' \<Longrightarrow> retried f s r s'"
| gives_up: "f s = (Err e, s') \<Longrightarrow> retried f s (Err e') s'"
| cancelled: "retried f s (Err e) s"
| unwinds: "f s = (Inl g, s') \<Longrightarrow> (\<And>e. g \<noteq> GoErr e) \<Longrightarrow> retried f s (Inl g) s'"

definition retry_ok :: "('s, 'a) retry \<Rightarrow> bool" where
  "retry_ok R \<longleftrightarrow> (\<forall>f s. retried f s (fst (R f s)) (snd (R f s)))"

lemma retry_okD: "retry_ok R \<Longrightarrow> R f s = (r, s') \<Longrightarrow> retried f s r s'"
  unfolding retry_ok_def by (metis fst_conv snd_conv)

text \<open>What every call keeps, the retries keep; a success is the success of some call.\<close>

lemma retried_state:
  "retried f s r s' \<Longrightarrow> P s \<Longrightarrow> (\<And>s. P s \<Longrightarrow> P (snd (f s))) \<Longrightarrow> P s'"
  by (induction rule: retried.induct) (metis snd_conv)+

lemma retried_Inr:
  assumes "retried f s r s'" "r = Inr x" "P s" "\<And>s. P s \<Longrightarrow> P (snd (f s))"
  shows "\<exists>s1. P s1 \<and> f s1 = (Inr x, s')"
  using assms by (induction rule: retried.induct) (auto, metis snd_conv)

lemma retried_fuel:
  "retried f s r s' \<Longrightarrow> (\<And>s. fst (f s) \<noteq> Inl OutOfFuel) \<Longrightarrow> r \<noteq> Inl OutOfFuel"
  by (induction rule: retried.induct) (auto, metis fst_conv)

text \<open>One implementation: at most \<open>Suc n\<close> attempts, the last error returned.\<close>

fun retry_attempts :: "nat \<Rightarrow> ('s, 'a) retry" where
  "retry_attempts 0 f s = f s"
| "retry_attempts (Suc n) f s =
     (case f s of
        (Inr x, s) \<Rightarrow> (Inr x, s)
      | (Inl (GoErr e), s) \<Rightarrow> retry_attempts n f s
      | (Inl g, s) \<Rightarrow> (Inl g, s))"

lemma retried_attempts: "retried f s (fst (retry_attempts n f s)) (snd (retry_attempts n f s))"
proof (induction n arbitrary: s)
  case 0
  obtain r s' where "f s = (r, s')" by fastforce
  then show ?case
    by (cases r; cases "projl r") (auto intro: retried.intros)
next
  case (Suc n)
  obtain r s' where f: "f s = (r, s')" by fastforce
  show ?case
  proof (cases r)
    case (Inr x)
    with f show ?thesis by (auto intro: retried.intros)
  next
    case (Inl g)
    with f Suc [of s'] show ?thesis by (cases g) (auto intro: retried.intros)
  qed
qed

lemma retry_attempts_ok: "retry_ok (retry_attempts n)"
  by (simp add: retry_ok_def retried_attempts)

end
