(* ===== verification/Runtime.thy ===== *)
theory Runtime
  imports Relay_Types Metrics Retry
begin

text \<open>
  The clock and the metrics as the components use them: \<open>start := time.Now()\<close>, and a metrics
  call with \<open>time.Since(start)\<close>. A frame predicate says what both leave alone.
\<close>

definition observe_since ::
  "('s, Metrics) runtime \<Rightarrow> (int \<Rightarrow> Metrics \<Rightarrow> Metrics) \<Rightarrow> int \<Rightarrow> 's \<Rightarrow> 's" where
  "observe_since R f start s = (case rt_now R s of (now, s) \<Rightarrow> rt_metrics R (f (now - start)) s)"

text \<open>\<open>P\<close> does not look at the clock, the metrics or the started goroutines.\<close>

definition rt_keeps :: "('s, Metrics) runtime \<Rightarrow> ('s \<Rightarrow> bool) \<Rightarrow> bool" where
  "rt_keeps R P \<longleftrightarrow> (\<forall>s. P s \<longrightarrow> P (snd (rt_now R s)) \<and> (\<forall>f. P (rt_metrics R f s)) \<and>
     (\<forall>p. P (rt_go_delayedTxStatusCheck R p s)))"

lemma rt_keepsD:
  assumes "rt_keeps R P" "P s"
  shows "P (snd (rt_now R s))" "rt_now R s = (t, s') \<Longrightarrow> P s'" "P (rt_metrics R f s)"
    "P (rt_go_delayedTxStatusCheck R p s)" "P (observe_since R g start s)"
proof -
  show 1: "P (snd (rt_now R s))" "P (rt_metrics R f s)" "P (rt_go_delayedTxStatusCheck R p s)"
    using assms by (auto simp: rt_keeps_def)
  show "rt_now R s = (t, s') \<Longrightarrow> P s'" using 1(1) by simp
  show "P (observe_since R g start s)"
    using assms 1(1) by (cases "rt_now R s") (auto simp: rt_keeps_def observe_since_def)
qed

end
