(* ===== verification/Registry.thy ===== *)
theory Registry
  imports Prelude
begin

text \<open>
  \<open>internal/registry/registry.go\<close>: the watch list of owner addresses and query ids.
\<close>

record RegistryConfig =
  Addresses :: "string list"
  QueryIDs :: "u64 list"

text \<open>
  A Go map to \<open>struct{}\<close> is the set of its keys, kept as the list of its distinct keys: one
  order among those in which an iteration over the map may visit them.
\<close>

record Registry =
  addresses :: "string list"
  queryIDs :: "u64 list"

definition set_add :: "'a list \<Rightarrow> 'a \<Rightarrow> 'a list" where
  "set_add xs x = (if x \<in> set xs then xs else xs @ [x])"

definition New :: "RegistryConfig \<Rightarrow> Registry" where
  "New cfg = \<lparr>addresses = foldl set_add [] (Addresses cfg), queryIDs = foldl set_add [] (QueryIDs cfg)\<rparr>"

definition IsAddressesEmpty :: "Registry \<Rightarrow> bool" where
  "IsAddressesEmpty r \<longleftrightarrow> length (addresses r) = 0"

definition IsQueryIDsEmpty :: "Registry \<Rightarrow> bool" where
  "IsQueryIDsEmpty r \<longleftrightarrow> length (queryIDs r) = 0"

definition ContainsAddress :: "Registry \<Rightarrow> string \<Rightarrow> bool" where
  "ContainsAddress r addr \<longleftrightarrow> addr \<in> set (addresses r)"

definition ContainsQueryID :: "Registry \<Rightarrow> u64 \<Rightarrow> bool" where
  "ContainsQueryID r queryID \<longleftrightarrow> queryID \<in> set (queryIDs r)"

definition GetAddresses :: "Registry \<Rightarrow> string list" where
  "GetAddresses r = foldl (\<lambda>out addr. out @ [addr]) [] (addresses r)"

lemma set_foldl_set_add: "set (foldl set_add acc xs) = set acc \<union> set xs"
  by (induction xs arbitrary: acc) (auto simp: set_add_def)

lemma distinct_foldl_set_add: "distinct acc \<Longrightarrow> distinct (foldl set_add acc xs)"
  by (induction xs arbitrary: acc) (auto simp: set_add_def)

lemma registry_New [simp]:
  "set (addresses (New cfg)) = set (Addresses cfg)" "set (queryIDs (New cfg)) = set (QueryIDs cfg)"
  "distinct (addresses (New cfg))" "distinct (queryIDs (New cfg))"
  by (simp_all add: New_def set_foldl_set_add distinct_foldl_set_add)

lemma GetAddresses_eq [simp]: "GetAddresses r = addresses r"
proof -
  have "foldl (\<lambda>out addr. out @ [addr]) acc xs = acc @ xs" for acc and xs :: "string list"
    by (induction xs arbitrary: acc) auto
  then show ?thesis by (simp add: GetAddresses_def)
qed

text \<open>An empty list watches everything, a non-empty one exactly what it names.\<close>

definition watches :: "'a list \<Rightarrow> 'a \<Rightarrow> bool" where
  "watches xs x \<longleftrightarrow> xs = [] \<or> x \<in> set xs"

lemma registry_watches:
  "IsAddressesEmpty (New cfg) \<or> ContainsAddress (New cfg) a \<longleftrightarrow> watches (Addresses cfg) a"
  "IsQueryIDsEmpty (New cfg) \<or> ContainsQueryID (New cfg) q \<longleftrightarrow> watches (QueryIDs cfg) q"
proof -
  have "addresses (New cfg) = [] \<longleftrightarrow> Addresses cfg = []" "queryIDs (New cfg) = [] \<longleftrightarrow> QueryIDs cfg = []"
    by (metis registry_New(1) set_empty2) (metis registry_New(2) set_empty2)
  then show
    "IsAddressesEmpty (New cfg) \<or> ContainsAddress (New cfg) a \<longleftrightarrow> watches (Addresses cfg) a"
    "IsQueryIDsEmpty (New cfg) \<or> ContainsQueryID (New cfg) q \<longleftrightarrow> watches (QueryIDs cfg) q"
    by (simp_all add: IsAddressesEmpty_def ContainsAddress_def IsQueryIDsEmpty_def ContainsQueryID_def watches_def)
qed

end
