(* ===== verification/Float64.thy ===== *)
theory Float64
  imports Complex_Main Strconv
begin

text \<open>
  Go's \<open>float64\<close>, IEEE 754 binary64, as far as the gas computations of the transaction sender
  use it: multiplication with rounding to nearest even, the order, the conversions from and to
  \<open>uint64\<close>, and \<open>strconv.FormatFloat(x, 'g', 4, 64)\<close>.
\<close>

section \<open>Representation\<close>

text \<open>\<open>Fin s m e\<close> is \<open>(-1)^s * m * 2^e\<close>.\<close>

datatype float64 = NaN | Inf bool | Fin bool nat int

fun bitlen :: "nat \<Rightarrow> nat" where
  "bitlen n = (if n = 0 then 0 else Suc (bitlen (n div 2)))"

declare bitlen.simps [simp del]

text \<open>\<open>m / 2^k\<close> rounded to the nearest integer, ties to even.\<close>

definition rne :: "nat \<Rightarrow> nat \<Rightarrow> nat" where
  "rne m k = (if k = 0 then m else
     let q = m div 2 ^ k; r = m mod 2 ^ k; h = 2 ^ (k - 1)
     in if r < h \<or> (r = h \<and> even q) then q else Suc q)"

text \<open>The nearest binary64 of \<open>(-1)^s * m * 2^e\<close>: 53 bits, exponents from -1074 to 971.\<close>

definition round64 :: "bool \<Rightarrow> nat \<Rightarrow> int \<Rightarrow> float64" where
  "round64 s m e =
     (if m = 0 then Fin s 0 0 else
      let k = max (int (bitlen m) - 53) (- 1074 - e);
          m' = (if k \<le> 0 then m * 2 ^ nat (- k) else rne m (nat k));
          (m'', e') = (if m' = 2 ^ 53 then (2 ^ 52, e + k + 1) else (m', e + k))
      in if e' > 971 then Inf s else Fin s m'' e')"

fun is_zero :: "float64 \<Rightarrow> bool" where
  "is_zero (Fin s m e) = (m = 0)"
| "is_zero _ = False"

fun float_neg :: "float64 \<Rightarrow> bool" where
  "float_neg (Fin s m e) = s"
| "float_neg (Inf s) = s"
| "float_neg NaN = False"

fun float_mul :: "float64 \<Rightarrow> float64 \<Rightarrow> float64" where
  "float_mul (Fin s m e) (Fin s' m' e') = round64 (s \<noteq> s') (m * m') (e + e')"
| "float_mul NaN y = NaN"
| "float_mul x NaN = NaN"
| "float_mul (Inf s) y = (if is_zero y then NaN else Inf (s \<noteq> float_neg y))"
| "float_mul x (Inf s) = (if is_zero x then NaN else Inf (s \<noteq> float_neg x))"

text \<open>\<open>scaled x e0\<close> is the finite value \<open>x\<close> in units of \<open>2^e0\<close>, for \<open>e0\<close> at most its exponent.\<close>

definition scaled :: "bool \<Rightarrow> nat \<Rightarrow> int \<Rightarrow> int \<Rightarrow> int" where
  "scaled s m e e0 = (if s then -1 else 1) * int m * 2 ^ nat (e - e0)"

text \<open>\<open>x > y\<close>; false when either is a NaN.\<close>

fun float_gt :: "float64 \<Rightarrow> float64 \<Rightarrow> bool" where
  "float_gt NaN y = False"
| "float_gt x NaN = False"
| "float_gt (Inf s) (Inf s') = (\<not> s \<and> s')"
| "float_gt (Inf s) (Fin s' m' e') = (\<not> s)"
| "float_gt (Fin s m e) (Inf s') = s'"
| "float_gt (Fin s m e) (Fin s' m' e') =
     (scaled s m e (min e e') > scaled s' m' e' (min e e'))"

text \<open>\<open>float64(n)\<close> of a \<open>uint64\<close>.\<close>

definition float_of_u64 :: "u64 \<Rightarrow> float64" where
  "float_of_u64 n = round64 False (unat n) 0"

text \<open>
  \<open>uint64(x)\<close> truncates towards zero; outside the range the Go specification leaves the
  result to the implementation, here \<open>conv\<close>.
\<close>

fun u64_of_float :: "(float64 \<Rightarrow> u64) \<Rightarrow> float64 \<Rightarrow> u64" where
  "u64_of_float conv (Fin s m e) =
     (let t = (if 0 \<le> e then m * 2 ^ nat e else m div 2 ^ nat (- e))
      in if (s \<and> t \<noteq> 0) \<or> 2 ^ 64 \<le> t then conv (Fin s m e) else word_of_nat t)"
| "u64_of_float conv x = conv x"

section \<open>\<open>FormatFloat(x, 'g', 4, 64)\<close>\<close>

text \<open>The quotient \<open>n / d\<close> rounded to the nearest integer, ties to even.\<close>

definition div_round :: "nat \<Rightarrow> nat \<Rightarrow> nat" where
  "div_round n d = (let q = n div d; r = n mod d
     in if 2 * r < d \<or> (2 * r = d \<and> even q) then q else Suc q)"

text \<open>
  \<open>dec_exp n d\<close> is the decimal point of \<open>n / d\<close>: \<open>10^(dp-1) <= n/d < 10^dp\<close>. A finite
  binary64 lies between \<open>10^-324\<close> and \<open>10^309\<close>, which bounds the search.
\<close>

fun dec_exp_up :: "nat \<Rightarrow> nat \<Rightarrow> nat \<Rightarrow> nat \<Rightarrow> nat" where
  "dec_exp_up 0 n d k = k"
| "dec_exp_up (Suc f) n d k = (if n < d * 10 ^ k then k else dec_exp_up f n d (Suc k))"

fun dec_exp_down :: "nat \<Rightarrow> nat \<Rightarrow> nat \<Rightarrow> nat \<Rightarrow> nat" where
  "dec_exp_down 0 n d k = k"
| "dec_exp_down (Suc f) n d k = (if n * 10 ^ Suc k < d then dec_exp_down f n d (Suc k) else k)"

definition dec_exp :: "nat \<Rightarrow> nat \<Rightarrow> int" where
  "dec_exp n d = (if d \<le> n then int (dec_exp_up 400 n d 0) else - int (dec_exp_down 400 n d 0))"

text \<open>The four significant digits (trailing zeros dropped) and the decimal point.\<close>

definition strip_zeros :: "string \<Rightarrow> string" where
  "strip_zeros s = rev (dropWhile (\<lambda>c. c = CHR ''0'') (rev s))"

definition decimal4 :: "nat \<Rightarrow> nat \<Rightarrow> string \<times> int" where
  "decimal4 n d =
     (let dp = dec_exp n d;
          v = (if dp \<le> 4 then div_round (n * 10 ^ nat (4 - dp)) d else div_round n (d * 10 ^ nat (dp - 4)));
          (v, dp) = (if v = 10000 then (1000, dp + 1) else (v, dp))
      in (strip_zeros (format_nat v), dp))"

definition nth_digit :: "string \<Rightarrow> int \<Rightarrow> char" where
  "nth_digit ds i = (if 0 \<le> i \<and> i < int (length ds) then ds ! nat i else CHR ''0'')"

text \<open>\<open>fmtE\<close> and \<open>fmtF\<close> of \<open>strconv/ftoa.go\<close>.\<close>

definition fmtE :: "string \<Rightarrow> int \<Rightarrow> nat \<Rightarrow> string" where
  "fmtE ds dp prec =
     nth_digit ds 0 # (if 0 < prec then CHR ''.'' # map (\<lambda>i. nth_digit ds (int i + 1)) [0..<prec] else []) @
     (let ex = (if ds = [] then 0 else dp - 1);
          t = format_nat (nat \<bar>ex\<bar>)
      in CHR ''e'' # (if ex < 0 then CHR ''-'' else CHR ''+'') # (if length t < 2 then CHR ''0'' # t else t))"

definition fmtF :: "string \<Rightarrow> int \<Rightarrow> nat \<Rightarrow> string" where
  "fmtF ds dp prec =
     (if 0 < dp then map (\<lambda>i. nth_digit ds (int i)) [0..<nat dp] else ''0'') @
     (if 0 < prec then CHR ''.'' # map (\<lambda>i. nth_digit ds (dp + int i)) [0..<prec] else [])"

definition format_g4 :: "string \<Rightarrow> int \<Rightarrow> string" where
  "format_g4 ds dp =
     (let nd = int (length ds);
          eprec = (if 4 > nd \<and> nd \<ge> dp then nd else 4);
          ex = dp - 1
      in if ex < -4 \<or> ex \<ge> eprec then fmtE ds dp (nat (min 4 nd - 1)) else fmtF ds dp (nat (max (nd - dp) 0)))"

fun FormatFloat_g4 :: "float64 \<Rightarrow> string" where
  "FormatFloat_g4 NaN = ''NaN''"
| "FormatFloat_g4 (Inf s) = (if s then ''-Inf'' else ''+Inf'')"
| "FormatFloat_g4 (Fin s m e) = (if s then ''-'' else []) @
     (case (if m = 0 then ([], 0)
            else if 0 \<le> e then decimal4 (m * 2 ^ nat e) 1 else decimal4 m (2 ^ nat (- e))) of
        (ds, dp) \<Rightarrow> format_g4 ds dp)"


section \<open>What the operations compute\<close>

fun float_val :: "float64 \<Rightarrow> real" where
  "float_val (Fin s m e) = (if s then -1 else 1) * real m * 2 powi e"
| "float_val _ = 0"

fun is_finite :: "float64 \<Rightarrow> bool" where
  "is_finite (Fin s m e) = True"
| "is_finite _ = False"

lemma scaled_val: "e0 \<le> e \<Longrightarrow> real_of_int (scaled s m e e0) * 2 powi e0 = float_val (Fin s m e)"
  by (simp add: scaled_def power_int_add [symmetric] flip: power_int_of_nat)

text \<open>The order of finite floats is the order of their values.\<close>

lemma float_gt_val:
  assumes "is_finite x" "is_finite y"
  shows "float_gt x y \<longleftrightarrow> float_val x > float_val y"
proof -
  obtain s m e s' m' e' where xy: "x = Fin s m e" "y = Fin s' m' e'"
    using assms by (metis is_finite.elims(2))
  let ?e = "min e e'"
  have "float_val x > float_val y \<longleftrightarrow>
      real_of_int (scaled s m e ?e) * 2 powi ?e > real_of_int (scaled s' m' e' ?e) * 2 powi ?e"
    using scaled_val [of ?e e s m] scaled_val [of ?e e' s' m'] xy by simp
  also have "\<dots> \<longleftrightarrow> scaled s m e ?e > scaled s' m' e' ?e" by simp
  finally show ?thesis by (simp add: xy)
qed

text \<open>Rounding moves a number by at most half a unit of the last place kept.\<close>

lemma rne_error: "\<bar>int (rne m k * 2 ^ k) - int m\<bar> * 2 \<le> 2 ^ k"
proof (cases k)
  case (Suc j)
  define q r where "q = m div 2 ^ k" and "r = m mod 2 ^ k"
  have m: "m = q * 2 ^ k + r" by (metis div_mult_mod_eq q_def r_def)
  have r: "r < 2 ^ k" by (simp add: r_def)
  have h: "(2::nat) ^ k = 2 * 2 ^ (k - 1)" by (simp add: Suc)
  have rne: "rne m k = (if r < 2 ^ (k - 1) \<or> (r = 2 ^ (k - 1) \<and> even q) then q else Suc q)"
    by (simp add: rne_def q_def r_def Suc Let_def)
  define p :: int where "p = 2 ^ (k - 1)"
  have p: "int (2 ^ k) = 2 * p" "int (2 ^ (k - 1)) = p" by (simp_all add: p_def h)
  show ?thesis
  proof (cases "r < 2 ^ (k - 1) \<or> (r = 2 ^ (k - 1) \<and> even q)")
    case True
    then have "int r \<le> p" using p(2) by linarith
    then show ?thesis using True m rne p by simp
  next
    case False
    then have "p \<le> int r" "int r < 2 * p" using p r by linarith+
    moreover have "rne m k = Suc q" using False rne by simp
    then have "int (rne m k * 2 ^ k) - int m = 2 * p - int r"
      using m p(1) by (simp add: algebra_simps)
    ultimately show ?thesis using p(1) by simp
  qed
qed (simp add: rne_def)


text \<open>
  A product is rounded correctly: a finite result is within half a unit in the last place of
  the exact product, and exact when the product needs at most 53 bits.
\<close>

definition ulp_exp :: "nat \<Rightarrow> int \<Rightarrow> int" where
  "ulp_exp m e = max (int (bitlen m) - 53) (- 1074 - e)"

lemma round64_error:
  assumes "m \<noteq> 0" "is_finite (round64 s m e)"
  shows "\<bar>float_val (round64 s m e) - float_val (Fin s m e)\<bar> * 2 \<le>
    (if ulp_exp m e \<le> 0 then 0 else 2 powi (e + ulp_exp m e))"
proof -
  define k where "k = ulp_exp m e"
  define m' where "m' = (if k \<le> 0 then m * 2 ^ nat (- k) else rne m (nat k))"
  have "float_val (round64 s m e) = (if s then -1 else 1) * real m' * 2 powi (e + k)"
    using assms
    by (auto simp: round64_def Let_def k_def [symmetric, unfolded ulp_exp_def] m'_def [symmetric]
        power_int_add split: if_splits)
  moreover have "\<bar>real m' * 2 powi (e + k) - real m * 2 powi e\<bar> * 2 \<le> (if k \<le> 0 then 0 else 2 powi (e + k))"
  proof (cases "k \<le> 0")
    case True
    then have "real m' * 2 powi (e + k) = real m * 2 powi e"
      by (simp add: m'_def power_int_add [symmetric] flip: power_int_of_nat)
    with True show ?thesis by simp
  next
    case False
    have "real_of_int (\<bar>int (rne m (nat k) * 2 ^ nat k) - int m\<bar> * 2) \<le> real_of_int (2 ^ nat k)"
      by (simp only: of_int_le_iff rne_error)
    then have "\<bar>real m' * 2 powi k - real m\<bar> * 2 \<le> 2 powi k"
      using False by (simp add: m'_def flip: power_int_of_nat)
    then have "\<bar>real m' * 2 powi k - real m\<bar> * 2 * 2 powi e \<le> 2 powi k * 2 powi e"
      by (rule mult_right_mono) simp
    moreover have "\<bar>real m' * 2 powi (e + k) - real m * 2 powi e\<bar> = \<bar>real m' * 2 powi k - real m\<bar> * 2 powi e"
    proof -
      have "real m' * 2 powi (e + k) - real m * 2 powi e = (real m' * 2 powi k - real m) * 2 powi e"
        by (simp add: power_int_add algebra_simps)
      then show ?thesis by (simp add: abs_mult)
    qed
    ultimately show ?thesis using False by (simp add: power_int_add mult.commute)
  qed
  ultimately show ?thesis by (auto simp: k_def abs_minus_commute)
qed

end
