(* ===== verification/Config.thy ===== *)
theory Config
  imports Registry Float64
begin

text \<open>
  \<open>internal/config/config.go\<close>: the configuration of the application, read from the
  environment by the package \<open>envconfig\<close> (a parameter). Durations are nanoseconds.
\<close>

definition EnvPrefix :: string where
  "EnvPrefix = ''RELAYER''"

record NeutronChainConfig =
  nc_RPCAddr :: string
  nc_RESTAddr :: string
  nc_HomeDir :: string
  nc_SignKeyName :: string
  nc_Timeout :: int
  nc_GasPrices :: string
  nc_GasLimit :: u64
  nc_GasAdjustment :: float64
  nc_ConnectionID :: string
  nc_Debug :: bool
  nc_KeyringBackend :: string
  nc_OutputFormat :: string
  nc_SignModeStr :: string
  nc_Denom :: string
  nc_MaxGasPrice :: float64
  nc_GasPriceMultiplier :: float64

record TargetChainConfig =
  tc_RPCAddr :: string
  tc_Timeout :: int
  tc_Debug :: bool
  tc_OutputFormat :: string

record NeutronQueryRelayerConfig =
  NeutronChain :: NeutronChainConfig
  TargetChain :: TargetChainConfig
  RegistryCfg :: RegistryConfig
  AllowTxQueries :: bool
  AllowKVCallbacks :: bool
  MinKvUpdatePeriod :: u64
  StoragePath :: string
  CheckSubmittedTxStatusDelay :: int
  QueriesTaskQueueCapacity :: int
  InitialTxSearchOffset :: u64
  ListenAddr :: string
  IgnoreErrorsRegex :: string

definition NewNeutronQueryRelayerConfig ::
  "(string \<Rightarrow> NeutronQueryRelayerConfig res) \<Rightarrow> NeutronQueryRelayerConfig res" where
  "NewNeutronQueryRelayerConfig process =
     res_try (process EnvPrefix) ''could not read config from env'' (\<lambda>cfg. Ok cfg)"

text \<open>The default of \<open>IgnoreErrorsRegex\<close>, and what its compiled form matches: either literal.\<close>

definition default_IgnoreErrorsRegex :: string where
  "default_IgnoreErrorsRegex = ''(execute wasm contract failed|failed to build tx query string)''"

definition default_ignores :: "string \<Rightarrow> bool" where
  "default_ignores msg \<longleftrightarrow> str_contains msg ''execute wasm contract failed'' \<or>
     str_contains msg ''failed to build tx query string''"

end
