(* ===== verification/Tx_Processor.thy ===== *)
theory Tx_Processor
  imports Storage_Spec Runtime Config
begin

text \<open>
  \<open>internal/txprocessor/txprocessor.go\<close>: submits one remote transaction with its headers and
  records the outcome in the storage. The theory states the contract of \<open>relay.TXProcessor\<close> as
  a locale extending the storage's and shows that this processor meets it.
\<close>

section \<open>The processor\<close>

text \<open>
  \<open>tmhash\<close> is \<open>tmtypes.Tx.Hash\<close>, \<open>pack\<close> is \<open>clienttypes.PackClientMessage\<close>;
  \<open>ignoreErrors\<close> is \<open>MatchString\<close> of the compiled \<open>ignoreErrorsRegexp\<close>.
\<close>

record ('s, 'r, 'x, 'y, 'm) TXProcessorSrv =
  txp_trustedHeaderFetcher :: "('s, 'x) TrustedHeaderFetcher"
  txp_storage :: "('s, 'r) Storage"
  txp_submitter :: "('s, 'r, 'y, 'm) Submitter"
  txp_runtime :: "('s, Metrics) runtime"
  ignoreErrors :: "string \<Rightarrow> bool"
  tmhash :: "bytes \<Rightarrow> bytes"
  pack :: "'x tm_Header \<Rightarrow> 'y res"

text \<open>\<open>regexp.MustCompile\<close> panics on a pattern that does not compile.\<close>

definition NewTxProcessor ::
  "('s, 'x) TrustedHeaderFetcher \<Rightarrow> ('s, 'r) Storage \<Rightarrow> ('s, 'r, 'y, 'm) Submitter \<Rightarrow>
   ('s, Metrics) runtime \<Rightarrow> (string \<Rightarrow> (string \<Rightarrow> bool) option) \<Rightarrow> string \<Rightarrow> (bytes \<Rightarrow> bytes) \<Rightarrow>
   ('x tm_Header \<Rightarrow> 'y res) \<Rightarrow> ('s, 'r, 'x, 'y, 'm) TXProcessorSrv res" where
  "NewTxProcessor fetcher st sb R compile ignoreErrorsRegexp th pk =
     (case compile ignoreErrorsRegexp of
        None \<Rightarrow> Panic ''regexp: Compile''
      | Some rx \<Rightarrow> Ok \<lparr>txp_trustedHeaderFetcher = fetcher, txp_storage = st, txp_submitter = sb,
          txp_runtime = R, ignoreErrors = rx, tmhash = th, pack = pk\<rparr>)"

definition getTrustedHeader ::
  "('s, 'r, 'x, 'y, 'm) TXProcessorSrv \<Rightarrow> u64 \<Rightarrow> 's \<Rightarrow> 'y res \<times> 's" where
  "getTrustedHeader r height s =
     go_try (hf_Fetch (txp_trustedHeaderFetcher r) height s) ''failed to get header with trusted height'' (\<lambda>header s.
     go_try (pack r header, s) ''failed to pack header'' (\<lambda>packedHeader s. (Ok packedHeader, s)))"

definition prepareHeaders ::
  "('s, 'r, 'x, 'y, 'm) TXProcessorSrv \<Rightarrow> 'r Transaction \<Rightarrow> 's \<Rightarrow> ('y \<times> 'y) res \<times> 's" where
  "prepareHeaders r txStruct s =
     go_try (getTrustedHeader r (Height txStruct) s) ''failed to get header with trusted height'' (\<lambda>packedHeader s.
     go_try (getTrustedHeader r (Height txStruct + 1) s) ''failed to get next header with trusted height''
       (\<lambda>packedNextHeader s. (Ok (packedHeader, packedNextHeader), s)))"

definition txToBlock ::
  "('s, 'r, 'x, 'y, 'm) TXProcessorSrv \<Rightarrow> 'r Transaction \<Rightarrow> 's \<Rightarrow> ('r, 'y) Block res \<times> 's" where
  "txToBlock r tx s =
     go_try (prepareHeaders r tx s) ''failed to prepare headers'' (\<lambda>(packedHeader, packedNextHeader) s.
       (Ok \<lparr>Header = packedHeader, NextBlockHeader = packedNextHeader, BlockTx = Tx tx\<rparr>, s))"

definition processSuccessfulTxSubmission ::
  "('s, 'r, 'x, 'y, 'm) TXProcessorSrv \<Rightarrow> u64 \<Rightarrow> string \<Rightarrow> string \<Rightarrow> 'r Transaction \<Rightarrow> int \<Rightarrow> 's \<Rightarrow>
   unit res \<times> 's" where
  "processSuccessfulTxSubmission r queryID hash neutronTxHash tx proofStart s =
     (let s = observe_since (txp_runtime r) (AddSuccessProof InterchainQueryTypeTX) proofStart s in
      go_try (st_SetTxStatus (txp_storage r) queryID hash neutronTxHash
          \<lparr>ti_Status = Submitted, ti_Message = []\<rparr> (Some tx) s)
        ''failed to store tx submit status'' (\<lambda>_ s.
      (Ok (), rt_go_delayedTxStatusCheck (txp_runtime r)
        \<lparr>pd_QueryID = queryID, pd_SubmittedTxHash = hash, pd_NeutronHash = neutronTxHash\<rparr> s)))"

definition processFailedTxSubmission ::
  "('s, 'r, 'x, 'y, 'm) TXProcessorSrv \<Rightarrow> goerr \<Rightarrow> u64 \<Rightarrow> string \<Rightarrow> string \<Rightarrow> 'r Transaction \<Rightarrow> int \<Rightarrow> 's \<Rightarrow>
   unit res \<times> 's" where
  "processFailedTxSubmission r err queryID hash neutronTxHash tx proofStart s =
     (let s = observe_since (txp_runtime r) (AddFailedProof InterchainQueryTypeTX) proofStart s in
      if \<not> ignoreErrors r (err_text err) then (Err (ErrCritical err), s)
      else go_try (st_SetTxStatus (txp_storage r) queryID hash neutronTxHash
          \<lparr>ti_Status = ErrorOnSubmit, ti_Message = err_text err\<rparr> (Some tx) s)
        ''failed to store tx submit status'' (\<lambda>_ s. (Ok (), s)))"

text \<open>\<open>block.Tx.Data\<close> dereferences a pointer; the submitter returns the empty hash with an error.\<close>

definition submitTxWithProofs ::
  "('s, 'r, 'x, 'y, 'm) TXProcessorSrv \<Rightarrow> u64 \<Rightarrow> u64 \<Rightarrow> ('r, 'y) Block \<Rightarrow> 's \<Rightarrow> unit res \<times> 's" where
  "submitTxWithProofs r queryID txHeight block s =
     (case rt_now (txp_runtime r) s of (proofStart, s) \<Rightarrow>
      (case BlockTx block of
         None \<Rightarrow> (Panic ''nil pointer dereference'', s)
       | Some v \<Rightarrow>
           (let hash = hex_encode (tmhash r (Data v));
                processedTx = \<lparr>Tx = BlockTx block, Height = txHeight\<rparr>
            in case sb_SubmitTxProof (txp_submitter r) queryID block s of
                 (Inl (GoErr err), s) \<Rightarrow> processFailedTxSubmission r err queryID hash [] processedTx proofStart s
               | (Inl f, s) \<Rightarrow> (Inl f, s)
               | (Inr neutronTxHash, s) \<Rightarrow>
                   processSuccessfulTxSubmission r queryID hash neutronTxHash processedTx proofStart s)))"

definition ProcessAndSubmit ::
  "('s, 'r, 'x, 'y, 'm) TXProcessorSrv \<Rightarrow> u64 \<Rightarrow> 'r Transaction \<Rightarrow> 's \<Rightarrow> unit res \<times> 's" where
  "ProcessAndSubmit r queryID tx s =
     go_try (txToBlock r tx s) ''failed to prepare block'' (\<lambda>block s.
     go_try (submitTxWithProofs r queryID (Height tx) block s) ''failed to submit block'' (\<lambda>_ s. (Ok (), s)))"

text \<open>
  The goroutine that \<open>rt_go_delayedTxStatusCheck\<close> starts: it waits for the timer or for the
  end of the context (\<open>fired\<close> tells which came first) and then queues the transaction or not.
\<close>

definition delayedTxStatusCheck ::
  "PendingSubmittedTxInfo \<Rightarrow> bool \<Rightarrow> PendingSubmittedTxInfo list \<Rightarrow> PendingSubmittedTxInfo list" where
  "delayedTxStatusCheck tx fired queue =
     (if fired then queue @ [\<lparr>pd_QueryID = pd_QueryID tx, pd_SubmittedTxHash = pd_SubmittedTxHash tx,
        pd_NeutronHash = pd_NeutronHash tx\<rparr>] else queue)"

definition TXProcessorOf :: "('s, 'r, 'x, 'y, 'm) TXProcessorSrv \<Rightarrow> ('s, 'r) TXProcessor" where
  "TXProcessorOf r = \<lparr>tp_ProcessAndSubmit = ProcessAndSubmit r\<rparr>"

section \<open>The contract of a transaction processor\<close>

text \<open>
  \<open>hash_of t\<close> is the hash under which the transaction \<open>t\<close> is known. Processing without error
  leaves a status for it, processing with an error leaves the store as it was; no height moves.
\<close>

locale tx_processor = relay_storage st ok store storable
  for st :: "('s, 'r) Storage" and ok :: "'s \<Rightarrow> bool" and store :: "'s \<Rightarrow> 'r tx_store"
    and storable :: "'r Transaction option \<Rightarrow> bool" +
  fixes tp :: "('s, 'r) TXProcessor"
    and hash_of :: "'r Transaction \<Rightarrow> string"
  assumes process: "ok s \<Longrightarrow> storable (Some t) \<Longrightarrow> Tx t \<noteq> None \<Longrightarrow>
      tp_ProcessAndSubmit tp q t s = (rp, s') \<Longrightarrow> ok s' \<and>
      (case rp of Inl _ \<Rightarrow> store s' = store s
       | Inr _ \<Rightarrow> \<exists>n ti now. ti_Status ti \<in> {Submitted, ErrorOnSubmit} \<and>
           store s' = spec_SetTxStatus q (hash_of t) n ti (Some t) now (store s))"
    and hash_of_ok: "ok s \<Longrightarrow> Tx t \<noteq> None \<Longrightarrow> is_txhash (hash_of t)"
begin

lemma process_ok:
  assumes "ok s" "storable (Some t)" "Tx t \<noteq> None" "tp_ProcessAndSubmit tp q t s = (rp, s')"
  shows "ok s'" "heights (store s') = heights (store s)"
    and "statuses (store s) k \<noteq> None \<Longrightarrow> statuses (store s') k \<noteq> None"
    and "rp = Inr u \<Longrightarrow> statuses (store s') (q, hash_of t) \<noteq> None"
    and "rp = Inl f \<Longrightarrow> store s' = store s"
  using process [OF assms] by (cases rp; auto simp: spec_SetTxStatus_def)+

end


section \<open>This processor meets it\<close>

definition tx_hash_of :: "('s, 'r, 'x, 'y, 'm) TXProcessorSrv \<Rightarrow> 'r Transaction \<Rightarrow> string" where
  "tx_hash_of r t = (case Tx t of None \<Rightarrow> [] | Some v \<Rightarrow> hex_encode (tmhash r (Data v)))"

text \<open>What the processor's other collaborators leave alone: the predicate \<open>P\<close>.\<close>

definition txp_keeps :: "('s, 'r, 'x, 'y, 'm) TXProcessorSrv \<Rightarrow> ('s \<Rightarrow> bool) \<Rightarrow> bool" where
  "txp_keeps r P \<longleftrightarrow>
     (\<forall>h s. P s \<longrightarrow> P (snd (hf_Fetch (txp_trustedHeaderFetcher r) h s))) \<and>
     (\<forall>q b s. P s \<longrightarrow> P (snd (sb_SubmitTxProof (txp_submitter r) q b s))) \<and>
     rt_keeps (txp_runtime r) P"

lemma txp_keepsD:
  assumes "txp_keeps r P" "P s"
  shows "P (snd (hf_Fetch (txp_trustedHeaderFetcher r) h s))"
    "P (snd (sb_SubmitTxProof (txp_submitter r) q b s))" "rt_keeps (txp_runtime r) P"
  using assms by (auto simp: txp_keeps_def)

lemma getTrustedHeader_keeps:
  assumes "txp_keeps r P" "P s"
  shows "P (snd (getTrustedHeader r h s))"
  unfolding getTrustedHeader_def
  by (rule go_try_state [where P = P], rule txp_keepsD(1) [OF assms], rule go_try_state [where P = P]) simp_all

lemma txToBlock_keeps:
  assumes "txp_keeps r P" "P s"
  shows "P (snd (txToBlock r tx s))"
proof -
  have "P (snd (prepareHeaders r tx s))"
    unfolding prepareHeaders_def
    by (rule go_try_state [where P = P], rule getTrustedHeader_keeps [OF assms], rule go_try_state [where P = P],
        rule getTrustedHeader_keeps [OF assms(1)]) simp_all
  then show ?thesis
    unfolding txToBlock_def by (rule go_try_state [where P = P]) (simp split: prod.splits)
qed

lemma txToBlock_Tx: "txToBlock r tx s = (Inr b, s') \<Longrightarrow> BlockTx b = Tx tx"
  by (auto simp: txToBlock_def res_success split: prod.splits)

context relay_storage
begin

text \<open>One status write, seen from the processor: the outcome and the store it leaves.\<close>

lemma status_write:
  assumes "ok s" "is_txhash h" "storable (Some t)"
    and "go_try (st_SetTxStatus st q h n ti (Some t) s) p (\<lambda>_ s. (Ok (), g s)) = (r, s')"
    and "\<And>s. ok s \<Longrightarrow> ok (g s) \<and> store (g s) = store s"
  shows "ok s' \<and> (case r of Inl _ \<Rightarrow> store s' = store s
    | Inr _ \<Rightarrow> \<exists>now. store s' = spec_SetTxStatus q h n ti (Some t) now (store s))"
proof -
  obtain r1 s1 where 1: "st_SetTxStatus st q h n ti (Some t) s = (r1, s1)" by fastforce
  from set_status [OF assms(1-3) 1] assms(4,5) 1 show ?thesis by (cases r1) auto
qed

lemma submit_meets_contract:
  assumes r: "txp_storage r = st" "\<And>S. txp_keeps r (\<lambda>s. ok s \<and> store s = S)"
    and s: "ok s" "storable (Some \<lparr>Tx = Some v, Height = h\<rparr>)" "is_txhash (hex_encode (tmhash r (Data v)))"
    and b: "BlockTx b = Some v" and run: "submitTxWithProofs r q h b s = (res, s')"
  shows "ok s' \<and> (case res of Inl _ \<Rightarrow> store s' = store s
    | Inr _ \<Rightarrow> \<exists>n ti now. ti_Status ti \<in> {Submitted, ErrorOnSubmit} \<and> store s' =
        spec_SetTxStatus q (hex_encode (tmhash r (Data v))) n ti (Some \<lparr>Tx = Some v, Height = h\<rparr>) now (store s))"
proof -
  define K where "K = (\<lambda>s1. ok s1 \<and> store s1 = store s)"
  have K: "K s" and keeps: "txp_keeps r K" using s r(2) by (simp_all add: K_def)
  have rt: "rt_keeps (txp_runtime r) K" using txp_keepsD(3) [OF keeps K] .
  have rt': "\<And>S. rt_keeps (txp_runtime r) (\<lambda>s. ok s \<and> store s = S)" using r(2) by (simp add: txp_keeps_def)
  obtain start s1 where s1: "rt_now (txp_runtime r) s = (start, s1)" by fastforce
  with rt_keepsD(2) [OF rt K] have K1: "K s1" by blast
  obtain sub s2 where s2: "sb_SubmitTxProof (txp_submitter r) q b s1 = (sub, s2)" by fastforce
  with txp_keepsD(2) [OF keeps K1, of q b] have K2: "K s2" by simp
  have obs: "K (observe_since (txp_runtime r) f start s2)" for f
    using rt_keepsD(5) [OF rt K2] .
  have wrote: "ok sz \<and> (case res of Inl _ \<Rightarrow> store sz = store s
      | Inr _ \<Rightarrow> \<exists>n ti now. ti_Status ti \<in> {Submitted, ErrorOnSubmit} \<and>
          store sz = spec_SetTxStatus q (hex_encode (tmhash r (Data v))) n ti
          (Some \<lparr>Tx = Some v, Height = h\<rparr>) now (store s))"
    if "K s0" "ti_Status ti \<in> {Submitted, ErrorOnSubmit}" "go_try (st_SetTxStatus st q (hex_encode (tmhash r (Data v))) n ti
      (Some \<lparr>Tx = Some v, Height = h\<rparr>) s0) p (\<lambda>_ s. (Ok (), g s)) = (res, sz)"
      "\<And>s. ok s \<Longrightarrow> ok (g s) \<and> store (g s) = store s" for s0 sz n ti p and g and res :: "unit res"
    using status_write [OF _ s(3,2) that(3,4)] that(1,2) by (cases res) (simp_all add: K_def, blast)
  have go: "ok (rt_go_delayedTxStatusCheck (txp_runtime r) p s) \<and>
      store (rt_go_delayedTxStatusCheck (txp_runtime r) p s) = store s" if "ok s" for p s
    using rt_keepsD(4) [OF rt' [of "store s"], of s p] that by simp
  show ?thesis
  proof (cases sub)
    case (Inr n)
    with run b s1 s2 r(1) have "go_try (st_SetTxStatus st q (hex_encode (tmhash r (Data v))) n
        \<lparr>ti_Status = Submitted, ti_Message = []\<rparr> (Some \<lparr>Tx = Some v, Height = h\<rparr>)
        (observe_since (txp_runtime r) (AddSuccessProof InterchainQueryTypeTX) start s2))
        ''failed to store tx submit status'' (\<lambda>_ s. (Ok (), rt_go_delayedTxStatusCheck (txp_runtime r)
        \<lparr>pd_QueryID = q, pd_SubmittedTxHash = hex_encode (tmhash r (Data v)), pd_NeutronHash = n\<rparr> s)) = (res, s')"
      by (simp add: submitTxWithProofs_def processSuccessfulTxSubmission_def Let_def)
    from wrote [OF obs _ this go] show ?thesis by simp
  next
    case (Inl f)
    show ?thesis
    proof (cases "\<exists>e. f = GoErr e \<and> ignoreErrors r (err_text e)")
      case True
      then obtain e where e: "f = GoErr e" "ignoreErrors r (err_text e)" by blast
      with Inl run b s1 s2 r(1) have "go_try (st_SetTxStatus st q (hex_encode (tmhash r (Data v))) []
          \<lparr>ti_Status = ErrorOnSubmit, ti_Message = err_text e\<rparr> (Some \<lparr>Tx = Some v, Height = h\<rparr>)
          (observe_since (txp_runtime r) (AddFailedProof InterchainQueryTypeTX) start s2))
          ''failed to store tx submit status'' (\<lambda>_ s. (Ok (), id s)) = (res, s')"
        by (simp add: submitTxWithProofs_def processFailedTxSubmission_def Let_def)
      from wrote [OF obs _ this] show ?thesis by simp
    next
      case False
      with Inl run b s1 s2 have "\<exists>f'. res = Inl f'" and "s' = s2 \<or> s' = observe_since (txp_runtime r) (AddFailedProof InterchainQueryTypeTX) start s2"
        by (cases f; auto simp: submitTxWithProofs_def processFailedTxSubmission_def Let_def)+
      with obs K2 show ?thesis by (auto simp: K_def)
    qed
  qed
qed

lemma process_meets_contract:
  assumes r: "txp_storage r = st" "\<And>S. txp_keeps r (\<lambda>s. ok s \<and> store s = S)"
    and s: "ok s" "storable (Some t)" "Tx t = Some v" "is_txhash (tx_hash_of r t)"
    and run: "ProcessAndSubmit r q t s = (res, s')"
  shows "ok s' \<and> (case res of Inl _ \<Rightarrow> store s' = store s
    | Inr _ \<Rightarrow> \<exists>n ti now. ti_Status ti \<in> {Submitted, ErrorOnSubmit} \<and>
        store s' = spec_SetTxStatus q (tx_hash_of r t) n ti (Some t) now (store s))"
proof -
  define K where "K = (\<lambda>s1. ok s1 \<and> store s1 = store s)"
  obtain blk s1 where s1: "txToBlock r t s = (blk, s1)" by fastforce
  have "K s" using s(1) by (simp add: K_def)
  moreover have "txp_keeps r K" using r(2) by (simp add: K_def)
  ultimately have K1: "K s1" using txToBlock_keeps [of r K s t] s1 by simp
  show ?thesis
  proof (cases blk)
    case (Inl f)
    with run s1 K1 show ?thesis by (auto simp: ProcessAndSubmit_def K_def)
  next
    case (Inr b)
    with s1 s(3) have b: "BlockTx b = Some v" by (simp add: txToBlock_Tx)
    have t: "t = \<lparr>Tx = Some v, Height = Height t\<rparr>" using s(3) by (cases t) simp
    obtain sub s2 where s2: "submitTxWithProofs r q (Height t) b s1 = (sub, s2)" by fastforce
    have h: "tx_hash_of r t = hex_encode (tmhash r (Data v))" using s(3) by (simp add: tx_hash_of_def)
    from K1 have K1': "ok s1" "store s1 = store s" by (simp_all add: K_def)
    from s(2,4) t h have "storable (Some \<lparr>Tx = Some v, Height = Height t\<rparr>)"
      "is_txhash (hex_encode (tmhash r (Data v)))" by simp_all
    from submit_meets_contract [OF r K1'(1) this b s2, folded t h, unfolded K1'(2)]
    have "ok s2 \<and> (case sub of Inl _ \<Rightarrow> store s2 = store s
      | Inr _ \<Rightarrow> \<exists>n ti now. ti_Status ti \<in> {Submitted, ErrorOnSubmit} \<and>
          store s2 = spec_SetTxStatus q (tx_hash_of r t) n ti (Some t) now (store s))" .
    with run s1 s2 Inr show ?thesis by (cases sub) (auto simp: ProcessAndSubmit_def)
  qed
qed

end

text \<open>
  On the LevelDB storage: the processor uses it, its hash function yields 32 bytes, and its
  other collaborators do not touch the database.
\<close>

definition txp_deps_ok where
  "txp_deps_ok L C get put clk r \<longleftrightarrow>
     txp_storage r = LevelDBStorage L C get put clk \<and>
     (\<forall>b. length (tmhash r b) = 32) \<and>
     (\<forall>d. txp_keeps r (\<lambda>s. get s = d))"

definition txp_ok where
  "txp_ok L C V W get put clk r s \<longleftrightarrow>
     leveldb_storage_ok L C V W get put clk s \<and> txp_deps_ok L C get put clk r"

lemma txp_keeps_part:
  assumes "\<forall>d. txp_keeps r (\<lambda>s. get s = d)"
  shows "txp_keeps r (\<lambda>s. Q (get s))"
  using assms unfolding txp_keeps_def rt_keeps_def by (intro conjI allI impI) metis+

lemma relay_storage_const:
  assumes "relay_storage st ok store storable"
  shows "relay_storage st (\<lambda>s. ok s \<and> Q) store storable"
proof (cases Q)
  case True
  with assms show ?thesis by simp
next
  case False
  with relay_storage.storable_None [OF assms] show ?thesis by unfold_locales simp_all
qed

lemma leveldb_txp_storage:
  "relay_storage (LevelDBStorage L C get put clk) (txp_ok L C V W get put clk r)
     (\<lambda>s. store_of C (V (get s))) (tx_storable C)"
  unfolding txp_ok_def by (rule relay_storage_const [OF leveldb.relay_storage_axioms])

lemma txp_ok_keeps:
  assumes deps: "txp_deps_ok L C get put clk r"
  shows "txp_keeps r (\<lambda>s. txp_ok L C V W get put clk r s \<and> store_of C (V (get s)) = S)"
  using deps txp_keeps_part [of r get "\<lambda>d. leveldb_ok L V W \<and> part_ok get put \<and> clock_ok get clk \<and> db_wf C (V d)
      \<and> store_of C (V d) = S"]
  by (simp add: txp_deps_ok_def txp_ok_def leveldb_storage_ok_def conj_ac)

interpretation leveldb_txp: tx_processor
  "LevelDBStorage L C get put clk" "txp_ok L C V W get put clk r" "\<lambda>s. store_of C (V (get s))" "tx_storable C"
  "TXProcessorOf r" "tx_hash_of r"
  for L :: "('d, 't) leveldb" and C :: "'r txcodec" and V W and get :: "'s \<Rightarrow> 'd" and put clk r
proof (intro tx_processor.intro tx_processor_axioms.intro leveldb_txp_storage, goal_cases)
  case (1 s t q res s')
  then obtain v where v: "Tx t = Some v" by blast
  have deps: "txp_deps_ok L C get put clk r" using 1 by (simp add: txp_ok_def)
  have "txp_keeps r (\<lambda>s. txp_ok L C V W get put clk r s \<and> store_of C (V (get s)) = S)" for S
    by (rule txp_ok_keeps [OF deps])
  moreover have "is_txhash (tx_hash_of r t)" using deps v by (simp add: tx_hash_of_def txp_deps_ok_def)
  ultimately show ?case
    using relay_storage.process_meets_contract [OF leveldb_txp_storage, of r L C get put clk V W r s t v q res s']
      1 v deps
    by (simp add: TXProcessorOf_def txp_deps_ok_def)
next
  case (2 s t)
  then show ?case by (auto simp: txp_ok_def txp_deps_ok_def tx_hash_of_def)
qed

section \<open>What success and failure say\<close>

context relay_storage
begin

text \<open>
  A successful call submitted the transaction once. Either the submitter answered with the
  Neutron hash \<open>n\<close>, the transaction is recorded as submitted under it and a delayed check of
  exactly it was started, or the submitter's error is one of the ignored ones and is recorded.
\<close>

lemma process_success:
  assumes r: "txp_storage r = st" "\<And>S. txp_keeps r (\<lambda>s. ok s \<and> store s = S)"
    and s: "ok s" "storable (Some t)" "Tx t \<noteq> None" "is_txhash (tx_hash_of r t)"
    and run: "ProcessAndSubmit r q t s = (Inr u, s')"
  shows "\<exists>blk s1 s2 now. BlockTx blk = Tx t \<and>
    ((\<exists>n s3. sb_SubmitTxProof (txp_submitter r) q blk s1 = (Inr n, s2) \<and>
        store s3 = spec_SetTxStatus q (tx_hash_of r t) n \<lparr>ti_Status = Submitted, ti_Message = []\<rparr> (Some t) now (store s) \<and>
        s' = rt_go_delayedTxStatusCheck (txp_runtime r)
          \<lparr>pd_QueryID = q, pd_SubmittedTxHash = tx_hash_of r t, pd_NeutronHash = n\<rparr> s3) \<or>
     (\<exists>e. sb_SubmitTxProof (txp_submitter r) q blk s1 = (Err e, s2) \<and> ignoreErrors r (err_text e) \<and>
        store s' = spec_SetTxStatus q (tx_hash_of r t) [] \<lparr>ti_Status = ErrorOnSubmit, ti_Message = err_text e\<rparr>
          (Some t) now (store s)))"
proof -
  define K where "K = (\<lambda>s1. ok s1 \<and> store s1 = store s)"
  from s(3) obtain v where v: "Tx t = Some v" by blast
  have t: "\<lparr>Tx = Some v, Height = Height t\<rparr> = t" using v by (cases t) simp
  have h: "hex_encode (tmhash r (Data v)) = tx_hash_of r t" using v by (simp add: tx_hash_of_def)
  have keeps: "txp_keeps r K" using r(2) by (simp add: K_def)
  have K: "K s" using s(1) by (simp add: K_def)
  have rt: "rt_keeps (txp_runtime r) K" using txp_keepsD(3) [OF keeps K] .
  from run obtain blk s0 where blk: "txToBlock r t s = (Inr blk, s0)"
    and sub: "submitTxWithProofs r q (Height t) blk s0 = (Inr (), s')"
    by (auto simp: ProcessAndSubmit_def res_success)
  from txToBlock_keeps [OF keeps K, of t] blk have K0: "K s0" by simp
  have b: "BlockTx blk = Some v" using txToBlock_Tx [OF blk] v by simp
  obtain start s1 where s1: "rt_now (txp_runtime r) s0 = (start, s1)" by fastforce
  with rt_keepsD(2) [OF rt K0] have K1: "K s1" by blast
  obtain a s2 where a: "sb_SubmitTxProof (txp_submitter r) q blk s1 = (a, s2)" by fastforce
  with txp_keepsD(2) [OF keeps K1, of q blk] have K2: "K s2" by simp
  have obs: "K (observe_since (txp_runtime r) f start s2)" for f
    using rt_keepsD(5) [OF rt K2] .
  have wrote: "\<exists>now. store s4 = spec_SetTxStatus q (tx_hash_of r t) n ti (Some t) now (store s)"
    if "K s3" "st_SetTxStatus st q (tx_hash_of r t) n ti (Some t) s3 = (Inr u', s4)" for s3 s4 n ti u'
    using set_status [OF _ s(4,2) that(2)] that(1) by (auto simp: K_def)
  show ?thesis
  proof (cases a)
    case (Inr n)
    with sub b s1 a r(1) t h obtain s3 where
      "st_SetTxStatus st q (tx_hash_of r t) n \<lparr>ti_Status = Submitted, ti_Message = []\<rparr> (Some t)
         (observe_since (txp_runtime r) (AddSuccessProof InterchainQueryTypeTX) start s2) = (Inr (), s3)"
      "s' = rt_go_delayedTxStatusCheck (txp_runtime r)
          \<lparr>pd_QueryID = q, pd_SubmittedTxHash = tx_hash_of r t, pd_NeutronHash = n\<rparr> s3"
      by (auto simp: submitTxWithProofs_def processSuccessfulTxSubmission_def Let_def res_success)
    with wrote [OF obs this(1)] b v a Inr show ?thesis by metis
  next
    case (Inl f)
    with sub b s1 a r(1) t h obtain e where e: "f = GoErr e" "ignoreErrors r (err_text e)"
      "st_SetTxStatus st q (tx_hash_of r t) [] \<lparr>ti_Status = ErrorOnSubmit, ti_Message = err_text e\<rparr> (Some t)
         (observe_since (txp_runtime r) (AddFailedProof InterchainQueryTypeTX) start s2) = (Inr (), s')"
      by (cases f) (auto simp: submitTxWithProofs_def processFailedTxSubmission_def Let_def res_success split: if_splits)
    with wrote [OF obs e(3)] b v a Inl show ?thesis by metis
  qed
qed

end

text \<open>
  What a success means, as a relation on the states before and after, for a store \<open>S\<close> that is read
  off the state: the block was submitted and accepted, the transaction recorded as submitted and its
  check started last; or the submitter's error is ignored and recorded.
\<close>

definition submission_outcome ::
  "('s, 'r, 'x, 'y, 'm) TXProcessorSrv \<Rightarrow> ('s \<Rightarrow> 'r tx_store) \<Rightarrow> u64 \<Rightarrow> 'r Transaction \<Rightarrow> 's \<Rightarrow> 's \<Rightarrow> bool" where
  "submission_outcome p S q t s s' \<longleftrightarrow> (\<exists>blk s1 s2 now. BlockTx blk = Tx t \<and>
    ((\<exists>n s3. sb_SubmitTxProof (txp_submitter p) q blk s1 = (Inr n, s2) \<and>
        S s3 = spec_SetTxStatus q (tx_hash_of p t) n \<lparr>ti_Status = Submitted, ti_Message = []\<rparr> (Some t) now (S s) \<and>
        s' = rt_go_delayedTxStatusCheck (txp_runtime p)
          \<lparr>pd_QueryID = q, pd_SubmittedTxHash = tx_hash_of p t, pd_NeutronHash = n\<rparr> s3) \<or>
     (\<exists>e. sb_SubmitTxProof (txp_submitter p) q blk s1 = (Err e, s2) \<and> ignoreErrors p (err_text e) \<and>
        S s' = spec_SetTxStatus q (tx_hash_of p t) [] \<lparr>ti_Status = ErrorOnSubmit, ti_Message = err_text e\<rparr>
          (Some t) now (S s))))"

lemma leveldb_process_success:
  assumes ok: "txp_ok L C V W get put clk p s" and t: "tx_storable C (Some t)" "Tx t \<noteq> None"
    and run: "ProcessAndSubmit p q t s = (Inr u, s')"
  shows "submission_outcome p (\<lambda>s. store_of C (V (get s))) q t s s'"
proof -
  have deps: "txp_deps_ok L C get put clk p" using ok by (simp add: txp_ok_def)
  then have st: "txp_storage p = LevelDBStorage L C get put clk" by (simp add: txp_deps_ok_def)
  show ?thesis
    unfolding submission_outcome_def
    by (rule relay_storage.process_success
        [OF leveldb_txp_storage st txp_ok_keeps [OF deps] ok t leveldb_txp.hash_of_ok [OF ok t(2)] run])
qed

text \<open>
  The error that stops the relayer is critical exactly when the submitter failed with an error
  that is not ignored, given that no collaborator makes up a critical error of its own.
\<close>

definition plain :: "'a res \<Rightarrow> bool" where
  "plain r \<longleftrightarrow> (\<forall>e. r = Err e \<longrightarrow> \<not> errors_As_critical e)"

definition plain_errors :: "('s, 'r, 'x, 'y, 'm) TXProcessorSrv \<Rightarrow> bool" where
  "plain_errors r \<longleftrightarrow> (\<forall>h s. plain (fst (hf_Fetch (txp_trustedHeaderFetcher r) h s))) \<and> (\<forall>h. plain (pack r h)) \<and>
     (\<forall>q h n ti t s. plain (fst (st_SetTxStatus (txp_storage r) q h n ti t s)))"

lemma plain_simps [simp]:
  "plain (Inr x)" "plain (Err (ErrText m))" "plain (Inl (wrap_fault p f)) \<longleftrightarrow> plain (Inl f :: 'a res)"
  by (cases f; auto simp: plain_def)+

lemma go_try_plain:
  "plain (fst m) \<Longrightarrow> (\<And>x s. plain (fst (k x s))) \<Longrightarrow> plain (fst (go_try m p k))"
  by (cases m; cases "fst m") (auto simp: plain_def wrap_fault_GoErr_iff)

lemma txToBlock_plain: "plain_errors r \<Longrightarrow> plain (fst (txToBlock r t s))"
  unfolding txToBlock_def prepareHeaders_def getTrustedHeader_def plain_errors_def
  by (auto intro!: go_try_plain)

lemma process_critical:
  assumes r: "plain_errors r" and t: "Tx t \<noteq> None" and run: "ProcessAndSubmit r q t s = (res, s')"
  shows "((\<exists>e. res = Err e \<and> errors_As_critical e) \<longleftrightarrow>
      (\<exists>blk s0 start s1 err s2. txToBlock r t s = (Inr blk, s0) \<and> rt_now (txp_runtime r) s0 = (start, s1) \<and>
         sb_SubmitTxProof (txp_submitter r) q blk s1 = (Err err, s2) \<and> \<not> ignoreErrors r (err_text err))) \<and>
    (\<forall>e. res = Err e \<longrightarrow> errors_As_critical e \<longrightarrow> (\<exists>err. e = ErrWrap ''failed to submit block'' (ErrCritical err)))"
proof -
  obtain a s0 where a: "txToBlock r t s = (a, s0)" by fastforce
  with txToBlock_plain [OF r, of t s] have pa: "plain a" by simp
  show ?thesis
  proof (cases a)
    case (Inl f)
    with a run pa show ?thesis by (cases f) (auto simp: ProcessAndSubmit_def plain_def)
  next
    case (Inr blk)
    with a t obtain v where b: "BlockTx blk = Some v" using txToBlock_Tx [of r t s blk s0] by auto
    have pl: "plain (fst (go_try (st_SetTxStatus (txp_storage r) q h n ti tx s) p (\<lambda>_ s. (Ok (), g s))))" for h n ti tx s p and g :: "'a \<Rightarrow> 'a"
      using r by (auto intro!: go_try_plain simp: plain_errors_def)
    obtain start s1 where s1: "rt_now (txp_runtime r) s0 = (start, s1)" by fastforce
    obtain c s2 where c: "sb_SubmitTxProof (txp_submitter r) q blk s1 = (c, s2)" by fastforce
    show ?thesis
    proof (cases "\<exists>err. c = Err err \<and> \<not> ignoreErrors r (err_text err)")
      case True
      with a Inr b s1 c run show ?thesis
        by (auto simp: ProcessAndSubmit_def submitTxWithProofs_def processFailedTxSubmission_def Let_def)
    next
      case False
      have "plain (fst (submitTxWithProofs r q (Height t) blk s0))"
      proof (cases c)
        case (Inr n)
        with b s1 c pl show ?thesis by (simp add: submitTxWithProofs_def processSuccessfulTxSubmission_def Let_def)
      next
        case (Inl f)
        with False b s1 c pl [where g = id] show ?thesis
          by (cases f) (auto simp: submitTxWithProofs_def processFailedTxSubmission_def Let_def plain_def)
      qed
      then have "plain (fst (ProcessAndSubmit r q t s))"
        using a Inr by (auto simp: ProcessAndSubmit_def intro!: go_try_plain)
      with False a Inr s1 c run show ?thesis by (auto simp: plain_def)
    qed
  qed
qed

end
