(* ===== verification/Relayer.thy ===== *)
theory Relayer
  imports Tx_Processor
begin

text \<open>
  \<open>internal/relay/relayer.go\<close>: the controller. It takes registered queries from the task
  queue, searches the target chain for new transactions of a TX query, hands each to the
  processor and keeps the height up to which a query is done.
\<close>

section \<open>The relayer\<close>

text \<open>
  \<open>neutrontypes.TransactionsFilter\<close> is a list of conditions whose value has a dynamic type;
  \<open>json.Unmarshal\<close> into that type is the parameter \<open>unmarshal_filter\<close>.
\<close>

datatype filter_value = VString string | VFloat float64 | VUint u64 | VOther json

record TransactionsFilterItem =
  Field :: string
  Op :: string
  Value :: filter_value

record ('s, 'r) Relayer =
  rl_cfg :: NeutronQueryRelayerConfig
  rl_txQuerier :: "('s, 'r) TXQuerier"
  rl_storage :: "('s, 'r) Storage"
  rl_txProcessor :: "('s, 'r) TXProcessor"
  rl_kvProcessor :: "'s KVProcessor"
  rl_QueryLatestHeight :: "'s \<Rightarrow> int res \<times> 's"
  rl_runtime :: "('s, Metrics) runtime"
  unmarshal_filter :: "string \<Rightarrow> TransactionsFilterItem list res"
  float_conv :: "float64 \<Rightarrow> u64"
  rl_tmhash :: "bytes \<Rightarrow> bytes"

definition NewRelayer where
  "NewRelayer cfg txQuerier st txProcessor kvProcessor latest R unm conv th =
     \<lparr>rl_cfg = cfg, rl_txQuerier = txQuerier, rl_storage = st, rl_txProcessor = txProcessor,
      rl_kvProcessor = kvProcessor, rl_QueryLatestHeight = latest, rl_runtime = R,
      unmarshal_filter = unm, float_conv = conv, rl_tmhash = th\<rparr>"

definition TxHeight :: string where
  "TxHeight = ''tx.height''"

section \<open>The search query\<close>

definition getOpSign :: "string \<Rightarrow> string res" where
  "getOpSign op =
     (let l = ToLower op in
      if l = ''eq'' then Ok ''=''
      else if l = ''gt'' then Ok ''>''
      else if l = ''gte'' then Ok ''>=''
      else if l = ''lt'' then Ok ''<''
      else if l = ''lte'' then Ok ''<=''
      else Err (ErrText (''unsupported operator '' @ op)))"

text \<open>The loop over the conditions; a value of any other type adds nothing.\<close>

fun query_params ::
  "(float64 \<Rightarrow> u64) \<Rightarrow> TransactionsFilterItem list \<Rightarrow> string list \<Rightarrow> string list res" where
  "query_params conv [] queryParamsList = Ok queryParamsList"
| "query_params conv (row # rows) queryParamsList =
     res_then (getOpSign (Op row)) (\<lambda>opSign.
       query_params conv rows (case Value row of
           VString v \<Rightarrow> queryParamsList @ [Field row @ opSign @ [CHR 39] @ v @ [CHR 39]]
         | VFloat v \<Rightarrow> queryParamsList @ [Field row @ opSign @ FormatUint (u64_of_float conv v)]
         | VUint v \<Rightarrow> queryParamsList @ [Field row @ opSign @ FormatUint v]
         | VOther v \<Rightarrow> queryParamsList))"

definition queryFromTxFilter :: "(float64 \<Rightarrow> u64) \<Rightarrow> TransactionsFilterItem list \<Rightarrow> string res" where
  "queryFromTxFilter conv params =
     res_then (query_params conv params []) (\<lambda>queryParamsList. Ok (str_join '' AND '' queryParamsList))"

text \<open>\<open>latestHeight\<close> is an \<open>int64\<close>; \<open>uint64(latestHeight)\<close> reinterprets it.\<close>

definition getLastQueryHeight :: "('s, 'r) Relayer \<Rightarrow> u64 \<Rightarrow> 's \<Rightarrow> u64 res \<times> 's" where
  "getLastQueryHeight r queryID s =
     go_try (st_GetLastQueryHeight (rl_storage r) queryID s)
       ''could not get last query height from storage'' (\<lambda>(height, found) s.
     if found then (Ok height, s)
     else
       go_then
         (let offset = InitialTxSearchOffset (rl_cfg r) in
          if offset \<noteq> 0 then
            go_try (rl_QueryLatestHeight r s) ''could not get latest target chain height'' (\<lambda>latestHeight s.
              (Ok (if word_of_int latestHeight > offset then word_of_int latestHeight - offset else 0), s))
          else (Ok 0, s)) (\<lambda>height s.
       go_try (st_SetLastQueryHeight (rl_storage r) queryID height s)
         ''failed to set a 0 last height for an uninitialised query'' (\<lambda>_ s. (Ok height, s))))"

definition buildTxQuery :: "('s, 'r) Relayer \<Rightarrow> MessageTX \<Rightarrow> 's \<Rightarrow> string res \<times> 's" where
  "buildTxQuery r m s =
     go_try (getLastQueryHeight r (tx_QueryId m) s) ''could not get last query height'' (\<lambda>queryLastHeight s.
     go_try (unmarshal_filter r (tx_TransactionsFilter m), s) ''could not unmarshal transactions filter'' (\<lambda>params s.
     go_try (queryFromTxFilter (float_conv r)
         (params @ [\<lparr>Field = TxHeight, Op = ''gt'', Value = VUint queryLastHeight\<rparr>]), s)
       ''failed to process tx query params'' (\<lambda>queryString s. (Ok queryString, s))))"

section \<open>One TX query\<close>

text \<open>The loop over the transactions found; \<open>last\<close> is \<open>lastProcessedHeight\<close>.\<close>

fun relay_txs ::
  "('s, 'r) Relayer \<Rightarrow> u64 \<Rightarrow> 'r Transaction list \<Rightarrow> u64 \<Rightarrow> 's \<Rightarrow> u64 res \<times> 's" where
  "relay_txs r q [] lastHeight s = (Ok lastHeight, s)"
| "relay_txs r q (tx # txs) lastHeight s =
     go_then
       (if Height tx > lastHeight \<and> lastHeight > 0 then
          go_try (st_SetLastQueryHeight (rl_storage r) q lastHeight s)
            ''failed to save last height of query'' (\<lambda>_ s. (Ok (), s))
        else (Ok (), s)) (\<lambda>_ s.
     (case Tx tx of
        None \<Rightarrow> (Panic ''nil pointer dereference'', s)
      | Some v \<Rightarrow>
          (let hash = hex_encode (rl_tmhash r (Data v)) in
           go_try (st_TxExists (rl_storage r) q hash s) ''failed to check tx existence'' (\<lambda>txExists s.
           if txExists then relay_txs r q txs (Height tx) s
           else go_try (tp_ProcessAndSubmit (rl_txProcessor r) q tx s) ''failed to process txs'' (\<lambda>_ s.
             relay_txs r q txs (Height tx) s)))))"

definition processMessageTX :: "('s, 'r) Relayer \<Rightarrow> MessageTX \<Rightarrow> 's \<Rightarrow> unit res \<times> 's" where
  "processMessageTX r m s =
     go_try (buildTxQuery r m s) ''failed to build tx query string'' (\<lambda>queryString s.
     go_then (tq_SearchTransactions (rl_txQuerier r) queryString s) (\<lambda>(txs, stoppedWithErr) s.
     go_then (relay_txs r (tx_QueryId m) txs 0 s) (\<lambda>lastProcessedHeight s.
     (case stoppedWithErr of
        Some e \<Rightarrow> (Err (ErrWrap ''failed to query txs'' e), s)
      | None \<Rightarrow>
          if lastProcessedHeight > 0 then
            go_try (st_SetLastQueryHeight (rl_storage r) (tx_QueryId m) lastProcessedHeight s)
              ''failed to save last height of query'' (\<lambda>_ s. (Ok (), s))
          else (Ok (), s)))))"

definition processMessageKV :: "('s, 'r) Relayer \<Rightarrow> MessageKV \<Rightarrow> 's \<Rightarrow> unit res \<times> 's" where
  "processMessageKV r m s = kp_ProcessAndSubmit (rl_kvProcessor r) m s"

section \<open>The main loop\<close>

text \<open>\<open>errors.As(errors.Unwrap(err), &critErr)\<close>.\<close>

definition stops_relayer :: "goerr \<Rightarrow> bool" where
  "stops_relayer err = (case errors_Unwrap err of None \<Rightarrow> False | Some e \<Rightarrow> errors_As_critical e)"

text \<open>
  One iteration that takes \<open>query\<close> and leaves \<open>queued\<close> tasks in the queue: \<open>Ok ()\<close> goes on
  with the loop, an error or panic leaves \<open>Run\<close>.
\<close>

definition run_query :: "('s, 'r) Relayer \<Rightarrow> RegisteredQuery \<Rightarrow> nat \<Rightarrow> 's \<Rightarrow> unit res \<times> 's" where
  "run_query r query queued s =
     (case rt_now (rl_runtime r) s of (start, s) \<Rightarrow>
      (let s = rt_metrics (rl_runtime r) (SetSubscriberTaskQueueNumElements queued) s in
       case (if QueryType query = InterchainQueryTypeKV then
               processMessageKV r \<lparr>kv_QueryId = Id query, kv_KVKeys = Keys query\<rparr> s
             else if QueryType query = InterchainQueryTypeTX then
               processMessageTX r \<lparr>tx_QueryId = Id query, tx_TransactionsFilter = TransactionsFilter query\<rparr> s
             else (Err (ErrText (''unknown query type: '' @ QueryType query)), s)) of
         (Inl (GoErr err), s) \<Rightarrow>
           if QueryType query = InterchainQueryTypeTX \<and> stops_relayer err
           then (Err err, s)
           else (Ok (), observe_since (rl_runtime r) (AddFailedRequest (QueryType query)) start s)
       | (Inl f, s) \<Rightarrow> (Inl f, s)
       | (Inr _, s) \<Rightarrow> (Ok (), observe_since (rl_runtime r) (AddSuccessRequest (QueryType query)) start s)))"

text \<open>
  \<open>Run\<close> over the queries that the task queue delivers before the context is cancelled (each
  with the length of the queue behind it).
\<close>

fun Run :: "('s, 'r) Relayer \<Rightarrow> (RegisteredQuery \<times> nat) list \<Rightarrow> 's \<Rightarrow> unit res \<times> 's" where
  "Run r [] s = (Ok (), s)"
| "Run r ((query, queued) # tasks) s =
     go_then (run_query r query queued s) (\<lambda>_ s. Run r tasks s)"


section \<open>No transaction is skipped\<close>

text \<open>
  The relayer uses the storage and the processor of the locale, and both name a transaction by
  the same hash.
\<close>

definition relayer_uses ::
  "('s, 'r) Relayer \<Rightarrow> ('s, 'r) Storage \<Rightarrow> ('s, 'r) TXProcessor \<Rightarrow> ('r Transaction \<Rightarrow> string) \<Rightarrow> bool" where
  "relayer_uses r st tp hash_of \<longleftrightarrow> rl_storage r = st \<and> rl_txProcessor r = tp \<and>
     (\<forall>t v. Tx t = Some v \<longrightarrow> hash_of t = hex_encode (rl_tmhash r (Data v)))"

lemma relayer_usesD:
  assumes "relayer_uses r st tp hash_of"
  shows "rl_storage r = st" "rl_txProcessor r = tp" "Tx t = Some v \<Longrightarrow> hex_encode (rl_tmhash r (Data v)) = hash_of t"
  using assms by (simp_all add: relayer_uses_def)

definition known :: "'r tx_store \<Rightarrow> u64 \<Rightarrow> string \<Rightarrow> bool" where
  "known S q h \<longleftrightarrow> statuses S (q, h) \<noteq> None"

definition height_covered ::
  "'r tx_store \<Rightarrow> u64 \<Rightarrow> ('r Transaction \<Rightarrow> string) \<Rightarrow> 'r Transaction list \<Rightarrow> bool" where
  "height_covered S q hash_of ts \<longleftrightarrow>
     (\<forall>h t. heights S q = Some h \<longrightarrow> t \<in> set ts \<longrightarrow> Height t \<le> h \<longrightarrow> known S q (hash_of t))"

text \<open>One turn of the loop: the existence check and the processing of a transaction.\<close>

definition handle_tx ::
  "('s, 'r) Storage \<Rightarrow> ('s, 'r) TXProcessor \<Rightarrow> u64 \<Rightarrow> string \<Rightarrow> 'r Transaction \<Rightarrow> 's \<Rightarrow> unit res \<times> 's" where
  "handle_tx st tp q h t s =
     go_try (st_TxExists st q h s) ''failed to check tx existence'' (\<lambda>txExists s.
       if txExists then (Ok (), s)
       else go_try (tp_ProcessAndSubmit tp q t s) ''failed to process txs'' (\<lambda>_ s. (Ok (), s)))"

context tx_processor
begin

text \<open>Saving the height of the finished block: it moves to \<open>l\<close> or stays.\<close>

lemma save_height:
  assumes "ok s" "go_try (st_SetLastQueryHeight st q l s) p (\<lambda>_ s. (Ok (), s)) = (r, s')"
  shows "ok s' \<and> store s' \<in> {store s, spec_SetHeight q l (store s)} \<and>
    (\<forall>u. r = Inr u \<longrightarrow> store s' = spec_SetHeight q l (store s))"
proof -
  obtain r1 s1 where 1: "st_SetLastQueryHeight st q l s = (r1, s1)" by fastforce
  from set_height [OF assms(1) 1] assms(2) 1 show ?thesis by (cases r1) auto
qed

lemma spec_SetHeight_sel [simp]:
  "statuses (spec_SetHeight q l S) = statuses S" "known (spec_SetHeight q l S) = known S"
  "heights (spec_SetHeight q l S) = (heights S)(q \<mapsto> l)" "pending (spec_SetHeight q l S) = pending S"
  "cached (spec_SetHeight q l S) = cached S" "unsuccessful (spec_SetHeight q l S) = unsuccessful S"
  by (simp_all add: spec_SetHeight_def known_def fun_eq_iff)

text \<open>A transaction is known afterwards unless there is a fault; heights stay.\<close>

lemma handle_tx_ok:
  assumes s: "ok s" "storable (Some t)" "Tx t \<noteq> None" and run: "handle_tx st tp q (hash_of t) t s = (res, s')"
  shows "ok s' \<and> heights (store s') = heights (store s) \<and> (\<forall>h. known (store s) q h \<longrightarrow> known (store s') q h) \<and>
    (\<forall>u. res = Inr u \<longrightarrow> known (store s') q (hash_of t))"
proof -
  obtain e s1 where e: "st_TxExists st q (hash_of t) s = (e, s1)" by fastforce
  note ex = tx_exists [OF s(1) hash_of_ok [OF s(1,3)] e]
  show ?thesis
  proof (cases "e = Inr False")
    case True
    obtain p s2 where p: "tp_ProcessAndSubmit tp q t s1 = (p, s2)" by fastforce
    note po = process_ok [OF _ s(2,3) p]
    from run e True p have "s' = s2" "\<And>u. res = Inr u \<Longrightarrow> p = Inr ()"
      by (cases p; auto simp: handle_tx_def)+
    with ex po show ?thesis by (auto simp: known_def)
  next
    case False
    with run e ex show ?thesis by (cases e) (auto simp: handle_tx_def known_def)
  qed
qed

lemma relay_txs_Cons:
  assumes "relayer_uses r st tp hash_of" "Tx t \<noteq> None"
  shows "relay_txs r q (t # ts) l s =
    go_then (if Height t > l \<and> l > 0 then
        go_try (st_SetLastQueryHeight st q l s) ''failed to save last height of query'' (\<lambda>_ s. (Ok (), s))
      else (Ok (), s)) (\<lambda>_ s. go_then (handle_tx st tp q (hash_of t) t s) (\<lambda>_ s. relay_txs r q ts (Height t) s))"
proof -
  from assms(2) obtain v where v: "Tx t = Some v" by blast
  have "(case Tx t of None \<Rightarrow> (Panic ''nil pointer dereference'', s)
      | Some v \<Rightarrow> (let hash = hex_encode (rl_tmhash r (Data v)) in
           go_try (st_TxExists (rl_storage r) q hash s) ''failed to check tx existence'' (\<lambda>txExists s.
           if txExists then relay_txs r q ts (Height t) s
           else go_try (tp_ProcessAndSubmit (rl_txProcessor r) q t s) ''failed to process txs'' (\<lambda>_ s.
             relay_txs r q ts (Height t) s)))) =
      go_then (handle_tx st tp q (hash_of t) t s) (\<lambda>_ s. relay_txs r q ts (Height t) s)" for s
    using v relayer_usesD [OF assms(1)]
    by (auto simp: handle_tx_def Let_def go_try_def go_then_def split: sum.splits prod.splits)
  then show ?thesis using relayer_usesD [OF assms(1)] by simp
qed

lemma relay_txs_inv:
  assumes "relayer_uses r st tp hash_of" "ok s" "\<forall>t \<in> set ts. storable (Some t) \<and> Tx t \<noteq> None"
    "sorted (map Height ts)" "\<forall>t \<in> set ts. l \<le> Height t" "relay_txs r q ts l s = (res, s')"
  shows "ok s' \<and> (\<forall>h. known (store s) q h \<longrightarrow> known (store s') q h) \<and>
    (heights (store s') q = heights (store s) q \<or>
     (\<exists>h. heights (store s') q = Some h \<and> l \<le> h \<and>
       (\<forall>t \<in> set ts. Height t \<le> h \<longrightarrow> known (store s') q (hash_of t)))) \<and>
    (\<forall>l'. res = Inr l' \<longrightarrow> l' = (if ts = [] then l else Height (last ts)) \<and>
       (\<forall>t \<in> set ts. known (store s') q (hash_of t)))"
  using assms
proof (induction ts arbitrary: l s)
  case (Cons t ts)
  from Cons.prems(3) have t: "storable (Some t)" "Tx t \<noteq> None" by auto
  from Cons.prems(4,5) have above: "l \<le> Height t" "\<forall>t' \<in> set ts. Height t \<le> Height t'" by auto
  define sv where "sv = (if Height t > l \<and> l > 0 then
      go_try (st_SetLastQueryHeight st q l s) ''failed to save last height of query'' (\<lambda>_ s. (Ok (), s))
    else (Ok (), s))"
  obtain r1 s1 where 1: "sv = (r1, s1)" by fastforce
  have s1: "ok s1" "store s1 \<in> {store s, spec_SetHeight q l (store s)}"
      "store s1 \<noteq> store s \<Longrightarrow> Height t > l"
    using save_height [OF Cons.prems(2), of q l _ r1 s1] 1 Cons.prems(2)
    by (auto simp: sv_def split: if_splits)
  have kn1: "known (store s1) = known (store s)" using s1(2) by auto
  obtain r2 s2 where 2: "handle_tx st tp q (hash_of t) t s1 = (r2, s2)" by fastforce
  note h2 = handle_tx_ok [OF s1(1) t 2]
  have run: "(res, s') = go_then sv (\<lambda>_ s. go_then (handle_tx st tp q (hash_of t) t s) (\<lambda>_ s. relay_txs r q ts (Height t) s))"
    using Cons.prems(6) relay_txs_Cons [OF Cons.prems(1) t(2), of q ts l s] by (simp add: sv_def)
  have hs1: "heights (store s1) q = heights (store s) q \<or> (heights (store s1) q = Some l \<and> l < Height t)"
    using s1(2,3) by (cases "store s1 = store s") auto
  have late: "\<not> Height t' \<le> l" if "l < Height t" "t' \<in> set (t # ts)" for t'
    using that above(2) by auto
  show ?case
  proof (cases "\<exists>u1 u2. r1 = Inr u1 \<and> r2 = Inr u2")
    case False
    then have "s' \<in> {s1, s2}" "\<exists>f. res = Inl f"
      using run 1 2 by (cases r1; cases r2; auto)+
    then show ?thesis using s1(1) h2 kn1 hs1 late by (auto 4 4)
  next
    case True
    then have rec: "relay_txs r q ts (Height t) s2 = (res, s')" and known_t: "known (store s2) q (hash_of t)"
      using run 1 2 h2 by auto
    from Cons.IH [OF Cons.prems(1) _ _ _ above(2) rec] h2 Cons.prems(3,4)
    have IH: "ok s'" "\<forall>h. known (store s2) q h \<longrightarrow> known (store s') q h"
      "heights (store s') q = heights (store s2) q \<or> (\<exists>h. heights (store s') q = Some h \<and> Height t \<le> h \<and>
         (\<forall>t \<in> set ts. Height t \<le> h \<longrightarrow> known (store s') q (hash_of t)))"
      "\<forall>l'. res = Inr l' \<longrightarrow> l' = (if ts = [] then Height t else Height (last ts)) \<and>
         (\<forall>t \<in> set ts. known (store s') q (hash_of t))"
      by auto
    from IH(2) h2 kn1 known_t have kn: "\<forall>h. known (store s) q h \<longrightarrow> known (store s') q h"
      "known (store s') q (hash_of t)" by auto
    have "heights (store s') q = heights (store s) q \<or> (\<exists>h. heights (store s') q = Some h \<and> l \<le> h \<and>
       (\<forall>t \<in> set (t # ts). Height t \<le> h \<longrightarrow> known (store s') q (hash_of t)))"
      using IH(3) h2 hs1 late above(1) kn(2) by (auto 4 4)
    with IH(1,4) kn show ?thesis by auto
  qed
qed auto

text \<open>The final statements of \<open>processMessageTX\<close>: the search error, or the last height saved.\<close>

lemma processMessageTX_after_search:
  assumes uses: "relayer_uses r st tp hash_of" and s2: "ok s2" "store s2 = store s1"
    and good: "\<forall>t \<in> set ts. storable (Some t) \<and> Tx t \<noteq> None" "sorted (map Height ts)"
    and new: "\<forall>t \<in> set ts. \<forall>h. heights (store s1) (tx_QueryId m) = Some h \<longrightarrow> h < Height t"
    and build: "buildTxQuery r m s = (Inr qs, s1)"
    and search: "tq_SearchTransactions (rl_txQuerier r) qs s1 = (Inr (ts, e), s2)"
    and run: "processMessageTX r m s = (res, s')"
  shows "ok s' \<and> height_covered (store s') (tx_QueryId m) hash_of ts \<and>
    (\<forall>u. res = Inr u \<longrightarrow> (\<forall>t \<in> set ts. known (store s') (tx_QueryId m) (hash_of t)))"
proof -
  let ?q = "tx_QueryId m"
  obtain r3 s3 where 3: "relay_txs r ?q ts 0 s2 = (r3, s3)" by fastforce
  note inv = relay_txs_inv [OF uses s2(1) good _ 3, simplified]
  have cov3: "height_covered (store s3) ?q hash_of ts"
    using inv new s2(2) by (fastforce simp: height_covered_def)
  show ?thesis
  proof (cases "\<exists>l. r3 = Inr l \<and> e = None \<and> 0 < l")
    case False
    then have "s' = s3" "\<And>u. res = Inr u \<Longrightarrow> \<exists>l. r3 = Inr l"
      using run build search 3
      by (cases r3; cases e; auto simp: processMessageTX_def split: if_splits)+
    with inv cov3 show ?thesis by auto
  next
    case True
    then obtain l where l: "r3 = Inr l" "e = None" "0 < l" by blast
    then have "go_try (st_SetLastQueryHeight st ?q l s3) ''failed to save last height of query'' (\<lambda>_ s. (Ok (), s)) = (res, s')"
      using run build search 3 relayer_usesD(1) [OF uses] by (simp add: processMessageTX_def)
    from save_height [OF _ this] inv l(1)
    have "ok s'" "store s' \<in> {store s3, spec_SetHeight ?q l (store s3)}"
      "\<forall>t \<in> set ts. known (store s3) ?q (hash_of t)" by auto
    then show ?thesis by (auto simp: height_covered_def)
  qed
qed

end


section \<open>No transaction is submitted twice\<close>

text \<open>
  When every transaction found is known, the loop does not depend on the processor at all: it
  is never called.
\<close>

context relay_storage
begin

lemma relayer_storage_upd: "rl_storage (r\<lparr>rl_txProcessor := tp'\<rparr>) = rl_storage r"
  by simp

lemma relay_txs_known:
  assumes "rl_storage r = st" "ok s"
    "\<forall>t \<in> set ts. \<forall>v. Tx t = Some v \<longrightarrow> is_txhash (hex_encode (rl_tmhash r (Data v))) \<and>
       known (store s) q (hex_encode (rl_tmhash r (Data v)))"
  shows "relay_txs (r\<lparr>rl_txProcessor := tp'\<rparr>) q ts l s = relay_txs r q ts l s"
  using assms
proof (induction ts arbitrary: l s)
  case (Cons t ts)
  define sv where "sv = (if Height t > l \<and> l > 0 then
      go_try (st_SetLastQueryHeight st q l s) ''failed to save last height of query'' (\<lambda>_ s. (Ok (), s))
    else (Ok (), s))"
  define body where "body = (\<lambda>(r :: ('s, 'r) Relayer) s. case Tx t of None \<Rightarrow> (Panic ''nil pointer dereference'', s)
      | Some v \<Rightarrow> (let hash = hex_encode (rl_tmhash r (Data v)) in
           go_try (st_TxExists (rl_storage r) q hash s) ''failed to check tx existence'' (\<lambda>txExists s.
           if txExists then relay_txs r q ts (Height t) s
           else go_try (tp_ProcessAndSubmit (rl_txProcessor r) q t s) ''failed to process txs'' (\<lambda>_ s.
             relay_txs r q ts (Height t) s))))"
  have unfold: "relay_txs r' q (t # ts) l s = go_then sv (\<lambda>_ s. body r' s)" if "rl_storage r' = st" for r'
    by (simp add: sv_def body_def that)
  have same: "body (r\<lparr>rl_txProcessor := tp'\<rparr>) s1 = body r s1"
    if s1: "ok s1" "statuses (store s1) = statuses (store s)" for s1
  proof (cases "Tx t")
    case (Some v)
    define h where "h = hex_encode (rl_tmhash r (Data v))"
    obtain e s2 where e: "st_TxExists st q h s1 = (e, s2)" by fastforce
    have h: "is_txhash h" "known (store s) q h" using Cons.prems(3) Some by (auto simp: h_def)
    from tx_exists [OF s1(1) h(1) e] have s2: "ok s2" "store s2 = store s1"
      "\<And>b. e = Inr b \<Longrightarrow> b"
      using h(2) s1(2) by (auto simp: known_def)
    have "relay_txs (r\<lparr>rl_txProcessor := tp'\<rparr>) q ts (Height t) s2 = relay_txs r q ts (Height t) s2"
      using Cons.prems s2 s1(2) by (intro Cons.IH) (auto simp: known_def)
    with Some e s2(3) Cons.prems(1) show ?thesis
      by (cases e) (simp_all add: body_def h_def [symmetric])
  qed (simp add: body_def)
  obtain r1 s1 where 1: "sv = (r1, s1)" by fastforce
  have "ok s1 \<and> statuses (store s1) = statuses (store s)"
  proof (cases "Height t > l \<and> l > 0")
    case True
    obtain r2 s2 where 2: "st_SetLastQueryHeight st q l s = (r2, s2)" by fastforce
    from set_height [OF Cons.prems(2) 2] 1 2 True show ?thesis
      by (cases r2) (auto simp: sv_def spec_SetHeight_def)
  next
    case False
    with 1 Cons.prems(2) show ?thesis by (auto simp: sv_def)
  qed
  with same [of s1] 1 Cons.prems(1) show ?case
    by (cases r1) (simp_all only: unfold go_then_simps relayer_storage_upd)
qed simp

end

section \<open>The query string\<close>

definition render_item :: "(float64 \<Rightarrow> u64) \<Rightarrow> TransactionsFilterItem \<Rightarrow> string list" where
  "render_item conv row =
     (case getOpSign (Op row) of Inl _ \<Rightarrow> [] | Inr opSign \<Rightarrow>
       (case Value row of
           VString v \<Rightarrow> [Field row @ opSign @ [CHR 39] @ v @ [CHR 39]]
         | VFloat v \<Rightarrow> [Field row @ opSign @ FormatUint (u64_of_float conv v)]
         | VUint v \<Rightarrow> [Field row @ opSign @ FormatUint v]
         | VOther v \<Rightarrow> []))"

lemma query_params_eq:
  "query_params conv rows acc =
     (case find (\<lambda>row. \<exists>f. getOpSign (Op row) = Inl f) rows of
        Some row \<Rightarrow> Err (ErrText (''unsupported operator '' @ Op row))
      | None \<Rightarrow> Ok (acc @ concat (map (render_item conv) rows)))"
proof (induction conv rows acc rule: query_params.induct)
  case (2 conv row rows acc)
  show ?case
  proof (cases "getOpSign (Op row)")
    case (Inl f)
    then have "f = GoErr (ErrText (''unsupported operator '' @ Op row))"
      by (auto simp: getOpSign_def Let_def split: if_splits)
    with Inl show ?thesis by simp
  next
    case (Inr opSign)
    with 2 [OF Inr] show ?thesis
      by (cases "Value row") (simp_all add: render_item_def [of conv row] split: option.splits)
  qed
qed simp


lemma queryFromTxFilter_eq:
  "queryFromTxFilter conv rows =
     (case find (\<lambda>row. \<exists>f. getOpSign (Op row) = Inl f) rows of
        Some row \<Rightarrow> Err (ErrText (''unsupported operator '' @ Op row))
      | None \<Rightarrow> Ok (str_join '' AND '' (concat (map (render_item conv) rows))))"
  by (simp add: queryFromTxFilter_def query_params_eq split: option.splits)

lemma find_None_append: "find P (xs @ [x]) = None \<longleftrightarrow> find P xs = None \<and> \<not> P x"
  by (induction xs) auto

text \<open>
  The string searched for: the conditions of the filter that have a value, and \<open>tx.height\<close>
  above the query's height.
\<close>

lemma buildTxQuery_Inr:
  assumes "buildTxQuery r m s = (Inr qs, s')"
  obtains n params s1 where "getLastQueryHeight r (tx_QueryId m) s = (Inr n, s')"
    "unmarshal_filter r (tx_TransactionsFilter m) = Inr params"
    "qs = str_join '' AND '' (concat (map (render_item (float_conv r)) params) @ [''tx.height>'' @ FormatUint n])"
proof -
  from assms obtain n params where
    1: "getLastQueryHeight r (tx_QueryId m) s = (Inr n, s')"
      "unmarshal_filter r (tx_TransactionsFilter m) = Inr params" and
    2: "queryFromTxFilter (float_conv r) (params @ [\<lparr>Field = TxHeight, Op = ''gt'', Value = VUint n\<rparr>]) = Inr qs"
    by (auto simp: buildTxQuery_def res_success)
  have "render_item (float_conv r) \<lparr>Field = TxHeight, Op = ''gt'', Value = VUint n\<rparr> = [''tx.height>'' @ FormatUint n]"
    by (simp add: render_item_def getOpSign_def ToLower_def lower_char_def TxHeight_def)
  with 2 have "qs = str_join '' AND '' (concat (map (render_item (float_conv r)) params) @ [''tx.height>'' @ FormatUint n])"
    by (simp add: queryFromTxFilter_eq split: option.splits)
  with 1 show thesis by (rule that)
qed

context relay_storage
begin

text \<open>
  The height a search starts above: the one stored, or for a new query the target chain's
  height less the offset (never below zero), which is then stored.
\<close>

lemma getLastQueryHeight_Inr:
  assumes r: "rl_storage r = st" and s: "ok s"
    and latest: "\<And>s. ok s \<Longrightarrow> ok (snd (rl_QueryLatestHeight r s)) \<and> store (snd (rl_QueryLatestHeight r s)) = store s"
    and run: "getLastQueryHeight r q s = (Inr n, s')"
  shows "ok s' \<and> heights (store s') q = Some n \<and> statuses (store s') = statuses (store s) \<and>
    (case heights (store s) q of
       Some h \<Rightarrow> n = h
     | None \<Rightarrow> if InitialTxSearchOffset (rl_cfg r) = 0 then n = 0
         else \<exists>g s1 l s2. st_GetLastQueryHeight (rl_storage r) q s = (Inr g, s1) \<and> rl_QueryLatestHeight r s1 = (Inr l, s2) \<and>
            n = (if word_of_int l > InitialTxSearchOffset (rl_cfg r)
              then word_of_int l - InitialTxSearchOffset (rl_cfg r) else 0))"
proof -
  let ?off = "InitialTxSearchOffset (rl_cfg r)"
  from run r obtain h found s1 where 1: "st_GetLastQueryHeight st q s = (Inr (h, found), s1)"
    by (auto simp: getLastQueryHeight_def res_success)
  from get_height [OF s 1] have s1: "ok s1" "store s1 = store s"
    "heights (store s) q = (if found then Some h else None)" by auto
  show ?thesis
  proof (cases found)
    case True
    with run r 1 s1 show ?thesis by (simp add: getLastQueryHeight_def)
  next
    case False
    let ?first = "if ?off = 0 then n = 0
      else \<exists>g s1 l s2. st_GetLastQueryHeight (rl_storage r) q s = (Inr g, s1) \<and> rl_QueryLatestHeight r s1 = (Inr l, s2) \<and>
        n = (if word_of_int l > ?off then word_of_int l - ?off else 0)"
    have "\<exists>s2. ok s2 \<and> store s2 = store s \<and> st_SetLastQueryHeight st q n s2 = (Inr (), s') \<and> ?first"
    proof (cases "?off = 0")
      case True
      with run r 1 s1 False show ?thesis by (auto simp: getLastQueryHeight_def res_success)
    next
      case off: False
      obtain l s2 where l: "rl_QueryLatestHeight r s1 = (l, s2)" by fastforce
      with latest [OF s1(1)] s1 have s2: "ok s2" "store s2 = store s" by auto
      from run r 1 False off l obtain b where b: "l = Inr b"
        "n = (if word_of_int b > ?off then word_of_int b - ?off else 0)"
        "st_SetLastQueryHeight st q n s2 = (Inr (), s')"
        by (cases l) (auto simp: getLastQueryHeight_def res_success Let_def)
      from l b(1) have "rl_QueryLatestHeight r s1 = (Inr b, s2)" by simp
      with b(2) off 1 r have ?first by metis
      with b(3) s2 show ?thesis by blast
    qed
    then obtain s2 where s2: "ok s2" "store s2 = store s" "st_SetLastQueryHeight st q n s2 = (Inr (), s')" and first: ?first
      by blast
    from set_height [OF s2(1,3)] s2(2) have s': "ok s'" "store s' = spec_SetHeight q n (store s)" by simp_all
    have "heights (store s) q = None" using s1(3) False by simp
    with s' first show ?thesis by (simp only: spec_SetHeight_def) simp
  qed
qed

end

section \<open>When the relayer stops\<close>

lemma run_query_Err:
  assumes "run_query r query n s = (Err e, s')"
  shows "QueryType query = InterchainQueryTypeTX \<and> stops_relayer e \<and>
    (\<exists>s0. processMessageTX r \<lparr>tx_QueryId = Id query, tx_TransactionsFilter = TransactionsFilter query\<rparr> s0 = (Err e, s'))"
  using assms unfolding run_query_def Let_def
  by (auto simp: InterchainQueryTypeKV_def InterchainQueryTypeTX_def
      split: prod.splits sum.splits fault.splits if_splits)

lemma run_query_Ok_iff:
  assumes "QueryType query = InterchainQueryTypeTX"
  shows "(\<exists>u. fst (run_query r query n s) = Inr u) \<longleftrightarrow>
    (let s1 = rt_metrics (rl_runtime r) (SetSubscriberTaskQueueNumElements n) (snd (rt_now (rl_runtime r) s))
     in case fst (processMessageTX r \<lparr>tx_QueryId = Id query, tx_TransactionsFilter = TransactionsFilter query\<rparr> s1) of
          Inr _ \<Rightarrow> True | Inl (GoErr e) \<Rightarrow> \<not> stops_relayer e | Inl _ \<Rightarrow> False)"
  using assms unfolding run_query_def Let_def
  by (auto simp: InterchainQueryTypeKV_def InterchainQueryTypeTX_def
      split: prod.splits sum.splits fault.splits if_splits)

text \<open>A loop that ends with an error ended in a critical one; every query before it was handled.\<close>

lemma Run_Err:
  "Run r tasks s = (Err e, s') \<Longrightarrow>
   stops_relayer e \<and> (\<exists>pre query n post s1. tasks = pre @ (query, n) # post \<and>
     Run r pre s = (Inr (), s1) \<and> run_query r query n s1 = (Err e, s') \<and> QueryType query = InterchainQueryTypeTX)"
proof (induction tasks arbitrary: s)
  case (Cons a tasks)
  obtain query n where a: "a = (query, n)" by fastforce
  show ?case
  proof (cases "run_query r query n s")
    case (Pair r1 s1)
    show ?thesis
    proof (cases r1)
      case (Inl f)
      with Cons.prems a Pair have "run_query r query n s = (Err e, s')" by simp
      with run_query_Err [OF this] a show ?thesis by (intro conjI exI [of _ "[]"]) auto
    next
      case (Inr u)
      with Cons.prems a Pair have "Run r tasks s1 = (Err e, s')" by simp
      from Cons.IH [OF this] obtain pre query' n' post s2 where
        "stops_relayer e" "tasks = pre @ (query', n') # post" "Run r pre s1 = (Inr (), s2)"
        "run_query r query' n' s2 = (Err e, s')" "QueryType query' = InterchainQueryTypeTX" by blast
      with a Pair Inr show ?thesis by (intro conjI exI [of _ "a # pre"]) auto
    qed
  qed
qed simp

end
