(* ===== verification/Tx_Submit_Checker.thy ===== *)
theory Tx_Submit_Checker
  imports Storage_Spec Runtime
begin

text \<open>
  \<open>internal/txsubmitchecker/txsubmitchecker.go\<close>: resolves submitted transactions. It looks
  up the Neutron transaction and records whether it was committed.
\<close>

text \<open>The part of \<open>coretypes.ResultTx\<close> the checker reads; \<open>Code\<close> is a \<open>uint32\<close>.\<close>

record TxResponse =
  tr_Code :: nat
  tr_Log :: string

definition CodeTypeOK :: nat where
  "CodeTypeOK = 0"

record ('s, 'r) TxSubmitChecker =
  tc_storage :: "('s, 'r) Storage"
  tc_Tx :: "bytes \<Rightarrow> 's \<Rightarrow> TxResponse res \<times> 's"
  tc_retry :: "('s, TxResponse) retry"
  tc_runtime :: "('s, Metrics) runtime"

definition NewTxSubmitChecker where
  "NewTxSubmitChecker st tx rty R = \<lparr>tc_storage = st, tc_Tx = tx, tc_retry = rty, tc_runtime = R\<rparr>"

definition retryGetTxStatus :: "('s, 'r) TxSubmitChecker \<Rightarrow> bytes \<Rightarrow> 's \<Rightarrow> TxResponse res \<times> 's" where
  "retryGetTxStatus tc neutronHash s = tc_retry tc (tc_Tx tc neutronHash) s"

text \<open>An error of the storage is only logged.\<close>

definition updateTxStatus ::
  "('s, 'r) TxSubmitChecker \<Rightarrow> PendingSubmittedTxInfo \<Rightarrow> SubmittedTxInfo \<Rightarrow> 's \<Rightarrow> unit res \<times> 's" where
  "updateTxStatus tc tx status s =
     (case st_SetTxStatus (tc_storage tc) (pd_QueryID tx) (pd_SubmittedTxHash tx) (pd_NeutronHash tx) status None s of
        (Inl (GoErr e), s) \<Rightarrow> (Ok (), s)
      | (r, s) \<Rightarrow> (r, s))"

definition processSubmittedTx ::
  "('s, 'r) TxSubmitChecker \<Rightarrow> PendingSubmittedTxInfo \<Rightarrow> 's \<Rightarrow> unit res \<times> 's" where
  "processSubmittedTx tc tx s =
     go_try (hex_decode (pd_NeutronHash tx), s) ''failed to DecodeString'' (\<lambda>neutronHash s.
     go_try (retryGetTxStatus tc neutronHash s) ''failed to retryGetTxStatus'' (\<lambda>txResponse s.
     if tr_Code txResponse = CodeTypeOK then
       updateTxStatus tc tx \<lparr>ti_Status = Committed, ti_Message = []\<rparr>
         (rt_metrics (tc_runtime tc) IncSuccessTxSubmit s)
     else
       updateTxStatus tc tx
         \<lparr>ti_Status = ErrorOnCommit,
          ti_Message = ''Code: '' @ format_nat (tr_Code txResponse) @ '', Log: '' @ tr_Log txResponse\<rparr>
         (rt_metrics (tc_runtime tc) IncFailedTxSubmit s)))"

text \<open>The loop at startup, and the main loop over the tasks received before the cancellation.\<close>

fun process_all :: "('s, 'r) TxSubmitChecker \<Rightarrow> PendingSubmittedTxInfo list \<Rightarrow> 's \<Rightarrow> unit res \<times> 's" where
  "process_all tc [] s = (Ok (), s)"
| "process_all tc (tx # txs) s =
     (case processSubmittedTx tc tx s of
        (Inl (GoErr err), s) \<Rightarrow> process_all tc txs s
      | (Inl f, s) \<Rightarrow> (Inl f, s)
      | (Inr _, s) \<Rightarrow> process_all tc txs s)"

definition CheckerRun :: "('s, 'r) TxSubmitChecker \<Rightarrow> PendingSubmittedTxInfo list \<Rightarrow> 's \<Rightarrow> unit res \<times> 's" where
  "CheckerRun tc tasks s =
     go_try (st_GetAllPendingTxs (tc_storage tc) s) ''failed to read pending txs from storage'' (\<lambda>pending s.
     go_then (process_all tc pending s) (\<lambda>_ s.
     process_all tc tasks s))"

section \<open>What a check does to the store\<close>

text \<open>\<open>check_keeps\<close>: the node query, the retries and the metrics leave \<open>P\<close> alone.\<close>

definition check_keeps :: "('s, 'r) TxSubmitChecker \<Rightarrow> ('s \<Rightarrow> bool) \<Rightarrow> bool" where
  "check_keeps tc P \<longleftrightarrow> retry_ok (tc_retry tc) \<and>
     (\<forall>s. P s \<longrightarrow> (\<forall>f. P (rt_metrics (tc_runtime tc) f s)) \<and> (\<forall>b. P (snd (tc_Tx tc b s))))"

text \<open>The store after a transaction is resolved as the answer \<open>resp\<close> of the node says.\<close>

definition resolves :: "PendingSubmittedTxInfo \<Rightarrow> TxResponse \<Rightarrow> 'r tx_store \<Rightarrow> 'r tx_store \<Rightarrow> bool" where
  "resolves tx resp S S' \<longleftrightarrow> (\<exists>ti now.
     ti_Status ti = (if tr_Code resp = CodeTypeOK then Committed else ErrorOnCommit) \<and>
     S' = spec_SetTxStatus (pd_QueryID tx) (pd_SubmittedTxHash tx) (pd_NeutronHash tx) ti None now S)"

context relay_storage
begin

lemma updateTxStatus_ok:
  assumes "tc_storage tc = st" "ok s" "is_txhash (pd_SubmittedTxHash tx)" "updateTxStatus tc tx ti s = (r, s')"
  shows "ok s' \<and> (store s' = store s \<or> (\<exists>now. store s' =
      spec_SetTxStatus (pd_QueryID tx) (pd_SubmittedTxHash tx) (pd_NeutronHash tx) ti None now (store s))) \<and>
    (\<forall>e. r \<noteq> Err e) \<and> (\<forall>f. r = Inl f \<longrightarrow> store s' = store s)"
proof -
  obtain r1 s1 where 1: "st_SetTxStatus st (pd_QueryID tx) (pd_SubmittedTxHash tx) (pd_NeutronHash tx) ti None s = (r1, s1)"
    by fastforce
  from set_status [OF assms(2,3) storable_None 1] 1 assms(1,4) show ?thesis
    by (cases r1; cases "projl r1") (auto simp: updateTxStatus_def)
qed

text \<open>
  A check leaves the store alone, or resolves the transaction as the node answered: an error
  of the node, of the retries or of the hash never touches the store.
\<close>

lemma processSubmittedTx_ok:
  assumes tc: "tc_storage tc = st" "\<And>S. check_keeps tc (\<lambda>s. ok s \<and> store s = S)"
    and s: "ok s" "is_txhash (pd_SubmittedTxHash tx)" and run: "processSubmittedTx tc tx s = (r, s')"
  shows "ok s' \<and> (store s' = store s \<or> (\<exists>b resp s1 s2. hex_decode (pd_NeutronHash tx) = Inr b \<and>
      tc_Tx tc b s1 = (Inr resp, s2) \<and> resolves tx resp (store s) (store s'))) \<and>
    (\<forall>f. r = Inl f \<longrightarrow> store s' = store s)"
proof (cases "hex_decode (pd_NeutronHash tx)")
  case (Inl f)
  with run s show ?thesis by (auto simp: processSubmittedTx_def)
next
  case (Inr b)
  define K where "K = (\<lambda>s1. ok s1 \<and> store s1 = store s)"
  have keeps: "check_keeps tc K" using tc(2) by (simp add: K_def)
  have K: "K s" using s(1) by (simp add: K_def)
  obtain r1 s1 where 1: "retryGetTxStatus tc b s = (r1, s1)" by fastforce
  then have rt: "retried (tc_Tx tc b) s r1 s1"
    using keeps by (auto simp: retryGetTxStatus_def check_keeps_def intro: retry_okD)
  have step: "\<And>s. K s \<Longrightarrow> K (snd (tc_Tx tc b s))" using keeps by (simp add: check_keeps_def)
  from retried_state [OF rt, of K] K step have K1: "K s1" by blast
  show ?thesis
  proof (cases r1)
    case (Inl f)
    with run Inr 1 K1 show ?thesis by (auto simp: processSubmittedTx_def K_def)
  next
    case resp: (Inr resp)
    from retried_Inr [OF rt resp, of K] K step obtain s0 where node: "tc_Tx tc b s0 = (Inr resp, s1)" by blast
    define ti where "ti = (if tr_Code resp = CodeTypeOK then \<lparr>ti_Status = Committed, ti_Message = []\<rparr>
      else \<lparr>ti_Status = ErrorOnCommit,
        ti_Message = ''Code: '' @ format_nat (tr_Code resp) @ '', Log: '' @ tr_Log resp\<rparr>)"
    obtain g where run': "updateTxStatus tc tx ti (rt_metrics (tc_runtime tc) g s1) = (r, s')"
      using run Inr 1 resp by (auto simp: processSubmittedTx_def ti_def split: if_splits)
    have "K (rt_metrics (tc_runtime tc) g s1)"
      using keeps K1 by (simp add: check_keeps_def)
    with updateTxStatus_ok [OF tc(1) _ s(2) run'] have
      "ok s' \<and> (store s' = store s \<or> (\<exists>now. store s' =
         spec_SetTxStatus (pd_QueryID tx) (pd_SubmittedTxHash tx) (pd_NeutronHash tx) ti None now (store s))) \<and>
       (\<forall>f. r = Inl f \<longrightarrow> store s' = store s)"
      by (auto simp: K_def)
    moreover have "ti_Status ti = (if tr_Code resp = CodeTypeOK then Committed else ErrorOnCommit)"
      by (simp add: ti_def)
    ultimately show ?thesis using node Inr unfolding resolves_def by blast
  qed
qed

text \<open>
  When the node answers every query and the storage does not fail, the loop over the pending
  transactions leaves none of them pending.
\<close>

lemma processSubmittedTx_answered:
  assumes tc: "tc_storage tc = st" "\<And>S. check_keeps tc (\<lambda>s. ok s \<and> store s = S)"
    and s: "ok s" "is_txhash (pd_SubmittedTxHash tx)" and hash: "hex_decode (pd_NeutronHash tx) = Inr b"
    and answers: "\<And>s. \<exists>resp s'. tc_retry tc (tc_Tx tc b) s = (Inr resp, s')"
    and writes: "\<And>ti s. ok s \<Longrightarrow> \<exists>s'. st_SetTxStatus st (pd_QueryID tx) (pd_SubmittedTxHash tx)
      (pd_NeutronHash tx) ti None s = (Inr (), s')"
  shows "\<exists>s' resp. processSubmittedTx tc tx s = (Inr (), s') \<and> ok s' \<and> resolves tx resp (store s) (store s')"
proof -
  define K where "K = (\<lambda>s1. ok s1 \<and> store s1 = store s)"
  have keeps: "check_keeps tc K" using tc(2) by (simp add: K_def)
  have K: "K s" using s(1) by (simp add: K_def)
  from answers obtain resp s1 where 1: "tc_retry tc (tc_Tx tc b) s = (Inr resp, s1)" by blast
  then have "retried (tc_Tx tc b) s (Inr resp) s1" using keeps by (auto simp: check_keeps_def intro: retry_okD)
  from retried_state [OF this, of K] K keeps have K1: "K s1" by (auto simp: check_keeps_def)
  define ti where "ti = (if tr_Code resp = CodeTypeOK then \<lparr>ti_Status = Committed, ti_Message = []\<rparr>
    else \<lparr>ti_Status = ErrorOnCommit,
      ti_Message = ''Code: '' @ format_nat (tr_Code resp) @ '', Log: '' @ tr_Log resp\<rparr>)"
  define g where "g = (if tr_Code resp = CodeTypeOK then IncSuccessTxSubmit else IncFailedTxSubmit)"
  have K2: "K (rt_metrics (tc_runtime tc) g s1)"
    using keeps K1 by (simp add: check_keeps_def)
  with writes [of "rt_metrics (tc_runtime tc) g s1" ti] obtain s' where
    w: "st_SetTxStatus st (pd_QueryID tx) (pd_SubmittedTxHash tx) (pd_NeutronHash tx) ti None
      (rt_metrics (tc_runtime tc) g s1) = (Inr (), s')" by (auto simp: K_def)
  have "processSubmittedTx tc tx s = (Inr (), s')"
    using hash 1 w tc(1)
    by (cases "tr_Code resp = CodeTypeOK") (simp_all add: processSubmittedTx_def retryGetTxStatus_def updateTxStatus_def ti_def g_def)
  moreover have "ti_Status ti = (if tr_Code resp = CodeTypeOK then Committed else ErrorOnCommit)"
    by (simp add: ti_def)
  then have "ok s' \<and> resolves tx resp (store s) (store s')"
    using set_status [OF _ s(2) storable_None w] K2 unfolding K_def resolves_def by auto
  ultimately show ?thesis by blast
qed

lemma process_all_answered:
  assumes tc: "tc_storage tc = st" "\<And>S. check_keeps tc (\<lambda>s. ok s \<and> store s = S)"
    and "ok s" "\<forall>tx \<in> set txs. is_txhash (pd_SubmittedTxHash tx) \<and> (\<exists>b. hex_decode (pd_NeutronHash tx) = Inr b)"
    and answers: "\<And>b s. \<exists>resp s'. tc_retry tc (tc_Tx tc b) s = (Inr resp, s')"
    and writes: "\<And>q h n ti s. ok s \<Longrightarrow> \<exists>s'. st_SetTxStatus st q h n ti None s = (Inr (), s')"
  shows "\<exists>s'. process_all tc txs s = (Inr (), s') \<and> ok s' \<and>
    (\<forall>n. pending (store s) n = None \<longrightarrow> pending (store s') n = None) \<and>
    (\<forall>tx \<in> set txs. pending (store s') (pd_NeutronHash tx) = None)"
  using assms(3,4)
proof (induction txs arbitrary: s)
  case (Cons tx txs)
  then obtain b where "is_txhash (pd_SubmittedTxHash tx)" "hex_decode (pd_NeutronHash tx) = Inr b" by auto
  from processSubmittedTx_answered [OF tc Cons.prems(1) this answers writes] obtain s1 resp where
    1: "processSubmittedTx tc tx s = (Inr (), s1)" "ok s1" "resolves tx resp (store s) (store s1)" by blast
  from 1(3) have p: "pending (store s1) = (pending (store s))(pd_NeutronHash tx := None)"
    by (auto simp: resolves_def spec_SetTxStatus_def split: if_splits)
  from Cons.IH [OF 1(2)] Cons.prems(2) obtain s' where
    "process_all tc txs s1 = (Inr (), s')" "ok s'"
    "\<forall>n. pending (store s1) n = None \<longrightarrow> pending (store s') n = None"
    "\<forall>tx \<in> set txs. pending (store s') (pd_NeutronHash tx) = None" by auto
  with 1(1) p show ?case by auto
qed simp

end

end
