(* ===== verification/Json_Indent.thy ===== *)
theory Json_Indent
  imports Relay_Types
begin

text \<open>
  The indented documents of the HTTP API (\<open>json.Encoder\<close> with \<open>SetIndent("", "  ")\<close>) and the
  decoding of JSON arrays into slices. Parsing an indented document gives the same value as
  parsing the compact one.
\<close>

section \<open>Indented printing\<close>

definition new_line :: "nat \<Rightarrow> string" where
  "new_line n = CHR 0x0A # replicate (2 * n) (CHR '' '')"

fun json_indented :: "nat \<Rightarrow> json \<Rightarrow> string" where
  "json_indented n (JArr vs) =
     (if vs = [] then ''[]''
      else CHR ''['' # new_line (Suc n) @
        str_join (CHR '','' # new_line (Suc n)) (map (json_indented (Suc n)) vs) @ new_line n @ '']'')"
| "json_indented n (JObj ms) =
     (if ms = [] then ''{}''
      else CHR ''{'' # new_line (Suc n) @
        str_join (CHR '','' # new_line (Suc n))
          (map (\<lambda>(k, v). quote_str k @ '': '' @ json_indented (Suc n) v) ms) @ new_line n @ ''}'')"
| "json_indented n v = json_text v"

text \<open>\<open>Encoder.Encode\<close> ends the document with a newline, indented or not.\<close>

definition encode_indented :: "json \<Rightarrow> string" where
  "encode_indented v = json_indented 0 v @ [CHR 0x0A]"

definition encode_compact :: "json \<Rightarrow> string" where
  "encode_compact v = json_text v @ [CHR 0x0A]"

section \<open>Parsing it back\<close>

lemma is_ws_simps [simp]: "is_ws (CHR 0x0A)" "is_ws (CHR '' '')"
  by (simp_all add: is_ws_def)

lemma skip_ws_space [simp]: "is_ws c \<Longrightarrow> skip_ws (c # t) = skip_ws t"
  by (simp add: skip_ws_def)

lemma skip_ws_new_line [simp]: "skip_ws (new_line n @ t) = skip_ws t"
proof -
  have "skip_ws (replicate k (CHR '' '') @ t) = skip_ws t" for k
    by (induction k) simp_all
  then show ?thesis by (simp add: new_line_def)
qed

lemma parse_value_new_line [simp]: "parse_value f (new_line n @ t) = parse_value f t"
  by (cases f) simp_all

lemma parse_value_space [simp]: "is_ws c \<Longrightarrow> parse_value f (c # t) = parse_value f t"
  by (cases f) simp_all

lemma parse_elems_new_line [simp]: "parse_elems f (new_line n @ t) = parse_elems f t"
  by (cases f) simp_all

lemma parse_members_new_line [simp]: "parse_members f (new_line n @ t) = parse_members f t"
  by (cases f) simp_all

lemma ends_value_new_line [simp]: "ends_value (new_line n @ t)" "ends_value (CHR 0x0A # t)"
  by (simp_all add: new_line_def ends_value_def is_num_char_def is_digit_def)

definition parses_indented :: "json \<Rightarrow> bool" where
  "parses_indented v \<longleftrightarrow> (\<forall>f n t. length (json_text v) \<le> f \<longrightarrow> ends_value t \<longrightarrow>
     parse_value f (json_indented n v @ t) = Some (json_clean v, t))"

lemma parses_indentedD:
  "parses_indented v \<Longrightarrow> length (json_text v) \<le> f \<Longrightarrow> ends_value t \<Longrightarrow>
   parse_value f (json_indented n v @ t) = Some (json_clean v, t)"
  by (simp add: parses_indented_def)

lemma str_join_Cons: "xs \<noteq> [] \<Longrightarrow> str_join sep (x # xs) = x @ sep @ str_join sep xs"
  by (simp add: str_join_first)

lemma parse_elems_indented:
  assumes "vs \<noteq> []" "\<forall>v\<in>set vs. parses_indented v \<and> json_ok v"
    "length (str_join '','' (map json_text vs)) < f"
  shows "parse_elems f (str_join (CHR '','' # new_line m) (map (json_indented m) vs) @ new_line n @ CHR '']'' # t) =
    Some (map json_clean vs, t)"
  using assms
proof (induction vs arbitrary: f)
  case (Cons v vs)
  obtain g where f: "f = Suc g" using Cons.prems(3) by (cases f) auto
  have pv: "parses_indented v" using Cons.prems by simp
  show ?case
  proof (cases "vs = []")
    case True
    with Cons.prems f have "length (json_text v) \<le> g" by simp
    with parses_indentedD [OF pv this] True f show ?thesis by simp
  next
    case False
    let ?rest = "str_join '','' (map json_text vs)"
    have "str_join '','' (map json_text (v # vs)) = json_text v @ CHR '','' # ?rest"
      using False by (simp add: str_join_first)
    with Cons.prems(2,3) f have "length (json_text v) \<le> g" "length ?rest < g"
      using length_json_text [of v] by auto
    with parses_indentedD [OF pv] Cons.IH [of g] Cons.prems(2) False f show ?thesis
      by (simp add: str_join_Cons)
  qed
qed simp

lemma parse_members_indented:
  assumes "ms \<noteq> []" "\<forall>(k, v)\<in>set ms. parses_indented v \<and> json_ok v"
    "length (str_join '','' (map member_text ms)) < f"
  shows "parse_members f (str_join (CHR '','' # new_line m)
      (map (\<lambda>(k, v). quote_str k @ '': '' @ json_indented m v) ms) @ new_line n @ CHR ''}'' # t) =
    Some (map (\<lambda>(k, v). (utf8_clean k, json_clean v)) ms, t)"
  using assms
proof (induction ms arbitrary: f)
  case (Cons x ms)
  obtain k v where x: "x = (k, v)" by (cases x)
  obtain g where f: "f = Suc g" using Cons.prems(3) by (cases f) auto
  have pv: "parses_indented v" using Cons.prems x by simp
  have key: "quote_str k @ u = CHR 0x22 # (tl (quote_str k) @ u)" for u
    by (subst quote_str_Cons) simp
  show ?case
  proof (cases "ms = []")
    case True
    with Cons.prems f x have "length (json_text v) \<le> g"
      using length_quote_str [of k] by (simp add: member_text_def)
    with parses_indentedD [OF pv this] True f show ?thesis by (simp add: x key parse_chars_quote_str)
  next
    case False
    let ?rest = "str_join '','' (map member_text ms)"
    have "str_join '','' (map member_text (x # ms)) = quote_str k @ CHR '':'' # json_text v @ CHR '','' # ?rest"
      using False by (simp add: str_join_first member_text_def x)
    with Cons.prems(3) f have "length (json_text v) \<le> g" "length ?rest < g"
      using length_quote_str [of k] by auto
    with parses_indentedD [OF pv] Cons.IH [of g] Cons.prems(2) False f show ?thesis
      by (simp add: x str_join_Cons key parse_chars_quote_str)
  qed
qed simp

lemma json_indented_first:
  assumes "json_ok v"
  obtains c r where "json_indented n v = c # r" "\<not> is_ws c" "c \<noteq> CHR '']''" "c \<noteq> CHR ''}''"
proof (cases v)
  case (JArr vs)
  then show thesis using that by (cases vs) simp_all
next
  case (JObj ms)
  then show thesis using that by (cases ms) simp_all
qed (use assms json_text_first [of v] that in auto)

lemma parses_indented_arr:
  assumes "\<forall>v\<in>set vs. parses_indented v \<and> json_ok v"
  shows "parses_indented (JArr vs)"
  unfolding parses_indented_def
proof (intro allI impI)
  fix f n t assume len: "length (json_text (JArr vs)) \<le> f"
  then obtain g where f: "f = Suc g" by (cases f) auto
  show "parse_value f (json_indented n (JArr vs) @ t) = Some (json_clean (JArr vs), t)"
  proof (cases vs)
    case (Cons v ws)
    let ?body = "str_join (CHR '','' # new_line (Suc n)) (map (json_indented (Suc n)) vs)"
    from len f have "length (str_join '','' (map json_text vs)) < g" by simp
    then have "parse_elems g (?body @ new_line n @ CHR '']'' # t) = Some (map json_clean vs, t)"
      using Cons assms by (intro parse_elems_indented) auto
    moreover obtain c r where "json_indented (Suc n) v = c # r" "\<not> is_ws c" "c \<noteq> CHR '']''"
      using assms Cons by (auto elim: json_indented_first [of v "Suc n"])
    then have "take 1 (skip_ws (?body @ new_line n @ CHR '']'' # t)) \<noteq> '']''"
      by (simp add: Cons str_join_first)
    ultimately show ?thesis using f Cons by simp
  qed (use f in simp)
qed

lemma parses_indented_obj:
  assumes "\<forall>(k, v)\<in>set ms. parses_indented v \<and> json_ok v"
  shows "parses_indented (JObj ms)"
  unfolding parses_indented_def
proof (intro allI impI)
  fix f n t assume len: "length (json_text (JObj ms)) \<le> f"
  then obtain g where f: "f = Suc g" by (cases f) auto
  show "parse_value f (json_indented n (JObj ms) @ t) = Some (json_clean (JObj ms), t)"
  proof (cases ms)
    case (Cons m ws)
    let ?body = "str_join (CHR '','' # new_line (Suc n))
      (map (\<lambda>(k, v). quote_str k @ '': '' @ json_indented (Suc n) v) ms)"
    from len f have "length (str_join '','' (map member_text ms)) < g" unfolding json_text_obj by simp
    then have "parse_members g (?body @ new_line n @ CHR ''}'' # t) =
        Some (map (\<lambda>(k, v). (utf8_clean k, json_clean v)) ms, t)"
      using Cons assms by (intro parse_members_indented) auto
    moreover have "\<exists>r. ?body = CHR 0x22 # r"
      by (cases m) (auto simp: Cons str_join_first quote_str_def)
    then have "take 1 (skip_ws (?body @ new_line n @ CHR ''}'' # t)) \<noteq> ''}''" by auto
    ultimately show ?thesis using f Cons by simp
  qed (use f in simp)
qed

lemma parses_indented_flat:
  "(\<And>n. json_indented n v = json_text v) \<Longrightarrow> json_ok v \<Longrightarrow> parses_indented v"
  by (simp add: parses_indented_def parse_value_text)

lemma parses_indented_json_ok: "json_ok v \<Longrightarrow> parses_indented v"
proof (induction v)
  case (JArr vs)
  then show ?case by (intro parses_indented_arr) (auto simp: list_all_iff)
next
  case (JObj ms)
  then show ?case by (intro parses_indented_obj) (fastforce simp: list_all_iff)
qed (auto intro: parses_indented_flat simp del: json_text.simps)

lemma str_join_le:
  "length s \<le> length s' \<Longrightarrow> list_all2 (\<lambda>a b. length a \<le> length b) xs ys \<Longrightarrow>
   length (str_join s xs) \<le> length (str_join s' ys)"
proof (induction xs arbitrary: ys)
  case (Cons x xs)
  then obtain y ys' where "ys = y # ys'" "length x \<le> length y" "list_all2 (\<lambda>a b. length a \<le> length b) xs ys'"
    by (auto simp: list_all2_Cons1)
  moreover from this have "xs = [] \<longleftrightarrow> ys' = []" by auto
  ultimately show ?case using Cons.IH [of ys'] Cons.prems(1) by (simp add: str_join_first)
qed simp

lemma json_indented_length: "length (json_text v) \<le> length (json_indented n v)"
proof (induction v arbitrary: n)
  case (JArr vs)
  then have "length (str_join '','' (map json_text vs)) \<le>
      length (str_join (CHR '','' # new_line (Suc n)) (map (json_indented (Suc n)) vs))"
    by (intro str_join_le) (auto simp: list_all2_map1 list_all2_map2 list.rel_refl_strong)
  then show ?case by (cases vs) simp_all
next
  case (JObj ms)
  then have "length (str_join '','' (map member_text ms)) \<le>
      length (str_join (CHR '','' # new_line (Suc n)) (map (\<lambda>(k, v). quote_str k @ '': '' @ json_indented (Suc n) v) ms))"
    by (intro str_join_le)
      (fastforce simp: list_all2_map1 list_all2_map2 member_text_def intro!: list.rel_refl_strong le_SucI)+
  then show ?case unfolding json_text_obj by (cases ms) simp_all
qed simp_all

lemma decode_first_printed:
  assumes "json_ok v" "length (json_text v) \<le> length p" "\<exists>c r. p = c # r \<and> \<not> is_ws c"
    and "\<And>f. length (json_text v) \<le> f \<Longrightarrow> parse_value f (p @ [CHR 0x0A]) = Some (json_clean v, [CHR 0x0A])"
  shows "json_decode_first (p @ [CHR 0x0A]) = Ok (json_clean v)"
proof -
  have "skip_ws (p @ [CHR 0x0A]) \<noteq> []" using assms(3) by auto
  with assms(2) assms(4) [of "Suc (length (p @ [CHR 0x0A]))"] show ?thesis
    by (simp add: json_decode_first_def del: parse_value.simps)
qed

lemma decode_encode_indented [simp]:
  assumes "json_ok v"
  shows "json_decode_first (encode_indented v) = Ok (json_clean v)"
  unfolding encode_indented_def
  using assms json_indented_length [of v 0] parses_indentedD [OF parses_indented_json_ok [OF assms], of _ "[CHR 0x0A]" 0]
  by (intro decode_first_printed) (auto elim: json_indented_first [of v 0])

lemma decode_encode_compact [simp]:
  assumes "json_ok v"
  shows "json_decode_first (encode_compact v) = Ok (json_clean v)"
  unfolding encode_compact_def
  using assms parse_value_text [OF assms, of _ "[CHR 0x0A]"]
  by (intro decode_first_printed) (auto elim: json_text_first [of v])

section \<open>Slices\<close>

text \<open>
  A slice is \<open>None\<close> when nil. An array is decoded element by element into the elements the
  slice already has, then into zero values; \<open>null\<close> makes the slice nil.
\<close>

fun decode_elems :: "('a \<Rightarrow> json \<Rightarrow> 'a res) \<Rightarrow> 'a \<Rightarrow> 'a list \<Rightarrow> json list \<Rightarrow> 'a list res" where
  "decode_elems step zero olds [] = Ok []"
| "decode_elems step zero olds (v # vs) =
     res_then (step (case olds of [] \<Rightarrow> zero | x # _ \<Rightarrow> x) v) (\<lambda>x.
     res_then (decode_elems step zero (tl olds) vs) (\<lambda>xs. Ok (x # xs)))"

definition decode_slice :: "('a \<Rightarrow> json \<Rightarrow> 'a res) \<Rightarrow> 'a \<Rightarrow> 'a list option \<Rightarrow> json \<Rightarrow> 'a list option res" where
  "decode_slice step zero old v = (case v of
       JNull \<Rightarrow> Ok None
     | JArr vs \<Rightarrow> res_then (decode_elems step zero (case old of None \<Rightarrow> [] | Some xs \<Rightarrow> xs) vs) (\<lambda>xs. Ok (Some xs))
     | _ \<Rightarrow> type_error)"

definition encode_slice :: "('a \<Rightarrow> json) \<Rightarrow> 'a list option \<Rightarrow> json" where
  "encode_slice enc xs = (case xs of None \<Rightarrow> JNull | Some xs \<Rightarrow> JArr (map enc xs))"

lemma decode_elems_encoded:
  assumes "\<And>x. x \<in> set xs \<Longrightarrow> step zero (json_clean (enc x)) = Ok (g x)"
  shows "decode_elems step zero [] (map (\<lambda>x. json_clean (enc x)) xs) = Ok (map g xs)"
  using assms by (induction xs) auto

lemma decode_slice_encoded:
  assumes "\<And>x. x \<in> set xs \<Longrightarrow> step zero (json_clean (enc x)) = Ok (g x)" "old = Some [] \<or> old = None"
  shows "decode_slice step zero old (json_clean (encode_slice enc (Some xs))) = Ok (Some (map g xs))"
  using decode_elems_encoded [of xs step zero enc g] assms
  by (auto simp: decode_slice_def encode_slice_def comp_def)

lemma json_ok_slice [simp]: "(\<And>x. json_ok (enc x)) \<Longrightarrow> json_ok (encode_slice enc xs)"
  by (cases xs) (auto simp: encode_slice_def list_all_iff)

end
