(* ===== verification/Http.thy ===== *)
theory Http
  imports Json_Indent Tx_Processor
begin

text \<open>
  \<open>internal/http\<close> and the commands that use it (\<open>cmd/.../exec.go\<close>, \<open>query.go\<close>, \<open>root.go\<close>):
  the web server with its two resources and the metrics page, the client of it, and the
  command line. The network, gorilla/mux and the Prometheus handler are parameters.
\<close>

section \<open>Requests and responses\<close>

definition UnsuccessfulTxsResource :: string where
  "UnsuccessfulTxsResource = ''/unsuccessful-txs''"

definition ResubmitTxs_path :: string where
  "ResubmitTxs_path = ''/resubmit-txs''"

definition PrometheusMetrics :: string where
  "PrometheusMetrics = ''/metrics''"

record ResubmitTx =
  rtx_QueryID :: u64
  rtx_Hash :: string

record ResubmitRequest =
  rq_Txs :: "ResubmitTx list option"

record HttpResponse =
  rs_StatusCode :: nat
  rs_Body :: string

definition http_Error :: "string \<Rightarrow> nat \<Rightarrow> HttpResponse" where
  "http_Error msg code = \<lparr>rs_StatusCode = code, rs_Body = msg @ [CHR 0x0A]\<rparr>"

lemma http_Error_code [simp]: "rs_StatusCode (http_Error msg code) = code"
  by (simp add: http_Error_def)

lemma http_Error_if [simp]:
  "rs_StatusCode (if b then http_Error m c else http_Error m' c') = (if b then c else c')"
  by simp

definition encode_ResubmitTx :: "ResubmitTx \<Rightarrow> json" where
  "encode_ResubmitTx t = JObj [(''query_id'', JNum (FormatUint (rtx_QueryID t))), (''hash'', JStr (rtx_Hash t))]"

definition step_ResubmitTx :: "ResubmitTx \<Rightarrow> string \<Rightarrow> json \<Rightarrow> ResubmitTx res" where
  "step_ResubmitTx t k v =
     (if field_is ''query_id'' k then res_then (decode_uint64 (rtx_QueryID t) v) (\<lambda>x. Ok (t\<lparr>rtx_QueryID := x\<rparr>))
      else if field_is ''hash'' k then res_then (decode_string (rtx_Hash t) v) (\<lambda>x. Ok (t\<lparr>rtx_Hash := x\<rparr>))
      else Ok t)"

definition zero_ResubmitTx :: ResubmitTx where
  "zero_ResubmitTx = \<lparr>rtx_QueryID = 0, rtx_Hash = []\<rparr>"

definition encode_ResubmitRequest :: "ResubmitRequest \<Rightarrow> json" where
  "encode_ResubmitRequest r = JObj [(''txs'', encode_slice encode_ResubmitTx (rq_Txs r))]"

definition step_ResubmitRequest :: "ResubmitRequest \<Rightarrow> string \<Rightarrow> json \<Rightarrow> ResubmitRequest res" where
  "step_ResubmitRequest r k v =
     (if field_is ''txs'' k then
        res_then (decode_slice (decode_struct step_ResubmitTx) zero_ResubmitTx (rq_Txs r) v)
          (\<lambda>x. Ok (r\<lparr>rq_Txs := x\<rparr>))
      else Ok r)"

definition decode_ResubmitRequest :: "json \<Rightarrow> ResubmitRequest res" where
  "decode_ResubmitRequest = decode_struct step_ResubmitRequest \<lparr>rq_Txs = None\<rparr>"

section \<open>The server\<close>

text \<open>
  A handler takes the body of a request and returns the response it writes. A panic is not
  caught by the handler: \<open>net/http\<close> closes the connection.
\<close>

definition unsuccessfulTxs :: "('s, 'r) Storage \<Rightarrow> 's \<Rightarrow> HttpResponse res \<times> 's" where
  "unsuccessfulTxs st s =
     (case st_GetAllUnsuccessfulTxs st s of
        (Inl (GoErr err), s) \<Rightarrow> (Ok (http_Error ''Error processing request'' 500), s)
      | (Inl f, s) \<Rightarrow> (Inl f, s)
      | (Inr txs, s) \<Rightarrow>
          (Ok \<lparr>rs_StatusCode = 200, rs_Body = encode_indented (encode_slice encode_Unsuccessful (Some txs))\<rparr>, s))"

text \<open>The loop over the requested transactions; it answers at the first failure.\<close>

fun resubmit_each ::
  "('s, 'r) Storage \<Rightarrow> ('s, 'r) TXProcessor \<Rightarrow> ResubmitTx list \<Rightarrow> 's \<Rightarrow> HttpResponse res \<times> 's" where
  "resubmit_each st tp [] s = (Ok \<lparr>rs_StatusCode = 200, rs_Body = []\<rparr>, s)"
| "resubmit_each st tp (txInfo # txs) s =
     (case st_GetCachedTx st (rtx_QueryID txInfo) (rtx_Hash txInfo) s of
        (Inl (GoErr err), s) \<Rightarrow>
          (Ok (if errors_Is_NotFound err
             then http_Error (''no tx found with queryID='' @ FormatUint (rtx_QueryID txInfo) @ '' and hash='' @
               rtx_Hash txInfo) 400
             else http_Error (''Error processing request: '' @ err_text err) 500), s)
      | (Inl f, s) \<Rightarrow> (Inl f, s)
      | (Inr tx, s) \<Rightarrow>
          (case tp_ProcessAndSubmit tp (rtx_QueryID txInfo) tx s of
             (Inl (GoErr err), s) \<Rightarrow> (Ok (http_Error (''Error processing request: '' @ err_text err) 500), s)
           | (Inl f, s) \<Rightarrow> (Inl f, s)
           | (Inr _, s) \<Rightarrow> resubmit_each st tp txs s))"

definition resubmitFailedTxs ::
  "('s, 'r) Storage \<Rightarrow> ('s, 'r) TXProcessor \<Rightarrow> string \<Rightarrow> 's \<Rightarrow> HttpResponse res \<times> 's" where
  "resubmitFailedTxs st tp body s =
     (case res_then (json_decode_first body) decode_ResubmitRequest of
        Inl (GoErr err) \<Rightarrow> (Ok (http_Error (''Error processing request: '' @ err_text err) 500), s)
      | Inl f \<Rightarrow> (Inl f, s)
      | Inr reqBody \<Rightarrow> resubmit_each st tp (case rq_Txs reqBody of None \<Rightarrow> [] | Some txs \<Rightarrow> txs) s)"

text \<open>\<open>monitoring.go\<close>: the gauge is set from the storage before the metrics are served.\<close>

record ('s, 'r) PromWrapper =
  promHandler :: "'s \<Rightarrow> HttpResponse res \<times> 's"
  pw_storage :: "('s, 'r) Storage"
  pw_runtime :: "('s, Metrics) runtime"

definition NewPromWrapper where
  "NewPromWrapper handler st R = \<lparr>promHandler = handler, pw_storage = st, pw_runtime = R\<rparr>"

text \<open>With an error the slice is nil and the gauge is set to 0.\<close>

definition fillUnsuccessfulTxsMetric :: "('s, 'r) PromWrapper \<Rightarrow> 's \<Rightarrow> unit res \<times> 's" where
  "fillUnsuccessfulTxsMetric p s =
     (case st_GetAllUnsuccessfulTxs (pw_storage p) s of
        (Inl (GoErr err), s) \<Rightarrow> (Ok (), rt_metrics (pw_runtime p) (SetUnsuccessfulTxsSizeQueue 0) s)
      | (Inl f, s) \<Rightarrow> (Inl f, s)
      | (Inr txs, s) \<Rightarrow> (Ok (), rt_metrics (pw_runtime p) (SetUnsuccessfulTxsSizeQueue (length txs)) s))"

definition PromServeHTTP :: "('s, 'r) PromWrapper \<Rightarrow> 's \<Rightarrow> HttpResponse res \<times> 's" where
  "PromServeHTTP p s = go_then (fillUnsuccessfulTxsMetric p s) (\<lambda>_ s. promHandler p s)"

text \<open>The routes the router is given: path, allowed methods (all when \<open>None\<close>), handler.\<close>

record 's Route =
  ro_Path :: string
  ro_Methods :: "string list option"
  ro_Handler :: "string \<Rightarrow> 's \<Rightarrow> HttpResponse res \<times> 's"

definition Router ::
  "('s, 'r) Storage \<Rightarrow> ('s, 'r) TXProcessor \<Rightarrow> ('s, Metrics) runtime \<Rightarrow> ('s \<Rightarrow> HttpResponse res \<times> 's) \<Rightarrow>
   's Route list" where
  "Router st tp R handler =
     [\<lparr>ro_Path = UnsuccessfulTxsResource, ro_Methods = None, ro_Handler = (\<lambda>body. unsuccessfulTxs st)\<rparr>,
      \<lparr>ro_Path = ResubmitTxs_path, ro_Methods = Some [''POST''], ro_Handler = resubmitFailedTxs st tp\<rparr>,
      \<lparr>ro_Path = PrometheusMetrics, ro_Methods = None,
       ro_Handler = (\<lambda>body. PromServeHTTP (NewPromWrapper handler st R))\<rparr>]"

text \<open>
  \<open>mux M routes method path body\<close> is what gorilla/mux does with a request. It documents that
  the first route whose path and methods match handles it.
\<close>

type_synonym 's mux = "'s Route list \<Rightarrow> string \<Rightarrow> string \<Rightarrow> string \<Rightarrow> 's \<Rightarrow> HttpResponse res \<times> 's"

definition route_matches :: "string \<Rightarrow> string \<Rightarrow> 's Route \<Rightarrow> bool" where
  "route_matches m p r \<longleftrightarrow> ro_Path r = p \<and> (case ro_Methods r of None \<Rightarrow> True | Some ms \<Rightarrow> m \<in> set ms)"

definition mux_ok :: "'s mux \<Rightarrow> bool" where
  "mux_ok M \<longleftrightarrow> (\<forall>routes m p body r. find (route_matches m p) routes = Some r \<longrightarrow>
     M routes m p body = ro_Handler r body)"

text \<open>
  \<open>Run\<close>: which case of the \<open>select\<close> happens, then the shutdown. An error of \<open>ListenAndServe\<close>
  other than \<open>ErrServerClosed\<close> reaches the channel.
\<close>

datatype serve_event = ServeFailed goerr | CtxDone

definition http_Run :: "('s \<Rightarrow> unit res \<times> 's) \<Rightarrow> serve_event \<Rightarrow> 's \<Rightarrow> unit res \<times> 's" where
  "http_Run shutdown event s =
     (case event of
        ServeFailed err \<Rightarrow> (Err err, s)
      | CtxDone \<Rightarrow>
          (case shutdown s of
             (Inl (GoErr err), s) \<Rightarrow> (Ok (), s)
           | (r, s) \<Rightarrow> (r, s)))"

section \<open>The client\<close>

text \<open>
  \<open>url.URL\<close>: the fields the code writes and the others. \<open>net\<close> is what the client uses of the
  standard library and the network: \<open>url.Parse\<close>, the error of \<open>http.NewRequest\<close>, and
  \<open>client.Do\<close>, whose response has a body that may fail to be read.
\<close>

record 'u URL =
  u_rest :: 'u
  u_Path :: string
  u_RawQuery :: string

record ClientResponse =
  cr_StatusCode :: nat
  cr_Body :: "string res"

record ('s, 'u) net =
  url_Parse :: "string \<Rightarrow> 'u URL res"
  http_NewRequest :: "string \<Rightarrow> 'u URL \<Rightarrow> unit res"
  http_Do :: "int \<Rightarrow> string \<Rightarrow> 'u URL \<Rightarrow> string \<Rightarrow> 's \<Rightarrow> ClientResponse res \<times> 's"

definition getTimeout :: int where
  "getTimeout = 1000000000 * 5"

record 'u ICQClient =
  ic_host :: "'u URL"
  ic_Timeout :: int

definition NewICQClient :: "('s, 'u) net \<Rightarrow> string \<Rightarrow> 'u ICQClient res" where
  "NewICQClient N host =
     res_try (url_Parse N host) ''host parsing error'' (\<lambda>u.
       Ok \<lparr>ic_host = u\<lparr>u_Path := [], u_RawQuery := []\<rparr>, ic_Timeout = getTimeout\<rparr>)"

definition GetUnsuccessfulTxs ::
  "('s, 'u) net \<Rightarrow> 'u ICQClient \<Rightarrow> 's \<Rightarrow> UnsuccessfulTxInfo list option res \<times> 's" where
  "GetUnsuccessfulTxs N c s =
     (let u = (ic_host c)\<lparr>u_Path := UnsuccessfulTxsResource\<rparr> in
      go_try (http_NewRequest N ''GET'' u, s) ''failed to build http request'' (\<lambda>_ s.
      go_try (http_Do N (ic_Timeout c) ''GET'' u [] s) ''failed to make http request'' (\<lambda>resp s.
      if cr_StatusCode resp \<noteq> 200 then
        (Err (ErrText (''got unexpected http response status code: '' @ format_nat (cr_StatusCode resp))), s)
      else
        go_try (res_then (cr_Body resp) (\<lambda>body. res_then (json_decode_first body)
            (decode_slice (decode_struct step_Unsuccessful) zero_Unsuccessful (Some []))), s)
          ''failed to decode response body'' (\<lambda>txs s. (Ok txs, s)))))"

text \<open>
  \<open>fmt.Errorf(body)\<close> uses the body of the response as a format without arguments: a verb
  prints as \<open>%!v(MISSING)\<close>, a \<open>*\<close> as a bad width or precision. Explicit argument indexes
  (\<open>[n]\<close>) are not interpreted here, and a verb is one byte.
\<close>

definition is_flag :: "char \<Rightarrow> bool" where
  "is_flag c \<longleftrightarrow> c \<in> set ''#0+- ''"

definition verb_text :: "string \<Rightarrow> string \<times> string" where
  "verb_text r = (case r of
       [] \<Rightarrow> (''%!(NOVERB)'', [])
     | v # r \<Rightarrow> (if v = CHR ''%'' then ''%'' else ''%!'' @ v # ''(MISSING)'', r))"

definition bad_star :: "string \<Rightarrow> string \<Rightarrow> string \<times> string" where
  "bad_star msg r = (if take 1 r = ''*'' then (msg, tl r) else ([], dropWhile is_digit r))"

definition directive :: "string \<Rightarrow> string \<times> string" where
  "directive r =
     (let (wid, r1) = bad_star ''%!(BADWIDTH)'' (dropWhile is_flag r);
          (prec, r2) = (if take 1 r1 = ''.'' then bad_star ''%!(BADPREC)'' (tl r1) else ([], r1));
          (v, r3) = verb_text r2
      in (wid @ prec @ v, r3))"

lemma bad_star_length: "length (snd (bad_star msg r)) \<le> length r"
  by (simp add: bad_star_def length_dropWhile_le)

lemma directive_length: "length (snd (directive r)) \<le> length r"
proof -
  obtain wid r1 where 1: "bad_star ''%!(BADWIDTH)'' (dropWhile is_flag r) = (wid, r1)" by fastforce
  obtain prec r2 where 2: "(if take 1 r1 = ''.'' then bad_star ''%!(BADPREC)'' (tl r1) else ([], r1)) = (prec, r2)"
    by fastforce
  have "length r1 \<le> length r"
    using 1 bad_star_length [of "''%!(BADWIDTH)''" "dropWhile is_flag r"] length_dropWhile_le [of is_flag r] by simp
  moreover have "length r2 \<le> length r1"
    using 2 bad_star_length [of "''%!(BADPREC)''" "tl r1"] by (auto split: if_splits)
  moreover have "length (snd (verb_text r2)) \<le> length r2"
    by (cases r2) (auto simp: verb_text_def)
  moreover have "snd (directive r) = snd (verb_text r2)"
    using 1 2 by (simp add: directive_def split: prod.splits)
  ultimately show ?thesis by simp
qed

function Errorf_text :: "string \<Rightarrow> string" where
  "Errorf_text [] = []"
| "Errorf_text (c # r) =
     (if c = CHR ''%'' then fst (directive r) @ Errorf_text (snd (directive r)) else c # Errorf_text r)"
  by pat_completeness auto
termination
  by (relation "measure length") (auto simp: less_Suc_eq_le directive_length)

definition ResubmitTxs :: "('s, 'u) net \<Rightarrow> 'u ICQClient \<Rightarrow> ResubmitRequest \<Rightarrow> 's \<Rightarrow> unit res \<times> 's" where
  "ResubmitTxs N c txs s =
     (let u = (ic_host c)\<lparr>u_Path := ResubmitTxs_path\<rparr>; body = encode_compact (encode_ResubmitRequest txs) in
      go_try (http_NewRequest N ''POST'' u, s) ''failed to build http request'' (\<lambda>_ s.
      go_try (http_Do N (ic_Timeout c) ''POST'' u body s) ''failed to make http request'' (\<lambda>resp s.
      if cr_StatusCode resp = 400 then
        go_try (cr_Body resp, s) ''failed to read response(code 400) body'' (\<lambda>errBody s.
          (Err (ErrText (Errorf_text errBody)), s))
      else if cr_StatusCode resp \<noteq> 200 then
        (Err (ErrText (''got unexpected http response status code: '' @ format_nat (cr_StatusCode resp))), s)
      else (Ok (), s))))"

section \<open>The command line\<close>

text \<open>
  The commands print with \<open>out\<close>; \<open>url\<close> is the flag read by cobra, which also checks the number
  of arguments. The query id is read as a signed number and converted.
\<close>

definition resubmitFailedTx ::
  "('s, 'u) net \<Rightarrow> (string \<Rightarrow> 's \<Rightarrow> 's) \<Rightarrow> string res \<Rightarrow> string \<Rightarrow> string \<Rightarrow> 's \<Rightarrow> unit res \<times> 's" where
  "resubmitFailedTx N out url arg0 hash s =
     go_then (url, s) (\<lambda>url s.
     go_try (NewICQClient N url, s) ''failed to get new icq client'' (\<lambda>client s.
     go_try (Atoi arg0, s) ''failed to parse queryID'' (\<lambda>queryID s.
     go_try (ResubmitTxs N client \<lparr>rq_Txs = Some [\<lparr>rtx_QueryID = word_of_int queryID, rtx_Hash = hash\<rparr>]\<rparr> s)
       ''failed to resubmit unsuccessful tx'' (\<lambda>_ s.
     (Ok (), out (''Tx queryID='' @ FormatInt queryID @ '' hash='' @ hash @ '' resubmitted successfully'') s)))))"

definition UnsuccessfulTxs_cmd ::
  "('s, 'u) net \<Rightarrow> (string \<Rightarrow> 's \<Rightarrow> 's) \<Rightarrow> string res \<Rightarrow> 's \<Rightarrow> unit res \<times> 's" where
  "UnsuccessfulTxs_cmd N out url s =
     go_then (url, s) (\<lambda>url s.
     go_try (NewICQClient N url, s) ''failed to get new icq client'' (\<lambda>client s.
     go_try (GetUnsuccessfulTxs N client s) ''failed to get unsuccessful txs'' (\<lambda>txs s.
     (Ok (), out (''Unsuccessful txs:'' @ CHR 0x0A # encode_indented (encode_slice encode_Unsuccessful txs) @
        [CHR 0x0A]) s))))"

definition Execute :: "unit res \<Rightarrow> nat option" where
  "Execute r = (case r of Inl (GoErr err) \<Rightarrow> Some 1 | _ \<Rightarrow> None)"

section \<open>Documents\<close>

lemma json_ok_ResubmitTx [simp]: "json_ok (encode_ResubmitTx t)"
  by (simp add: encode_ResubmitTx_def)

lemma json_ok_ResubmitRequest [simp]: "json_ok (encode_ResubmitRequest r)"
  by (simp add: encode_ResubmitRequest_def)

lemma field_names_ascii_http [simp]: "is_ascii ''txs''" "is_ascii ''hash''"
  by (simp_all add: is_ascii_def)

definition clean_ResubmitTx :: "ResubmitTx \<Rightarrow> ResubmitTx" where
  "clean_ResubmitTx t = t\<lparr>rtx_Hash := utf8_clean (rtx_Hash t)\<rparr>"

lemma decode_encode_ResubmitTx [simp]:
  "decode_struct step_ResubmitTx zero_ResubmitTx (json_clean (encode_ResubmitTx t)) = Ok (clean_ResubmitTx t)"
  by (simp add: encode_ResubmitTx_def decode_struct_def step_ResubmitTx_def zero_ResubmitTx_def field_is_def
      ToLower_def lower_char_def clean_ResubmitTx_def)

lemma decode_encode_ResubmitRequest [simp]:
  "decode_ResubmitRequest (json_clean (encode_ResubmitRequest \<lparr>rq_Txs = Some xs\<rparr>)) =
     Ok \<lparr>rq_Txs = Some (map clean_ResubmitTx xs)\<rparr>"
proof -
  have "decode_slice (decode_struct step_ResubmitTx) zero_ResubmitTx None
      (json_clean (encode_slice encode_ResubmitTx (Some xs))) = Ok (Some (map clean_ResubmitTx xs))"
    by (rule decode_slice_encoded) simp_all
  then show ?thesis
    by (simp add: encode_ResubmitRequest_def decode_ResubmitRequest_def decode_struct_def
        step_ResubmitRequest_def field_is_def)
qed

lemma resubmit_request_read:
  "resubmitFailedTxs st tp (encode_compact (encode_ResubmitRequest \<lparr>rq_Txs = Some xs\<rparr>)) s =
     resubmit_each st tp (map clean_ResubmitTx xs) s"
  by (simp add: resubmitFailedTxs_def)

lemma decode_elem_Unsuccessful:
  "decode_struct step_Unsuccessful zero_Unsuccessful = decode_Unsuccessful"
  by (simp add: decode_Unsuccessful_def fun_eq_iff)

lemma unsuccessful_page_read:
  assumes "\<And>u. u \<in> set us \<Longrightarrow> rfc3339_ok (utf8_clean (un_ErrorTime u))"
  shows "res_then (json_decode_first (encode_indented (encode_slice encode_Unsuccessful (Some us))))
      (decode_slice (decode_struct step_Unsuccessful) zero_Unsuccessful (Some [])) =
    Ok (Some (map clean_Unsuccessful us))"
proof -
  have "decode_slice (decode_struct step_Unsuccessful) zero_Unsuccessful (Some [])
      (json_clean (encode_slice encode_Unsuccessful (Some us))) = Ok (Some (map clean_Unsuccessful us))"
    using assms by (intro decode_slice_encoded) (simp_all add: decode_elem_Unsuccessful)
  then show ?thesis by simp
qed

section \<open>Client and server\<close>

text \<open>
  The network delivers a request to the router and its response to the client; a handler that
  panics closes the connection.
\<close>

definition response_of :: "HttpResponse res \<Rightarrow> ClientResponse res" where
  "response_of r = (case r of
       Inl f \<Rightarrow> Err ErrEOF
     | Inr x \<Rightarrow> Ok \<lparr>cr_StatusCode = rs_StatusCode x, cr_Body = Ok (rs_Body x)\<rparr>)"

definition serves :: "('s, 'u) net \<Rightarrow> 's mux \<Rightarrow> 's Route list \<Rightarrow> bool" where
  "serves N M routes \<longleftrightarrow> mux_ok M \<and>
     (\<forall>timeout m u body s. http_Do N timeout m u body s =
        (case M routes m (u_Path u) body s of (r, s) \<Rightarrow> (response_of r, s)))"

lemma router_paths [simp]:
  "UnsuccessfulTxsResource \<noteq> ResubmitTxs_path" "ResubmitTxs_path \<noteq> UnsuccessfulTxsResource"
  by (simp_all add: UnsuccessfulTxsResource_def ResubmitTxs_path_def)

lemma router_serves:
  assumes "serves N M (Router st tp R handler)"
  shows "u_Path u = UnsuccessfulTxsResource \<Longrightarrow>
      http_Do N t m u body s = (case unsuccessfulTxs st s of (r, s) \<Rightarrow> (response_of r, s))"
    and "u_Path u = ResubmitTxs_path \<Longrightarrow>
      http_Do N t ''POST'' u body s = (case resubmitFailedTxs st tp body s of (r, s) \<Rightarrow> (response_of r, s))"
proof -
  have M: "M (Router st tp R handler) m p body = ro_Handler r body"
    if "find (route_matches m p) (Router st tp R handler) = Some r" for m p body r
    using assms that by (simp add: serves_def mux_ok_def)
  have D: "http_Do N t m u body s =
      (case M (Router st tp R handler) m (u_Path u) body s of (r, s) \<Rightarrow> (response_of r, s))" for t m u body s
    using assms by (simp add: serves_def)
  show "u_Path u = UnsuccessfulTxsResource \<Longrightarrow>
      http_Do N t m u body s = (case unsuccessfulTxs st s of (r, s) \<Rightarrow> (response_of r, s))"
    unfolding D by (subst M, simp add: Router_def route_matches_def, simp)
  show "u_Path u = ResubmitTxs_path \<Longrightarrow>
      http_Do N t ''POST'' u body s = (case resubmitFailedTxs st tp body s of (r, s) \<Rightarrow> (response_of r, s))"
    unfolding D by (subst M, simp add: Router_def route_matches_def, simp)
qed

context relay_storage
begin

text \<open>The client's list of unsuccessful transactions is the queue of the storage.\<close>

lemma GetUnsuccessfulTxs_queue:
  assumes net: "serves N M (Router st tp R handler)" and s: "ok s"
    and times: "\<forall>u\<in>ran (unsuccessful (store s)). rfc3339_ok (utf8_clean (un_ErrorTime u))"
    and run: "GetUnsuccessfulTxs N c s = (Inr txs, s')"
  shows "ok s' \<and> store s' = store s \<and>
    (\<exists>us. txs = Some (map clean_Unsuccessful us) \<and> set us = ran (unsuccessful (store s)))"
proof -
  obtain r1 s1 where 1: "st_GetAllUnsuccessfulTxs st s = (r1, s1)" by fastforce
  note contract = get_unsuccessful [OF s 1]
  let ?u = "(ic_host c)\<lparr>u_Path := UnsuccessfulTxsResource\<rparr>"
  from run obtain resp where
    2: "http_Do N (ic_Timeout c) ''GET'' ?u [] s = (Inr resp, s')" and 3: "cr_StatusCode resp = 200" and
    4: "res_then (cr_Body resp) (\<lambda>body. res_then (json_decode_first body)
        (decode_slice (decode_struct step_Unsuccessful) zero_Unsuccessful (Some []))) = Inr txs"
    by (auto simp: GetUnsuccessfulTxs_def res_success Let_def split: if_splits)
  have 5: "(response_of (fst (unsuccessfulTxs st s)), snd (unsuccessfulTxs st s)) = (Inr resp, s')"
    using 2 router_serves(1) [OF net, of ?u "ic_Timeout c" "''GET''" "[]" s]
    by (cases "unsuccessfulTxs st s") simp
  show ?thesis
  proof (cases r1)
    case (Inl f)
    with 1 3 5 show ?thesis
      by (cases f) (auto simp: unsuccessfulTxs_def response_of_def)
  next
    case (Inr us)
    with 1 5 contract times 4 unsuccessful_page_read [of us] show ?thesis
      by (auto simp: unsuccessfulTxs_def response_of_def)
  qed
qed

end

section \<open>Resubmission\<close>

text \<open>
  The cache holds what \<open>SetTxStatus\<close> was given: transactions that can be submitted, each under
  its own hash.
\<close>

definition cache_ok ::
  "('r Transaction option \<Rightarrow> bool) \<Rightarrow> ('r Transaction \<Rightarrow> string) \<Rightarrow> 'r tx_store \<Rightarrow> bool" where
  "cache_ok storable hash_of S \<longleftrightarrow>
     (\<forall>q h t. cached S (q, h) = Some t \<longrightarrow> storable (Some t) \<and> Tx t \<noteq> None \<and> hash_of t = h)"

lemma cache_ok_SetTxStatus:
  "cache_ok P H S \<Longrightarrow> P (Some t) \<Longrightarrow> Tx t \<noteq> None \<Longrightarrow> cache_ok P H (spec_SetTxStatus q (H t) n ti (Some t) now S)"
  by (auto simp: cache_ok_def spec_SetTxStatus_def)

context tx_processor
begin

text \<open>
  A resubmission keeps the contract. Status 200 means that every requested transaction was
  submitted and has a status; a failure ends the loop and what was done before it stays.
\<close>

lemma resubmit_each_ok:
  assumes "ok s" "cache_ok storable hash_of (store s)" "\<forall>t\<in>set txs. is_txhash (rtx_Hash t)"
    and "resubmit_each st tp txs s = (r, s')"
  shows "ok s' \<and> cache_ok storable hash_of (store s') \<and> heights (store s') = heights (store s) \<and>
    (\<forall>k. statuses (store s) k \<noteq> None \<longrightarrow> statuses (store s') k \<noteq> None) \<and>
    (\<forall>resp. r = Inr resp \<longrightarrow> rs_StatusCode resp = 200 \<longrightarrow>
       (\<forall>x\<in>set txs. statuses (store s') (rtx_QueryID x, rtx_Hash x) \<noteq> None))"
  using assms
proof (induction txs arbitrary: s)
  case (Cons x txs)
  obtain c s1 where 1: "st_GetCachedTx st (rtx_QueryID x) (rtx_Hash x) s = (c, s1)" by fastforce
  have h: "is_txhash (rtx_Hash x)" using Cons.prems(3) by simp
  from get_cached [OF Cons.prems(1) h 1] have s1: "ok s1" "store s1 = store s"
    and c: "\<And>t. c = Inr t \<Longrightarrow> cached (store s) (rtx_QueryID x, rtx_Hash x) = Some t"
    by (auto split: sum.splits)
  show ?case
  proof (cases c)
    case (Inl f)
    with 1 s1 Cons.prems show ?thesis by (cases f) (auto split: if_splits)
  next
    case (Inr t)
    with c Cons.prems(2) have t: "storable (Some t)" "Tx t \<noteq> None" "hash_of t = rtx_Hash x"
      unfolding cache_ok_def by blast+
    obtain p s2 where 2: "tp_ProcessAndSubmit tp (rtx_QueryID x) t s1 = (p, s2)" by fastforce
    note pr = process [OF s1(1) t(1,2) 2] process_ok [OF s1(1) t(1,2) 2]
    show ?thesis
    proof (cases p)
      case (Inl f)
      with 1 2 Inr s1 pr Cons.prems show ?thesis by (cases f) auto
    next
      case ip: (Inr u)
      have cache: "cache_ok storable hash_of (store s2)"
        using pr(1) ip s1(2) Cons.prems(2) t cache_ok_SetTxStatus by fastforce
      have rec: "resubmit_each st tp txs s2 = (r, s')" using Cons.prems(4) 1 Inr 2 ip by simp
      have "statuses (store s2) (rtx_QueryID x, rtx_Hash x) \<noteq> None" using pr(5) ip t(3) by metis
      moreover have "\<forall>k. statuses (store s) k \<noteq> None \<longrightarrow> statuses (store s2) k \<noteq> None"
        using pr(4) s1(2) by simp
      ultimately show ?thesis using Cons.IH [OF pr(2) cache _ rec] Cons.prems(3) pr(3) s1(2) by auto
    qed
  qed
qed simp

end

text \<open>
  The resubmissions of a request that is answered with 200, one after the other: each takes the
  cached transaction under the query and hash it names and submits it.
\<close>

fun resubmitted ::
  "('s, 'r, 'x, 'y, 'm) TXProcessorSrv \<Rightarrow> ('s \<Rightarrow> 'r tx_store) \<Rightarrow> ResubmitTx list \<Rightarrow> 's \<Rightarrow> 's \<Rightarrow> bool" where
  "resubmitted p S [] s s' \<longleftrightarrow> s' = s"
| "resubmitted p S (x # xs) s s' \<longleftrightarrow> (\<exists>t s1. cached (S s) (rtx_QueryID x, rtx_Hash x) = Some t \<and>
     tx_hash_of p t = rtx_Hash x \<and> submission_outcome p S (rtx_QueryID x) t s s1 \<and> resubmitted p S xs s1 s')"

lemma resubmit_each_submits:
  assumes "txp_ok L C V W get put clk p s" "cache_ok (tx_storable C) (tx_hash_of p) (store_of C (V (get s)))"
    and "\<forall>t\<in>set txs. is_txhash (rtx_Hash t)"
    and "resubmit_each (LevelDBStorage L C get put clk) (TXProcessorOf p) txs s = (Inr resp, s')" "rs_StatusCode resp = 200"
  shows "resubmitted p (\<lambda>s. store_of C (V (get s))) txs s s'"
  using assms
proof (induction txs arbitrary: s)
  case (Cons x txs)
  let ?S = "\<lambda>s. store_of C (V (get s))" and ?st = "LevelDBStorage L C get put clk"
  obtain c s1 where 1: "st_GetCachedTx ?st (rtx_QueryID x) (rtx_Hash x) s = (c, s1)" by fastforce
  have h: "is_txhash (rtx_Hash x)" using Cons.prems(3) by simp
  from leveldb_txp.get_cached [OF Cons.prems(1) h 1] have s1: "txp_ok L C V W get put clk p s1" "?S s1 = ?S s"
    and c: "\<And>t. c = Inr t \<Longrightarrow> cached (?S s) (rtx_QueryID x, rtx_Hash x) = Some t"
    by (auto split: sum.splits)
  have "\<exists>t. c = Inr t"
    using Cons.prems(4,5) 1 by (cases c; cases "projl c") (auto split: if_splits)
  then obtain t where t: "c = Inr t" "cached (?S s) (rtx_QueryID x, rtx_Hash x) = Some t" using c by blast
  with Cons.prems(2) have t': "tx_storable C (Some t)" "Tx t \<noteq> None" "tx_hash_of p t = rtx_Hash x"
    unfolding cache_ok_def by blast+
  obtain r s2 where 2: "ProcessAndSubmit p (rtx_QueryID x) t s1 = (r, s2)" by fastforce
  have "\<exists>u. r = Inr u"
    using Cons.prems(4,5) 1 t(1) 2 by (cases r; cases "projl r") (auto simp: TXProcessorOf_def)
  then have run: "ProcessAndSubmit p (rtx_QueryID x) t s1 = (Inr (), s2)" using 2 by auto
  from leveldb_process_success [OF s1(1) t'(1,2) run]
  have out: "submission_outcome p ?S (rtx_QueryID x) t s s2" by (simp add: submission_outcome_def s1(2))
  have tp: "tp_ProcessAndSubmit (TXProcessorOf p) (rtx_QueryID x) t s1 = (Inr (), s2)"
    using run by (simp add: TXProcessorOf_def)
  note pr = leveldb_txp.process [OF s1(1) t'(1,2) tp]
  from pr have ok2: "txp_ok L C V W get put clk p s2" by simp
  from pr s1(2) have cache2: "cache_ok (tx_storable C) (tx_hash_of p) (?S s2)"
    using cache_ok_SetTxStatus [OF Cons.prems(2) t'(1,2)] by auto
  have "resubmit_each ?st (TXProcessorOf p) txs s2 = (Inr resp, s')" using Cons.prems(4) 1 t(1) tp by simp
  with Cons.IH [OF ok2 cache2] Cons.prems(3,5) have "resubmitted p ?S txs s2 s'" by simp
  with t(2) t'(3) out show ?case by auto
qed simp

text \<open>A transaction that is not in the cache ends the request with an error, before any submission.\<close>

context relay_storage
begin

lemma resubmit_missing:
  assumes "ok s" "is_txhash (rtx_Hash x)" "cached (store s) (rtx_QueryID x, rtx_Hash x) = None"
    and "resubmit_each st tp (x # txs) s = (r, s')"
  shows "ok s' \<and> store s' = store s \<and> (\<forall>resp. r = Inr resp \<longrightarrow> rs_StatusCode resp \<in> {400, 500})"
proof -
  obtain c s1 where 1: "st_GetCachedTx st (rtx_QueryID x) (rtx_Hash x) s = (c, s1)" by fastforce
  note contract = get_cached [OF assms(1,2) 1]
  show ?thesis
  proof (cases c)
    case (Inr t)
    with contract assms(3) show ?thesis by simp
  next
    case (Inl f)
    with 1 assms(4) contract show ?thesis
      by (cases f; cases "\<exists>e. f = GoErr e \<and> errors_Is_NotFound e") auto
  qed
qed

end

end
