(* ===== verification/Lifecycle.thy ===== *)
theory Lifecycle
  imports Relayer Tx_Submit_Checker Http
begin

text \<open>
  The life of a submitted transaction across the components. The relayer, the web server and
  the checker run concurrently and meet only in the storage, each of whose operations is atomic
  (a mutex, and a LevelDB transaction for \<open>SetTxStatus\<close>). A step of the node is one such
  operation with the guard under which the component calls it; the invariants hold in every
  state the node can reach, in whatever order the steps come.
\<close>

section \<open>Steps\<close>

text \<open>
  \<open>nd_tasks\<close> are the checks that may be made (started by a submission or by the startup of the
  checker), \<open>nd_used\<close> the hashes of the Neutron transactions broadcast so far. A broadcast
  transaction carries a new account sequence, so its hash is new.
\<close>

record 'r node =
  nd_store :: "'r tx_store"
  nd_tasks :: "PendingSubmittedTxInfo set"
  nd_used :: "string set"

definition empty_store :: "'r tx_store" where
  "empty_store = \<lparr>heights = (\<lambda>_. None), statuses = (\<lambda>_. None), pending = (\<lambda>_. None),
     unsuccessful = (\<lambda>_. None), cached = (\<lambda>_. None)\<rparr>"

definition init_node :: "'r node" where
  "init_node = \<lparr>nd_store = empty_store, nd_tasks = {}, nd_used = {}\<rparr>"

text \<open>
  The reads that precede a submission (\<open>TxExists\<close> in the relayer, \<open>GetCachedTx\<close> in the web
  server) may be stale when the write comes, so a submission has no guard on the store. \<open>broadcast\<close>:
  Neutron transactions that no status is stored for (the results of KV queries, or when storing it
  fails). \<open>dropped\<close>: checks that are done, or lost when the process ends; \<open>startup\<close>: the checker
  reads the pending queue.
\<close>

inductive node_step :: "'r node \<Rightarrow> 'r node \<Rightarrow> bool" where
  submitted: "is_txhash h \<Longrightarrow> is_ascii n \<Longrightarrow> n \<noteq> [] \<Longrightarrow> n \<notin> nd_used N \<Longrightarrow>
     ti_Status ti = Submitted \<Longrightarrow>
     node_step N (N\<lparr>nd_store := spec_SetTxStatus q h n ti (Some t) now (nd_store N),
       nd_tasks := insert \<lparr>pd_QueryID = q, pd_SubmittedTxHash = h, pd_NeutronHash = n\<rparr> (nd_tasks N),
       nd_used := insert n (nd_used N)\<rparr>)"
| ignored: "is_txhash h \<Longrightarrow> ti_Status ti = ErrorOnSubmit \<Longrightarrow>
     node_step N (N\<lparr>nd_store := spec_SetTxStatus q h [] ti (Some t) now (nd_store N)\<rparr>)"
| broadcast: "nd_used N \<subseteq> U \<Longrightarrow> [] \<notin> U \<Longrightarrow> node_step N (N\<lparr>nd_used := U\<rparr>)"
| resolved: "x \<in> nd_tasks N \<Longrightarrow> resolves x resp (nd_store N) S \<Longrightarrow> node_step N (N\<lparr>nd_store := S\<rparr>)"
| dropped: "T \<subseteq> nd_tasks N \<Longrightarrow> node_step N (N\<lparr>nd_tasks := T\<rparr>)"
| height: "node_step N (N\<lparr>nd_store := spec_SetHeight q b (nd_store N)\<rparr>)"
| startup: "node_step N (N\<lparr>nd_tasks := nd_tasks N \<union> ran (pending (nd_store N))\<rparr>)"

inductive reachable :: "'r node \<Rightarrow> bool" where
  init: "reachable init_node"
| step: "reachable N \<Longrightarrow> node_step N N' \<Longrightarrow> reachable N'"

section \<open>The invariant\<close>

text \<open>
  What a status says of the other entries. \<open>tx_entries_ok\<close> looks at one transaction:
  submitted ones have a pending entry and are cached; failed ones are in the queue of
  unsuccessful transactions with that status; committed ones are in neither.
\<close>

definition has_status :: "'r tx_store \<Rightarrow> u64 \<Rightarrow> string \<Rightarrow> SubmittedTxStatus \<Rightarrow> bool" where
  "has_status S q h st \<longleftrightarrow> (\<exists>ti. statuses S (q, h) = Some ti \<and> ti_Status ti = st)"

definition tx_entries_ok :: "'r tx_store \<Rightarrow> u64 \<Rightarrow> string \<Rightarrow> bool" where
  "tx_entries_ok S q h \<longleftrightarrow>
     (statuses S (q, h) \<noteq> None \<longrightarrow> (\<exists>st \<in> {Submitted, ErrorOnSubmit, Committed, ErrorOnCommit}. has_status S q h st)) \<and>
     (has_status S q h Submitted \<longrightarrow>
        (\<exists>n. pending S n = Some \<lparr>pd_QueryID = q, pd_SubmittedTxHash = h, pd_NeutronHash = n\<rparr>) \<and>
        cached S (q, h) \<noteq> None) \<and>
     (has_status S q h ErrorOnSubmit \<longrightarrow> cached S (q, h) \<noteq> None) \<and>
     (\<forall>st \<in> {ErrorOnSubmit, ErrorOnCommit}. has_status S q h st \<longrightarrow>
        (\<exists>u. unsuccessful S (q, h) = Some u \<and> un_Status u = st)) \<and>
     (has_status S q h Committed \<longrightarrow> unsuccessful S (q, h) = None \<and> cached S (q, h) = None) \<and>
     (statuses S (q, h) = None \<longrightarrow> unsuccessful S (q, h) = None \<and> cached S (q, h) = None)"

text \<open>Neutron hashes name one submission: in the pending queue and among the tasks.\<close>

definition hashes_ok :: "'r node \<Rightarrow> bool" where
  "hashes_ok N \<longleftrightarrow> [] \<notin> nd_used N \<and>
     (\<forall>n p. pending (nd_store N) n = Some p \<longrightarrow> pd_NeutronHash p = n \<and> n \<in> nd_used N \<and>
        is_txhash (pd_SubmittedTxHash p) \<and> statuses (nd_store N) (pd_QueryID p, pd_SubmittedTxHash p) \<noteq> None) \<and>
     (\<forall>x \<in> nd_tasks N. pd_NeutronHash x \<in> nd_used N \<and> is_txhash (pd_SubmittedTxHash x) \<and>
        statuses (nd_store N) (pd_QueryID x, pd_SubmittedTxHash x) \<noteq> None \<and>
        (\<forall>p. pending (nd_store N) (pd_NeutronHash x) = Some p \<longrightarrow> p = x))"

definition node_ok :: "'r node \<Rightarrow> bool" where
  "node_ok N \<longleftrightarrow> hashes_ok N \<and> (\<forall>q h. tx_entries_ok (nd_store N) q h)"

lemma status_ascii [simp]:
  "utf8_clean Submitted = Submitted" "utf8_clean ErrorOnSubmit = ErrorOnSubmit"
  "utf8_clean Committed = Committed" "utf8_clean ErrorOnCommit = ErrorOnCommit"
  by (simp_all add: status_defs is_ascii_def)

lemma spec_pending_entry_ascii:
  "is_ascii h \<Longrightarrow> is_ascii n \<Longrightarrow>
   spec_pending_entry q h n = \<lparr>pd_QueryID = q, pd_SubmittedTxHash = h, pd_NeutronHash = n\<rparr>"
  by (simp add: spec_pending_entry_def clean_Pending_def)

lemma has_status_SetTxStatus:
  "has_status (spec_SetTxStatus q h n ti tx now S) q' h' st \<longleftrightarrow>
     (if q' = q \<and> h' = h then utf8_clean (ti_Status ti) = st else has_status S q' h' st)"
  by (auto simp: has_status_def spec_SetTxStatus_def clean_SubmittedTxInfo_def)

lemma tx_entries_other:
  assumes "tx_entries_ok S q' h'" "(q', h') \<noteq> (q, h)"
    and "\<And>m p. pending S m = Some p \<Longrightarrow> pd_QueryID p = q' \<Longrightarrow> pd_SubmittedTxHash p = h' \<Longrightarrow> m \<noteq> n"
  shows "tx_entries_ok (spec_SetTxStatus q h n ti tx now S) q' h'"
proof -
  have p: "\<exists>m. pending (spec_SetTxStatus q h n ti tx now S) m =
      Some \<lparr>pd_QueryID = q', pd_SubmittedTxHash = h', pd_NeutronHash = m\<rparr>"
    if "\<exists>m. pending S m = Some \<lparr>pd_QueryID = q', pd_SubmittedTxHash = h', pd_NeutronHash = m\<rparr>"
  proof -
    from that obtain m where m: "pending S m = Some \<lparr>pd_QueryID = q', pd_SubmittedTxHash = h', pd_NeutronHash = m\<rparr>"
      by blast
    with assms(3) [OF m] have "m \<noteq> n" by simp
    with m have "pending (spec_SetTxStatus q h n ti tx now S) m =
        Some \<lparr>pd_QueryID = q', pd_SubmittedTxHash = h', pd_NeutronHash = m\<rparr>"
      by (simp add: spec_SetTxStatus_def)
    then show ?thesis by blast
  qed
  have eq: "statuses (spec_SetTxStatus q h n ti tx now S) (q', h') = statuses S (q', h')"
    "unsuccessful (spec_SetTxStatus q h n ti tx now S) (q', h') = unsuccessful S (q', h')"
    "cached (spec_SetTxStatus q h n ti tx now S) (q', h') = cached S (q', h')"
    "\<And>st. has_status (spec_SetTxStatus q h n ti tx now S) q' h' st = has_status S q' h' st"
    using assms(2) by (auto simp: spec_SetTxStatus_def has_status_def split: option.splits)
  show ?thesis using assms(1) p unfolding tx_entries_ok_def eq by blast
qed

lemma tx_entries_this:
  assumes "ti_Status ti \<in> {Submitted, ErrorOnSubmit, Committed, ErrorOnCommit}"
    and "ti_Status ti = Submitted \<Longrightarrow> tx \<noteq> None \<and> is_ascii h \<and> is_ascii n"
    and "ti_Status ti = ErrorOnSubmit \<Longrightarrow> tx \<noteq> None"
  shows "tx_entries_ok (spec_SetTxStatus q h n ti tx now S) q h"
  using assms
  by (auto simp: tx_entries_ok_def has_status_SetTxStatus)
    (auto simp: spec_SetTxStatus_def spec_unsuccessful_entry_def clean_Unsuccessful_def spec_pending_entry_ascii)

lemma tx_entries_spec:
  assumes "\<forall>q h. tx_entries_ok S q h" "ti_Status ti \<in> {Submitted, ErrorOnSubmit, Committed, ErrorOnCommit}"
    and "ti_Status ti = Submitted \<Longrightarrow> tx \<noteq> None \<and> is_ascii h \<and> is_ascii n"
    and "ti_Status ti = ErrorOnSubmit \<Longrightarrow> tx \<noteq> None"
    and "\<And>m p. pending S m = Some p \<Longrightarrow> m = n \<Longrightarrow> pd_QueryID p = q \<and> pd_SubmittedTxHash p = h"
  shows "tx_entries_ok (spec_SetTxStatus q h n ti tx now S) q' h'"
proof (cases "(q', h') = (q, h)")
  case True
  with tx_entries_this [OF assms(2-4)] show ?thesis by simp
next
  case False
  with assms(1,5) show ?thesis by (intro tx_entries_other) auto
qed

section \<open>Every step keeps it\<close>

lemma statuses_SetTxStatus:
  "(\<exists>y. statuses (spec_SetTxStatus q h n ti tx now S) k = Some y) \<longleftrightarrow> k = (q, h) \<or> (\<exists>y. statuses S k = Some y)"
  by (auto simp: spec_SetTxStatus_def)

lemma is_txhash_ascii: "is_txhash h \<Longrightarrow> is_ascii h"
  by (simp add: is_txhash_def)

lemma hashes_pendingD:
  assumes "hashes_ok N" "pending (nd_store N) n = Some p"
  shows "pd_NeutronHash p = n" "n \<in> nd_used N" "is_txhash (pd_SubmittedTxHash p)"
    "statuses (nd_store N) (pd_QueryID p, pd_SubmittedTxHash p) \<noteq> None"
  using assms unfolding hashes_ok_def by blast+

lemma hashes_taskD:
  assumes "hashes_ok N" "x \<in> nd_tasks N"
  shows "pd_NeutronHash x \<in> nd_used N" "is_txhash (pd_SubmittedTxHash x)"
    "statuses (nd_store N) (pd_QueryID x, pd_SubmittedTxHash x) \<noteq> None"
    "pending (nd_store N) (pd_NeutronHash x) = Some p \<Longrightarrow> p = x"
  using assms unfolding hashes_ok_def by blast+

lemma hashes_okI:
  assumes "[] \<notin> nd_used N"
    and "\<And>n p. pending (nd_store N) n = Some p \<Longrightarrow> pd_NeutronHash p = n \<and> n \<in> nd_used N \<and>
        is_txhash (pd_SubmittedTxHash p) \<and> statuses (nd_store N) (pd_QueryID p, pd_SubmittedTxHash p) \<noteq> None"
    and "\<And>x. x \<in> nd_tasks N \<Longrightarrow> pd_NeutronHash x \<in> nd_used N \<and> is_txhash (pd_SubmittedTxHash x) \<and>
        statuses (nd_store N) (pd_QueryID x, pd_SubmittedTxHash x) \<noteq> None"
    and "\<And>x p. x \<in> nd_tasks N \<Longrightarrow> pending (nd_store N) (pd_NeutronHash x) = Some p \<Longrightarrow> p = x"
  shows "hashes_ok N"
  using assms unfolding hashes_ok_def by blast

lemma pending_SetTxStatus:
  "ti_Status ti = Submitted \<Longrightarrow> is_ascii h \<Longrightarrow> is_ascii n \<Longrightarrow> pending (spec_SetTxStatus q h n ti tx now S) =
     (pending S)(n \<mapsto> \<lparr>pd_QueryID = q, pd_SubmittedTxHash = h, pd_NeutronHash = n\<rparr>)"
  "ti_Status ti = ErrorOnSubmit \<Longrightarrow> pending (spec_SetTxStatus q h n ti tx now S) = pending S"
  "ti_Status ti = Committed \<or> ti_Status ti = ErrorOnCommit \<Longrightarrow>
     pending (spec_SetTxStatus q h n ti tx now S) = (pending S)(n := None)"
  by (auto simp: spec_SetTxStatus_def spec_pending_entry_ascii)

lemma hashes_submitted:
  assumes "hashes_ok N" "is_txhash h" "is_ascii n" "n \<noteq> []" "n \<notin> nd_used N" "ti_Status ti = Submitted"
  shows "hashes_ok (N\<lparr>nd_store := spec_SetTxStatus q h n ti tx now (nd_store N),
       nd_tasks := insert \<lparr>pd_QueryID = q, pd_SubmittedTxHash = h, pd_NeutronHash = n\<rparr> (nd_tasks N),
       nd_used := insert n (nd_used N)\<rparr>)"
proof (rule hashes_okI)
  note P = pending_SetTxStatus(1) [OF assms(6) is_txhash_ascii [OF assms(2)] assms(3)]
  let ?N = "N\<lparr>nd_store := spec_SetTxStatus q h n ti tx now (nd_store N),
       nd_tasks := insert \<lparr>pd_QueryID = q, pd_SubmittedTxHash = h, pd_NeutronHash = n\<rparr> (nd_tasks N),
       nd_used := insert n (nd_used N)\<rparr>"
  show "[] \<notin> nd_used ?N" using assms by (simp add: hashes_ok_def)
  show "pd_NeutronHash p = m \<and> m \<in> nd_used ?N \<and> is_txhash (pd_SubmittedTxHash p) \<and>
      statuses (nd_store ?N) (pd_QueryID p, pd_SubmittedTxHash p) \<noteq> None"
    if "pending (nd_store ?N) m = Some p" for m p
    using that assms hashes_pendingD [OF assms(1), of m p]
    by (auto simp: P statuses_SetTxStatus split: if_splits)
  show "pd_NeutronHash x \<in> nd_used ?N \<and> is_txhash (pd_SubmittedTxHash x) \<and>
      statuses (nd_store ?N) (pd_QueryID x, pd_SubmittedTxHash x) \<noteq> None" if "x \<in> nd_tasks ?N" for x
    using that assms hashes_taskD(1-3) [OF assms(1), of x] by (auto simp: statuses_SetTxStatus)
  show "p = x" if "x \<in> nd_tasks ?N" "pending (nd_store ?N) (pd_NeutronHash x) = Some p" for x p
    using that assms(5) hashes_taskD(1) [OF assms(1), of x] hashes_taskD(4) [OF assms(1), of x p]
    by (auto simp: P split: if_splits)
qed

lemma hashes_resolved:
  assumes "hashes_ok N" "resolves x resp (nd_store N) S"
  shows "hashes_ok (N\<lparr>nd_store := S\<rparr>)"
proof -
  from assms(2) obtain ti now where
    S: "S = spec_SetTxStatus (pd_QueryID x) (pd_SubmittedTxHash x) (pd_NeutronHash x) ti None now (nd_store N)"
    and ti: "ti_Status ti = Committed \<or> ti_Status ti = ErrorOnCommit"
    unfolding resolves_def by (auto split: if_splits)
  note P = pending_SetTxStatus(3) [OF ti]
  show ?thesis
  proof (rule hashes_okI, goal_cases)
    case 1
    show ?case using assms(1) by (simp add: hashes_ok_def)
  next
    case (2 m p)
    with hashes_pendingD [OF assms(1), of m p] show ?case
      by (auto simp: S P statuses_SetTxStatus split: if_splits)
  next
    case (3 y)
    with hashes_taskD(1-3) [OF assms(1), of y] show ?case by (auto simp: S statuses_SetTxStatus)
  next
    case (4 y p)
    with hashes_taskD(4) [OF assms(1), of y p] show ?case by (auto simp: S P split: if_splits)
  qed
qed

lemma tx_entries_resolved:
  assumes "node_ok N" "x \<in> nd_tasks N" "resolves x resp (nd_store N) S"
  shows "tx_entries_ok S q' h'"
proof -
  from assms(3) obtain ti now where
    S: "S = spec_SetTxStatus (pd_QueryID x) (pd_SubmittedTxHash x) (pd_NeutronHash x) ti None now (nd_store N)"
    and ti: "ti_Status ti = Committed \<or> ti_Status ti = ErrorOnCommit"
    unfolding resolves_def by (auto split: if_splits)
  have h: "hashes_ok N" using assms(1) by (simp add: node_ok_def)
  show ?thesis
    unfolding S
    using assms(1) ti hashes_taskD(4) [OF h assms(2)]
    by (intro tx_entries_spec) (auto simp: node_ok_def)
qed

lemma tx_entries_height [simp]: "tx_entries_ok (spec_SetHeight q b S) q' h' = tx_entries_ok S q' h'"
  by (simp add: tx_entries_ok_def has_status_def spec_SetHeight_def)

lemma hashes_height: "hashes_ok N \<Longrightarrow> hashes_ok (N\<lparr>nd_store := spec_SetHeight q b (nd_store N)\<rparr>)"
  by (simp add: hashes_ok_def spec_SetHeight_def)

lemma node_ok_step:
  assumes ok: "node_ok N" and step: "node_step N N'"
  shows "node_ok N'"
proof -
  have h: "hashes_ok N" and e: "\<forall>q h. tx_entries_ok (nd_store N) q h" using ok by (simp_all add: node_ok_def)
  from step show ?thesis
  proof cases
    case 1: (submitted h n ti q t now)
    have "tx_entries_ok (spec_SetTxStatus q h n ti (Some t) now (nd_store N)) q' h'" for q' h'
      using e 1 is_txhash_ascii hashes_pendingD(2) [OF h] by (intro tx_entries_spec) auto
    with 1 hashes_submitted [OF h] show ?thesis by (simp add: node_ok_def)
  next
    case 2: (ignored h ti q t now)
    have "tx_entries_ok (spec_SetTxStatus q h [] ti (Some t) now (nd_store N)) q' h'" for q' h'
    proof (rule tx_entries_spec [OF e])
      show "pd_QueryID p = q \<and> pd_SubmittedTxHash p = h" if "pending (nd_store N) m = Some p" "m = []" for m p
        using hashes_pendingD(2) [OF h that(1)] h that(2) by (simp add: hashes_ok_def)
    qed (use 2 in auto)
    moreover have "hashes_ok N'"
      using 2 h by (auto simp: hashes_ok_def pending_SetTxStatus(2) statuses_SetTxStatus)
    ultimately show ?thesis using 2 by (simp add: node_ok_def)
  next
    case 3: (broadcast U)
    then have "hashes_ok N'" using h by (auto simp: hashes_ok_def)
    with e 3 show ?thesis by (simp add: node_ok_def)
  next
    case 4: (resolved x resp S)
    with tx_entries_resolved [OF ok] hashes_resolved [OF h, of x resp S] show ?thesis
      by (auto simp: node_ok_def)
  next
    case 5: (dropped T)
    with h e show ?thesis by (auto simp: node_ok_def hashes_ok_def)
  next
    case 6: (height q b)
    with e hashes_height [OF h] show ?thesis by (simp add: node_ok_def)
  next
    case 7: startup
    have "hashes_ok N'"
      unfolding 7
    proof (rule hashes_okI, goal_cases)
      case (4 x p)
      then show ?case
        using hashes_taskD(4) [OF h, of x p] hashes_pendingD(1) [OF h, of _ x] by (auto simp: ran_def)
    qed (use h hashes_pendingD [OF h] hashes_taskD(1-3) [OF h] in \<open>auto simp: hashes_ok_def ran_def\<close>)
    with e 7 show ?thesis by (simp add: node_ok_def)
  qed
qed

lemma node_ok_init: "node_ok init_node"
  by (simp add: node_ok_def hashes_ok_def init_node_def empty_store_def tx_entries_ok_def has_status_def)

lemma reachable_node_ok: "reachable N \<Longrightarrow> node_ok N"
  by (induction rule: reachable.induct) (auto intro: node_ok_init node_ok_step)

section \<open>A race the invariant allows\<close>

text \<open>
  Two submissions of one transaction may be in flight: the web server resubmits anything that
  is cached. When the first is committed and the second fails, the transaction ends in the queue
  of unsuccessful transactions without a cached copy, so it can no longer be resubmitted.
\<close>

definition race_store :: "u64 \<Rightarrow> string \<Rightarrow> 'r Transaction \<Rightarrow> 'r tx_store" where
  "race_store q h t =
     spec_SetTxStatus q h ''B'' \<lparr>ti_Status = ErrorOnCommit, ti_Message = []\<rparr> None []
    (spec_SetTxStatus q h ''A'' \<lparr>ti_Status = Committed, ti_Message = []\<rparr> None []
    (spec_SetTxStatus q h ''B'' \<lparr>ti_Status = Submitted, ti_Message = []\<rparr> (Some t) []
    (spec_SetTxStatus q h ''A'' \<lparr>ti_Status = Submitted, ti_Message = []\<rparr> (Some t) [] empty_store)))"

lemma race_reachable:
  assumes "is_txhash h"
  shows "\<exists>N. reachable N \<and> nd_store N = race_store q h t"
proof -
  define A where "A = \<lparr>pd_QueryID = q, pd_SubmittedTxHash = h, pd_NeutronHash = ''A''\<rparr>"
  define B where "B = \<lparr>pd_QueryID = q, pd_SubmittedTxHash = h, pd_NeutronHash = ''B''\<rparr>"
  define sub where "sub = \<lparr>ti_Status = Submitted, ti_Message = []\<rparr>"
  define S1 where "S1 = spec_SetTxStatus q h ''A'' sub (Some t) [] empty_store"
  define S2 where "S2 = spec_SetTxStatus q h ''B'' sub (Some t) [] S1"
  define S3 where "S3 = spec_SetTxStatus q h ''A'' \<lparr>ti_Status = Committed, ti_Message = []\<rparr> None [] S2"
  have asc: "is_ascii ''A''" "is_ascii ''B''" by (simp_all add: is_ascii_def)
  have 1: "reachable \<lparr>nd_store = S1, nd_tasks = {A}, nd_used = {''A''}\<rparr>"
    using node_step.submitted [of h "''A''" init_node sub q t "[]"] assms asc
    by (intro reachable.step [OF reachable.init])
      (simp add: init_node_def S1_def A_def sub_def empty_store_def)
  have 2: "reachable \<lparr>nd_store = S2, nd_tasks = {B, A}, nd_used = {''B'', ''A''}\<rparr>"
    using node_step.submitted [of h "''B''" "\<lparr>nd_store = S1, nd_tasks = {A}, nd_used = {''A''}\<rparr>" sub q t "[]"] assms asc
    by (intro reachable.step [OF 1])
      (simp add: S2_def B_def sub_def)
  have r1: "resolves A \<lparr>tr_Code = 0, tr_Log = []\<rparr> S2 S3"
    unfolding resolves_def S3_def
    by (intro exI [of _ "\<lparr>ti_Status = Committed, ti_Message = []\<rparr>"] exI [of _ "[]"])
      (simp add: A_def CodeTypeOK_def)
  have 3: "reachable \<lparr>nd_store = S3, nd_tasks = {B, A}, nd_used = {''B'', ''A''}\<rparr>"
    using node_step.resolved [of A "\<lparr>nd_store = S2, nd_tasks = {B, A}, nd_used = {''B'', ''A''}\<rparr>" _ S3] r1
    by (intro reachable.step [OF 2]) simp
  have r2: "resolves B \<lparr>tr_Code = 1, tr_Log = []\<rparr> S3 (race_store q h t)"
    unfolding resolves_def race_store_def S3_def S2_def S1_def sub_def
    by (intro exI [of _ "\<lparr>ti_Status = ErrorOnCommit, ti_Message = []\<rparr>"] exI [of _ "[]"])
      (simp add: B_def CodeTypeOK_def)
  have "reachable \<lparr>nd_store = race_store q h t, nd_tasks = {B, A}, nd_used = {''B'', ''A''}\<rparr>"
    using node_step.resolved [of B "\<lparr>nd_store = S3, nd_tasks = {B, A}, nd_used = {''B'', ''A''}\<rparr>" _ "race_store q h t"] r2
    by (intro reachable.step [OF 3]) auto
  then show ?thesis by force
qed


end
