(* ===== verification/Encoding.thy ===== *)
theory Encoding
  imports Prelude
begin

text \<open>
  \<open>internal/raw/encoding.go\<close>: the set-up of the SDK's codecs. The registries, the codecs and the
  module manager are objects of the Cosmos SDK that are changed by calls: the record \<open>codec_lib\<close>
  has the functions the code calls, over the state \<open>'s\<close> that holds the objects. \<open>'i\<close> is a
  reference to an interface registry, \<open>'c\<close> a protobuf codec, \<open>'a\<close> an amino codec, \<open>'b\<close> a manager.
  A registration may panic (the SDK does so on a conflict).
\<close>

text \<open>The values \<open>auth.AppModuleBasic{}\<close>, \<open>authz.AppModuleBasic{}\<close> and \<open>bank.AppModuleBasic{}\<close>.\<close>

datatype AppModuleBasic = Auth_AppModuleBasic | Authz_AppModuleBasic | Bank_AppModuleBasic

record ('s, 'i, 'c, 'a, 'b) codec_lib =
  NewInterfaceRegistry :: "'s \<Rightarrow> 'i \<times> 's"
  NewProtoCodec :: "'i \<Rightarrow> 's \<Rightarrow> 'c \<times> 's"
  NewLegacyAmino :: "'s \<Rightarrow> 'a \<times> 's"
  NewBasicManager :: "AppModuleBasic list \<Rightarrow> 's \<Rightarrow> 'b \<times> 's"
  std_RegisterLegacyAminoCodec :: "'a \<Rightarrow> 's \<Rightarrow> unit res \<times> 's"
  std_RegisterInterfaces :: "'i \<Rightarrow> 's \<Rightarrow> unit res \<times> 's"
  bm_RegisterLegacyAminoCodec :: "'b \<Rightarrow> 'a \<Rightarrow> 's \<Rightarrow> unit res \<times> 's"
  bm_RegisterInterfaces :: "'b \<Rightarrow> 'i \<Rightarrow> 's \<Rightarrow> unit res \<times> 's"

record ('i, 'c, 'a) Codec =
  InterfaceRegistry :: 'i
  Marshaller :: 'c
  Amino :: 'a

definition ModuleBasics :: "AppModuleBasic list" where
  "ModuleBasics = [Auth_AppModuleBasic, Authz_AppModuleBasic, Bank_AppModuleBasic]"

definition MakeCodecConfig :: "('s, 'i, 'c, 'a, 'b) codec_lib \<Rightarrow> 's \<Rightarrow> ('i, 'c, 'a) Codec \<times> 's" where
  "MakeCodecConfig L s =
     (case NewInterfaceRegistry L s of (interfaceRegistry, s) \<Rightarrow>
      (case NewProtoCodec L interfaceRegistry s of (marshaller, s) \<Rightarrow>
       (case NewLegacyAmino L s of (amino, s) \<Rightarrow>
        (\<lparr>InterfaceRegistry = interfaceRegistry, Marshaller = marshaller, Amino = amino\<rparr>, s))))"

definition MakeCodec ::
  "('s, 'i, 'c, 'a, 'b) codec_lib \<Rightarrow> AppModuleBasic list \<Rightarrow> 's \<Rightarrow> ('i, 'c, 'a) Codec res \<times> 's" where
  "MakeCodec L moduleBasics s =
     (case NewBasicManager L moduleBasics s of (modBasic, s) \<Rightarrow>
      (case MakeCodecConfig L s of (encodingConfig, s) \<Rightarrow>
       go_then (std_RegisterLegacyAminoCodec L (Amino encodingConfig) s) (\<lambda>_ s.
       go_then (std_RegisterInterfaces L (InterfaceRegistry encodingConfig) s) (\<lambda>_ s.
       go_then (bm_RegisterLegacyAminoCodec L modBasic (Amino encodingConfig) s) (\<lambda>_ s.
       go_then (bm_RegisterInterfaces L modBasic (InterfaceRegistry encodingConfig) s) (\<lambda>_ s.
       (Ok encodingConfig, s)))))))"

definition MakeCodecDefault :: "('s, 'i, 'c, 'a, 'b) codec_lib \<Rightarrow> 's \<Rightarrow> ('i, 'c, 'a) Codec res \<times> 's" where
  "MakeCodecDefault L s = MakeCodec L ModuleBasics s"

section \<open>What is registered\<close>

text \<open>
  The laws of the library as documented: \<open>types r s\<close> are the names registered in the registry
  \<open>r\<close>, \<open>reads c s\<close> those a codec can read. A codec reads what its registry holds, also what is
  registered later; a registration adds the names of its module, another object is left alone.
\<close>

definition codec_lib_ok ::
  "('s, 'i, 'c, 'a, 'b) codec_lib \<Rightarrow> ('i \<Rightarrow> 's \<Rightarrow> 'n set) \<Rightarrow> ('c \<Rightarrow> 'i) \<Rightarrow> ('b \<Rightarrow> AppModuleBasic set) \<Rightarrow>
   'n set \<Rightarrow> (AppModuleBasic \<Rightarrow> 'n set) \<Rightarrow> bool" where
  "codec_lib_ok L types registry modules std_types module_types \<longleftrightarrow>
     (\<forall>s r s'. NewInterfaceRegistry L s = (r, s') \<longrightarrow> types r s' = {}) \<and>
     (\<forall>r0 s c s'. NewProtoCodec L r0 s = (c, s') \<longrightarrow> registry c = r0 \<and> (\<forall>r. types r s' = types r s)) \<and>
     (\<forall>s a s'. NewLegacyAmino L s = (a, s') \<longrightarrow> (\<forall>r. types r s' = types r s)) \<and>
     (\<forall>ms s b s'. NewBasicManager L ms s = (b, s') \<longrightarrow> modules b = set ms \<and> (\<forall>r. types r s' = types r s)) \<and>
     (\<forall>a s x s'. std_RegisterLegacyAminoCodec L a s = (x, s') \<longrightarrow> (\<forall>r. types r s' = types r s)) \<and>
     (\<forall>b a s x s'. bm_RegisterLegacyAminoCodec L b a s = (x, s') \<longrightarrow> (\<forall>r. types r s' = types r s)) \<and>
     (\<forall>r s s'. std_RegisterInterfaces L r s = (Ok (), s') \<longrightarrow> types r s' = types r s \<union> std_types) \<and>
     (\<forall>b r s s'. bm_RegisterInterfaces L b r s = (Ok (), s') \<longrightarrow>
        types r s' = types r s \<union> (\<Union>m\<in>modules b. module_types m))"

lemma codec_lib_okD:
  assumes "codec_lib_ok L types registry modules std_types module_types"
  shows "NewInterfaceRegistry L s = (r, s') \<Longrightarrow> types r s' = {}"
    "NewProtoCodec L r s = (c, s') \<Longrightarrow> registry c = r \<and> (\<forall>r. types r s' = types r s)"
    "NewLegacyAmino L s = (a, s') \<Longrightarrow> types r s' = types r s"
    "NewBasicManager L ms s = (b, s') \<Longrightarrow> modules b = set ms \<and> types r s' = types r s"
    "std_RegisterLegacyAminoCodec L a s = (x, s') \<Longrightarrow> types r s' = types r s"
    "bm_RegisterLegacyAminoCodec L b a s = (x, s') \<Longrightarrow> types r s' = types r s"
    "std_RegisterInterfaces L r s = (Ok (), s') \<Longrightarrow> types r s' = types r s \<union> std_types"
    "bm_RegisterInterfaces L b r s = (Ok (), s') \<Longrightarrow> types r s' = types r s \<union> (\<Union>m\<in>modules b. module_types m)"
  using assms unfolding codec_lib_ok_def by (simp, simp, metis, metis, metis, metis, simp, simp)

text \<open>
  The marshaller, created before anything is registered, works on the registry that in the end
  holds the types of the standard library and of the modules, and nothing else.
\<close>

lemma MakeCodec_registers:
  assumes L: "codec_lib_ok L types registry modules std_types module_types"
    and run: "MakeCodec L ms s = (Inr cdc, s')"
  shows "registry (Marshaller cdc) = InterfaceRegistry cdc"
    and "types (InterfaceRegistry cdc) s' = std_types \<union> (\<Union>m\<in>set ms. module_types m)"
proof -
  obtain b s1 where 1: "NewBasicManager L ms s = (b, s1)" by fastforce
  obtain r s2 where 2: "NewInterfaceRegistry L s1 = (r, s2)" by fastforce
  obtain c s3 where 3: "NewProtoCodec L r s2 = (c, s3)" by fastforce
  obtain a s4 where 4: "NewLegacyAmino L s3 = (a, s4)" by fastforce
  from run 1 2 3 4 obtain s5 s6 s7 where
    5: "std_RegisterLegacyAminoCodec L a s4 = (Ok (), s5)" and 6: "std_RegisterInterfaces L r s5 = (Ok (), s6)" and
    7: "bm_RegisterLegacyAminoCodec L b a s6 = (Ok (), s7)" and 8: "bm_RegisterInterfaces L b r s7 = (Ok (), s')" and
    cdc: "cdc = \<lparr>InterfaceRegistry = r, Marshaller = c, Amino = a\<rparr>"
    by (auto simp: MakeCodec_def MakeCodecConfig_def res_success)
  note D = codec_lib_okD [OF L]
  have "types r s' = types r s5 \<union> std_types \<union> (\<Union>m\<in>set ms. module_types m)"
    using D(4) [OF 1] D(6) [OF 7] D(7) [OF 6] D(8) [OF 8] by simp
  moreover have "types r s5 = {}" using D(1) [OF 2] D(2) [OF 3] D(3) [OF 4] D(5) [OF 5] by simp
  moreover have "registry c = r" using D(2) [OF 3] by simp
  ultimately show "registry (Marshaller cdc) = InterfaceRegistry cdc"
    "types (InterfaceRegistry cdc) s' = std_types \<union> (\<Union>m\<in>set ms. module_types m)"
    by (simp_all add: cdc)
qed

end
