(* ===== verification/Base64.thy ===== *)
theory Base64
  imports Strconv
begin

text \<open>
  What the program uses of Go's \<open>encoding/base64\<close>: the standard encoding with padding, printed
  and read. The reader skips line breaks and ignores the unused bits before the padding.
\<close>

definition base64_char :: "nat \<Rightarrow> char" where
  "base64_char n =
     (if n < 26 then char_of (65 + n) else if n < 52 then char_of (71 + n)
      else if n < 62 then char_of (n - 4) else if n = 62 then CHR ''+'' else CHR ''/'')"

fun base64_encode :: "bytes \<Rightarrow> string" where
  "base64_encode [] = []"
| "base64_encode [a] =
     (let n = of_char a * 16 :: nat in [base64_char (n div 64), base64_char (n mod 64), CHR ''='', CHR ''=''])"
| "base64_encode [a, b] =
     (let n = (of_char a * 256 + of_char b) * 4 :: nat
      in [base64_char (n div 4096), base64_char (n div 64 mod 64), base64_char (n mod 64), CHR ''=''])"
| "base64_encode (a # b # c # r) =
     (let n = (of_char a * 256 + of_char b) * 256 + of_char c :: nat
      in base64_char (n div 262144) # base64_char (n div 4096 mod 64) # base64_char (n div 64 mod 64) #
         base64_char (n mod 64) # base64_encode r)"

definition base64_val :: "char \<Rightarrow> nat option" where
  "base64_val c =
     (let n = of_char c :: nat in
      if 65 \<le> n \<and> n \<le> 90 then Some (n - 65) else if 97 \<le> n \<and> n \<le> 122 then Some (n - 71)
      else if 48 \<le> n \<and> n \<le> 57 then Some (n + 4) else if n = 43 then Some 62 else if n = 47 then Some 63
      else None)"

definition base64_error :: "'a res" where
  "base64_error = Err (ErrText ''illegal base64 data'')"

fun base64_quads :: "string \<Rightarrow> bytes res" where
  "base64_quads [] = Ok []"
| "base64_quads (c0 # c1 # c2 # c3 # r) =
     (case (base64_val c0, base64_val c1, base64_val c2, base64_val c3) of
        (Some w, Some x, Some y, Some z) \<Rightarrow>
          (let n = ((w * 64 + x) * 64 + y) * 64 + z
           in res_then (base64_quads r) (\<lambda>bs. Ok (char_of (n div 65536) # char_of (n div 256) # char_of n # bs)))
      | (Some w, Some x, Some y, None) \<Rightarrow>
          if c3 = CHR ''='' \<and> r = []
          then (let n = (w * 64 + x) * 64 + y in Ok [char_of (n div 1024), char_of (n div 4)]) else base64_error
      | (Some w, Some x, None, None) \<Rightarrow>
          if c2 = CHR ''='' \<and> c3 = CHR ''='' \<and> r = []
          then (let n = w * 64 + x in Ok [char_of (n div 16)]) else base64_error
      | _ \<Rightarrow> base64_error)"
| "base64_quads _ = base64_error"

definition base64_decode :: "string \<Rightarrow> bytes res" where
  "base64_decode s = base64_quads (filter (\<lambda>c. c \<noteq> CHR 0x0A \<and> c \<noteq> CHR 0x0D) s)"

lemma of_char_base64: "n < 64 \<Longrightarrow> (of_char (base64_char n) :: nat) =
    (if n < 26 then 65 + n else if n < 52 then 71 + n else if n < 62 then n - 4 else if n = 62 then 43 else 47)"
  by (auto simp: base64_char_def of_char_of)

lemma base64_char_simps [simp]:
  assumes "n < 64"
  shows "base64_val (base64_char n) = Some n"
  using of_char_base64 [OF assms] assms by (auto simp: base64_val_def Let_def split: if_splits)

lemma base64_char_no_break [simp]: "base64_char n \<noteq> CHR 0x0A" "base64_char n \<noteq> CHR 0x0D"
proof -
  have "base64_char n = CHR ''/''" if "\<not> n < 64" using that by (simp add: base64_char_def)
  with of_char_base64 [of n] show "base64_char n \<noteq> CHR 0x0A" "base64_char n \<noteq> CHR 0x0D"
    by (cases "n < 64"; auto split: if_splits)+
qed

lemma base64_val_pad [simp]: "base64_val (CHR ''='') = None"
  by code_simp

lemma of_char_byte: "(of_char c :: nat) < 256"
  by simp

lemma mul_div_64: "(m :: nat) div 64 * 64 + m mod 64 = m" by simp

lemma base64_digits:
  fixes n :: nat
  shows "(n div 64) div 64 = n div 4096" "(n div 4096) div 64 = n div 262144" 
  by (simp_all add: div_mult2_eq [symmetric])

lemma base64_bytes:
  fixes x y z :: nat
  assumes "x < 256" "y < 256" "z < 256"
  shows "x * 16 < 4096" "(x * 256 + y) * 4 < 262144" "(x * 256 + y) * 256 + z < 16777216"
    "(x * 256 + y) * 4 div 1024 = x" "(x * 256 + y) * 4 div 4 = x * 256 + y"
    "((x * 256 + y) * 256 + z) div 65536 = x" "((x * 256 + y) * 256 + z) div 256 = x * 256 + y"
  using assms by simp_all

lemma base64_quads_join:
  fixes n :: nat
  shows "n < 16777216 \<Longrightarrow>
      base64_quads (base64_char (n div 262144) # base64_char (n div 4096 mod 64) # base64_char (n div 64 mod 64) #
        base64_char (n mod 64) # r) =
      res_then (base64_quads r) (\<lambda>bs. Ok (char_of (n div 65536) # char_of (n div 256) # char_of n # bs))"
    and "n < 262144 \<Longrightarrow>
      base64_quads [base64_char (n div 4096), base64_char (n div 64 mod 64), base64_char (n mod 64), CHR ''=''] =
      Ok [char_of (n div 1024), char_of (n div 4)]"
    and "n < 4096 \<Longrightarrow>
      base64_quads [base64_char (n div 64), base64_char (n mod 64), CHR ''='', CHR ''=''] = Ok [char_of (n div 16)]"
proof -
  have 1: "n div 64 * 64 + n mod 64 = n" by simp
  have 2: "(n div 4096 * 64 + n div 64 mod 64) * 64 + n mod 64 = n"
    using mul_div_64 [of n] mul_div_64 [of "n div 64"] by (simp add: base64_digits)
  have 3: "((n div 262144 * 64 + n div 4096 mod 64) * 64 + n div 64 mod 64) * 64 + n mod 64 = n"
    using mul_div_64 [of n] mul_div_64 [of "n div 64"] mul_div_64 [of "n div 4096"] by (simp add: base64_digits)
  have 5: "4096 * (n div 4096) + n div 64 mod 64 * 64 + n mod 64 = n"
    using 2 by (simp add: add_mult_distrib)
  have 4: "262144 * (n div 262144) + 4096 * (n div 4096 mod 64) + n div 64 mod 64 * 64 + n mod 64 = n"
    using 3 by (simp add: add_mult_distrib)
  show "base64_quads (base64_char (n div 262144) # base64_char (n div 4096 mod 64) # base64_char (n div 64 mod 64) #
        base64_char (n mod 64) # r) =
      res_then (base64_quads r) (\<lambda>bs. Ok (char_of (n div 65536) # char_of (n div 256) # char_of n # bs))"
    if "n < 16777216" using that by (simp add: less_mult_imp_div_less Let_def 4)
  show "base64_quads [base64_char (n div 4096), base64_char (n div 64 mod 64), base64_char (n mod 64), CHR ''=''] =
      Ok [char_of (n div 1024), char_of (n div 4)]"
    if "n < 262144" using that by (simp add: less_mult_imp_div_less Let_def 5)
  show "base64_quads [base64_char (n div 64), base64_char (n mod 64), CHR ''='', CHR ''=''] = Ok [char_of (n div 16)]"
    if "n < 4096" using that by (simp add: less_mult_imp_div_less Let_def 1)
qed

lemma char_of_low [simp]:
  "char_of (256 * m + of_char b :: nat) = b" "char_of (m * 256 + of_char b :: nat) = b"
  "char_of (65536 * k + m * 256 + of_char b :: nat) = b"
proof -
  show *: "char_of (256 * m + of_char b :: nat) = b" for m
    by (subst char_of_mod_256 [symmetric]) simp
  show "char_of (m * 256 + of_char b :: nat) = b" "char_of (65536 * k + m * 256 + of_char b :: nat) = b"
    using * [of m] * [of "256 * k + m"] by (simp_all add: algebra_simps)
qed

lemma base64_quads_encode: "base64_quads (base64_encode b) = Ok b"
proof (induction b rule: base64_encode.induct)
  case (2 a)
  show ?case unfolding base64_encode.simps Let_def
    by (subst base64_quads_join(3)) (rule base64_bytes of_char_byte | simp)+
next
  case (3 a b)
  show ?case unfolding base64_encode.simps Let_def
    by (subst base64_quads_join(2)) (rule base64_bytes(2) of_char_byte | simp only: base64_bytes(4,5) of_char_byte | simp)+
next
  case (4 a b c r)
  then show ?case unfolding base64_encode.simps Let_def
    by (subst base64_quads_join(1)) (rule base64_bytes(3) of_char_byte | simp only: base64_bytes(6,7) of_char_byte | simp)+
qed simp

lemma base64_no_breaks: "filter (\<lambda>c. c \<noteq> CHR 0x0A \<and> c \<noteq> CHR 0x0D) (base64_encode b) = base64_encode b"
  by (induction b rule: base64_encode.induct) (simp_all add: Let_def)

lemma base64_decode_encode [simp]: "base64_decode (base64_encode b) = Ok b"
  by (simp add: base64_decode_def base64_quads_encode base64_no_breaks)

lemma base64_encode_Nil_iff [simp]: "base64_encode b = [] \<longleftrightarrow> b = []"
  by (induction b rule: base64_encode.induct) (auto simp: Let_def)

end
