(* ===== verification/Rest_Json.thy ===== *)
theory Rest_Json
  imports Json_Indent Base64
begin

text \<open>
  JSON documents of the REST API as the generated body types read and write them: members with
  \<open>omitempty\<close>, pointers, slices, integers of 32 and 64 bits, and base64 values. The types of
  \<open>strfmt\<close> and the functions of \<open>swag\<close> that the generated code calls are parameters.
\<close>

section \<open>Parameters\<close>

text \<open>
  \<open>strfmt.Base64\<close> as a JSON value. Its documented behaviour: what it writes is a JSON string
  without special characters, which it reads back.
\<close>

record base64 =
  MarshalJSON :: "bytes \<Rightarrow> json"
  UnmarshalJSON :: "json \<Rightarrow> bytes res"

definition base64_ok :: "base64 \<Rightarrow> bool" where
  "base64_ok B \<longleftrightarrow> (\<forall>b. UnmarshalJSON B (MarshalJSON B b) = Ok b \<and> json_ok (MarshalJSON B b) \<and>
     json_clean (MarshalJSON B b) = MarshalJSON B b)"

lemma base64_okD [simp]:
  assumes "base64_ok B"
  shows "UnmarshalJSON B (MarshalJSON B b) = Ok b" "json_ok (MarshalJSON B b)"
    "json_clean (MarshalJSON B b) = MarshalJSON B b"
  using assms by (simp_all add: base64_ok_def)

text \<open>The standard encoding, as \<open>strfmt\<close> documents it, satisfies this.\<close>

definition std_base64 :: base64 where
  "std_base64 = \<lparr>MarshalJSON = (\<lambda>b. JStr (base64_encode b)),
     UnmarshalJSON = (\<lambda>v. res_then (decode_string [] v) base64_decode)\<rparr>"

lemma of_char_base64_ascii: "byte (base64_char n) < 128"
proof (cases "n < 64")
  case True
  then show ?thesis unfolding of_char_base64 [OF True] by (auto split: if_splits)
qed (simp add: base64_char_def)

lemma base64_ascii [simp]: "is_ascii (base64_encode b)"
  by (induction b rule: base64_encode.induct) (simp_all add: is_ascii_def Let_def of_char_base64_ascii)

lemma std_base64_ok: "base64_ok std_base64"
  by (simp add: base64_ok_def std_base64_def)

text \<open>
  \<open>swag.WriteJSON\<close> and \<open>swag.ReadJSON\<close>, up to the decoding into the target: documents as
  \<open>encoding/json\<close> writes and reads them.
\<close>

definition swag_ok :: "(json \<Rightarrow> bytes res) \<Rightarrow> (bytes \<Rightarrow> json res) \<Rightarrow> bool" where
  "swag_ok WriteJSON ReadJSON \<longleftrightarrow>
     (\<forall>v. json_ok v \<longrightarrow> (\<exists>b. WriteJSON v = Ok b \<and> ReadJSON b = Ok (json_clean v)))"

lemma swag_okE:
  assumes "swag_ok WriteJSON ReadJSON" "json_ok v"
  obtains b where "WriteJSON v = Ok b" "ReadJSON b = Ok (json_clean v)"
  using assms unfolding swag_ok_def by blast

section \<open>Members\<close>

text \<open>The members a struct writes for its fields; \<open>omitempty\<close> leaves out the zero values.\<close>

definition str_member :: "string \<Rightarrow> string \<Rightarrow> (string \<times> json) list" where
  "str_member n s = (if s = [] then [] else [(n, JStr s)])"

definition b64_member :: "base64 \<Rightarrow> string \<Rightarrow> bytes \<Rightarrow> (string \<times> json) list" where
  "b64_member B n b = (if b = [] then [] else [(n, MarshalJSON B b)])"

definition int_member :: "string \<Rightarrow> 'a::len word \<Rightarrow> (string \<times> json) list" where
  "int_member n i = (if i = 0 then [] else [(n, JNum (FormatInt (sint i)))])"

definition bool_member :: "string \<Rightarrow> bool \<Rightarrow> (string \<times> json) list" where
  "bool_member n b = (if b then [(n, JBool True)] else [])"

definition ptr_member :: "string \<Rightarrow> ('a \<Rightarrow> json) \<Rightarrow> 'a option \<Rightarrow> (string \<times> json) list" where
  "ptr_member n enc p = (case p of None \<Rightarrow> [] | Some x \<Rightarrow> [(n, enc x)])"

definition encode_ptr :: "('a \<Rightarrow> json) \<Rightarrow> 'a option \<Rightarrow> json" where
  "encode_ptr enc p = (case p of None \<Rightarrow> JNull | Some x \<Rightarrow> enc x)"

text \<open>What a loop over a slice visits: nothing when the slice is nil.\<close>

definition elements :: "'a list option \<Rightarrow> 'a list" where
  "elements xs = (case xs of None \<Rightarrow> [] | Some ys \<Rightarrow> ys)"

lemma elements_simps [simp]: "elements None = []" "elements (Some xs) = xs"
  by (simp_all add: elements_def)

text \<open>
  Decoding into a pointer: \<open>null\<close> makes it nil, any other value is decoded into what it points
  to, or into a new zero value. Decoding into an integer fails outside its range.
\<close>

definition decode_ptr :: "('a \<Rightarrow> json \<Rightarrow> 'a res) \<Rightarrow> 'a \<Rightarrow> 'a option \<Rightarrow> json \<Rightarrow> 'a option res" where
  "decode_ptr dec zero old v = (case v of
       JNull \<Rightarrow> Ok None
     | _ \<Rightarrow> res_then (dec (case old of None \<Rightarrow> zero | Some x \<Rightarrow> x) v) (\<lambda>x. Ok (Some x)))"

lemma decode_ptr_value: "v \<noteq> JNull \<Longrightarrow>
    decode_ptr dec zero old v = res_then (dec (case old of None \<Rightarrow> zero | Some x \<Rightarrow> x) v) (\<lambda>x. Ok (Some x))"
  by (cases v) (simp_all add: decode_ptr_def)

definition decode_struct_ptr :: "('a \<Rightarrow> string \<Rightarrow> json \<Rightarrow> 'a res) \<Rightarrow> 'a \<Rightarrow> 'a option \<Rightarrow> json \<Rightarrow> 'a option res" where
  "decode_struct_ptr step zero = decode_ptr (decode_struct step) zero"

definition decode_structs ::
  "('a \<Rightarrow> string \<Rightarrow> json \<Rightarrow> 'a res) \<Rightarrow> 'a \<Rightarrow> 'a option list option \<Rightarrow> json \<Rightarrow> 'a option list option res" where
  "decode_structs step zero = decode_slice (decode_struct_ptr step zero) None"

definition decode_int :: "'a::len word \<Rightarrow> json \<Rightarrow> 'a word res" where
  "decode_int old v = (case v of
       JNull \<Rightarrow> Ok old
     | JNum n \<Rightarrow> (case Atoi n of
           Inr i \<Rightarrow> if sint (word_of_int i :: 'a word) = i then Ok (word_of_int i) else type_error
         | Inl _ \<Rightarrow> type_error)
     | _ \<Rightarrow> type_error)"

definition decode_bool :: "bool \<Rightarrow> json \<Rightarrow> bool res" where
  "decode_bool old v = (case v of JNull \<Rightarrow> Ok old | JBool b \<Rightarrow> Ok b | _ \<Rightarrow> type_error)"

section \<open>Decoding what was written\<close>

text \<open>The members of an object, decoded into a struct one after the other.\<close>

definition fold_members :: "('a \<Rightarrow> string \<Rightarrow> json \<Rightarrow> 'a res) \<Rightarrow> 'a \<Rightarrow> (string \<times> json) list \<Rightarrow> 'a res" where
  "fold_members step x ms = decode_struct step x (JObj ms)"

lemma fold_members_Inl: "foldl (\<lambda>acc (k, v). res_then acc (\<lambda>a. step a k v)) (Inl e) ms = Inl e"
  by (induction ms) auto

lemma fold_members_simps:
  "fold_members step x [] = Ok x"
  "fold_members step x ((k, v) # ms) = res_then (step x k v) (\<lambda>y. fold_members step y ms)"
  by (cases "step x k v"; simp add: fold_members_def decode_struct_def fold_members_Inl)+

lemma fold_members_append:
  "fold_members step x (ms @ ns) = res_then (fold_members step x ms) (\<lambda>y. fold_members step y ns)"
  by (induction ms arbitrary: x) (auto simp: fold_members_simps res_then_assoc)

lemma fold_member:
  "fold_members step x (str_member n s) = (if s = [] then Ok x else step x n (JStr s))"
  "fold_members step x (b64_member B n b) = (if b = [] then Ok x else step x n (MarshalJSON B b))"
  "fold_members step x (int_member n i) = (if i = 0 then Ok x else step x n (JNum (FormatInt (sint i))))"
  "fold_members step x (bool_member n c) = (if c then step x n (JBool True) else Ok x)"
  "fold_members step x (ptr_member n enc p) = (case p of None \<Rightarrow> Ok x | Some y \<Rightarrow> step x n (enc y))"
  by (simp_all add: str_member_def b64_member_def int_member_def bool_member_def ptr_member_def
      fold_members_simps split: option.split)

text \<open>An integer that was printed is read back, if its type has at most 64 bits.\<close>

lemma decode_int_FormatInt [simp]:
  fixes i :: "'a::len word"
  assumes "LENGTH('a) \<le> 64"
  shows "decode_int old (JNum (FormatInt (sint i))) = Ok i"
proof -
  have "- (2 ^ (LENGTH('a) - 1)) \<le> sint i" "sint i < 2 ^ (LENGTH('a) - 1)"
    by (simp_all add: sint_greater_eq sint_less)
  moreover have "(2 :: int) ^ (LENGTH('a) - 1) \<le> 2 ^ 63" using assms by (intro power_increasing) auto
  ultimately have "Atoi (FormatInt (sint i)) = Ok (sint i)" by (intro Atoi_FormatInt) linarith+
  then show ?thesis by (simp add: decode_int_def)
qed

text \<open>Values decoded as they were written.\<close>

lemma decode_elems_written:
  assumes "\<And>x. dec zero (enc x) = Ok x"
  shows "decode_elems dec zero [] (map enc xs) = Ok xs"
  using assms by (induction xs) auto

lemma decode_slice_written:
  "(\<And>x. dec zero (enc x) = Ok x) \<Longrightarrow> decode_slice dec zero None (encode_slice enc xs) = Ok xs"
  by (cases xs) (simp_all add: decode_slice_def encode_slice_def decode_elems_written)

lemma decode_ptr_JStr: "decode_ptr decode_string [] None (JStr s) = Ok (Some s)"
  by (simp add: decode_ptr_def)

lemma decode_bool_JBool: "decode_bool old (JBool b) = Ok b"
  by (simp add: decode_bool_def)

lemma json_ok_members:
  "list_all (\<lambda>(k, v). json_ok v) (str_member n s)"
  "base64_ok B \<Longrightarrow> list_all (\<lambda>(k, v). json_ok v) (b64_member B n b)"
  "list_all (\<lambda>(k, v). json_ok v) (bool_member n c)"
  "list_all (\<lambda>(k, v). json_ok v) (int_member n i)"
  "(\<And>x. json_ok (enc x)) \<Longrightarrow> list_all (\<lambda>(k, v). json_ok v) (ptr_member n enc p)"
  by (auto simp: str_member_def b64_member_def bool_member_def int_member_def ptr_member_def encode_ptr_def split: option.split)

text \<open>Steps that simplify what a struct reads from its own members to the struct itself.\<close>

lemma if_Ok: "(if c then Ok a else Ok b) = Ok (if c then a else b)"
  by simp

lemma if_zero: "(if s = z then z else s) = s" "(if s = z then s else z) = z" "(if c then True else False) = c"
  by auto

lemmas struct_simps = fold_members_append fold_member fold_members_simps if_Ok if_zero decode_slice_written
  decode_ptr_JStr decode_bool_JBool

section \<open>Structs that are read back as they were written\<close>

named_theorems rest_codecs \<open>what the codecs of the body types promise\<close>

type_synonym 'a encoder = "base64 \<Rightarrow> 'a \<Rightarrow> json"
type_synonym 'a stepper = "base64 \<Rightarrow> 'a \<Rightarrow> string \<Rightarrow> json \<Rightarrow> 'a res"

text \<open>
  The contract of a body type: it writes an object that can be printed, and reading the object
  into a zero value gives the value back. \<open>MarshalBinary\<close> and \<open>UnmarshalBinary\<close> of every
  body type are the ones of this locale, through \<open>swag\<close>.
\<close>

definition MarshalBinary :: "(json \<Rightarrow> bytes res) \<Rightarrow> ('a \<Rightarrow> json) \<Rightarrow> 'a option \<Rightarrow> bytes res" where
  "MarshalBinary WriteJSON enc p = (case p of None \<Rightarrow> Ok [] | Some x \<Rightarrow> WriteJSON (enc x))"

definition UnmarshalBinary :: "(bytes \<Rightarrow> json res) \<Rightarrow> ('a \<Rightarrow> string \<Rightarrow> json \<Rightarrow> 'a res) \<Rightarrow> 'a \<Rightarrow> bytes \<Rightarrow> 'a res" where
  "UnmarshalBinary ReadJSON step zero b = res_then (ReadJSON b) (decode_struct step zero)"

locale rest_codec =
  fixes encode :: "'a encoder" and step :: "'a stepper" and zero :: 'a
  assumes object: "encode B x \<noteq> JNull"
    and printable [rest_codecs]: "base64_ok B \<Longrightarrow> json_ok (encode B x)"
    and read: "base64_ok B \<Longrightarrow> decode_struct (step B) zero (encode B x) = Ok x"
begin

lemma struct_ptr_read [rest_codecs]:
  "base64_ok B \<Longrightarrow> decode_struct_ptr (step B) zero None (encode B x) = Ok (Some x)"
  using object [of B x] by (simp add: decode_struct_ptr_def decode_ptr_value read)

lemma structs_read [rest_codecs]:
  "base64_ok B \<Longrightarrow> decode_structs (step B) zero None (encode_slice (encode_ptr (encode B)) xs) = Ok xs"
  unfolding decode_structs_def
proof (rule decode_slice_written)
  fix p :: "'a option"
  assume "base64_ok B"
  then show "decode_struct_ptr (step B) zero None (encode_ptr (encode B) p) = Ok p"
    by (cases p) (simp_all add: encode_ptr_def struct_ptr_read, simp add: decode_struct_ptr_def decode_ptr_def)
qed

lemma slice_printable [rest_codecs]:
  "base64_ok B \<Longrightarrow> json_ok (encode_slice (encode_ptr (encode B)) xs)"
  by (rule json_ok_slice) (simp add: encode_ptr_def printable split: option.split)

text \<open>A value whose strings are valid UTF-8 comes back from the bytes it was marshalled to.\<close>

lemma unmarshal_marshal:
  assumes "swag_ok WriteJSON ReadJSON" "base64_ok B" "json_clean (encode B x) = encode B x"
  shows "\<exists>b. MarshalBinary WriteJSON (encode B) (Some x) = Ok b \<and>
    UnmarshalBinary ReadJSON (step B) zero b = Ok x"
proof -
  obtain b where "WriteJSON (encode B x) = Ok b" "ReadJSON b = Ok (encode B x)"
    using swag_okE [OF assms(1) printable [OF assms(2), of x]] unfolding assms(3) by blast
  with read [OF assms(2), of x] show ?thesis by (simp add: MarshalBinary_def UnmarshalBinary_def)
qed

end

end
