(* ===== verification/Rest_Bodies.thy ===== *)
theory Rest_Bodies
  imports Rest_Json
begin

text \<open>
  The body types of the REST API, by their structure: the generated code repeats a type under
  the name of every place it occurs at, with the same fields and tags, and one record stands for
  all of them. For each: the zero value, what it writes, and how one member of an object is read
  into it; a pointer is an option, a slice an option of a list. Every type is shown to read back
  what it writes.
\<close>

section \<open>The types\<close>

record RestAny =
  an_AtType :: string

definition zero_RestAny :: RestAny where
  "zero_RestAny = \<lparr>an_AtType = []\<rparr>"

definition encode_RestAny :: "RestAny encoder" where
  "encode_RestAny B x = JObj (str_member ''@type'' (an_AtType x))"

definition step_RestAny :: "RestAny stepper" where
  "step_RestAny B x k v =
     (if field_is ''@type'' k then
        res_then (decode_string (an_AtType x) v) (\<lambda>y. Ok (x\<lparr>an_AtType := y\<rparr>))
      else Ok x)"

record RestDefaultBody =
  df_Code :: "32 word"
  df_Details :: "RestAny option list option"
  df_Message :: string

definition zero_RestDefaultBody :: RestDefaultBody where
  "zero_RestDefaultBody = \<lparr>df_Code = 0, df_Details = None, df_Message = []\<rparr>"

definition encode_RestDefaultBody :: "RestDefaultBody encoder" where
  "encode_RestDefaultBody B x = JObj (int_member ''code'' (df_Code x) @
     [(''details'', encode_slice (encode_ptr (encode_RestAny B)) (df_Details x))] @
     str_member ''message'' (df_Message x))"

definition step_RestDefaultBody :: "RestDefaultBody stepper" where
  "step_RestDefaultBody B x k v =
     (if field_is ''code'' k then
        res_then (decode_int (df_Code x) v) (\<lambda>y. Ok (x\<lparr>df_Code := y\<rparr>))
      else if field_is ''details'' k then
        res_then (decode_structs (step_RestAny B) zero_RestAny (df_Details x) v) (\<lambda>y. Ok (x\<lparr>df_Details := y\<rparr>))
      else if field_is ''message'' k then
        res_then (decode_string (df_Message x) v) (\<lambda>y. Ok (x\<lparr>df_Message := y\<rparr>))
      else Ok x)"

record RestKVKey =
  rk_Key :: bytes
  rk_Path :: string

definition zero_RestKVKey :: RestKVKey where
  "zero_RestKVKey = \<lparr>rk_Key = [], rk_Path = []\<rparr>"

definition encode_RestKVKey :: "RestKVKey encoder" where
  "encode_RestKVKey B x = JObj (b64_member B ''key'' (rk_Key x) @
     str_member ''path'' (rk_Path x))"

definition step_RestKVKey :: "RestKVKey stepper" where
  "step_RestKVKey B x k v =
     (if field_is ''key'' k then
        res_then (UnmarshalJSON B v) (\<lambda>y. Ok (x\<lparr>rk_Key := y\<rparr>))
      else if field_is ''path'' k then
        res_then (decode_string (rk_Path x) v) (\<lambda>y. Ok (x\<lparr>rk_Path := y\<rparr>))
      else Ok x)"

record RestHeight =
  rh_RevisionHeight :: string
  rh_RevisionNumber :: string

definition zero_RestHeight :: RestHeight where
  "zero_RestHeight = \<lparr>rh_RevisionHeight = [], rh_RevisionNumber = []\<rparr>"

definition encode_RestHeight :: "RestHeight encoder" where
  "encode_RestHeight B x = JObj (str_member ''revision_height'' (rh_RevisionHeight x) @
     str_member ''revision_number'' (rh_RevisionNumber x))"

definition step_RestHeight :: "RestHeight stepper" where
  "step_RestHeight B x k v =
     (if field_is ''revision_height'' k then
        res_then (decode_string (rh_RevisionHeight x) v) (\<lambda>y. Ok (x\<lparr>rh_RevisionHeight := y\<rparr>))
      else if field_is ''revision_number'' k then
        res_then (decode_string (rh_RevisionNumber x) v) (\<lambda>y. Ok (x\<lparr>rh_RevisionNumber := y\<rparr>))
      else Ok x)"

record RestRegisteredQuery =
  rq_ConnectionID :: string
  rq_ID :: string
  rq_Keys :: "RestKVKey option list option"
  rq_LastSubmittedResultLocalHeight :: string
  rq_LastSubmittedResultRemoteHeight :: "RestHeight option"
  rq_Owner :: string
  rq_QueryType :: string
  rq_TransactionsFilter :: string
  rq_UpdatePeriod :: string

definition zero_RestRegisteredQuery :: RestRegisteredQuery where
  "zero_RestRegisteredQuery = \<lparr>rq_ConnectionID = [], rq_ID = [], rq_Keys = None,
     rq_LastSubmittedResultLocalHeight = [], rq_LastSubmittedResultRemoteHeight = None, rq_Owner = [],
     rq_QueryType = [], rq_TransactionsFilter = [], rq_UpdatePeriod = []\<rparr>"

definition encode_RestRegisteredQuery :: "RestRegisteredQuery encoder" where
  "encode_RestRegisteredQuery B x = JObj (str_member ''connection_id'' (rq_ConnectionID x) @
     str_member ''id'' (rq_ID x) @
     [(''keys'', encode_slice (encode_ptr (encode_RestKVKey B)) (rq_Keys x))] @
     str_member ''last_submitted_result_local_height'' (rq_LastSubmittedResultLocalHeight x) @
     ptr_member ''last_submitted_result_remote_height'' (encode_RestHeight B) (rq_LastSubmittedResultRemoteHeight x) @
     str_member ''owner'' (rq_Owner x) @
     str_member ''query_type'' (rq_QueryType x) @
     str_member ''transactions_filter'' (rq_TransactionsFilter x) @
     str_member ''update_period'' (rq_UpdatePeriod x))"

definition step_RestRegisteredQuery :: "RestRegisteredQuery stepper" where
  "step_RestRegisteredQuery B x k v =
     (if field_is ''connection_id'' k then
        res_then (decode_string (rq_ConnectionID x) v) (\<lambda>y. Ok (x\<lparr>rq_ConnectionID := y\<rparr>))
      else if field_is ''id'' k then
        res_then (decode_string (rq_ID x) v) (\<lambda>y. Ok (x\<lparr>rq_ID := y\<rparr>))
      else if field_is ''keys'' k then
        res_then (decode_structs (step_RestKVKey B) zero_RestKVKey (rq_Keys x) v) (\<lambda>y. Ok (x\<lparr>rq_Keys := y\<rparr>))
      else if field_is ''last_submitted_result_local_height'' k then
        res_then (decode_string (rq_LastSubmittedResultLocalHeight x) v) (\<lambda>y. Ok (x\<lparr>rq_LastSubmittedResultLocalHeight := y\<rparr>))
      else if field_is ''last_submitted_result_remote_height'' k then
        res_then (decode_struct_ptr (step_RestHeight B) zero_RestHeight (rq_LastSubmittedResultRemoteHeight x) v) (\<lambda>y. Ok (x\<lparr>rq_LastSubmittedResultRemoteHeight := y\<rparr>))
      else if field_is ''owner'' k then
        res_then (decode_string (rq_Owner x) v) (\<lambda>y. Ok (x\<lparr>rq_Owner := y\<rparr>))
      else if field_is ''query_type'' k then
        res_then (decode_string (rq_QueryType x) v) (\<lambda>y. Ok (x\<lparr>rq_QueryType := y\<rparr>))
      else if field_is ''transactions_filter'' k then
        res_then (decode_string (rq_TransactionsFilter x) v) (\<lambda>y. Ok (x\<lparr>rq_TransactionsFilter := y\<rparr>))
      else if field_is ''update_period'' k then
        res_then (decode_string (rq_UpdatePeriod x) v) (\<lambda>y. Ok (x\<lparr>rq_UpdatePeriod := y\<rparr>))
      else Ok x)"

record RestPagination =
  rp_NextKey :: bytes
  rp_Total :: string

definition zero_RestPagination :: RestPagination where
  "zero_RestPagination = \<lparr>rp_NextKey = [], rp_Total = []\<rparr>"

definition encode_RestPagination :: "RestPagination encoder" where
  "encode_RestPagination B x = JObj (b64_member B ''next_key'' (rp_NextKey x) @
     str_member ''total'' (rp_Total x))"

definition step_RestPagination :: "RestPagination stepper" where
  "step_RestPagination B x k v =
     (if field_is ''next_key'' k then
        res_then (UnmarshalJSON B v) (\<lambda>y. Ok (x\<lparr>rp_NextKey := y\<rparr>))
      else if field_is ''total'' k then
        res_then (decode_string (rp_Total x) v) (\<lambda>y. Ok (x\<lparr>rp_Total := y\<rparr>))
      else Ok x)"

record RegisteredQueriesBody =
  rb_Pagination :: "RestPagination option"
  RegisteredQueries :: "RestRegisteredQuery option list option"

definition zero_RegisteredQueriesBody :: RegisteredQueriesBody where
  "zero_RegisteredQueriesBody = \<lparr>rb_Pagination = None, RegisteredQueries = None\<rparr>"

definition encode_RegisteredQueriesBody :: "RegisteredQueriesBody encoder" where
  "encode_RegisteredQueriesBody B x = JObj (ptr_member ''pagination'' (encode_RestPagination B) (rb_Pagination x) @
     [(''registered_queries'', encode_slice (encode_ptr (encode_RestRegisteredQuery B)) (RegisteredQueries x))])"

definition step_RegisteredQueriesBody :: "RegisteredQueriesBody stepper" where
  "step_RegisteredQueriesBody B x k v =
     (if field_is ''pagination'' k then
        res_then (decode_struct_ptr (step_RestPagination B) zero_RestPagination (rb_Pagination x) v) (\<lambda>y. Ok (x\<lparr>rb_Pagination := y\<rparr>))
      else if field_is ''registered_queries'' k then
        res_then (decode_structs (step_RestRegisteredQuery B) zero_RestRegisteredQuery (RegisteredQueries x) v) (\<lambda>y. Ok (x\<lparr>RegisteredQueries := y\<rparr>))
      else Ok x)"

record RegisteredQueryBody =
  rb_RegisteredQuery :: "RestRegisteredQuery option"

definition zero_RegisteredQueryBody :: RegisteredQueryBody where
  "zero_RegisteredQueryBody = \<lparr>rb_RegisteredQuery = None\<rparr>"

definition encode_RegisteredQueryBody :: "RegisteredQueryBody encoder" where
  "encode_RegisteredQueryBody B x = JObj (ptr_member ''registered_query'' (encode_RestRegisteredQuery B) (rb_RegisteredQuery x))"

definition step_RegisteredQueryBody :: "RegisteredQueryBody stepper" where
  "step_RegisteredQueryBody B x k v =
     (if field_is ''registered_query'' k then
        res_then (decode_struct_ptr (step_RestRegisteredQuery B) zero_RestRegisteredQuery (rb_RegisteredQuery x) v) (\<lambda>y. Ok (x\<lparr>rb_RegisteredQuery := y\<rparr>))
      else Ok x)"

record RestPrefix =
  px_KeyPrefix :: bytes

definition zero_RestPrefix :: RestPrefix where
  "zero_RestPrefix = \<lparr>px_KeyPrefix = []\<rparr>"

definition encode_RestPrefix :: "RestPrefix encoder" where
  "encode_RestPrefix B x = JObj (b64_member B ''key_prefix'' (px_KeyPrefix x))"

definition step_RestPrefix :: "RestPrefix stepper" where
  "step_RestPrefix B x k v =
     (if field_is ''key_prefix'' k then
        res_then (UnmarshalJSON B v) (\<lambda>y. Ok (x\<lparr>px_KeyPrefix := y\<rparr>))
      else Ok x)"

record RestVersion =
  vs_Features :: "string list option"
  vs_Identifier :: string

definition zero_RestVersion :: RestVersion where
  "zero_RestVersion = \<lparr>vs_Features = None, vs_Identifier = []\<rparr>"

definition encode_RestVersion :: "RestVersion encoder" where
  "encode_RestVersion B x = JObj ([(''features'', encode_slice JStr (vs_Features x))] @
     str_member ''identifier'' (vs_Identifier x))"

definition step_RestVersion :: "RestVersion stepper" where
  "step_RestVersion B x k v =
     (if field_is ''features'' k then
        res_then (decode_slice decode_string [] (vs_Features x) v) (\<lambda>y. Ok (x\<lparr>vs_Features := y\<rparr>))
      else if field_is ''identifier'' k then
        res_then (decode_string (vs_Identifier x) v) (\<lambda>y. Ok (x\<lparr>vs_Identifier := y\<rparr>))
      else Ok x)"

record RestCounterparty =
  co_ClientID :: string
  co_ConnectionID :: string
  co_Prefix :: "RestPrefix option"

definition zero_RestCounterparty :: RestCounterparty where
  "zero_RestCounterparty = \<lparr>co_ClientID = [], co_ConnectionID = [], co_Prefix = None\<rparr>"

definition encode_RestCounterparty :: "RestCounterparty encoder" where
  "encode_RestCounterparty B x = JObj (str_member ''client_id'' (co_ClientID x) @
     str_member ''connection_id'' (co_ConnectionID x) @
     ptr_member ''prefix'' (encode_RestPrefix B) (co_Prefix x))"

definition step_RestCounterparty :: "RestCounterparty stepper" where
  "step_RestCounterparty B x k v =
     (if field_is ''client_id'' k then
        res_then (decode_string (co_ClientID x) v) (\<lambda>y. Ok (x\<lparr>co_ClientID := y\<rparr>))
      else if field_is ''connection_id'' k then
        res_then (decode_string (co_ConnectionID x) v) (\<lambda>y. Ok (x\<lparr>co_ConnectionID := y\<rparr>))
      else if field_is ''prefix'' k then
        res_then (decode_struct_ptr (step_RestPrefix B) zero_RestPrefix (co_Prefix x) v) (\<lambda>y. Ok (x\<lparr>co_Prefix := y\<rparr>))
      else Ok x)"

record RestConnection =
  cb_ClientID :: string
  Counterparty :: "RestCounterparty option"
  cb_DelayPeriod :: string
  cb_State :: "string option"
  cb_Versions :: "RestVersion option list option"

definition zero_RestConnection :: RestConnection where
  "zero_RestConnection = \<lparr>cb_ClientID = [], Counterparty = None, cb_DelayPeriod = [],
     cb_State = None, cb_Versions = None\<rparr>"

definition encode_RestConnection :: "RestConnection encoder" where
  "encode_RestConnection B x = JObj (str_member ''client_id'' (cb_ClientID x) @
     ptr_member ''counterparty'' (encode_RestCounterparty B) (Counterparty x) @
     str_member ''delay_period'' (cb_DelayPeriod x) @
     ptr_member ''state'' JStr (cb_State x) @
     [(''versions'', encode_slice (encode_ptr (encode_RestVersion B)) (cb_Versions x))])"

definition step_RestConnection :: "RestConnection stepper" where
  "step_RestConnection B x k v =
     (if field_is ''client_id'' k then
        res_then (decode_string (cb_ClientID x) v) (\<lambda>y. Ok (x\<lparr>cb_ClientID := y\<rparr>))
      else if field_is ''counterparty'' k then
        res_then (decode_struct_ptr (step_RestCounterparty B) zero_RestCounterparty (Counterparty x) v) (\<lambda>y. Ok (x\<lparr>Counterparty := y\<rparr>))
      else if field_is ''delay_period'' k then
        res_then (decode_string (cb_DelayPeriod x) v) (\<lambda>y. Ok (x\<lparr>cb_DelayPeriod := y\<rparr>))
      else if field_is ''state'' k then
        res_then (decode_ptr decode_string [] (cb_State x) v) (\<lambda>y. Ok (x\<lparr>cb_State := y\<rparr>))
      else if field_is ''versions'' k then
        res_then (decode_structs (step_RestVersion B) zero_RestVersion (cb_Versions x) v) (\<lambda>y. Ok (x\<lparr>cb_Versions := y\<rparr>))
      else Ok x)"

record ConnectionBody =
  Connection :: "RestConnection option"
  ob_Proof :: bytes
  ob_ProofHeight :: "RestHeight option"

definition zero_ConnectionBody :: ConnectionBody where
  "zero_ConnectionBody = \<lparr>Connection = None, ob_Proof = [], ob_ProofHeight = None\<rparr>"

definition encode_ConnectionBody :: "ConnectionBody encoder" where
  "encode_ConnectionBody B x = JObj (ptr_member ''connection'' (encode_RestConnection B) (Connection x) @
     b64_member B ''proof'' (ob_Proof x) @
     ptr_member ''proof_height'' (encode_RestHeight B) (ob_ProofHeight x))"

definition step_ConnectionBody :: "ConnectionBody stepper" where
  "step_ConnectionBody B x k v =
     (if field_is ''connection'' k then
        res_then (decode_struct_ptr (step_RestConnection B) zero_RestConnection (Connection x) v) (\<lambda>y. Ok (x\<lparr>Connection := y\<rparr>))
      else if field_is ''proof'' k then
        res_then (UnmarshalJSON B v) (\<lambda>y. Ok (x\<lparr>ob_Proof := y\<rparr>))
      else if field_is ''proof_height'' k then
        res_then (decode_struct_ptr (step_RestHeight B) zero_RestHeight (ob_ProofHeight x) v) (\<lambda>y. Ok (x\<lparr>ob_ProofHeight := y\<rparr>))
      else Ok x)"

record RestMerkleProof =
  mk_Aunts :: "bytes list option"
  mk_Index :: string
  mk_LeafHash :: bytes
  mk_Total :: string

definition zero_RestMerkleProof :: RestMerkleProof where
  "zero_RestMerkleProof = \<lparr>mk_Aunts = None, mk_Index = [], mk_LeafHash = [], mk_Total = []\<rparr>"

definition encode_RestMerkleProof :: "RestMerkleProof encoder" where
  "encode_RestMerkleProof B x = JObj ([(''aunts'', encode_slice (MarshalJSON B) (mk_Aunts x))] @
     str_member ''index'' (mk_Index x) @
     b64_member B ''leaf_hash'' (mk_LeafHash x) @
     str_member ''total'' (mk_Total x))"

definition step_RestMerkleProof :: "RestMerkleProof stepper" where
  "step_RestMerkleProof B x k v =
     (if field_is ''aunts'' k then
        res_then (decode_slice (\<lambda>_. UnmarshalJSON B) [] (mk_Aunts x) v) (\<lambda>y. Ok (x\<lparr>mk_Aunts := y\<rparr>))
      else if field_is ''index'' k then
        res_then (decode_string (mk_Index x) v) (\<lambda>y. Ok (x\<lparr>mk_Index := y\<rparr>))
      else if field_is ''leaf_hash'' k then
        res_then (UnmarshalJSON B v) (\<lambda>y. Ok (x\<lparr>mk_LeafHash := y\<rparr>))
      else if field_is ''total'' k then
        res_then (decode_string (mk_Total x) v) (\<lambda>y. Ok (x\<lparr>mk_Total := y\<rparr>))
      else Ok x)"

record RestEventAttribute =
  ea_Index :: bool
  ea_Key :: bytes
  ea_Value :: bytes

definition zero_RestEventAttribute :: RestEventAttribute where
  "zero_RestEventAttribute = \<lparr>ea_Index = False, ea_Key = [], ea_Value = []\<rparr>"

definition encode_RestEventAttribute :: "RestEventAttribute encoder" where
  "encode_RestEventAttribute B x = JObj (bool_member ''index'' (ea_Index x) @
     b64_member B ''key'' (ea_Key x) @
     b64_member B ''value'' (ea_Value x))"

definition step_RestEventAttribute :: "RestEventAttribute stepper" where
  "step_RestEventAttribute B x k v =
     (if field_is ''index'' k then
        res_then (decode_bool (ea_Index x) v) (\<lambda>y. Ok (x\<lparr>ea_Index := y\<rparr>))
      else if field_is ''key'' k then
        res_then (UnmarshalJSON B v) (\<lambda>y. Ok (x\<lparr>ea_Key := y\<rparr>))
      else if field_is ''value'' k then
        res_then (UnmarshalJSON B v) (\<lambda>y. Ok (x\<lparr>ea_Value := y\<rparr>))
      else Ok x)"

record RestEvent =
  ev_Attributes :: "RestEventAttribute option list option"
  ev_Type :: string

definition zero_RestEvent :: RestEvent where
  "zero_RestEvent = \<lparr>ev_Attributes = None, ev_Type = []\<rparr>"

definition encode_RestEvent :: "RestEvent encoder" where
  "encode_RestEvent B x = JObj ([(''attributes'', encode_slice (encode_ptr (encode_RestEventAttribute B)) (ev_Attributes x))] @
     str_member ''type'' (ev_Type x))"

definition step_RestEvent :: "RestEvent stepper" where
  "step_RestEvent B x k v =
     (if field_is ''attributes'' k then
        res_then (decode_structs (step_RestEventAttribute B) zero_RestEventAttribute (ev_Attributes x) v) (\<lambda>y. Ok (x\<lparr>ev_Attributes := y\<rparr>))
      else if field_is ''type'' k then
        res_then (decode_string (ev_Type x) v) (\<lambda>y. Ok (x\<lparr>ev_Type := y\<rparr>))
      else Ok x)"

record RestTxResponse =
  xr_Code :: "64 word"
  xr_Codespace :: string
  xr_Data :: bytes
  xr_Events :: "RestEvent option list option"
  xr_GasUsed :: string
  xr_GasWanted :: string
  xr_Info :: string
  xr_Log :: string

definition zero_RestTxResponse :: RestTxResponse where
  "zero_RestTxResponse = \<lparr>xr_Code = 0, xr_Codespace = [], xr_Data = [], xr_Events = None,
     xr_GasUsed = [], xr_GasWanted = [], xr_Info = [], xr_Log = []\<rparr>"

definition encode_RestTxResponse :: "RestTxResponse encoder" where
  "encode_RestTxResponse B x = JObj (int_member ''code'' (xr_Code x) @
     str_member ''codespace'' (xr_Codespace x) @
     b64_member B ''data'' (xr_Data x) @
     [(''events'', encode_slice (encode_ptr (encode_RestEvent B)) (xr_Events x))] @
     str_member ''gas_used'' (xr_GasUsed x) @
     str_member ''gas_wanted'' (xr_GasWanted x) @
     str_member ''info'' (xr_Info x) @
     str_member ''log'' (xr_Log x))"

definition step_RestTxResponse :: "RestTxResponse stepper" where
  "step_RestTxResponse B x k v =
     (if field_is ''code'' k then
        res_then (decode_int (xr_Code x) v) (\<lambda>y. Ok (x\<lparr>xr_Code := y\<rparr>))
      else if field_is ''codespace'' k then
        res_then (decode_string (xr_Codespace x) v) (\<lambda>y. Ok (x\<lparr>xr_Codespace := y\<rparr>))
      else if field_is ''data'' k then
        res_then (UnmarshalJSON B v) (\<lambda>y. Ok (x\<lparr>xr_Data := y\<rparr>))
      else if field_is ''events'' k then
        res_then (decode_structs (step_RestEvent B) zero_RestEvent (xr_Events x) v) (\<lambda>y. Ok (x\<lparr>xr_Events := y\<rparr>))
      else if field_is ''gas_used'' k then
        res_then (decode_string (xr_GasUsed x) v) (\<lambda>y. Ok (x\<lparr>xr_GasUsed := y\<rparr>))
      else if field_is ''gas_wanted'' k then
        res_then (decode_string (xr_GasWanted x) v) (\<lambda>y. Ok (x\<lparr>xr_GasWanted := y\<rparr>))
      else if field_is ''info'' k then
        res_then (decode_string (xr_Info x) v) (\<lambda>y. Ok (x\<lparr>xr_Info := y\<rparr>))
      else if field_is ''log'' k then
        res_then (decode_string (xr_Log x) v) (\<lambda>y. Ok (x\<lparr>xr_Log := y\<rparr>))
      else Ok x)"

record RestBlockTx =
  bt_Data :: bytes
  bt_DeliveryProof :: "RestMerkleProof option"
  bt_InclusionProof :: "RestMerkleProof option"
  bt_Response :: "RestTxResponse option"

definition zero_RestBlockTx :: RestBlockTx where
  "zero_RestBlockTx = \<lparr>bt_Data = [], bt_DeliveryProof = None, bt_InclusionProof = None,
     bt_Response = None\<rparr>"

definition encode_RestBlockTx :: "RestBlockTx encoder" where
  "encode_RestBlockTx B x = JObj (b64_member B ''data'' (bt_Data x) @
     ptr_member ''delivery_proof'' (encode_RestMerkleProof B) (bt_DeliveryProof x) @
     ptr_member ''inclusion_proof'' (encode_RestMerkleProof B) (bt_InclusionProof x) @
     ptr_member ''response'' (encode_RestTxResponse B) (bt_Response x))"

definition step_RestBlockTx :: "RestBlockTx stepper" where
  "step_RestBlockTx B x k v =
     (if field_is ''data'' k then
        res_then (UnmarshalJSON B v) (\<lambda>y. Ok (x\<lparr>bt_Data := y\<rparr>))
      else if field_is ''delivery_proof'' k then
        res_then (decode_struct_ptr (step_RestMerkleProof B) zero_RestMerkleProof (bt_DeliveryProof x) v) (\<lambda>y. Ok (x\<lparr>bt_DeliveryProof := y\<rparr>))
      else if field_is ''inclusion_proof'' k then
        res_then (decode_struct_ptr (step_RestMerkleProof B) zero_RestMerkleProof (bt_InclusionProof x) v) (\<lambda>y. Ok (x\<lparr>bt_InclusionProof := y\<rparr>))
      else if field_is ''response'' k then
        res_then (decode_struct_ptr (step_RestTxResponse B) zero_RestTxResponse (bt_Response x) v) (\<lambda>y. Ok (x\<lparr>bt_Response := y\<rparr>))
      else Ok x)"

record RestBlock =
  bl_Header :: "RestAny option"
  bl_NextBlockHeader :: "RestAny option"
  bl_Tx :: "RestBlockTx option"

definition zero_RestBlock :: RestBlock where
  "zero_RestBlock = \<lparr>bl_Header = None, bl_NextBlockHeader = None, bl_Tx = None\<rparr>"

definition encode_RestBlock :: "RestBlock encoder" where
  "encode_RestBlock B x = JObj (ptr_member ''header'' (encode_RestAny B) (bl_Header x) @
     ptr_member ''next_block_header'' (encode_RestAny B) (bl_NextBlockHeader x) @
     ptr_member ''tx'' (encode_RestBlockTx B) (bl_Tx x))"

definition step_RestBlock :: "RestBlock stepper" where
  "step_RestBlock B x k v =
     (if field_is ''header'' k then
        res_then (decode_struct_ptr (step_RestAny B) zero_RestAny (bl_Header x) v) (\<lambda>y. Ok (x\<lparr>bl_Header := y\<rparr>))
      else if field_is ''next_block_header'' k then
        res_then (decode_struct_ptr (step_RestAny B) zero_RestAny (bl_NextBlockHeader x) v) (\<lambda>y. Ok (x\<lparr>bl_NextBlockHeader := y\<rparr>))
      else if field_is ''tx'' k then
        res_then (decode_struct_ptr (step_RestBlockTx B) zero_RestBlockTx (bl_Tx x) v) (\<lambda>y. Ok (x\<lparr>bl_Tx := y\<rparr>))
      else Ok x)"

section \<open>Reading back what was written\<close>

lemma field_names:
  "ToLower ''@type'' = ''@type''"
  "ToLower ''attributes'' = ''attributes''"
  "ToLower ''aunts'' = ''aunts''"
  "ToLower ''client_id'' = ''client_id''"
  "ToLower ''code'' = ''code''"
  "ToLower ''codespace'' = ''codespace''"
  "ToLower ''connection'' = ''connection''"
  "ToLower ''connection_id'' = ''connection_id''"
  "ToLower ''counterparty'' = ''counterparty''"
  "ToLower ''data'' = ''data''"
  "ToLower ''delay_period'' = ''delay_period''"
  "ToLower ''delivery_proof'' = ''delivery_proof''"
  "ToLower ''details'' = ''details''"
  "ToLower ''events'' = ''events''"
  "ToLower ''features'' = ''features''"
  "ToLower ''gas_used'' = ''gas_used''"
  "ToLower ''gas_wanted'' = ''gas_wanted''"
  "ToLower ''header'' = ''header''"
  "ToLower ''id'' = ''id''"
  "ToLower ''identifier'' = ''identifier''"
  "ToLower ''inclusion_proof'' = ''inclusion_proof''"
  "ToLower ''index'' = ''index''"
  "ToLower ''info'' = ''info''"
  "ToLower ''key'' = ''key''"
  "ToLower ''key_prefix'' = ''key_prefix''"
  "ToLower ''keys'' = ''keys''"
  "ToLower ''last_submitted_result_local_height'' = ''last_submitted_result_local_height''"
  "ToLower ''last_submitted_result_remote_height'' = ''last_submitted_result_remote_height''"
  "ToLower ''leaf_hash'' = ''leaf_hash''"
  "ToLower ''log'' = ''log''"
  "ToLower ''message'' = ''message''"
  "ToLower ''next_block_header'' = ''next_block_header''"
  "ToLower ''next_key'' = ''next_key''"
  "ToLower ''owner'' = ''owner''"
  "ToLower ''pagination'' = ''pagination''"
  "ToLower ''path'' = ''path''"
  "ToLower ''prefix'' = ''prefix''"
  "ToLower ''proof'' = ''proof''"
  "ToLower ''proof_height'' = ''proof_height''"
  "ToLower ''query_type'' = ''query_type''"
  "ToLower ''registered_queries'' = ''registered_queries''"
  "ToLower ''registered_query'' = ''registered_query''"
  "ToLower ''response'' = ''response''"
  "ToLower ''revision_height'' = ''revision_height''"
  "ToLower ''revision_number'' = ''revision_number''"
  "ToLower ''state'' = ''state''"
  "ToLower ''total'' = ''total''"
  "ToLower ''transactions_filter'' = ''transactions_filter''"
  "ToLower ''tx'' = ''tx''"
  "ToLower ''type'' = ''type''"
  "ToLower ''update_period'' = ''update_period''"
  "ToLower ''value'' = ''value''"
  "ToLower ''versions'' = ''versions''"
  by code_simp+

text \<open>A struct that depends on a condition has fields that do.\<close>

lemma if_records:
  "(if c then \<lparr>an_AtType = a0a\<rparr>
    else \<lparr>an_AtType = b0a\<rparr>)
   = \<lparr>an_AtType = if c then a0a else b0a\<rparr>"
  "(if c then \<lparr>df_Code = a1a, df_Details = a1b, df_Message = a1c\<rparr>
    else \<lparr>df_Code = b1a, df_Details = b1b, df_Message = b1c\<rparr>)
   = \<lparr>df_Code = if c then a1a else b1a, df_Details = if c then a1b else b1b,
         df_Message = if c then a1c else b1c\<rparr>"
  "(if c then \<lparr>rk_Key = a2a, rk_Path = a2b\<rparr>
    else \<lparr>rk_Key = b2a, rk_Path = b2b\<rparr>)
   = \<lparr>rk_Key = if c then a2a else b2a, rk_Path = if c then a2b else b2b\<rparr>"
  "(if c then \<lparr>rh_RevisionHeight = a3a, rh_RevisionNumber = a3b\<rparr>
    else \<lparr>rh_RevisionHeight = b3a, rh_RevisionNumber = b3b\<rparr>)
   = \<lparr>rh_RevisionHeight = if c then a3a else b3a, rh_RevisionNumber = if c then a3b else b3b\<rparr>"
  "(if c then \<lparr>rq_ConnectionID = a4a, rq_ID = a4b, rq_Keys = a4c,
     rq_LastSubmittedResultLocalHeight = a4d, rq_LastSubmittedResultRemoteHeight = a4e, rq_Owner = a4f,
     rq_QueryType = a4g, rq_TransactionsFilter = a4h, rq_UpdatePeriod = a4i\<rparr>
    else \<lparr>rq_ConnectionID = b4a, rq_ID = b4b, rq_Keys = b4c,
         rq_LastSubmittedResultLocalHeight = b4d, rq_LastSubmittedResultRemoteHeight = b4e, rq_Owner = b4f,
         rq_QueryType = b4g, rq_TransactionsFilter = b4h, rq_UpdatePeriod = b4i\<rparr>)
   = \<lparr>rq_ConnectionID = if c then a4a else b4a, rq_ID = if c then a4b else b4b,
         rq_Keys = if c then a4c else b4c, rq_LastSubmittedResultLocalHeight = if c then a4d else b4d,
         rq_LastSubmittedResultRemoteHeight = if c then a4e else b4e, rq_Owner = if c then a4f else b4f,
         rq_QueryType = if c then a4g else b4g, rq_TransactionsFilter = if c then a4h else b4h,
         rq_UpdatePeriod = if c then a4i else b4i\<rparr>"
  "(if c then \<lparr>rp_NextKey = a5a, rp_Total = a5b\<rparr>
    else \<lparr>rp_NextKey = b5a, rp_Total = b5b\<rparr>)
   = \<lparr>rp_NextKey = if c then a5a else b5a, rp_Total = if c then a5b else b5b\<rparr>"
  "(if c then \<lparr>rb_Pagination = a6a, RegisteredQueries = a6b\<rparr>
    else \<lparr>rb_Pagination = b6a, RegisteredQueries = b6b\<rparr>)
   = \<lparr>rb_Pagination = if c then a6a else b6a, RegisteredQueries = if c then a6b else b6b\<rparr>"
  "(if c then \<lparr>rb_RegisteredQuery = a7a\<rparr>
    else \<lparr>rb_RegisteredQuery = b7a\<rparr>)
   = \<lparr>rb_RegisteredQuery = if c then a7a else b7a\<rparr>"
  "(if c then \<lparr>px_KeyPrefix = a8a\<rparr>
    else \<lparr>px_KeyPrefix = b8a\<rparr>)
   = \<lparr>px_KeyPrefix = if c then a8a else b8a\<rparr>"
  "(if c then \<lparr>vs_Features = a9a, vs_Identifier = a9b\<rparr>
    else \<lparr>vs_Features = b9a, vs_Identifier = b9b\<rparr>)
   = \<lparr>vs_Features = if c then a9a else b9a, vs_Identifier = if c then a9b else b9b\<rparr>"
  "(if c then \<lparr>co_ClientID = a10a, co_ConnectionID = a10b, co_Prefix = a10c\<rparr>
    else \<lparr>co_ClientID = b10a, co_ConnectionID = b10b, co_Prefix = b10c\<rparr>)
   = \<lparr>co_ClientID = if c then a10a else b10a, co_ConnectionID = if c then a10b else b10b,
         co_Prefix = if c then a10c else b10c\<rparr>"
  "(if c then \<lparr>cb_ClientID = a11a, Counterparty = a11b, cb_DelayPeriod = a11c, cb_State = a11d,
     cb_Versions = a11e\<rparr>
    else \<lparr>cb_ClientID = b11a, Counterparty = b11b, cb_DelayPeriod = b11c, cb_State = b11d,
         cb_Versions = b11e\<rparr>)
   = \<lparr>cb_ClientID = if c then a11a else b11a, Counterparty = if c then a11b else b11b,
         cb_DelayPeriod = if c then a11c else b11c, cb_State = if c then a11d else b11d,
         cb_Versions = if c then a11e else b11e\<rparr>"
  "(if c then \<lparr>Connection = a12a, ob_Proof = a12b, ob_ProofHeight = a12c\<rparr>
    else \<lparr>Connection = b12a, ob_Proof = b12b, ob_ProofHeight = b12c\<rparr>)
   = \<lparr>Connection = if c then a12a else b12a, ob_Proof = if c then a12b else b12b,
         ob_ProofHeight = if c then a12c else b12c\<rparr>"
  "(if c then \<lparr>mk_Aunts = a13a, mk_Index = a13b, mk_LeafHash = a13c, mk_Total = a13d\<rparr>
    else \<lparr>mk_Aunts = b13a, mk_Index = b13b, mk_LeafHash = b13c, mk_Total = b13d\<rparr>)
   = \<lparr>mk_Aunts = if c then a13a else b13a, mk_Index = if c then a13b else b13b,
         mk_LeafHash = if c then a13c else b13c, mk_Total = if c then a13d else b13d\<rparr>"
  "(if c then \<lparr>ea_Index = a14a, ea_Key = a14b, ea_Value = a14c\<rparr>
    else \<lparr>ea_Index = b14a, ea_Key = b14b, ea_Value = b14c\<rparr>)
   = \<lparr>ea_Index = if c then a14a else b14a, ea_Key = if c then a14b else b14b,
         ea_Value = if c then a14c else b14c\<rparr>"
  "(if c then \<lparr>ev_Attributes = a15a, ev_Type = a15b\<rparr>
    else \<lparr>ev_Attributes = b15a, ev_Type = b15b\<rparr>)
   = \<lparr>ev_Attributes = if c then a15a else b15a, ev_Type = if c then a15b else b15b\<rparr>"
  "(if c then \<lparr>xr_Code = a16a, xr_Codespace = a16b, xr_Data = a16c, xr_Events = a16d,
     xr_GasUsed = a16e, xr_GasWanted = a16f, xr_Info = a16g, xr_Log = a16h\<rparr>
    else \<lparr>xr_Code = b16a, xr_Codespace = b16b, xr_Data = b16c, xr_Events = b16d, xr_GasUsed = b16e,
         xr_GasWanted = b16f, xr_Info = b16g, xr_Log = b16h\<rparr>)
   = \<lparr>xr_Code = if c then a16a else b16a, xr_Codespace = if c then a16b else b16b,
         xr_Data = if c then a16c else b16c, xr_Events = if c then a16d else b16d,
         xr_GasUsed = if c then a16e else b16e, xr_GasWanted = if c then a16f else b16f,
         xr_Info = if c then a16g else b16g, xr_Log = if c then a16h else b16h\<rparr>"
  "(if c then \<lparr>bt_Data = a17a, bt_DeliveryProof = a17b, bt_InclusionProof = a17c, bt_Response = a17d\<rparr>
    else \<lparr>bt_Data = b17a, bt_DeliveryProof = b17b, bt_InclusionProof = b17c, bt_Response = b17d\<rparr>)
   = \<lparr>bt_Data = if c then a17a else b17a, bt_DeliveryProof = if c then a17b else b17b,
         bt_InclusionProof = if c then a17c else b17c, bt_Response = if c then a17d else b17d\<rparr>"
  "(if c then \<lparr>bl_Header = a18a, bl_NextBlockHeader = a18b, bl_Tx = a18c\<rparr>
    else \<lparr>bl_Header = b18a, bl_NextBlockHeader = b18b, bl_Tx = b18c\<rparr>)
   = \<lparr>bl_Header = if c then a18a else b18a, bl_NextBlockHeader = if c then a18b else b18b,
         bl_Tx = if c then a18c else b18c\<rparr>"
  by simp_all

lemma read_RestAny: "base64_ok B \<Longrightarrow> decode_struct (step_RestAny B) zero_RestAny (encode_RestAny B x) = Ok x"
  unfolding encode_RestAny_def fold_members_def [symmetric]
  by (cases x) (simp add: zero_RestAny_def step_RestAny_def struct_simps if_records field_is_def field_names rest_codecs
      split: option.split)

interpretation any_codec: rest_codec encode_RestAny step_RestAny zero_RestAny
  by unfold_locales (rule read_RestAny | simp add: encode_RestAny_def json_ok_members rest_codecs)+

lemma read_RestDefaultBody: "base64_ok B \<Longrightarrow> decode_struct (step_RestDefaultBody B) zero_RestDefaultBody (encode_RestDefaultBody B x) = Ok x"
  unfolding encode_RestDefaultBody_def fold_members_def [symmetric]
  by (cases x) (simp add: zero_RestDefaultBody_def step_RestDefaultBody_def struct_simps if_records field_is_def field_names rest_codecs
      split: option.split)

interpretation defaultBody_codec: rest_codec encode_RestDefaultBody step_RestDefaultBody zero_RestDefaultBody
  by unfold_locales (rule read_RestDefaultBody | simp add: encode_RestDefaultBody_def json_ok_members rest_codecs)+

lemma read_RestKVKey: "base64_ok B \<Longrightarrow> decode_struct (step_RestKVKey B) zero_RestKVKey (encode_RestKVKey B x) = Ok x"
  unfolding encode_RestKVKey_def fold_members_def [symmetric]
  by (cases x) (simp add: zero_RestKVKey_def step_RestKVKey_def struct_simps if_records field_is_def field_names rest_codecs
      split: option.split)

interpretation kVKey_codec: rest_codec encode_RestKVKey step_RestKVKey zero_RestKVKey
  by unfold_locales (rule read_RestKVKey | simp add: encode_RestKVKey_def json_ok_members rest_codecs)+

lemma read_RestHeight: "base64_ok B \<Longrightarrow> decode_struct (step_RestHeight B) zero_RestHeight (encode_RestHeight B x) = Ok x"
  unfolding encode_RestHeight_def fold_members_def [symmetric]
  by (cases x) (simp add: zero_RestHeight_def step_RestHeight_def struct_simps if_records field_is_def field_names rest_codecs
      split: option.split)

interpretation height_codec: rest_codec encode_RestHeight step_RestHeight zero_RestHeight
  by unfold_locales (rule read_RestHeight | simp add: encode_RestHeight_def json_ok_members rest_codecs)+

lemma read_RestRegisteredQuery: "base64_ok B \<Longrightarrow> decode_struct (step_RestRegisteredQuery B) zero_RestRegisteredQuery (encode_RestRegisteredQuery B x) = Ok x"
  unfolding encode_RestRegisteredQuery_def fold_members_def [symmetric]
  by (cases x) (simp add: zero_RestRegisteredQuery_def step_RestRegisteredQuery_def struct_simps if_records field_is_def field_names rest_codecs
      split: option.split)

interpretation registeredQuery_codec: rest_codec encode_RestRegisteredQuery step_RestRegisteredQuery zero_RestRegisteredQuery
  by unfold_locales (rule read_RestRegisteredQuery | simp add: encode_RestRegisteredQuery_def json_ok_members rest_codecs)+

lemma read_RestPagination: "base64_ok B \<Longrightarrow> decode_struct (step_RestPagination B) zero_RestPagination (encode_RestPagination B x) = Ok x"
  unfolding encode_RestPagination_def fold_members_def [symmetric]
  by (cases x) (simp add: zero_RestPagination_def step_RestPagination_def struct_simps if_records field_is_def field_names rest_codecs
      split: option.split)

interpretation pagination_codec: rest_codec encode_RestPagination step_RestPagination zero_RestPagination
  by unfold_locales (rule read_RestPagination | simp add: encode_RestPagination_def json_ok_members rest_codecs)+

lemma read_RegisteredQueriesBody: "base64_ok B \<Longrightarrow> decode_struct (step_RegisteredQueriesBody B) zero_RegisteredQueriesBody (encode_RegisteredQueriesBody B x) = Ok x"
  unfolding encode_RegisteredQueriesBody_def fold_members_def [symmetric]
  by (cases x) (simp add: zero_RegisteredQueriesBody_def step_RegisteredQueriesBody_def struct_simps if_records field_is_def field_names rest_codecs
      split: option.split)

interpretation registeredQueriesBody_codec: rest_codec encode_RegisteredQueriesBody step_RegisteredQueriesBody zero_RegisteredQueriesBody
  by unfold_locales (rule read_RegisteredQueriesBody | simp add: encode_RegisteredQueriesBody_def json_ok_members rest_codecs)+

lemma read_RegisteredQueryBody: "base64_ok B \<Longrightarrow> decode_struct (step_RegisteredQueryBody B) zero_RegisteredQueryBody (encode_RegisteredQueryBody B x) = Ok x"
  unfolding encode_RegisteredQueryBody_def fold_members_def [symmetric]
  by (cases x) (simp add: zero_RegisteredQueryBody_def step_RegisteredQueryBody_def struct_simps if_records field_is_def field_names rest_codecs
      split: option.split)

interpretation registeredQueryBody_codec: rest_codec encode_RegisteredQueryBody step_RegisteredQueryBody zero_RegisteredQueryBody
  by unfold_locales (rule read_RegisteredQueryBody | simp add: encode_RegisteredQueryBody_def json_ok_members rest_codecs)+

lemma read_RestPrefix: "base64_ok B \<Longrightarrow> decode_struct (step_RestPrefix B) zero_RestPrefix (encode_RestPrefix B x) = Ok x"
  unfolding encode_RestPrefix_def fold_members_def [symmetric]
  by (cases x) (simp add: zero_RestPrefix_def step_RestPrefix_def struct_simps if_records field_is_def field_names rest_codecs
      split: option.split)

interpretation prefix_codec: rest_codec encode_RestPrefix step_RestPrefix zero_RestPrefix
  by unfold_locales (rule read_RestPrefix | simp add: encode_RestPrefix_def json_ok_members rest_codecs)+

lemma read_RestVersion: "base64_ok B \<Longrightarrow> decode_struct (step_RestVersion B) zero_RestVersion (encode_RestVersion B x) = Ok x"
  unfolding encode_RestVersion_def fold_members_def [symmetric]
  by (cases x) (simp add: zero_RestVersion_def step_RestVersion_def struct_simps if_records field_is_def field_names rest_codecs
      split: option.split)

interpretation version_codec: rest_codec encode_RestVersion step_RestVersion zero_RestVersion
  by unfold_locales (rule read_RestVersion | simp add: encode_RestVersion_def json_ok_members rest_codecs)+

lemma read_RestCounterparty: "base64_ok B \<Longrightarrow> decode_struct (step_RestCounterparty B) zero_RestCounterparty (encode_RestCounterparty B x) = Ok x"
  unfolding encode_RestCounterparty_def fold_members_def [symmetric]
  by (cases x) (simp add: zero_RestCounterparty_def step_RestCounterparty_def struct_simps if_records field_is_def field_names rest_codecs
      split: option.split)

interpretation counterparty_codec: rest_codec encode_RestCounterparty step_RestCounterparty zero_RestCounterparty
  by unfold_locales (rule read_RestCounterparty | simp add: encode_RestCounterparty_def json_ok_members rest_codecs)+

lemma read_RestConnection: "base64_ok B \<Longrightarrow> decode_struct (step_RestConnection B) zero_RestConnection (encode_RestConnection B x) = Ok x"
  unfolding encode_RestConnection_def fold_members_def [symmetric]
  by (cases x) (simp add: zero_RestConnection_def step_RestConnection_def struct_simps if_records field_is_def field_names rest_codecs
      split: option.split)

interpretation connection_codec: rest_codec encode_RestConnection step_RestConnection zero_RestConnection
  by unfold_locales (rule read_RestConnection | simp add: encode_RestConnection_def json_ok_members rest_codecs)+

lemma read_ConnectionBody: "base64_ok B \<Longrightarrow> decode_struct (step_ConnectionBody B) zero_ConnectionBody (encode_ConnectionBody B x) = Ok x"
  unfolding encode_ConnectionBody_def fold_members_def [symmetric]
  by (cases x) (simp add: zero_ConnectionBody_def step_ConnectionBody_def struct_simps if_records field_is_def field_names rest_codecs
      split: option.split)

interpretation connectionBody_codec: rest_codec encode_ConnectionBody step_ConnectionBody zero_ConnectionBody
  by unfold_locales (rule read_ConnectionBody | simp add: encode_ConnectionBody_def json_ok_members rest_codecs)+

lemma read_RestMerkleProof: "base64_ok B \<Longrightarrow> decode_struct (step_RestMerkleProof B) zero_RestMerkleProof (encode_RestMerkleProof B x) = Ok x"
  unfolding encode_RestMerkleProof_def fold_members_def [symmetric]
  by (cases x) (simp add: zero_RestMerkleProof_def step_RestMerkleProof_def struct_simps if_records field_is_def field_names rest_codecs
      split: option.split)

interpretation merkleProof_codec: rest_codec encode_RestMerkleProof step_RestMerkleProof zero_RestMerkleProof
  by unfold_locales (rule read_RestMerkleProof | simp add: encode_RestMerkleProof_def json_ok_members rest_codecs)+

lemma read_RestEventAttribute: "base64_ok B \<Longrightarrow> decode_struct (step_RestEventAttribute B) zero_RestEventAttribute (encode_RestEventAttribute B x) = Ok x"
  unfolding encode_RestEventAttribute_def fold_members_def [symmetric]
  by (cases x) (simp add: zero_RestEventAttribute_def step_RestEventAttribute_def struct_simps if_records field_is_def field_names rest_codecs
      split: option.split)

interpretation eventAttribute_codec: rest_codec encode_RestEventAttribute step_RestEventAttribute zero_RestEventAttribute
  by unfold_locales (rule read_RestEventAttribute | simp add: encode_RestEventAttribute_def json_ok_members rest_codecs)+

lemma read_RestEvent: "base64_ok B \<Longrightarrow> decode_struct (step_RestEvent B) zero_RestEvent (encode_RestEvent B x) = Ok x"
  unfolding encode_RestEvent_def fold_members_def [symmetric]
  by (cases x) (simp add: zero_RestEvent_def step_RestEvent_def struct_simps if_records field_is_def field_names rest_codecs
      split: option.split)

interpretation event_codec: rest_codec encode_RestEvent step_RestEvent zero_RestEvent
  by unfold_locales (rule read_RestEvent | simp add: encode_RestEvent_def json_ok_members rest_codecs)+

lemma read_RestTxResponse: "base64_ok B \<Longrightarrow> decode_struct (step_RestTxResponse B) zero_RestTxResponse (encode_RestTxResponse B x) = Ok x"
  unfolding encode_RestTxResponse_def fold_members_def [symmetric]
  by (cases x) (simp add: zero_RestTxResponse_def step_RestTxResponse_def struct_simps if_records field_is_def field_names rest_codecs
      split: option.split)

interpretation txResponse_codec: rest_codec encode_RestTxResponse step_RestTxResponse zero_RestTxResponse
  by unfold_locales (rule read_RestTxResponse | simp add: encode_RestTxResponse_def json_ok_members rest_codecs)+

lemma read_RestBlockTx: "base64_ok B \<Longrightarrow> decode_struct (step_RestBlockTx B) zero_RestBlockTx (encode_RestBlockTx B x) = Ok x"
  unfolding encode_RestBlockTx_def fold_members_def [symmetric]
  by (cases x) (simp add: zero_RestBlockTx_def step_RestBlockTx_def struct_simps if_records field_is_def field_names rest_codecs
      split: option.split)

interpretation blockTx_codec: rest_codec encode_RestBlockTx step_RestBlockTx zero_RestBlockTx
  by unfold_locales (rule read_RestBlockTx | simp add: encode_RestBlockTx_def json_ok_members rest_codecs)+

lemma read_RestBlock: "base64_ok B \<Longrightarrow> decode_struct (step_RestBlock B) zero_RestBlock (encode_RestBlock B x) = Ok x"
  unfolding encode_RestBlock_def fold_members_def [symmetric]
  by (cases x) (simp add: zero_RestBlock_def step_RestBlock_def struct_simps if_records field_is_def field_names rest_codecs
      split: option.split)

interpretation block_codec: rest_codec encode_RestBlock step_RestBlock zero_RestBlock
  by unfold_locales (rule read_RestBlock | simp add: encode_RestBlock_def json_ok_members rest_codecs)+

end
