(* ===== verification/Rest_Query.thy ===== *)
theory Rest_Query
  imports Rest_Bodies
begin

text \<open>
  The conversion of the payloads of Neutron's REST API into registered queries
  (\<open>internal/subscriber/querier/client/query/utils.go\<close>).
\<close>

section \<open>Conversion\<close>

fun convert_keys :: "RestKVKey option list \<Rightarrow> KVKey list \<Rightarrow> KVKey list res" where
  "convert_keys [] ks = Ok ks"
| "convert_keys (None # rks) ks = Panic ''nil pointer dereference''"
| "convert_keys (Some k # rks) ks = convert_keys rks (ks @ [\<lparr>Path = rk_Path k, Key = rk_Key k\<rparr>])"

definition to_registered_query ::
  "RestRegisteredQuery \<Rightarrow> u64 \<Rightarrow> u64 \<Rightarrow> u64 \<Rightarrow> IbcHeight \<Rightarrow> KVKey list \<Rightarrow> RegisteredQuery" where
  "to_registered_query q i period local remote ks = \<lparr>Id = i, Owner = rq_Owner q, QueryType = rq_QueryType q,
     Keys = ks, TransactionsFilter = rq_TransactionsFilter q, ConnectionId = rq_ConnectionID q,
     UpdatePeriod = period, LastSubmittedResultLocalHeight = local,
     LastSubmittedResultRemoteHeight = remote\<rparr>"

text \<open>The method of an item of the list; calling it on a nil item panics.\<close>

definition items_ToNeutronRegisteredQuery :: "RestRegisteredQuery option \<Rightarrow> RegisteredQuery res" where
  "items_ToNeutronRegisteredQuery p = (case p of None \<Rightarrow> Panic ''nil pointer dereference'' | Some q \<Rightarrow>
     res_try (ParseUint (rq_ID q)) ''failed to parse o.ID'' (\<lambda>queryId.
     res_try (ParseUint (rq_UpdatePeriod q)) ''failed to parse o.UpdatePeriod'' (\<lambda>updatePeriod.
     res_try (ParseUint (rq_LastSubmittedResultLocalHeight q)) ''failed to parse o.LastSubmittedResultLocalHeight''
       (\<lambda>localHeight.
     res_then (case rq_LastSubmittedResultRemoteHeight q of
         None \<Rightarrow> Ok (0, 0)
       | Some h \<Rightarrow>
           res_try (ParseUint (rh_RevisionNumber h)) ''failed to parse o.LastSubmittedResultRemoteHeight.RevisionNumber'' (\<lambda>rn.
           res_try (ParseUint (rh_RevisionHeight h)) ''failed to parse o.LastSubmittedResultRemoteHeight.RevisionHeight'' (\<lambda>rh.
           Ok (rn, rh)))) (\<lambda>(rn, rh).
     res_then (convert_keys (elements (rq_Keys q)) []) (\<lambda>ks.
     Ok (to_registered_query q queryId updatePeriod localHeight \<lparr>RevisionNumber = rn, RevisionHeight = rh\<rparr> ks)))))))"

text \<open>The method of the single query; it names the revision height in both error messages.\<close>

definition single_ToNeutronRegisteredQuery :: "RestRegisteredQuery option \<Rightarrow> RegisteredQuery res" where
  "single_ToNeutronRegisteredQuery p = (case p of None \<Rightarrow> Panic ''nil pointer dereference'' | Some q \<Rightarrow>
     res_try (ParseUint (rq_ID q)) ''failed to parse o.ID'' (\<lambda>queryId.
     res_try (ParseUint (rq_UpdatePeriod q)) ''failed to parse o.UpdatePeriod'' (\<lambda>updatePeriod.
     res_try (ParseUint (rq_LastSubmittedResultLocalHeight q)) ''failed to parse o.LastSubmittedResultLocalHeight''
       (\<lambda>localHeight.
     res_then (case rq_LastSubmittedResultRemoteHeight q of
         None \<Rightarrow> Ok \<lparr>RevisionNumber = 0, RevisionHeight = 0\<rparr>
       | Some h \<Rightarrow>
           res_try (ParseUint (rh_RevisionNumber h)) ''failed to parse o.LastSubmittedResultRemoteHeight.RevisionHeight'' (\<lambda>rn.
           res_try (ParseUint (rh_RevisionHeight h)) ''failed to parse o.LastSubmittedResultRemoteHeight.RevisionHeight'' (\<lambda>rh.
           Ok \<lparr>RevisionNumber = rn, RevisionHeight = rh\<rparr>))) (\<lambda>queryHeight.
     res_then (convert_keys (elements (rq_Keys q)) []) (\<lambda>ks.
     Ok (to_registered_query q queryId updatePeriod localHeight queryHeight ks)))))))"

section \<open>Round trip\<close>

text \<open>What Neutron renders for a registered query: its numbers in decimal.\<close>

definition render_query :: "RegisteredQuery \<Rightarrow> RestRegisteredQuery" where
  "render_query q = \<lparr>rq_ConnectionID = ConnectionId q, rq_ID = FormatUint (Id q),
     rq_Keys = Some (map (\<lambda>k. Some \<lparr>rk_Key = Key k, rk_Path = Path k\<rparr>) (Keys q)),
     rq_LastSubmittedResultLocalHeight = FormatUint (LastSubmittedResultLocalHeight q),
     rq_LastSubmittedResultRemoteHeight = Some
       \<lparr>rh_RevisionHeight = FormatUint (RevisionHeight (LastSubmittedResultRemoteHeight q)),
        rh_RevisionNumber = FormatUint (RevisionNumber (LastSubmittedResultRemoteHeight q))\<rparr>,
     rq_Owner = Owner q, rq_QueryType = QueryType q, rq_TransactionsFilter = TransactionsFilter q,
     rq_UpdatePeriod = FormatUint (UpdatePeriod q)\<rparr>"

lemma convert_keys_render:
  "convert_keys (map (\<lambda>k. Some \<lparr>rk_Key = Key k, rk_Path = Path k\<rparr>) ks) acc = Ok (acc @ ks)"
  by (induction ks arbitrary: acc) simp_all

lemma convert_keys_Inr: "convert_keys rks acc = Inr ks \<Longrightarrow>
  None \<notin> set rks \<and> ks = acc @ map (\<lambda>r. \<lparr>Path = rk_Path (the r), Key = rk_Key (the r)\<rparr>) rks"
  by (induction rks acc rule: convert_keys.induct) auto

lemma items_render [simp]: "items_ToNeutronRegisteredQuery (Some (render_query q)) = Ok q"
  by (cases q) (simp add: items_ToNeutronRegisteredQuery_def render_query_def to_registered_query_def
      convert_keys_render)

lemma single_render [simp]: "single_ToNeutronRegisteredQuery (Some (render_query q)) = Ok q"
  by (cases q) (simp add: single_ToNeutronRegisteredQuery_def render_query_def to_registered_query_def
      convert_keys_render)

text \<open>The two methods agree on success; both read the identifier exactly.\<close>

lemma conversions_agree:
  "items_ToNeutronRegisteredQuery p = Ok q \<longleftrightarrow> single_ToNeutronRegisteredQuery p = Ok q"
  by (cases p)
    (auto simp: items_ToNeutronRegisteredQuery_def single_ToNeutronRegisteredQuery_def res_success
      split: option.splits)

text \<open>
  The payloads that stand for a registered query: the one above, where the keys may be nil when
  there are none and the remote height nil when it is zero.
\<close>

definition renders :: "RegisteredQuery \<Rightarrow> RestRegisteredQuery \<Rightarrow> bool" where
  "renders q x \<longleftrightarrow>
     x = render_query q\<lparr>rq_Keys := rq_Keys x,
       rq_LastSubmittedResultRemoteHeight := rq_LastSubmittedResultRemoteHeight x\<rparr> \<and>
     (rq_Keys x = rq_Keys (render_query q) \<or> rq_Keys x = None \<and> Keys q = []) \<and>
     (rq_LastSubmittedResultRemoteHeight x = rq_LastSubmittedResultRemoteHeight (render_query q) \<or>
      rq_LastSubmittedResultRemoteHeight x = None \<and>
        LastSubmittedResultRemoteHeight q = \<lparr>RevisionNumber = 0, RevisionHeight = 0\<rparr>)"

lemma renders_read:
  assumes "renders q x"
  shows "single_ToNeutronRegisteredQuery (Some x) = Ok q" "items_ToNeutronRegisteredQuery (Some x) = Ok q"
proof -
  obtain ks h where x: "x = render_query q\<lparr>rq_Keys := ks, rq_LastSubmittedResultRemoteHeight := h\<rparr>"
    and ks: "ks = rq_Keys (render_query q) \<or> ks = None \<and> Keys q = []"
    and h: "h = rq_LastSubmittedResultRemoteHeight (render_query q) \<or>
      h = None \<and> LastSubmittedResultRemoteHeight q = \<lparr>RevisionNumber = 0, RevisionHeight = 0\<rparr>"
    using assms unfolding renders_def by (elim conjE) (rule that)
  from ks have "convert_keys (elements ks) [] = Ok (Keys q)"
    by (auto simp: render_query_def convert_keys_render)
  with h show "single_ToNeutronRegisteredQuery (Some x) = Ok q"
    unfolding x by (cases q) (auto simp: single_ToNeutronRegisteredQuery_def render_query_def to_registered_query_def)
  then show "items_ToNeutronRegisteredQuery (Some x) = Ok q" by (simp add: conversions_agree)
qed

lemma items_Id:
  "items_ToNeutronRegisteredQuery (Some r) = Ok q \<Longrightarrow> ParseUint (rq_ID r) = Ok (Id q) \<and> QueryType q = rq_QueryType r \<and>
     UpdatePeriod q = (case ParseUint (rq_UpdatePeriod r) of Inr n \<Rightarrow> n | Inl _ \<Rightarrow> 0)"
  by (auto simp: items_ToNeutronRegisteredQuery_def res_success to_registered_query_def)

end
