(* ===== verification/Rest_Validation.thy ===== *)
theory Rest_Validation
  imports Rest_Bodies
begin

text \<open>
  The shape of the generated methods: \<open>Validate\<close> and \<open>ContextValidate\<close> collect the errors of
  the fields they visit, naming each by its place. The errors of \<open>go-openapi/errors\<close> and the
  check \<open>validate.EnumCase\<close> are parameters; no error is \<open>None\<close>. A field is skipped when
  \<open>swag.IsZero\<close> holds of it, which for the pointers and slices it is asked about means nil.
\<close>

datatype error_kind = IsValidation | IsComposite | OtherError

record 'e openapi =
  error_kind :: "'e \<Rightarrow> error_kind"
  ValidateName :: "string \<Rightarrow> 'e \<Rightarrow> 'e"
  CompositeValidationError :: "'e list \<Rightarrow> 'e"
  EnumCase :: "string \<Rightarrow> string \<Rightarrow> string \<Rightarrow> string list \<Rightarrow> bool \<Rightarrow> 'e option"

type_synonym ('e, 'a) validator = "'e openapi \<Rightarrow> 'a \<Rightarrow> 'e option"
type_synonym 'a marshaller = "(json \<Rightarrow> bytes res) \<Rightarrow> base64 \<Rightarrow> 'a option \<Rightarrow> bytes res"
type_synonym 'a unmarshaller = "(bytes \<Rightarrow> json res) \<Rightarrow> base64 \<Rightarrow> bytes \<Rightarrow> 'a res"

definition all_of :: "'e openapi \<Rightarrow> 'e option list \<Rightarrow> 'e option" where
  "all_of V rs =
     (let errs = [e. Some e \<leftarrow> rs] in if errs = [] then None else Some (CompositeValidationError V errs))"

definition named :: "'e openapi \<Rightarrow> string \<Rightarrow> 'e \<Rightarrow> 'e" where
  "named V n e = (case error_kind V e of
       IsValidation \<Rightarrow> ValidateName V n e
     | IsComposite \<Rightarrow> ValidateName V n e
     | OtherError \<Rightarrow> e)"

definition validate_ptr :: "'e openapi \<Rightarrow> string \<Rightarrow> ('a \<Rightarrow> 'e option) \<Rightarrow> 'a option \<Rightarrow> 'e option" where
  "validate_ptr V n f p = (case p of None \<Rightarrow> None | Some x \<Rightarrow> map_option (named V n) (f x))"

text \<open>The items of a slice, up to the first error, which is named by its index; nil items are skipped.\<close>

fun validate_from :: "'e openapi \<Rightarrow> string \<Rightarrow> ('a \<Rightarrow> 'e option) \<Rightarrow> nat \<Rightarrow> 'a option list \<Rightarrow> 'e option" where
  "validate_from V n f i [] = None"
| "validate_from V n f i (None # ps) = validate_from V n f (Suc i) ps"
| "validate_from V n f i (Some x # ps) =
     (case f x of
        Some e \<Rightarrow> Some (named V (n @ CHR ''.'' # format_nat i) e)
      | None \<Rightarrow> validate_from V n f (Suc i) ps)"

definition validate_items :: "'e openapi \<Rightarrow> string \<Rightarrow> ('a \<Rightarrow> 'e option) \<Rightarrow> 'a option list option \<Rightarrow> 'e option" where
  "validate_items V n f xs = (case xs of None \<Rightarrow> None | Some ps \<Rightarrow> validate_from V n f 0 ps)"

section \<open>When a value is accepted\<close>

named_theorems accepts \<open>values that a generated method accepts\<close>

lemma all_of_None_iff: "all_of V rs = None \<longleftrightarrow> (\<forall>r \<in> set rs. r = None)"
  by (induction rs) (auto simp: all_of_def Let_def split: option.splits)

lemma validate_ptr_None_iff: "validate_ptr V n f p = None \<longleftrightarrow> (\<forall>x. p = Some x \<longrightarrow> f x = None)"
  by (simp add: validate_ptr_def split: option.split)

lemma validate_from_None_iff: "validate_from V n f i ps = None \<longleftrightarrow> (\<forall>x. Some x \<in> set ps \<longrightarrow> f x = None)"
  by (induction V n f i ps rule: validate_from.induct) (auto split: option.split)

lemma validate_items_None_iff:
  "validate_items V n f xs = None \<longleftrightarrow> (\<forall>ps x. xs = Some ps \<longrightarrow> Some x \<in> set ps \<longrightarrow> f x = None)"
  by (simp add: validate_items_def validate_from_None_iff split: option.split)

lemmas accepted_iff = all_of_None_iff validate_ptr_None_iff validate_items_None_iff

text \<open>A single error is reported alone, and under the name of the field it belongs to.\<close>

lemma all_of_one: "all_of V [r] = map_option (\<lambda>e. CompositeValidationError V [e]) r"
  by (cases r) (simp_all add: all_of_def)

end
