(* ===== verification/Rest_Responses.thy ===== *)
theory Rest_Responses
  imports Rest_Validation
begin

text \<open>
  The bodies of the three responses (\<open>internal/subscriber/querier/client/query/*_responses.go\<close>),
  with the same methods as the models. They are the types the client reads answers into.
\<close>

section \<open>\<open>neutron_interchain_queries_registered_queries_responses.go\<close>\<close>

definition queries_DefaultBodyDetailsItems0_Validate :: "('e, RestAny) validator" where
  "queries_DefaultBodyDetailsItems0_Validate V x = None"

definition queries_DefaultBodyDetailsItems0_ContextValidate :: "('e, RestAny) validator" where
  "queries_DefaultBodyDetailsItems0_ContextValidate V x = None"

definition queries_DefaultBodyDetailsItems0_MarshalBinary :: "RestAny marshaller" where
  "queries_DefaultBodyDetailsItems0_MarshalBinary W B = MarshalBinary W (encode_RestAny B)"

definition queries_DefaultBodyDetailsItems0_UnmarshalBinary :: "RestAny unmarshaller" where
  "queries_DefaultBodyDetailsItems0_UnmarshalBinary R B = UnmarshalBinary R (step_RestAny B) zero_RestAny"

definition queries_DefaultBody_Validate :: "('e, RestDefaultBody) validator" where
  "queries_DefaultBody_Validate V x = all_of V
     [validate_items V ''NeutronInterchainQueriesRegisteredQueries default.details'' (queries_DefaultBodyDetailsItems0_Validate V) (df_Details x)]"

definition queries_DefaultBody_ContextValidate :: "('e, RestDefaultBody) validator" where
  "queries_DefaultBody_ContextValidate V x = all_of V
     [validate_items V ''NeutronInterchainQueriesRegisteredQueries default.details'' (queries_DefaultBodyDetailsItems0_ContextValidate V) (df_Details x)]"

definition queries_DefaultBody_MarshalBinary :: "RestDefaultBody marshaller" where
  "queries_DefaultBody_MarshalBinary W B = MarshalBinary W (encode_RestDefaultBody B)"

definition queries_DefaultBody_UnmarshalBinary :: "RestDefaultBody unmarshaller" where
  "queries_DefaultBody_UnmarshalBinary R B = UnmarshalBinary R (step_RestDefaultBody B) zero_RestDefaultBody"

definition queries_OKBodyPagination_Validate :: "('e, RestPagination) validator" where
  "queries_OKBodyPagination_Validate V x = None"

definition queries_OKBodyPagination_ContextValidate :: "('e, RestPagination) validator" where
  "queries_OKBodyPagination_ContextValidate V x = None"

definition queries_OKBodyPagination_MarshalBinary :: "RestPagination marshaller" where
  "queries_OKBodyPagination_MarshalBinary W B = MarshalBinary W (encode_RestPagination B)"

definition queries_OKBodyPagination_UnmarshalBinary :: "RestPagination unmarshaller" where
  "queries_OKBodyPagination_UnmarshalBinary R B = UnmarshalBinary R (step_RestPagination B) zero_RestPagination"

definition queries_OKBodyRegisteredQueriesItems0KeysItems0_Validate :: "('e, RestKVKey) validator" where
  "queries_OKBodyRegisteredQueriesItems0KeysItems0_Validate V x = None"

definition queries_OKBodyRegisteredQueriesItems0KeysItems0_ContextValidate :: "('e, RestKVKey) validator" where
  "queries_OKBodyRegisteredQueriesItems0KeysItems0_ContextValidate V x = None"

definition queries_OKBodyRegisteredQueriesItems0KeysItems0_MarshalBinary :: "RestKVKey marshaller" where
  "queries_OKBodyRegisteredQueriesItems0KeysItems0_MarshalBinary W B = MarshalBinary W (encode_RestKVKey B)"

definition queries_OKBodyRegisteredQueriesItems0KeysItems0_UnmarshalBinary :: "RestKVKey unmarshaller" where
  "queries_OKBodyRegisteredQueriesItems0KeysItems0_UnmarshalBinary R B = UnmarshalBinary R (step_RestKVKey B) zero_RestKVKey"

definition queries_OKBodyRegisteredQueriesItems0LastSubmittedResultRemoteHeight_Validate :: "('e, RestHeight) validator" where
  "queries_OKBodyRegisteredQueriesItems0LastSubmittedResultRemoteHeight_Validate V x = None"

definition queries_OKBodyRegisteredQueriesItems0LastSubmittedResultRemoteHeight_ContextValidate :: "('e, RestHeight) validator" where
  "queries_OKBodyRegisteredQueriesItems0LastSubmittedResultRemoteHeight_ContextValidate V x = None"

definition queries_OKBodyRegisteredQueriesItems0LastSubmittedResultRemoteHeight_MarshalBinary :: "RestHeight marshaller" where
  "queries_OKBodyRegisteredQueriesItems0LastSubmittedResultRemoteHeight_MarshalBinary W B = MarshalBinary W (encode_RestHeight B)"

definition queries_OKBodyRegisteredQueriesItems0LastSubmittedResultRemoteHeight_UnmarshalBinary :: "RestHeight unmarshaller" where
  "queries_OKBodyRegisteredQueriesItems0LastSubmittedResultRemoteHeight_UnmarshalBinary R B = UnmarshalBinary R (step_RestHeight B) zero_RestHeight"

definition queries_OKBodyRegisteredQueriesItems0_Validate :: "('e, RestRegisteredQuery) validator" where
  "queries_OKBodyRegisteredQueriesItems0_Validate V x = all_of V
     [validate_items V ''keys'' (queries_OKBodyRegisteredQueriesItems0KeysItems0_Validate V) (rq_Keys x),
      validate_ptr V ''last_submitted_result_remote_height'' (queries_OKBodyRegisteredQueriesItems0LastSubmittedResultRemoteHeight_Validate V) (rq_LastSubmittedResultRemoteHeight x)]"

definition queries_OKBodyRegisteredQueriesItems0_ContextValidate :: "('e, RestRegisteredQuery) validator" where
  "queries_OKBodyRegisteredQueriesItems0_ContextValidate V x = all_of V
     [validate_items V ''keys'' (queries_OKBodyRegisteredQueriesItems0KeysItems0_ContextValidate V) (rq_Keys x),
      validate_ptr V ''last_submitted_result_remote_height'' (queries_OKBodyRegisteredQueriesItems0LastSubmittedResultRemoteHeight_ContextValidate V) (rq_LastSubmittedResultRemoteHeight x)]"

definition queries_OKBodyRegisteredQueriesItems0_MarshalBinary :: "RestRegisteredQuery marshaller" where
  "queries_OKBodyRegisteredQueriesItems0_MarshalBinary W B = MarshalBinary W (encode_RestRegisteredQuery B)"

definition queries_OKBodyRegisteredQueriesItems0_UnmarshalBinary :: "RestRegisteredQuery unmarshaller" where
  "queries_OKBodyRegisteredQueriesItems0_UnmarshalBinary R B = UnmarshalBinary R (step_RestRegisteredQuery B) zero_RestRegisteredQuery"

definition queries_OKBody_Validate :: "('e, RegisteredQueriesBody) validator" where
  "queries_OKBody_Validate V x = all_of V
     [validate_ptr V ''neutronInterchainQueriesRegisteredQueriesOK.pagination'' (queries_OKBodyPagination_Validate V) (rb_Pagination x),
      validate_items V ''neutronInterchainQueriesRegisteredQueriesOK.registered_queries'' (queries_OKBodyRegisteredQueriesItems0_Validate V) (RegisteredQueries x)]"

definition queries_OKBody_ContextValidate :: "('e, RegisteredQueriesBody) validator" where
  "queries_OKBody_ContextValidate V x = all_of V
     [validate_ptr V ''neutronInterchainQueriesRegisteredQueriesOK.pagination'' (queries_OKBodyPagination_ContextValidate V) (rb_Pagination x),
      validate_items V ''neutronInterchainQueriesRegisteredQueriesOK.registered_queries'' (queries_OKBodyRegisteredQueriesItems0_ContextValidate V) (RegisteredQueries x)]"

definition queries_OKBody_MarshalBinary :: "RegisteredQueriesBody marshaller" where
  "queries_OKBody_MarshalBinary W B = MarshalBinary W (encode_RegisteredQueriesBody B)"

definition queries_OKBody_UnmarshalBinary :: "RegisteredQueriesBody unmarshaller" where
  "queries_OKBody_UnmarshalBinary R B = UnmarshalBinary R (step_RegisteredQueriesBody B) zero_RegisteredQueriesBody"

section \<open>\<open>neutron_interchain_queries_registered_query_responses.go\<close>\<close>

type_synonym query_DefaultBodyDetailsItems0 = RestAny

definition query_DefaultBodyDetailsItems0_Validate :: "('e, query_DefaultBodyDetailsItems0) validator" where
  "query_DefaultBodyDetailsItems0_Validate V x = None"

definition query_DefaultBodyDetailsItems0_ContextValidate :: "('e, query_DefaultBodyDetailsItems0) validator" where
  "query_DefaultBodyDetailsItems0_ContextValidate V x = None"

definition query_DefaultBodyDetailsItems0_MarshalBinary :: "query_DefaultBodyDetailsItems0 marshaller" where
  "query_DefaultBodyDetailsItems0_MarshalBinary W B = MarshalBinary W (encode_RestAny B)"

definition query_DefaultBodyDetailsItems0_UnmarshalBinary :: "query_DefaultBodyDetailsItems0 unmarshaller" where
  "query_DefaultBodyDetailsItems0_UnmarshalBinary R B = UnmarshalBinary R (step_RestAny B) zero_RestAny"

type_synonym query_DefaultBody = RestDefaultBody

definition query_DefaultBody_Validate :: "('e, query_DefaultBody) validator" where
  "query_DefaultBody_Validate V x = all_of V
     [validate_items V ''NeutronInterchainQueriesRegisteredQuery default.details'' (query_DefaultBodyDetailsItems0_Validate V) (df_Details x)]"

definition query_DefaultBody_ContextValidate :: "('e, query_DefaultBody) validator" where
  "query_DefaultBody_ContextValidate V x = all_of V
     [validate_items V ''NeutronInterchainQueriesRegisteredQuery default.details'' (query_DefaultBodyDetailsItems0_ContextValidate V) (df_Details x)]"

definition query_DefaultBody_MarshalBinary :: "query_DefaultBody marshaller" where
  "query_DefaultBody_MarshalBinary W B = MarshalBinary W (encode_RestDefaultBody B)"

definition query_DefaultBody_UnmarshalBinary :: "query_DefaultBody unmarshaller" where
  "query_DefaultBody_UnmarshalBinary R B = UnmarshalBinary R (step_RestDefaultBody B) zero_RestDefaultBody"

type_synonym query_OKBodyRegisteredQueryKeysItems0 = RestKVKey

definition query_OKBodyRegisteredQueryKeysItems0_Validate :: "('e, query_OKBodyRegisteredQueryKeysItems0) validator" where
  "query_OKBodyRegisteredQueryKeysItems0_Validate V x = None"

definition query_OKBodyRegisteredQueryKeysItems0_ContextValidate :: "('e, query_OKBodyRegisteredQueryKeysItems0) validator" where
  "query_OKBodyRegisteredQueryKeysItems0_ContextValidate V x = None"

definition query_OKBodyRegisteredQueryKeysItems0_MarshalBinary :: "query_OKBodyRegisteredQueryKeysItems0 marshaller" where
  "query_OKBodyRegisteredQueryKeysItems0_MarshalBinary W B = MarshalBinary W (encode_RestKVKey B)"

definition query_OKBodyRegisteredQueryKeysItems0_UnmarshalBinary :: "query_OKBodyRegisteredQueryKeysItems0 unmarshaller" where
  "query_OKBodyRegisteredQueryKeysItems0_UnmarshalBinary R B = UnmarshalBinary R (step_RestKVKey B) zero_RestKVKey"

type_synonym query_OKBodyRegisteredQueryLastSubmittedResultRemoteHeight = RestHeight

definition query_OKBodyRegisteredQueryLastSubmittedResultRemoteHeight_Validate :: "('e, query_OKBodyRegisteredQueryLastSubmittedResultRemoteHeight) validator" where
  "query_OKBodyRegisteredQueryLastSubmittedResultRemoteHeight_Validate V x = None"

definition query_OKBodyRegisteredQueryLastSubmittedResultRemoteHeight_ContextValidate :: "('e, query_OKBodyRegisteredQueryLastSubmittedResultRemoteHeight) validator" where
  "query_OKBodyRegisteredQueryLastSubmittedResultRemoteHeight_ContextValidate V x = None"

definition query_OKBodyRegisteredQueryLastSubmittedResultRemoteHeight_MarshalBinary :: "query_OKBodyRegisteredQueryLastSubmittedResultRemoteHeight marshaller" where
  "query_OKBodyRegisteredQueryLastSubmittedResultRemoteHeight_MarshalBinary W B = MarshalBinary W (encode_RestHeight B)"

definition query_OKBodyRegisteredQueryLastSubmittedResultRemoteHeight_UnmarshalBinary :: "query_OKBodyRegisteredQueryLastSubmittedResultRemoteHeight unmarshaller" where
  "query_OKBodyRegisteredQueryLastSubmittedResultRemoteHeight_UnmarshalBinary R B = UnmarshalBinary R (step_RestHeight B) zero_RestHeight"

type_synonym query_OKBodyRegisteredQuery = RestRegisteredQuery

definition query_OKBodyRegisteredQuery_Validate :: "('e, query_OKBodyRegisteredQuery) validator" where
  "query_OKBodyRegisteredQuery_Validate V x = all_of V
     [validate_items V ''neutronInterchainQueriesRegisteredQueryOK.registered_query.keys'' (query_OKBodyRegisteredQueryKeysItems0_Validate V) (rq_Keys x),
      validate_ptr V ''neutronInterchainQueriesRegisteredQueryOK.registered_query.last_submitted_result_remote_height'' (query_OKBodyRegisteredQueryLastSubmittedResultRemoteHeight_Validate V) (rq_LastSubmittedResultRemoteHeight x)]"

definition query_OKBodyRegisteredQuery_ContextValidate :: "('e, query_OKBodyRegisteredQuery) validator" where
  "query_OKBodyRegisteredQuery_ContextValidate V x = all_of V
     [validate_items V ''neutronInterchainQueriesRegisteredQueryOK.registered_query.keys'' (query_OKBodyRegisteredQueryKeysItems0_ContextValidate V) (rq_Keys x),
      validate_ptr V ''neutronInterchainQueriesRegisteredQueryOK.registered_query.last_submitted_result_remote_height'' (query_OKBodyRegisteredQueryLastSubmittedResultRemoteHeight_ContextValidate V) (rq_LastSubmittedResultRemoteHeight x)]"

definition query_OKBodyRegisteredQuery_MarshalBinary :: "query_OKBodyRegisteredQuery marshaller" where
  "query_OKBodyRegisteredQuery_MarshalBinary W B = MarshalBinary W (encode_RestRegisteredQuery B)"

definition query_OKBodyRegisteredQuery_UnmarshalBinary :: "query_OKBodyRegisteredQuery unmarshaller" where
  "query_OKBodyRegisteredQuery_UnmarshalBinary R B = UnmarshalBinary R (step_RestRegisteredQuery B) zero_RestRegisteredQuery"

definition query_OKBody_Validate :: "('e, RegisteredQueryBody) validator" where
  "query_OKBody_Validate V x = all_of V
     [validate_ptr V ''neutronInterchainQueriesRegisteredQueryOK.registered_query'' (query_OKBodyRegisteredQuery_Validate V) (rb_RegisteredQuery x)]"

definition query_OKBody_ContextValidate :: "('e, RegisteredQueryBody) validator" where
  "query_OKBody_ContextValidate V x = all_of V
     [validate_ptr V ''neutronInterchainQueriesRegisteredQueryOK.registered_query'' (query_OKBodyRegisteredQuery_ContextValidate V) (rb_RegisteredQuery x)]"

definition query_OKBody_MarshalBinary :: "RegisteredQueryBody marshaller" where
  "query_OKBody_MarshalBinary W B = MarshalBinary W (encode_RegisteredQueryBody B)"

definition query_OKBody_UnmarshalBinary :: "RegisteredQueryBody unmarshaller" where
  "query_OKBody_UnmarshalBinary R B = UnmarshalBinary R (step_RegisteredQueryBody B) zero_RegisteredQueryBody"

section \<open>\<open>ibc_core_connection_v1_connection_responses.go\<close>\<close>

text \<open>
  The one field with a check: the state of the connection, when it is given, is one of these.
\<close>

definition connection_StateEnum :: "string list" where
  "connection_StateEnum = [''STATE_UNINITIALIZED_UNSPECIFIED'', ''STATE_INIT'', ''STATE_TRYOPEN'', ''STATE_OPEN'']"

definition connection_validateStateEnum :: "'e openapi \<Rightarrow> string \<Rightarrow> string \<Rightarrow> string \<Rightarrow> 'e option" where
  "connection_validateStateEnum V path location value = EnumCase V path location value connection_StateEnum True"

definition connection_validateState :: "'e openapi \<Rightarrow> string option \<Rightarrow> 'e option" where
  "connection_validateState V s = (case s of
       None \<Rightarrow> None
     | Some v \<Rightarrow> connection_validateStateEnum V ''ibcCoreConnectionV1ConnectionOK.connection.state'' ''body'' v)"

type_synonym connection_DefaultBodyDetailsItems0 = RestAny

definition connection_DefaultBodyDetailsItems0_Validate :: "('e, connection_DefaultBodyDetailsItems0) validator" where
  "connection_DefaultBodyDetailsItems0_Validate V x = None"

definition connection_DefaultBodyDetailsItems0_ContextValidate :: "('e, connection_DefaultBodyDetailsItems0) validator" where
  "connection_DefaultBodyDetailsItems0_ContextValidate V x = None"

definition connection_DefaultBodyDetailsItems0_MarshalBinary :: "connection_DefaultBodyDetailsItems0 marshaller" where
  "connection_DefaultBodyDetailsItems0_MarshalBinary W B = MarshalBinary W (encode_RestAny B)"

definition connection_DefaultBodyDetailsItems0_UnmarshalBinary :: "connection_DefaultBodyDetailsItems0 unmarshaller" where
  "connection_DefaultBodyDetailsItems0_UnmarshalBinary R B = UnmarshalBinary R (step_RestAny B) zero_RestAny"

type_synonym connection_DefaultBody = RestDefaultBody

definition connection_DefaultBody_Validate :: "('e, connection_DefaultBody) validator" where
  "connection_DefaultBody_Validate V x = all_of V
     [validate_items V ''IbcCoreConnectionV1Connection default.details'' (connection_DefaultBodyDetailsItems0_Validate V) (df_Details x)]"

definition connection_DefaultBody_ContextValidate :: "('e, connection_DefaultBody) validator" where
  "connection_DefaultBody_ContextValidate V x = all_of V
     [validate_items V ''IbcCoreConnectionV1Connection default.details'' (connection_DefaultBodyDetailsItems0_ContextValidate V) (df_Details x)]"

definition connection_DefaultBody_MarshalBinary :: "connection_DefaultBody marshaller" where
  "connection_DefaultBody_MarshalBinary W B = MarshalBinary W (encode_RestDefaultBody B)"

definition connection_DefaultBody_UnmarshalBinary :: "connection_DefaultBody unmarshaller" where
  "connection_DefaultBody_UnmarshalBinary R B = UnmarshalBinary R (step_RestDefaultBody B) zero_RestDefaultBody"

definition connection_OKBodyConnectionCounterpartyPrefix_Validate :: "('e, RestPrefix) validator" where
  "connection_OKBodyConnectionCounterpartyPrefix_Validate V x = None"

definition connection_OKBodyConnectionCounterpartyPrefix_ContextValidate :: "('e, RestPrefix) validator" where
  "connection_OKBodyConnectionCounterpartyPrefix_ContextValidate V x = None"

definition connection_OKBodyConnectionCounterpartyPrefix_MarshalBinary :: "RestPrefix marshaller" where
  "connection_OKBodyConnectionCounterpartyPrefix_MarshalBinary W B = MarshalBinary W (encode_RestPrefix B)"

definition connection_OKBodyConnectionCounterpartyPrefix_UnmarshalBinary :: "RestPrefix unmarshaller" where
  "connection_OKBodyConnectionCounterpartyPrefix_UnmarshalBinary R B = UnmarshalBinary R (step_RestPrefix B) zero_RestPrefix"

definition connection_OKBodyConnectionCounterparty_Validate :: "('e, RestCounterparty) validator" where
  "connection_OKBodyConnectionCounterparty_Validate V x = all_of V
     [validate_ptr V ''ibcCoreConnectionV1ConnectionOK.connection.counterparty.prefix'' (connection_OKBodyConnectionCounterpartyPrefix_Validate V) (co_Prefix x)]"

definition connection_OKBodyConnectionCounterparty_ContextValidate :: "('e, RestCounterparty) validator" where
  "connection_OKBodyConnectionCounterparty_ContextValidate V x = all_of V
     [validate_ptr V ''ibcCoreConnectionV1ConnectionOK.connection.counterparty.prefix'' (connection_OKBodyConnectionCounterpartyPrefix_ContextValidate V) (co_Prefix x)]"

definition connection_OKBodyConnectionCounterparty_MarshalBinary :: "RestCounterparty marshaller" where
  "connection_OKBodyConnectionCounterparty_MarshalBinary W B = MarshalBinary W (encode_RestCounterparty B)"

definition connection_OKBodyConnectionCounterparty_UnmarshalBinary :: "RestCounterparty unmarshaller" where
  "connection_OKBodyConnectionCounterparty_UnmarshalBinary R B = UnmarshalBinary R (step_RestCounterparty B) zero_RestCounterparty"

definition connection_OKBodyConnectionVersionsItems0_Validate :: "('e, RestVersion) validator" where
  "connection_OKBodyConnectionVersionsItems0_Validate V x = None"

definition connection_OKBodyConnectionVersionsItems0_ContextValidate :: "('e, RestVersion) validator" where
  "connection_OKBodyConnectionVersionsItems0_ContextValidate V x = None"

definition connection_OKBodyConnectionVersionsItems0_MarshalBinary :: "RestVersion marshaller" where
  "connection_OKBodyConnectionVersionsItems0_MarshalBinary W B = MarshalBinary W (encode_RestVersion B)"

definition connection_OKBodyConnectionVersionsItems0_UnmarshalBinary :: "RestVersion unmarshaller" where
  "connection_OKBodyConnectionVersionsItems0_UnmarshalBinary R B = UnmarshalBinary R (step_RestVersion B) zero_RestVersion"

definition connection_OKBodyConnection_Validate :: "('e, RestConnection) validator" where
  "connection_OKBodyConnection_Validate V x = all_of V
     [validate_ptr V ''ibcCoreConnectionV1ConnectionOK.connection.counterparty'' (connection_OKBodyConnectionCounterparty_Validate V) (Counterparty x),
      connection_validateState V (cb_State x),
      validate_items V ''ibcCoreConnectionV1ConnectionOK.connection.versions'' (connection_OKBodyConnectionVersionsItems0_Validate V) (cb_Versions x)]"

definition connection_OKBodyConnection_ContextValidate :: "('e, RestConnection) validator" where
  "connection_OKBodyConnection_ContextValidate V x = all_of V
     [validate_ptr V ''ibcCoreConnectionV1ConnectionOK.connection.counterparty'' (connection_OKBodyConnectionCounterparty_ContextValidate V) (Counterparty x),
      validate_items V ''ibcCoreConnectionV1ConnectionOK.connection.versions'' (connection_OKBodyConnectionVersionsItems0_ContextValidate V) (cb_Versions x)]"

definition connection_OKBodyConnection_MarshalBinary :: "RestConnection marshaller" where
  "connection_OKBodyConnection_MarshalBinary W B = MarshalBinary W (encode_RestConnection B)"

definition connection_OKBodyConnection_UnmarshalBinary :: "RestConnection unmarshaller" where
  "connection_OKBodyConnection_UnmarshalBinary R B = UnmarshalBinary R (step_RestConnection B) zero_RestConnection"

type_synonym connection_OKBodyProofHeight = RestHeight

definition connection_OKBodyProofHeight_Validate :: "('e, connection_OKBodyProofHeight) validator" where
  "connection_OKBodyProofHeight_Validate V x = None"

definition connection_OKBodyProofHeight_ContextValidate :: "('e, connection_OKBodyProofHeight) validator" where
  "connection_OKBodyProofHeight_ContextValidate V x = None"

definition connection_OKBodyProofHeight_MarshalBinary :: "connection_OKBodyProofHeight marshaller" where
  "connection_OKBodyProofHeight_MarshalBinary W B = MarshalBinary W (encode_RestHeight B)"

definition connection_OKBodyProofHeight_UnmarshalBinary :: "connection_OKBodyProofHeight unmarshaller" where
  "connection_OKBodyProofHeight_UnmarshalBinary R B = UnmarshalBinary R (step_RestHeight B) zero_RestHeight"

definition connection_OKBody_Validate :: "('e, ConnectionBody) validator" where
  "connection_OKBody_Validate V x = all_of V
     [validate_ptr V ''ibcCoreConnectionV1ConnectionOK.connection'' (connection_OKBodyConnection_Validate V) (Connection x),
      validate_ptr V ''ibcCoreConnectionV1ConnectionOK.proof_height'' (connection_OKBodyProofHeight_Validate V) (ob_ProofHeight x)]"

definition connection_OKBody_ContextValidate :: "('e, ConnectionBody) validator" where
  "connection_OKBody_ContextValidate V x = all_of V
     [validate_ptr V ''ibcCoreConnectionV1ConnectionOK.connection'' (connection_OKBodyConnection_ContextValidate V) (Connection x),
      validate_ptr V ''ibcCoreConnectionV1ConnectionOK.proof_height'' (connection_OKBodyProofHeight_ContextValidate V) (ob_ProofHeight x)]"

definition connection_OKBody_MarshalBinary :: "ConnectionBody marshaller" where
  "connection_OKBody_MarshalBinary W B = MarshalBinary W (encode_ConnectionBody B)"

definition connection_OKBody_UnmarshalBinary :: "ConnectionBody unmarshaller" where
  "connection_OKBody_UnmarshalBinary R B = UnmarshalBinary R (step_ConnectionBody B) zero_ConnectionBody"

section \<open>What they accept\<close>

text \<open>But for the state of a connection, no body has a field with a check of its own: every value is accepted.\<close>

lemmas bodies_Validate_defs =
  queries_DefaultBodyDetailsItems0_Validate_def
  queries_DefaultBody_Validate_def
  queries_OKBodyPagination_Validate_def
  queries_OKBodyRegisteredQueriesItems0KeysItems0_Validate_def
  queries_OKBodyRegisteredQueriesItems0LastSubmittedResultRemoteHeight_Validate_def
  queries_OKBodyRegisteredQueriesItems0_Validate_def
  queries_OKBody_Validate_def
  query_DefaultBodyDetailsItems0_Validate_def
  query_DefaultBody_Validate_def
  query_OKBodyRegisteredQueryKeysItems0_Validate_def
  query_OKBodyRegisteredQueryLastSubmittedResultRemoteHeight_Validate_def
  query_OKBodyRegisteredQuery_Validate_def
  query_OKBody_Validate_def
  connection_DefaultBodyDetailsItems0_Validate_def
  connection_DefaultBody_Validate_def
  connection_OKBodyConnectionCounterpartyPrefix_Validate_def
  connection_OKBodyConnectionCounterparty_Validate_def
  connection_OKBodyConnectionVersionsItems0_Validate_def
  connection_OKBodyProofHeight_Validate_def

lemma bodies_Validate_accept [accepts]:
  "queries_DefaultBodyDetailsItems0_Validate V x0 = None"
  "queries_DefaultBody_Validate V x1 = None"
  "queries_OKBodyPagination_Validate V x2 = None"
  "queries_OKBodyRegisteredQueriesItems0KeysItems0_Validate V x3 = None"
  "queries_OKBodyRegisteredQueriesItems0LastSubmittedResultRemoteHeight_Validate V x4 = None"
  "queries_OKBodyRegisteredQueriesItems0_Validate V x5 = None"
  "queries_OKBody_Validate V x6 = None"
  "query_DefaultBodyDetailsItems0_Validate V x7 = None"
  "query_DefaultBody_Validate V x8 = None"
  "query_OKBodyRegisteredQueryKeysItems0_Validate V x9 = None"
  "query_OKBodyRegisteredQueryLastSubmittedResultRemoteHeight_Validate V x10 = None"
  "query_OKBodyRegisteredQuery_Validate V x11 = None"
  "query_OKBody_Validate V x12 = None"
  "connection_DefaultBodyDetailsItems0_Validate V x13 = None"
  "connection_DefaultBody_Validate V x14 = None"
  "connection_OKBodyConnectionCounterpartyPrefix_Validate V x15 = None"
  "connection_OKBodyConnectionCounterparty_Validate V x16 = None"
  "connection_OKBodyConnectionVersionsItems0_Validate V x17 = None"
  "connection_OKBodyProofHeight_Validate V x18 = None"
  by (simp_all add: bodies_Validate_defs accepted_iff)

lemmas bodies_ContextValidate_defs =
  queries_DefaultBodyDetailsItems0_ContextValidate_def
  queries_DefaultBody_ContextValidate_def
  queries_OKBodyPagination_ContextValidate_def
  queries_OKBodyRegisteredQueriesItems0KeysItems0_ContextValidate_def
  queries_OKBodyRegisteredQueriesItems0LastSubmittedResultRemoteHeight_ContextValidate_def
  queries_OKBodyRegisteredQueriesItems0_ContextValidate_def
  queries_OKBody_ContextValidate_def
  query_DefaultBodyDetailsItems0_ContextValidate_def
  query_DefaultBody_ContextValidate_def
  query_OKBodyRegisteredQueryKeysItems0_ContextValidate_def
  query_OKBodyRegisteredQueryLastSubmittedResultRemoteHeight_ContextValidate_def
  query_OKBodyRegisteredQuery_ContextValidate_def
  query_OKBody_ContextValidate_def
  connection_DefaultBodyDetailsItems0_ContextValidate_def
  connection_DefaultBody_ContextValidate_def
  connection_OKBodyConnectionCounterpartyPrefix_ContextValidate_def
  connection_OKBodyConnectionCounterparty_ContextValidate_def
  connection_OKBodyConnectionVersionsItems0_ContextValidate_def
  connection_OKBodyConnection_ContextValidate_def
  connection_OKBodyProofHeight_ContextValidate_def
  connection_OKBody_ContextValidate_def

lemma bodies_ContextValidate_accept [accepts]:
  "queries_DefaultBodyDetailsItems0_ContextValidate V x0 = None"
  "queries_DefaultBody_ContextValidate V x1 = None"
  "queries_OKBodyPagination_ContextValidate V x2 = None"
  "queries_OKBodyRegisteredQueriesItems0KeysItems0_ContextValidate V x3 = None"
  "queries_OKBodyRegisteredQueriesItems0LastSubmittedResultRemoteHeight_ContextValidate V x4 = None"
  "queries_OKBodyRegisteredQueriesItems0_ContextValidate V x5 = None"
  "queries_OKBody_ContextValidate V x6 = None"
  "query_DefaultBodyDetailsItems0_ContextValidate V x7 = None"
  "query_DefaultBody_ContextValidate V x8 = None"
  "query_OKBodyRegisteredQueryKeysItems0_ContextValidate V x9 = None"
  "query_OKBodyRegisteredQueryLastSubmittedResultRemoteHeight_ContextValidate V x10 = None"
  "query_OKBodyRegisteredQuery_ContextValidate V x11 = None"
  "query_OKBody_ContextValidate V x12 = None"
  "connection_DefaultBodyDetailsItems0_ContextValidate V x13 = None"
  "connection_DefaultBody_ContextValidate V x14 = None"
  "connection_OKBodyConnectionCounterpartyPrefix_ContextValidate V x15 = None"
  "connection_OKBodyConnectionCounterparty_ContextValidate V x16 = None"
  "connection_OKBodyConnectionVersionsItems0_ContextValidate V x17 = None"
  "connection_OKBodyConnection_ContextValidate V x18 = None"
  "connection_OKBodyProofHeight_ContextValidate V x19 = None"
  "connection_OKBody_ContextValidate V x20 = None"
  by (simp_all add: bodies_ContextValidate_defs accepted_iff)

end
