(* ===== verification/Rest_Client.thy ===== *)
theory Rest_Client
  imports Rest_Query Rest_Responses
begin

text \<open>
  The client of Neutron's REST API (\<open>internal/subscriber/querier/client\<close>, \<open>internal/raw\<close>): the
  parameters of the three operations and how they are written into a request, the readers of
  their responses, the calls, and the constructors of the clients. The go-openapi runtime
  (transport, request, consumer) and the CometBFT RPC client are parameters.
\<close>

section \<open>Parameters of a request\<close>

text \<open>\<open>runtime.ClientRequest\<close>: the methods the parameters call, each of which may fail.\<close>

record 'q ClientRequest =
  req_SetTimeout :: "int \<Rightarrow> 'q \<Rightarrow> unit res \<times> 'q"
  req_SetQueryParam :: "string \<Rightarrow> string list \<Rightarrow> 'q \<Rightarrow> unit res \<times> 'q"
  req_SetPathParam :: "string \<Rightarrow> string \<Rightarrow> 'q \<Rightarrow> unit res \<times> 'q"

record ('c, 'h) IbcCoreConnectionV1ConnectionParams =
  cn_ConnectionID :: string
  cn_timeout :: int
  cn_Context :: "'c option"
  cn_HTTPClient :: "'h option"

record ('c, 'h) RegisteredQueryParams =
  rg_QueryID :: "string option"
  rg_timeout :: int
  rg_Context :: "'c option"
  rg_HTTPClient :: "'h option"

record ('c, 'h) RegisteredQueriesParams =
  rgs_ConnectionID :: "string option"
  Owners :: "string list option"
  PaginationCountTotal :: "bool option"
  PaginationKey :: "bytes option"
  PaginationLimit :: "string option"
  PaginationOffset :: "string option"
  PaginationReverse :: "bool option"
  rgs_timeout :: int
  rgs_Context :: "'c option"
  rgs_HTTPClient :: "'h option"

text \<open>\<open>swag.FormatBool\<close>; \<open>strfmt.Base64.String\<close> is standard base64 with padding.\<close>

definition FormatBool :: "bool \<Rightarrow> string" where
  "FormatBool b = (if b then ''true'' else ''false'')"

text \<open>A query parameter is set unless its pointer is nil or its text empty.\<close>

definition write_param :: "'q ClientRequest \<Rightarrow> string \<Rightarrow> ('a \<Rightarrow> string) \<Rightarrow> 'a option \<Rightarrow> 'q \<Rightarrow> unit res \<times> 'q" where
  "write_param r name fmt p q =
     (case p of
        None \<Rightarrow> (Ok (), q)
      | Some x \<Rightarrow> if fmt x \<noteq> [] then req_SetQueryParam r name [fmt x] q else (Ok (), q))"

text \<open>\<open>swag.JoinByFormat(xs, "multi")\<close> returns the list itself, nil when it is empty.\<close>

definition bindParamOwners :: "string list option \<Rightarrow> string list" where
  "bindParamOwners owners = (case owners of None \<Rightarrow> [] | Some os \<Rightarrow> os)"

definition connection_WriteToRequest ::
  "'q ClientRequest \<Rightarrow> ('c, 'h) IbcCoreConnectionV1ConnectionParams \<Rightarrow> 'q \<Rightarrow> unit res \<times> 'q" where
  "connection_WriteToRequest r p q =
     go_then (req_SetTimeout r (cn_timeout p) q) (\<lambda>_ q.
     go_then (req_SetPathParam r ''connection_id'' (cn_ConnectionID p) q) (\<lambda>_ q. (Ok (), q)))"

definition query_WriteToRequest ::
  "'q ClientRequest \<Rightarrow> ('c, 'h) RegisteredQueryParams \<Rightarrow> 'q \<Rightarrow> unit res \<times> 'q" where
  "query_WriteToRequest r p q =
     go_then (req_SetTimeout r (rg_timeout p) q) (\<lambda>_ q.
     go_then (write_param r ''query_id'' id (rg_QueryID p) q) (\<lambda>_ q. (Ok (), q)))"

definition queries_WriteToRequest ::
  "'q ClientRequest \<Rightarrow> ('c, 'h) RegisteredQueriesParams \<Rightarrow> 'q \<Rightarrow> unit res \<times> 'q" where
  "queries_WriteToRequest r p q =
     go_then (req_SetTimeout r (rgs_timeout p) q) (\<lambda>_ q.
     go_then (write_param r ''connection_id'' id (rgs_ConnectionID p) q) (\<lambda>_ q.
     go_then (if Owners p \<noteq> None then req_SetQueryParam r ''owners'' (bindParamOwners (Owners p)) q
              else (Ok (), q)) (\<lambda>_ q.
     go_then (write_param r ''pagination.count_total'' FormatBool (PaginationCountTotal p) q) (\<lambda>_ q.
     go_then (write_param r ''pagination.key'' base64_encode (PaginationKey p) q) (\<lambda>_ q.
     go_then (write_param r ''pagination.limit'' id (PaginationLimit p) q) (\<lambda>_ q.
     go_then (write_param r ''pagination.offset'' id (PaginationOffset p) q) (\<lambda>_ q.
     go_then (write_param r ''pagination.reverse'' FormatBool (PaginationReverse p) q) (\<lambda>_ q. (Ok (), q)))))))))"

section \<open>Responses\<close>

text \<open>
  A response is read into the OK type of the operation or into its default type, which also is
  an error; \<open>'e\<close> is the payload of the latter. The consumer decodes a body into a payload.
\<close>

datatype ('p, 'e) api_response = RespOK 'p | RespDefault int 'e

record ('p, 'e) consumer =
  zero_OK :: 'p
  zero_Default :: 'e
  Consume_OK :: "bytes \<Rightarrow> 'p res"
  Consume_Default :: "bytes \<Rightarrow> 'e res"
  print_Default :: "'e \<Rightarrow> string"

text \<open>\<open>readResponse\<close>: an empty body (\<open>io.EOF\<close>) leaves the zero payload. Integers divide towards 0.\<close>

definition OK_readResponse :: "('p, 'e) consumer \<Rightarrow> bytes \<Rightarrow> 'p res" where
  "OK_readResponse C body =
     (case Consume_OK C body of Inl (GoErr ErrEOF) \<Rightarrow> Ok (zero_OK C) | r \<Rightarrow> r)"

definition Default_readResponse :: "('p, 'e) consumer \<Rightarrow> bytes \<Rightarrow> 'e res" where
  "Default_readResponse C body =
     (case Consume_Default C body of Inl (GoErr ErrEOF) \<Rightarrow> Ok (zero_Default C) | r \<Rightarrow> r)"

definition quot :: "int \<Rightarrow> int \<Rightarrow> int" where
  "quot a b = sgn a * (\<bar>a\<bar> div b)"

text \<open>
  What a response answers about itself (the interface \<open>runtime.ClientResponseStatus\<close>, with
  \<open>Error\<close>, \<open>String\<close> and \<open>GetPayload\<close>); \<open>print\<close> is how \<open>fmt\<close> prints the payload.
\<close>

record 'p response_status =
  IsSuccess :: bool
  IsRedirect :: bool
  IsClientError :: bool
  IsServerError :: bool
  IsCode :: "int \<Rightarrow> bool"
  Code_of :: int
  Error_of :: string
  String_of :: string
  GetPayload :: 'p

definition response_text :: "string \<Rightarrow> int \<Rightarrow> string \<Rightarrow> string \<Rightarrow> string" where
  "response_text path code name payload =
     ''[GET '' @ path @ ''][''  @ FormatInt code @ ''] '' @ name @ ''  '' @ payload"

definition OK_status :: "string \<Rightarrow> string \<Rightarrow> ('p \<Rightarrow> string) \<Rightarrow> 'p \<Rightarrow> 'p response_status" where
  "OK_status path name print payload = \<lparr>IsSuccess = True, IsRedirect = False, IsClientError = False,
     IsServerError = False, IsCode = (\<lambda>code. code = 200), Code_of = 200,
     Error_of = response_text path 200 name (print payload),
     String_of = response_text path 200 name (print payload), GetPayload = payload\<rparr>"

definition Default_status :: "string \<Rightarrow> string \<Rightarrow> ('p \<Rightarrow> string) \<Rightarrow> int \<Rightarrow> 'p \<Rightarrow> 'p response_status" where
  "Default_status path name print code payload = \<lparr>IsSuccess = (quot code 100 = 2),
     IsRedirect = (quot code 100 = 3), IsClientError = (quot code 100 = 4), IsServerError = (quot code 100 = 5),
     IsCode = (\<lambda>c. code = c), Code_of = code,
     Error_of = response_text path code (name @ '' default'') (print payload),
     String_of = response_text path code (name @ '' default'') (print payload), GetPayload = payload\<rparr>"

definition connection_path :: string where
  "connection_path = ''/ibc/core/connection/v1/connections/{connection_id}''"

definition queries_path :: string where
  "queries_path = ''/neutron/interchainqueries/registered_queries''"

definition query_path :: string where
  "query_path = ''/neutron/interchainqueries/registered_query''"

definition connection_OK :: "('p \<Rightarrow> string) \<Rightarrow> 'p \<Rightarrow> 'p response_status" where
  "connection_OK = OK_status connection_path ''ibcCoreConnectionV1ConnectionOK''"

definition connection_Default :: "('p \<Rightarrow> string) \<Rightarrow> int \<Rightarrow> 'p \<Rightarrow> 'p response_status" where
  "connection_Default = Default_status connection_path ''IbcCoreConnectionV1Connection''"

definition queries_OK :: "('p \<Rightarrow> string) \<Rightarrow> 'p \<Rightarrow> 'p response_status" where
  "queries_OK = OK_status queries_path ''neutronInterchainQueriesRegisteredQueriesOK''"

definition queries_Default :: "('p \<Rightarrow> string) \<Rightarrow> int \<Rightarrow> 'p \<Rightarrow> 'p response_status" where
  "queries_Default = Default_status queries_path ''NeutronInterchainQueriesRegisteredQueries''"

definition query_OK :: "('p \<Rightarrow> string) \<Rightarrow> 'p \<Rightarrow> 'p response_status" where
  "query_OK = OK_status query_path ''neutronInterchainQueriesRegisteredQueryOK''"

definition query_Default :: "('p \<Rightarrow> string) \<Rightarrow> int \<Rightarrow> 'p \<Rightarrow> 'p response_status" where
  "query_Default = Default_status query_path ''NeutronInterchainQueriesRegisteredQuery''"

text \<open>\<open>ReadResponse\<close>; \<open>status\<close> is the default response of the operation.\<close>

definition read_response ::
  "(('e \<Rightarrow> string) \<Rightarrow> int \<Rightarrow> 'e \<Rightarrow> 'e response_status) \<Rightarrow> ('p, 'e) consumer \<Rightarrow> int \<Rightarrow> bytes \<Rightarrow>
   ('p, 'e) api_response res" where
  "read_response status C code body =
     (if code = 200 then res_then (OK_readResponse C body) (\<lambda>p. Ok (RespOK p))
      else res_then (Default_readResponse C body) (\<lambda>e.
        if quot code 100 = 2 then Ok (RespDefault code e)
        else Err (ErrText (Error_of (status (print_Default C) code e)))))"

definition connection_ReadResponse where
  "connection_ReadResponse = read_response connection_Default"

definition queries_ReadResponse where
  "queries_ReadResponse = read_response queries_Default"

definition query_ReadResponse where
  "query_ReadResponse = read_response query_Default"

text \<open>A default response is returned as a value exactly when it says it is a success.\<close>

lemma Default_IsSuccess:
  "IsSuccess (connection_Default print code e) \<longleftrightarrow> quot code 100 = 2"
  "IsSuccess (queries_Default print code e) \<longleftrightarrow> quot code 100 = 2"
  "IsSuccess (query_Default print code e) \<longleftrightarrow> quot code 100 = 2"
  by (simp_all add: connection_Default_def queries_Default_def query_Default_def Default_status_def)

lemma read_response_Default:
  "read_response status C code body = Inr (RespDefault c e) \<longleftrightarrow>
     c = code \<and> code \<noteq> 200 \<and> quot code 100 = 2 \<and> Default_readResponse C body = Inr e"
  by (auto simp: read_response_def res_then_Inr_iff)

section \<open>The calls\<close>

text \<open>\<open>runtime.ClientOperation\<close>; the parameters are the function that writes them.\<close>

record ('q, 'c, 'h, 'a) ClientOperation =
  op_ID :: string
  op_Method :: string
  op_PathPattern :: string
  op_ProducesMediaTypes :: "string list"
  op_ConsumesMediaTypes :: "string list"
  op_Schemes :: "string list"
  op_Params :: "'q \<Rightarrow> unit res \<times> 'q"
  op_Reader :: "int \<Rightarrow> bytes \<Rightarrow> 'a res"
  op_Context :: "'c option"
  op_Client :: "'h option"

type_synonym ('s, 'q, 'c, 'h, 'a) transport = "('q, 'c, 'h, 'a) ClientOperation \<Rightarrow> 's \<Rightarrow> 'a res \<times> 's"

text \<open>\<open>a.transport.Submit(op)\<close> after the options, and the type assertions on its result.\<close>

definition submit_op ::
  "('s, 'q, 'c, 'h, ('p, 'e) api_response) transport \<Rightarrow>
   (('q, 'c, 'h, ('p, 'e) api_response) ClientOperation \<Rightarrow> ('q, 'c, 'h, ('p, 'e) api_response) ClientOperation) list \<Rightarrow>
   ('q, 'c, 'h, ('p, 'e) api_response) ClientOperation \<Rightarrow> 's \<Rightarrow> 'p res \<times> 's" where
  "submit_op Submit opts oper s =
     go_then (Submit (foldl (\<lambda>x f. f x) oper opts) s) (\<lambda>result s.
       case result of
         RespOK p \<Rightarrow> (Ok p, s)
       | RespDefault code e \<Rightarrow>
           (Err (ErrText (''unexpected success response: content available as default response in error (status '' @
              FormatInt code @ '')'')), s))"

definition operation where
  "operation ident path writer reader ctx client = \<lparr>op_ID = ident, op_Method = ''GET'', op_PathPattern = path,
     op_ProducesMediaTypes = [''application/json''], op_ConsumesMediaTypes = [''application/json''],
     op_Schemes = [''http''], op_Params = writer, op_Reader = reader, op_Context = ctx, op_Client = client\<rparr>"

text \<open>
  \<open>NewIbcCoreConnectionV1ConnectionParams\<close> and the like: only the timeout is set, to the
  runtime's default \<open>D\<close>.
\<close>

definition NewIbcCoreConnectionV1ConnectionParams :: "int \<Rightarrow> ('c, 'h) IbcCoreConnectionV1ConnectionParams" where
  "NewIbcCoreConnectionV1ConnectionParams D =
     \<lparr>cn_ConnectionID = [], cn_timeout = D, cn_Context = None, cn_HTTPClient = None\<rparr>"

definition NewRegisteredQueriesParams :: "int \<Rightarrow> ('c, 'h) RegisteredQueriesParams" where
  "NewRegisteredQueriesParams D = \<lparr>rgs_ConnectionID = None, Owners = None, PaginationCountTotal = None,
     PaginationKey = None, PaginationLimit = None, PaginationOffset = None, PaginationReverse = None,
     rgs_timeout = D, rgs_Context = None, rgs_HTTPClient = None\<rparr>"

definition NewRegisteredQueryParams :: "int \<Rightarrow> ('c, 'h) RegisteredQueryParams" where
  "NewRegisteredQueryParams D = \<lparr>rg_QueryID = None, rg_timeout = D, rg_Context = None, rg_HTTPClient = None\<rparr>"

definition IbcCoreConnectionV1Connection where
  "IbcCoreConnectionV1Connection Submit R D C params opts s =
     (let p = (case params of None \<Rightarrow> NewIbcCoreConnectionV1ConnectionParams D | Some p \<Rightarrow> p) in
      submit_op Submit opts
        (operation ''IbcCoreConnectionV1Connection'' connection_path
          (connection_WriteToRequest R p) (connection_ReadResponse C) (cn_Context p) (cn_HTTPClient p)) s)"

definition NeutronInterchainQueriesRegisteredQueries where
  "NeutronInterchainQueriesRegisteredQueries Submit R D C params opts s =
     (let p = (case params of None \<Rightarrow> NewRegisteredQueriesParams D | Some p \<Rightarrow> p) in
      submit_op Submit opts
        (operation ''NeutronInterchainQueriesRegisteredQueries'' queries_path
          (queries_WriteToRequest R p) (queries_ReadResponse C) (rgs_Context p) (rgs_HTTPClient p)) s)"

definition NeutronInterchainQueriesRegisteredQuery where
  "NeutronInterchainQueriesRegisteredQuery Submit R D C params opts s =
     (let p = (case params of None \<Rightarrow> NewRegisteredQueryParams D | Some p \<Rightarrow> p) in
      submit_op Submit opts
        (operation ''NeutronInterchainQueriesRegisteredQuery'' query_path
          (query_WriteToRequest R p) (query_ReadResponse C) (rg_Context p) (rg_HTTPClient p)) s)"

text \<open>The two calls as the subscriber makes them (\<open>internal/subscriber/utils.go\<close>).\<close>

definition subscriber_RegisteredQueries where
  "subscriber_RegisteredQueries Submit R D C ctx owners connectionID pageKey s =
     NeutronInterchainQueriesRegisteredQueries Submit R D C
       (Some \<lparr>rgs_ConnectionID = Some connectionID, Owners = Some owners, PaginationCountTotal = None,
         PaginationKey = pageKey, PaginationLimit = None, PaginationOffset = None, PaginationReverse = None,
         rgs_timeout = 0, rgs_Context = Some ctx, rgs_HTTPClient = None\<rparr>) [] s"

definition subscriber_RegisteredQuery where
  "subscriber_RegisteredQuery Submit R D C ctx queryId s =
     NeutronInterchainQueriesRegisteredQuery Submit R D C
       (Some \<lparr>rg_QueryID = Some queryId, rg_timeout = 0, rg_Context = Some ctx, rg_HTTPClient = None\<rparr>) [] s"

section \<open>Constructors of the clients\<close>

record TransportConfig =
  tr_Host :: string
  tr_BasePath :: string
  tr_Schemes :: "string list"

definition DefaultTransportConfig :: TransportConfig where
  "DefaultTransportConfig = \<lparr>tr_Host = ''localhost'', tr_BasePath = ''/'', tr_Schemes = [''http'']\<rparr>"

record ('t, 'f) QueryClient =
  qc_transport :: 't
  qc_formats :: 'f

record ('t, 'f) HTTPAPIConsole =
  hc_Query :: "('t, 'f) QueryClient"
  hc_Transport :: 't

definition query_New :: "'t \<Rightarrow> 'f \<Rightarrow> ('t, 'f) QueryClient" where
  "query_New transport formats = \<lparr>qc_transport = transport, qc_formats = formats\<rparr>"

definition client_New :: "'f \<Rightarrow> 't \<Rightarrow> 'f option \<Rightarrow> ('t, 'f) HTTPAPIConsole" where
  "client_New strfmt_Default transport formats =
     (let f = (case formats of None \<Rightarrow> strfmt_Default | Some f \<Rightarrow> f)
      in \<lparr>hc_Query = query_New transport f, hc_Transport = transport\<rparr>)"

text \<open>The setters of the transport configuration, and the client with the default one.\<close>

definition WithHost :: "string \<Rightarrow> TransportConfig \<Rightarrow> TransportConfig" where
  "WithHost host cfg = cfg\<lparr>tr_Host := host\<rparr>"

definition WithBasePath :: "string \<Rightarrow> TransportConfig \<Rightarrow> TransportConfig" where
  "WithBasePath basePath cfg = cfg\<lparr>tr_BasePath := basePath\<rparr>"

definition WithSchemes :: "string list \<Rightarrow> TransportConfig \<Rightarrow> TransportConfig" where
  "WithSchemes schemes cfg = cfg\<lparr>tr_Schemes := schemes\<rparr>"

definition NewHTTPClientWithConfig ::
  "'f \<Rightarrow> (string \<Rightarrow> string \<Rightarrow> string list \<Rightarrow> 't) \<Rightarrow> 'f option \<Rightarrow> TransportConfig option \<Rightarrow> ('t, 'f) HTTPAPIConsole" where
  "NewHTTPClientWithConfig strfmt_Default newTransport formats cfg =
     (let c = (case cfg of None \<Rightarrow> DefaultTransportConfig | Some c \<Rightarrow> c)
      in client_New strfmt_Default (newTransport (tr_Host c) (tr_BasePath c) (tr_Schemes c)) formats)"

definition NewHTTPClient ::
  "'f \<Rightarrow> (string \<Rightarrow> string \<Rightarrow> string list \<Rightarrow> 't) \<Rightarrow> 'f option \<Rightarrow> ('t, 'f) HTTPAPIConsole" where
  "NewHTTPClient strfmt_Default newTransport formats = NewHTTPClientWithConfig strfmt_Default newTransport formats None"

definition SetTransport :: "'t \<Rightarrow> ('t, 'f) HTTPAPIConsole \<Rightarrow> ('t, 'f) HTTPAPIConsole" where
  "SetTransport transport c = c\<lparr>hc_Transport := transport, hc_Query := (hc_Query c)\<lparr>qc_transport := transport\<rparr>\<rparr>"

definition restClientBasePath :: string where
  "restClientBasePath = ''/''"

text \<open>\<open>raw.NewRESTClient\<close>: \<open>parse\<close> is \<open>url.Parse\<close>, read down to the host and the scheme.\<close>

definition NewRESTClient ::
  "(string \<Rightarrow> (string \<times> string) res) \<Rightarrow> 'f \<Rightarrow> (string \<Rightarrow> string \<Rightarrow> string list \<Rightarrow> 't) \<Rightarrow> string \<Rightarrow>
   ('t, 'f) HTTPAPIConsole res" where
  "NewRESTClient parse strfmt_Default newTransport restAddr =
     res_try (parse restAddr) ''failed to parse restAddr'' (\<lambda>(host, scheme).
       Ok (NewHTTPClientWithConfig strfmt_Default newTransport None
         (Some \<lparr>tr_Host = host, tr_BasePath = restClientBasePath, tr_Schemes = [scheme]\<rparr>)))"

definition socketEndpoint :: string where
  "socketEndpoint = ''/websocket''"

text \<open>\<open>raw.NewRPCClient\<close>: the HTTP client with its timeout, the RPC client over it, its start.\<close>

definition NewRPCClient ::
  "(string \<Rightarrow> 'c res) \<Rightarrow> (int \<Rightarrow> 'c \<Rightarrow> 'c) \<Rightarrow> (string \<Rightarrow> string \<Rightarrow> 'c \<Rightarrow> 'n res) \<Rightarrow> ('n \<Rightarrow> 's \<Rightarrow> unit res \<times> 's) \<Rightarrow>
   string \<Rightarrow> int \<Rightarrow> 's \<Rightarrow> 'n res \<times> 's" where
  "NewRPCClient defaultHTTPClient setTimeout newWithClient start addr timeout s =
     go_try (defaultHTTPClient addr, s) (''could not create http client with address='' @ addr) (\<lambda>httpClient s.
     go_try (newWithClient addr socketEndpoint (setTimeout timeout httpClient), s)
       (''could not initialize rpc client from http client with address='' @ addr) (\<lambda>rpcClient s.
     go_try (start rpcClient s) (''could not start rpc client with address='' @ addr) (\<lambda>_ s. (Ok rpcClient, s))))"

text \<open>
  The subscriber has constructors of its own (\<open>internal/subscriber/utils.go\<close>): its RPC client is
  not started, its REST client has a timeout (which it sets on \<open>http.DefaultClient\<close>).
\<close>

definition rpcWSEndpoint :: string where
  "rpcWSEndpoint = ''/websocket''"

definition subscriber_NewRPCClient ::
  "(string \<Rightarrow> 'c res) \<Rightarrow> (int \<Rightarrow> 'c \<Rightarrow> 'c) \<Rightarrow> (string \<Rightarrow> string \<Rightarrow> 'c \<Rightarrow> 'n res) \<Rightarrow> string \<Rightarrow> int \<Rightarrow> 'n res" where
  "subscriber_NewRPCClient defaultHTTPClient setTimeout newWithClient rpcAddr timeout =
     res_then (defaultHTTPClient rpcAddr) (\<lambda>httpClient.
     res_try (newWithClient rpcAddr rpcWSEndpoint (setTimeout timeout httpClient))
       ''failed to create tendermint rpc client'' Ok)"

definition subscriber_NewRESTClient ::
  "(string \<Rightarrow> (string \<times> string) res) \<Rightarrow> 'f \<Rightarrow> (string \<Rightarrow> string \<Rightarrow> string list \<Rightarrow> int \<Rightarrow> 't) \<Rightarrow> string \<Rightarrow> int \<Rightarrow>
   ('t, 'f) HTTPAPIConsole res" where
  "subscriber_NewRESTClient parse strfmt_Default newWithClient restAddr timeout =
     res_try (parse restAddr) ''failed to parse restAddr'' (\<lambda>(host, scheme).
       Ok (client_New strfmt_Default (newWithClient host restClientBasePath [scheme] timeout) None))"

section \<open>What a call sends and returns\<close>

text \<open>
  \<open>transport_ok\<close>: the documented behaviour of the go-openapi transport on a call without
  error: it lets the parameters write a fresh request, sends it with the method and the path
  pattern, and returns what the reader makes of the response. \<open>exchange\<close> is the server.
\<close>

definition transport_ok ::
  "('s, 'q, 'c, 'h, 'a) transport \<Rightarrow> 'q \<Rightarrow> (string \<Rightarrow> string \<Rightarrow> 'q \<Rightarrow> int \<Rightarrow> bytes \<Rightarrow> bool) \<Rightarrow> bool" where
  "transport_ok Submit fresh exchange \<longleftrightarrow> (\<forall>oper s a s'. Submit oper s = (Inr a, s') \<longrightarrow>
     (\<exists>q code body. op_Params oper fresh = (Inr (), q) \<and>
        exchange (op_Method oper) (op_PathPattern oper) q code body \<and> op_Reader oper code body = Inr a))"

text \<open>A request as the list of what was written into it, the last first.\<close>

datatype written = Timeout int | QueryParam string "string list" | PathParam string string

definition recorder :: "written list ClientRequest" where
  "recorder = \<lparr>req_SetTimeout = (\<lambda>t q. (Ok (), Timeout t # q)),
     req_SetQueryParam = (\<lambda>n vs q. (Ok (), QueryParam n vs # q)),
     req_SetPathParam = (\<lambda>n v q. (Ok (), PathParam n v # q))\<rparr>"

lemma write_param_recorder:
  "write_param recorder n fmt p q =
     (Ok (), (case p of None \<Rightarrow> [] | Some x \<Rightarrow> if fmt x = [] then [] else [QueryParam n [fmt x]]) @ q)"
  by (auto simp: write_param_def recorder_def split: option.splits)

lemma queries_written:
  "queries_WriteToRequest recorder
     \<lparr>rgs_ConnectionID = Some connectionID, Owners = Some owners, PaginationCountTotal = None,
      PaginationKey = pageKey, PaginationLimit = None, PaginationOffset = None, PaginationReverse = None,
      rgs_timeout = t, rgs_Context = ctx, rgs_HTTPClient = client\<rparr> [] =
   (Ok (), (case pageKey of None \<Rightarrow> [] | Some k \<Rightarrow> if k = [] then [] else [QueryParam ''pagination.key'' [base64_encode k]]) @
      [QueryParam ''owners'' owners] @ (if connectionID = [] then [] else [QueryParam ''connection_id'' [connectionID]]) @
      [Timeout t])"
proof -
  have "req_SetTimeout recorder x q = (Ok (), Timeout x # q)"
    "req_SetQueryParam recorder n vs q = (Ok (), QueryParam n vs # q)" for x q n vs
    by (simp_all add: recorder_def)
  then show ?thesis
    by (cases pageKey) (simp_all add: queries_WriteToRequest_def write_param_recorder bindParamOwners_def)
qed

text \<open>A call succeeds exactly on status 200 with a body that decodes, or is empty.\<close>

lemma read_response_OK:
  "read_response status C code body = Inr (RespOK p) \<longleftrightarrow>
     code = 200 \<and> (Consume_OK C body = Inr p \<or> Consume_OK C body = Err ErrEOF \<and> p = zero_OK C)"
  by (auto simp: read_response_def OK_readResponse_def res_then_Inr_iff
      split: if_splits sum.splits fault.splits goerr.splits)

lemma submit_op_Inr:
  "submit_op Submit [] oper s = (Inr p, s') \<longleftrightarrow> Submit oper s = (Inr (RespOK p), s')"
proof -
  obtain r s1 where "Submit oper s = (r, s1)" by fastforce
  then show ?thesis by (cases r; cases "projr r") (auto simp: submit_op_def)
qed

lemma transport_okD:
  assumes "transport_ok Submit fresh exchange" "Submit oper s = (Inr a, s')"
  obtains q code body where "op_Params oper fresh = (Inr (), q)"
    "exchange (op_Method oper) (op_PathPattern oper) q code body" "op_Reader oper code body = Inr a"
  using assms unfolding transport_ok_def by blast

lemma RegisteredQueries_Inr:
  fixes Submit :: "('s, written list, 'c, 'h, ('p, 'e) api_response) transport"
  assumes tr: "transport_ok Submit [] exchange"
    and call: "subscriber_RegisteredQueries Submit recorder D C ctx owners connectionID pageKey s = (Inr p, s')"
  obtains q body where
    "exchange ''GET'' queries_path q 200 body"
    "QueryParam ''owners'' owners \<in> set q"
    "connectionID \<noteq> [] \<Longrightarrow> QueryParam ''connection_id'' [connectionID] \<in> set q"
    "\<And>k. pageKey = Some k \<Longrightarrow> k \<noteq> [] \<Longrightarrow> QueryParam ''pagination.key'' [base64_encode k] \<in> set q"
    "Consume_OK C body = Inr p \<or> Consume_OK C body = Err ErrEOF \<and> p = zero_OK C"
proof -
  let ?p = "\<lparr>rgs_ConnectionID = Some connectionID, Owners = Some owners, PaginationCountTotal = None,
      PaginationKey = pageKey, PaginationLimit = None, PaginationOffset = None, PaginationReverse = None,
      rgs_timeout = 0, rgs_Context = Some ctx, rgs_HTTPClient = None :: 'h option\<rparr>"
  let ?op = "operation ''NeutronInterchainQueriesRegisteredQueries'' queries_path
      (queries_WriteToRequest recorder ?p) (queries_ReadResponse C) (Some ctx) (None :: 'h option)"
  from call have "Submit ?op s = (Inr (RespOK p), s')"
    by (simp add: subscriber_RegisteredQueries_def NeutronInterchainQueriesRegisteredQueries_def submit_op_Inr)
  from transport_okD [OF tr this] obtain q code body where
    1: "queries_WriteToRequest recorder ?p [] = (Inr (), q)" and
    2: "exchange ''GET'' queries_path q code body" and
    3: "queries_ReadResponse C code body = Inr (RespOK p)"
    by (auto simp: operation_def)
  from 3 have "code = 200" and body: "Consume_OK C body = Inr p \<or> Consume_OK C body = Err ErrEOF \<and> p = zero_OK C"
    by (simp_all add: queries_ReadResponse_def read_response_OK)
  with 2 have ex: "exchange ''GET'' queries_path q 200 body" by simp
  show thesis
    using 1 unfolding queries_written
    by (intro that [OF ex _ _ _ body]) auto
qed

end
