(* ===== verification/Tx_Querier.thy ===== *)
theory Tx_Querier
  imports Relay_Types
begin

text \<open>
  \<open>internal/txquerier/txquerier.go\<close>: the paginated search for transactions with proofs. The
  RPC client is a parameter. The goroutine of \<open>SearchTransactions\<close> and its channels are the
  list of the transactions it sends before it closes them, and the error it sends, if any.
\<close>

section \<open>The chain client\<close>

text \<open>\<open>ResultTx.Height\<close> is an \<open>int64\<close>, kept as its bits.\<close>

record ResultTx =
  rx_Tx :: bytes
  rx_Height :: "64 word"
  rx_Index :: nat
  rx_Proof :: merkle_Proof

record ResultTxSearch =
  Txs :: "ResultTx list"
  TotalCount :: int

text \<open>
  \<open>prove_result\<close> is \<open>NewResults(txsResults).ProveResult(i)\<close>, \<open>tx_String\<close> is \<open>Tx.String()\<close>;
  \<open>ctx_done\<close> tells which branch the \<open>select\<close> between the send and \<open>ctx.Done()\<close> takes.
\<close>

record ('s, 'r) TXQuerierSrv =
  TxSearch :: "string \<Rightarrow> bool \<Rightarrow> int \<Rightarrow> int \<Rightarrow> string \<Rightarrow> 's \<Rightarrow> ResultTxSearch res \<times> 's"
  BlockResults :: "64 word \<Rightarrow> 's \<Rightarrow> 'r list res \<times> 's"
  prove_result :: "'r list \<Rightarrow> nat \<Rightarrow> merkle_Proof res"
  tx_String :: "bytes \<Rightarrow> string"
  ctx_done :: "'s \<Rightarrow> bool \<times> 's"

definition NewTXQuerySrv where
  "NewTXQuerySrv search results prove str cdone =
     \<lparr>TxSearch = search, BlockResults = results, prove_result = prove, tx_String = str, ctx_done = cdone\<rparr>"

definition perPage :: int where
  "perPage = 100"

definition orderBy :: string where
  "orderBy = ''asc''"

section \<open>The search\<close>

definition cryptoProofFromMerkleProof :: "merkle_Proof \<Rightarrow> crypto_Proof" where
  "cryptoProofFromMerkleProof mp = \<lparr>cp_Total = mp_Total mp, cp_Index = mp_Index mp,
     cp_LeafHash = mp_LeafHash mp, cp_Aunts = mp_Aunts mp\<rparr>"

definition proofDelivery ::
  "('s, 'r) TXQuerierSrv \<Rightarrow> 64 word \<Rightarrow> nat \<Rightarrow> 's \<Rightarrow> (crypto_Proof \<times> 'r) res \<times> 's" where
  "proofDelivery t blockHeight txIndexInBlock s =
     go_try (BlockResults t blockHeight s)
       (''failed to fetch block results for height = '' @ FormatInt (sint blockHeight)) (\<lambda>txsResults s.
     go_then (prove_result t txsResults txIndexInBlock, s) (\<lambda>txProof s.
       if txIndexInBlock < length txsResults
       then (Ok (cryptoProofFromMerkleProof txProof, txsResults ! txIndexInBlock), s)
       else (Panic ''index out of range'', s)))"

text \<open>How one page ends: all sent, returned on \<open>ctx.Done()\<close>, or returned with an error sent.\<close>

datatype page_end = PageSent | Returned | Failed goerr

fun send_page ::
  "('s, 'r) TXQuerierSrv \<Rightarrow> ResultTx list \<Rightarrow> 'r Transaction list \<Rightarrow> 's \<Rightarrow>
   ('r Transaction list \<times> page_end) res \<times> 's" where
  "send_page t [] sent s = (Ok (sent, PageSent), s)"
| "send_page t (tx # txs) sent s =
     (case proofDelivery t (rx_Height tx) (rx_Index tx) s of
        (Inl (GoErr err), s) \<Rightarrow>
          (Ok (sent, Failed (ErrWrap (''could not proof transaction with hash='' @ tx_String t (rx_Tx tx)) err)), s)
      | (Inl f, s) \<Rightarrow> (Inl f, s)
      | (Inr (deliveryProof, deliveryResult), s) \<Rightarrow>
          (let txProof = \<lparr>InclusionProof = cryptoProofFromMerkleProof (rx_Proof tx),
             DeliveryProof = deliveryProof, Response = deliveryResult, Data = rx_Tx tx\<rparr>
           in case ctx_done t s of (fin, s) \<Rightarrow>
                if fin then (Ok (sent, Returned), s)
                else send_page t txs (sent @ [\<lparr>Tx = Some txProof, Height = rx_Height tx\<rparr>]) s))"

text \<open>The page loop, on fuel: one unit per page.\<close>

fun search_loop ::
  "nat \<Rightarrow> ('s, 'r) TXQuerierSrv \<Rightarrow> string \<Rightarrow> int \<Rightarrow> 'r Transaction list \<Rightarrow> 's \<Rightarrow>
   ('r Transaction list \<times> goerr option) res \<times> 's" where
  "search_loop 0 t query page sent s = (Inl OutOfFuel, s)"
| "search_loop (Suc fuel) t query page sent s =
     (case TxSearch t query True page perPage orderBy s of
        (Inl (GoErr err), s) \<Rightarrow> (Ok (sent, Some (ErrWrap ''could not query new transactions to proof'' err)), s)
      | (Inl f, s) \<Rightarrow> (Inl f, s)
      | (Inr searchResult, s) \<Rightarrow>
          if length (Txs searchResult) = 0 then (Ok (sent, None), s)
          else go_then (send_page t (Txs searchResult) sent s) (\<lambda>(sent, e) s.
            case e of
              Failed err \<Rightarrow> (Ok (sent, Some err), s)
            | Returned \<Rightarrow> (Ok (sent, None), s)
            | PageSent \<Rightarrow>
                if page * perPage \<ge> TotalCount searchResult then (Ok (sent, None), s)
                else search_loop fuel t query (page + 1) sent s))"

definition SearchTransactions ::
  "nat \<Rightarrow> ('s, 'r) TXQuerierSrv \<Rightarrow> string \<Rightarrow> 's \<Rightarrow> ('r Transaction list \<times> goerr option) res \<times> 's" where
  "SearchTransactions fuel t query s = search_loop fuel t query 1 [] s"

definition TXQuerierOf :: "nat \<Rightarrow> ('s, 'r) TXQuerierSrv \<Rightarrow> ('s, 'r) TXQuerier" where
  "TXQuerierOf fuel t = \<lparr>tq_SearchTransactions = SearchTransactions fuel t\<rparr>"

section \<open>The pagination is complete\<close>

text \<open>
  A node that holds the transactions \<open>all\<close> for a query: a page is its slice of at most 100 of them,
  the total their number, and it refuses any page after the last (the first page of an empty answer
  is allowed); the results of the blocks are \<open>results\<close> and the context is not cancelled.
\<close>

definition node_serves ::
  "('s, 'r) TXQuerierSrv \<Rightarrow> string \<Rightarrow> ResultTx list \<Rightarrow> (64 word \<Rightarrow> 'r list) \<Rightarrow> bool" where
  "node_serves t query all results \<longleftrightarrow>
     (\<forall>page s. 1 \<le> page \<longrightarrow>
        (if page = 1 \<or> 100 * (page - 1) < length all
         then TxSearch t query True (int page) 100 ''asc'' s =
           (Ok \<lparr>Txs = take 100 (drop (100 * (page - 1)) all), TotalCount = int (length all)\<rparr>, s)
         else \<exists>e. TxSearch t query True (int page) 100 ''asc'' s = (Err e, s))) \<and>
     (\<forall>h s. BlockResults t h s = (Ok (results h), s)) \<and>
     (\<forall>rs i. i < length rs \<longrightarrow> (\<exists>p. prove_result t rs i = Ok p)) \<and>
     (\<forall>tx \<in> set all. rx_Index tx < length (results (rx_Height tx))) \<and>
     (\<forall>s. ctx_done t s = (False, s))"

definition proven ::
  "('s, 'r) TXQuerierSrv \<Rightarrow> (64 word \<Rightarrow> 'r list) \<Rightarrow> ResultTx \<Rightarrow> 'r Transaction" where
  "proven t results tx = \<lparr>Tx = Some \<lparr>
       InclusionProof = cryptoProofFromMerkleProof (rx_Proof tx),
       DeliveryProof = cryptoProofFromMerkleProof (case prove_result t (results (rx_Height tx)) (rx_Index tx) of
         Inr p \<Rightarrow> p | Inl _ \<Rightarrow> \<lparr>mp_Total = 0, mp_Index = 0, mp_LeafHash = [], mp_Aunts = []\<rparr>),
       Response = results (rx_Height tx) ! rx_Index tx, Data = rx_Tx tx\<rparr>, Height = rx_Height tx\<rparr>"

lemma send_page_all:
  assumes "node_serves t query all results" "set txs \<subseteq> set all"
  shows "send_page t txs sent s = (Ok (sent @ map (proven t results) txs, PageSent), s)"
  using assms(2)
proof (induction txs arbitrary: sent)
  case (Cons tx txs)
  from Cons.prems assms(1) obtain p where
    "rx_Index tx < length (results (rx_Height tx))"
    "prove_result t (results (rx_Height tx)) (rx_Index tx) = Ok p"
    "BlockResults t (rx_Height tx) s = (Ok (results (rx_Height tx)), s)" "ctx_done t s = (False, s)"
    unfolding node_serves_def by (metis list.set_intros(1) subsetD)
  with Cons show ?case by (simp add: proofDelivery_def proven_def Let_def)
qed simp

lemma search_loop_all:
  assumes "node_serves t query all results" "length all \<le> 100 * (fuel + page - 1)" "1 \<le> page" "0 < fuel"
    "page = 1 \<or> 100 * (page - 1) < length all"
  shows "search_loop fuel t query (int page) sent s =
    (Ok (sent @ map (proven t results) (drop (100 * (page - 1)) all), None), s)"
  using assms(2-5)
proof (induction fuel arbitrary: page sent)
  case (Suc fuel)
  let ?rest = "drop (100 * (page - 1)) all"
  have page: "TxSearch t query True (int page) perPage orderBy s =
      (Ok \<lparr>Txs = take 100 ?rest, TotalCount = int (length all)\<rparr>, s)"
    using assms(1) Suc.prems by (simp add: node_serves_def perPage_def orderBy_def)
  have sent: "send_page t (take 100 ?rest) sent s = (Ok (sent @ map (proven t results) (take 100 ?rest), PageSent), s)"
    by (rule send_page_all [OF assms(1)]) (meson order_trans set_drop_subset set_take_subset)
  have next_page: "drop (100 * page) all = drop 100 ?rest"
    using Suc.prems(2) by (simp add: drop_drop algebra_simps)
  show ?case
  proof (cases "?rest = []")
    case True
    with page show ?thesis by simp
  next
    case False
    show ?thesis
    proof (cases "int (length all) \<le> int page * perPage")
      case True
      then have "drop (100 * page) all = []" by (simp add: perPage_def)
      with next_page have "take 100 ?rest = ?rest" by simp
      with False True page sent show ?thesis by simp
    next
      case more: False
      have "search_loop fuel t query (int (Suc page)) (sent @ map (proven t results) (take 100 ?rest)) s =
        (Ok ((sent @ map (proven t results) (take 100 ?rest)) @ map (proven t results) (drop (100 * (Suc page - 1)) all), None), s)"
        using Suc.prems more by (intro Suc.IH) (auto simp: perPage_def)
      moreover have "map (proven t results) (take 100 ?rest) @ map (proven t results) (drop (100 * page) all) =
          map (proven t results) ?rest"
        by (simp only: next_page map_append [symmetric] append_take_drop_id)
      ultimately show ?thesis using False more page sent by (auto simp: add.commute min_def)
    qed
  qed
qed auto


lemma SearchTransactions_all:
  assumes "node_serves t query all results" "length all \<le> 100 * fuel" "0 < fuel"
  shows "SearchTransactions fuel t query s = (Ok (map (proven t results) all, None), s)"
  using search_loop_all [OF assms(1), of fuel 1 "[]" s] assms(2,3) by (simp add: SearchTransactions_def)

end
