(* ===== verification/Trusted_Headers.thy ===== *)
theory Trusted_Headers
  imports Runtime Strconv
begin

text \<open>
  \<open>internal/trusted_headers/fetcher.go\<close>: headers of the target chain with a trusted height
  and validator set injected. The queries to the two chains are parameters.
\<close>

section \<open>The chains\<close>

text \<open>
  One consensus state of the IBC client: its height, and its timestamp when the cached value
  of the packed state is an \<open>ibcexported.ConsensusState\<close>.
\<close>

record ConsensusStateWithHeight =
  cs_Height :: IbcHeight
  cs_Timestamp :: "u64 option"

text \<open>A page of the answer; \<open>GetPagination()\<close> is nil when the answer has no pagination.\<close>

record ConsensusStatesPage =
  ConsensusStates :: "ConsensusStateWithHeight list"
  cp_NextKey :: "bytes option"

record ConsensusStatesRequest =
  rq_ClientId :: string
  rq_Key :: bytes
  rq_Limit :: u64
  rq_Reverse :: bool
  rq_CountTotal :: bool

text \<open>The client state's dynamic type: a Tendermint client with its trusting period, or another.\<close>

datatype client_state = TmClientState int | OtherClientState string

text \<open>What \<open>QueryIBCHeader\<close> returns: a Tendermint header (whose conversion may fail), or another.\<close>

datatype 'x ibc_header = TendermintIBCHeader "'x tm_Header res" | OtherIBCHeader string

record ('s, 'x) TrustedHeaderFetcherSrv =
  thf_runtime :: "('s, Metrics) runtime"
  is_CosmosProvider :: bool
  ClientID :: string
  query_ConsensusStates :: "ConsensusStatesRequest \<Rightarrow> 's \<Rightarrow> ConsensusStatesPage res \<times> 's"
  QueryClientState :: "int \<Rightarrow> string \<Rightarrow> 's \<Rightarrow> client_state res \<times> 's"
  QueryIBCHeader :: "int \<Rightarrow> 's \<Rightarrow> 'x ibc_header res \<times> 's"
  thf_retry :: "('s, 'x tm_Header) retry"
  revisionNumber :: u64

definition consensusPageSize :: u64 where
  "consensusPageSize = 10"

text \<open>\<open>time.Minute * 5\<close> in nanoseconds.\<close>

definition submissionMarginPeriod :: int where
  "submissionMarginPeriod = 300000000000"

definition NewTrustedHeaderFetcher ::
  "('s, Metrics) runtime \<Rightarrow> bool \<Rightarrow> string \<Rightarrow>
   (ConsensusStatesRequest \<Rightarrow> 's \<Rightarrow> ConsensusStatesPage res \<times> 's) \<Rightarrow>
   (int \<Rightarrow> string \<Rightarrow> 's \<Rightarrow> client_state res \<times> 's) \<Rightarrow> (int \<Rightarrow> 's \<Rightarrow> 'x ibc_header res \<times> 's) \<Rightarrow>
   ('s, 'x tm_Header) retry \<Rightarrow> (string \<Rightarrow> u64) \<Rightarrow> string \<Rightarrow> ('s, 'x) TrustedHeaderFetcherSrv" where
  "NewTrustedHeaderFetcher R cosmos client qcs qclient qheader rty ParseChainID targetChainID =
     \<lparr>thf_runtime = R, is_CosmosProvider = cosmos, ClientID = client, query_ConsensusStates = qcs,
      QueryClientState = qclient, QueryIBCHeader = qheader, thf_retry = rty,
      revisionNumber = ParseChainID targetChainID\<rparr>"

definition requestPage :: "string \<Rightarrow> bytes \<Rightarrow> ConsensusStatesRequest" where
  "requestPage clientID nextKey = \<lparr>rq_ClientId = clientID, rq_Key = nextKey, rq_Limit = consensusPageSize,
     rq_Reverse = True, rq_CountTotal = False\<rparr>"

section \<open>The trusted height\<close>

text \<open>
  \<open>time.Unix(0, int64(ts))\<close> reads the timestamp as a signed number of nanoseconds; the
  conditions are evaluated in the code's order, the clock is read for every state.
\<close>

definition isSuitableCS ::
  "('s, 'x) TrustedHeaderFetcherSrv \<Rightarrow> ConsensusStateWithHeight \<Rightarrow> int \<Rightarrow> u64 \<Rightarrow> 's \<Rightarrow> bool res \<times> 's" where
  "isSuitableCS thf cs trustingPeriod height s =
     (case cs_Timestamp cs of
        None \<Rightarrow> (Err (ErrText ''couldn't cast consensus state value to ibcexported.ConsensusState''), s)
      | Some ts \<Rightarrow>
          (let olderThanHeightInSameRevision =
                 (RevisionNumber (cs_Height cs) = revisionNumber thf \<and> RevisionHeight (cs_Height cs) < height)
           in case rt_now (thf_runtime thf) s of (now, s) \<Rightarrow>
             (let inTrustingPeriod = (sint ts + trustingPeriod - submissionMarginPeriod > now)
              in (Ok (olderThanHeightInSameRevision \<and> inTrustingPeriod), s))))"

definition fetchTrustingPeriod :: "('s, 'x) TrustedHeaderFetcherSrv \<Rightarrow> 's \<Rightarrow> int res \<times> 's" where
  "fetchTrustingPeriod thf s =
     go_try (QueryClientState thf 0 (ClientID thf) s)
       (''could not fetch client state for ClientId='' @ ClientID thf) (\<lambda>clientState s.
     case clientState of
       OtherClientState t \<Rightarrow> (Err (ErrText (''expected client state of type *tmclient.ClientState, got '' @ t)), s)
     | TmClientState period \<Rightarrow>
         if period = 0 then (Err (ErrText ''got empty TrustingPeriod''), s) else (Ok period, s))"

text \<open>The inner loop: the first suitable state of a page.\<close>

fun scan_page ::
  "('s, 'x) TrustedHeaderFetcherSrv \<Rightarrow> int \<Rightarrow> u64 \<Rightarrow> ConsensusStateWithHeight list \<Rightarrow> 's \<Rightarrow>
   IbcHeight option res \<times> 's" where
  "scan_page thf trustingPeriod height [] s = (Ok None, s)"
| "scan_page thf trustingPeriod height (cs # css) s =
     go_then (isSuitableCS thf cs trustingPeriod height s) (\<lambda>suitable s.
       if suitable then (Ok (Some (cs_Height cs)), s)
       else scan_page thf trustingPeriod height css s)"

text \<open>The outer loop, on fuel: one unit per page.\<close>

fun search_pages ::
  "nat \<Rightarrow> ('s, 'x) TrustedHeaderFetcherSrv \<Rightarrow> int \<Rightarrow> u64 \<Rightarrow> bytes \<Rightarrow> 's \<Rightarrow> IbcHeight res \<times> 's" where
  "search_pages 0 thf trustingPeriod height nextKey s = (Inl OutOfFuel, s)"
| "search_pages (Suc fuel) thf trustingPeriod height nextKey s =
     go_try (query_ConsensusStates thf (requestPage (ClientID thf) nextKey) s)
       (''failed to get consensus states for client ID '' @ ClientID thf) (\<lambda>page s.
     go_then (scan_page thf trustingPeriod height (ConsensusStates page) s) (\<lambda>found s.
       case found of
         Some h \<Rightarrow> (Ok h, s)
       | None \<Rightarrow>
           (case cp_NextKey page of
              None \<Rightarrow> (Panic ''nil pointer dereference'', s)
            | Some key \<Rightarrow>
                if length key = 0
                then (Err (ErrText (''could not find any trusted consensus state for height='' @ FormatUint height)), s)
                else search_pages fuel thf trustingPeriod height key s)))"

definition getTrustedHeight ::
  "nat \<Rightarrow> ('s, 'x) TrustedHeaderFetcherSrv \<Rightarrow> u64 \<Rightarrow> 's \<Rightarrow> IbcHeight res \<times> 's" where
  "getTrustedHeight fuel thf height s =
     (if \<not> is_CosmosProvider thf
      then (Err (ErrText ''failed to cast ChainProvider to concrete type (cosmos.CosmosProvider)''), s)
      else go_try (fetchTrustingPeriod thf s) ''failed to fetch trusting period'' (\<lambda>trustingPeriod s.
        search_pages fuel thf trustingPeriod height [] s))"

section \<open>The header\<close>

definition queryLightHeader :: "('s, 'x) TrustedHeaderFetcherSrv \<Rightarrow> u64 \<Rightarrow> 's \<Rightarrow> 'x tm_Header res \<times> 's" where
  "queryLightHeader thf height s =
     go_then (QueryIBCHeader thf (sint height) s) (\<lambda>header s.
       case header of
         OtherIBCHeader t \<Rightarrow> (Err (ErrText (''expected header of type provider.TendermintIBCHeader, got '' @ t)), s)
       | TendermintIBCHeader r \<Rightarrow>
           (res_try r ''failed to convert provider.TendermintIBCHeader to tmclient.Header'' Ok, s))"

definition retryGetLightSignedHeaderAtHeight ::
  "('s, 'x) TrustedHeaderFetcherSrv \<Rightarrow> u64 \<Rightarrow> 's \<Rightarrow> 'x tm_Header res \<times> 's" where
  "retryGetLightSignedHeaderAtHeight thf height s =
     go_try (thf_retry thf (queryLightHeader thf height) s)
       (''failed to get trusted header, please ensure header at the height '' @ FormatUint height @
        '' has not been pruned by the connected node'') (\<lambda>tmHeader s. (Ok tmHeader, s))"

definition trustedHeaderAtHeight ::
  "('s, 'x) TrustedHeaderFetcherSrv \<Rightarrow> IbcHeight \<Rightarrow> u64 \<Rightarrow> 's \<Rightarrow> 'x tm_Header res \<times> 's" where
  "trustedHeaderAtHeight thf trustedHeight height s =
     go_try (retryGetLightSignedHeaderAtHeight thf height s) ''could not get light header'' (\<lambda>header s.
     go_try (retryGetLightSignedHeaderAtHeight thf (RevisionHeight trustedHeight + 1) s)
       ''could not get next light header'' (\<lambda>nextHeader s.
     (Ok (header\<lparr>TrustedHeight := trustedHeight, TrustedValidators := ValidatorSet nextHeader\<rparr>), s)))"

definition Fetch ::
  "nat \<Rightarrow> ('s, 'x) TrustedHeaderFetcherSrv \<Rightarrow> u64 \<Rightarrow> 's \<Rightarrow> 'x tm_Header res \<times> 's" where
  "Fetch fuel thf height s =
     (case rt_now (thf_runtime thf) s of (start, s) \<Rightarrow>
      go_try (getTrustedHeight fuel thf height s) ''no satisfying consensus state found'' (\<lambda>trustedHeight s.
      go_try (trustedHeaderAtHeight thf trustedHeight height s) ''failed to get header for src chain'' (\<lambda>header s.
      (Ok header, observe_since (thf_runtime thf) (RecordActionDuration ''TrustedHeaderFetcher'') start s))))"

definition TrustedHeaderFetcherOf ::
  "nat \<Rightarrow> ('s, 'x) TrustedHeaderFetcherSrv \<Rightarrow> ('s, 'x) TrustedHeaderFetcher" where
  "TrustedHeaderFetcherOf fuel thf = \<lparr>hf_Fetch = Fetch fuel thf\<rparr>"


section \<open>What a fetched header is\<close>

text \<open>The answer to the light client's question, as one predicate on a state and a reading of the clock.\<close>

definition suitable_at ::
  "('s, 'x) TrustedHeaderFetcherSrv \<Rightarrow> int \<Rightarrow> u64 \<Rightarrow> int \<Rightarrow> ConsensusStateWithHeight \<Rightarrow> bool" where
  "suitable_at thf period height now cs \<longleftrightarrow>
     RevisionNumber (cs_Height cs) = revisionNumber thf \<and> RevisionHeight (cs_Height cs) < height \<and>
     (case cs_Timestamp cs of None \<Rightarrow> False | Some ts \<Rightarrow> sint ts + period - submissionMarginPeriod > now)"

lemma isSuitableCS_True:
  assumes "isSuitableCS thf cs period height s = (Inr True, s')"
  obtains now where "rt_now (thf_runtime thf) s = (now, s')" "suitable_at thf period height now cs"
  using assms by (auto simp: isSuitableCS_def suitable_at_def Let_def split: option.splits prod.splits)

text \<open>\<open>I\<close> holds of every state in which the search asks the client or reads the clock.\<close>

definition search_keeps :: "('s, 'x) TrustedHeaderFetcherSrv \<Rightarrow> ('s \<Rightarrow> bool) \<Rightarrow> bool" where
  "search_keeps thf I \<longleftrightarrow> (\<forall>s. I s \<longrightarrow> I (snd (rt_now (thf_runtime thf) s)) \<and>
     I (snd (QueryClientState thf 0 (ClientID thf) s)) \<and>
     (\<forall>r. rq_ClientId r = ClientID thf \<longrightarrow> I (snd (query_ConsensusStates thf r s))))"

lemma search_keepsD:
  assumes "search_keeps thf I" "I s"
  shows "rt_now (thf_runtime thf) s = (t, s') \<Longrightarrow> I s'"
    "QueryClientState thf 0 (ClientID thf) s = (c, s') \<Longrightarrow> I s'"
    "query_ConsensusStates thf (requestPage (ClientID thf) k) s = (p, s') \<Longrightarrow> I s'"
  using assms unfolding search_keeps_def requestPage_def
  by (metis snd_conv, metis snd_conv, metis snd_conv ConsensusStatesRequest.select_convs(1))

lemma isSuitableCS_keeps:
  "search_keeps thf I \<Longrightarrow> I s \<Longrightarrow> isSuitableCS thf cs period height s = (r, s') \<Longrightarrow> I s'"
  by (auto simp: isSuitableCS_def Let_def split: option.splits prod.splits dest: search_keepsD(1))

lemma scan_page_keeps:
  "search_keeps thf I \<Longrightarrow> I s \<Longrightarrow> scan_page thf period height css s = (Inr r, s') \<Longrightarrow> I s'"
  by (induction thf period height css s rule: scan_page.induct)
    (auto simp: go_then_Inr_iff split: if_splits dest: isSuitableCS_keeps)

lemma scan_page_Some:
  "search_keeps thf I \<Longrightarrow> I s \<Longrightarrow> scan_page thf period height css s = (Inr (Some h), s') \<Longrightarrow>
   \<exists>cs sn. cs \<in> set css \<and> cs_Height cs = h \<and> I sn \<and> suitable_at thf period height (fst (rt_now (thf_runtime thf) sn)) cs"
proof (induction css arbitrary: s)
  case (Cons cs css)
  from Cons.prems(3) obtain b s1 where 1: "isSuitableCS thf cs period height s = (Inr b, s1)"
    and 2: "(if b then (Ok (Some (cs_Height cs)), s1) else scan_page thf period height css s1) = (Inr (Some h), s')"
    by (auto simp: go_then_Inr_iff)
  show ?case
  proof (cases b)
    case True
    with 1 obtain now where "rt_now (thf_runtime thf) s = (now, s1)" "suitable_at thf period height now cs"
      by (auto elim: isSuitableCS_True)
    with True 2 Cons.prems(2) show ?thesis by (intro exI [of _ cs] exI [of _ s]) auto
  next
    case False
    with 2 Cons.IH [OF Cons.prems(1) isSuitableCS_keeps [OF Cons.prems(1,2) 1]] show ?thesis by auto
  qed
qed simp

lemma search_pages_Inr:
  "search_keeps thf I \<Longrightarrow> I s \<Longrightarrow> search_pages fuel thf period height key s = (Inr h, s') \<Longrightarrow>
   \<exists>cs page k sq sp sn. query_ConsensusStates thf (requestPage (ClientID thf) k) sq = (Inr page, sp) \<and>
     cs \<in> set (ConsensusStates page) \<and> cs_Height cs = h \<and> I sn \<and>
     suitable_at thf period height (fst (rt_now (thf_runtime thf) sn)) cs"
proof (induction fuel arbitrary: key s)
  case (Suc fuel)
  from Suc.prems(3) obtain page s1 found s2 where
    q: "query_ConsensusStates thf (requestPage (ClientID thf) key) s = (Inr page, s1)" and
    scan: "scan_page thf period height (ConsensusStates page) s1 = (Inr found, s2)" and
    rest: "(case found of Some h \<Rightarrow> (Ok h, s2) | None \<Rightarrow>
      (case cp_NextKey page of None \<Rightarrow> (Panic ''nil pointer dereference'', s2)
       | Some key \<Rightarrow> if length key = 0
          then (Err (ErrText (''could not find any trusted consensus state for height='' @ FormatUint height)), s2)
          else search_pages fuel thf period height key s2)) = (Inr h, s')"
    by (auto simp: res_success)
  note I = search_keepsD(3) [OF Suc.prems(1,2) q]
  show ?case
  proof (cases found)
    case None
    with rest Suc.IH [OF Suc.prems(1) scan_page_keeps [OF Suc.prems(1) I scan]] show ?thesis
      by (auto split: option.splits if_splits)
  next
    case (Some h')
    with rest scan have "scan_page thf period height (ConsensusStates page) s1 = (Inr (Some h), s2)" by simp
    from scan_page_Some [OF Suc.prems(1) I this] q show ?thesis by blast
  qed
qed simp

lemma retryGet_Inr:
  assumes "retry_ok (thf_retry thf)" "retryGetLightSignedHeaderAtHeight thf height s = (Inr hdr, s')"
  shows "\<exists>s1 s2. QueryIBCHeader thf (sint height) s1 = (Inr (TendermintIBCHeader (Inr hdr)), s2)"
proof -
  from assms(2) have "thf_retry thf (queryLightHeader thf height) s = (Inr hdr, s')"
    by (auto simp: retryGetLightSignedHeaderAtHeight_def res_success)
  from retried_Inr [OF retry_okD [OF assms(1) this], of hdr "\<lambda>_. True"]
  obtain s1 where "queryLightHeader thf height s1 = (Inr hdr, s')" by auto
  then obtain x s2 where q: "QueryIBCHeader thf (sint height) s1 = (Inr x, s2)"
    and x: "(case x of OtherIBCHeader t \<Rightarrow>
        (Err (ErrText (''expected header of type provider.TendermintIBCHeader, got '' @ t)), s2)
      | TendermintIBCHeader r \<Rightarrow>
        (res_try r ''failed to convert provider.TendermintIBCHeader to tmclient.Header'' Ok, s2)) = (Inr hdr, s')"
    unfolding queryLightHeader_def res_success by blast
  from x q show ?thesis by (cases x) (auto simp: res_success)
qed

text \<open>
  A header that \<open>Fetch\<close> returns is the target chain's header at the height asked for, with the
  height of a consensus state of the client that is strictly lower, in the target chain's
  revision and within the trusting period less the margin, and with the validators of the
  header right above that state.
\<close>

lemma Fetch_Inr:
  assumes "retry_ok (thf_retry thf)" "search_keeps thf I" "I s" "Fetch fuel thf height s = (Inr hdr, s')"
  obtains period cs page k hdr0 hdr1 sn s0 s1 s2 s3 s4 s5 s6 s7 where
    "QueryClientState thf 0 (ClientID thf) s0 = (Inr (TmClientState period), s1)"
    "query_ConsensusStates thf (requestPage (ClientID thf) k) s2 = (Inr page, s3)" "cs \<in> set (ConsensusStates page)"
    "I sn" "suitable_at thf period height (fst (rt_now (thf_runtime thf) sn)) cs"
    "QueryIBCHeader thf (sint height) s4 = (Inr (TendermintIBCHeader (Inr hdr0)), s5)"
    "QueryIBCHeader thf (sint (RevisionHeight (cs_Height cs) + 1)) s6 = (Inr (TendermintIBCHeader (Inr hdr1)), s7)"
    "hdr = hdr0\<lparr>TrustedHeight := cs_Height cs, TrustedValidators := ValidatorSet hdr1\<rparr>"
proof -
  from assms(4) obtain start s0 h s1 where now: "rt_now (thf_runtime thf) s = (start, s0)" and
    h: "getTrustedHeight fuel thf height s0 = (Inr h, s1)" and
    hdr: "\<exists>s2. trustedHeaderAtHeight thf h height s1 = (Inr hdr, s2)"
    by (auto simp: Fetch_def res_success split: prod.splits)
  from search_keepsD(1) [OF assms(2,3) now] have I0: "I s0" .
  from h obtain period s2 where "fetchTrustingPeriod thf s0 = (Inr period, s2)"
    and 2: "search_pages fuel thf period height [] s2 = (Inr h, s1)"
    by (auto simp: getTrustedHeight_def res_success split: if_splits)
  then obtain x s3 where x: "QueryClientState thf 0 (ClientID thf) s0 = (Inr x, s3)"
    "(case x of OtherClientState t \<Rightarrow> (Err (ErrText (''expected client state of type *tmclient.ClientState, got '' @ t)), s3)
      | TmClientState period \<Rightarrow>
          if period = 0 then (Err (ErrText ''got empty TrustingPeriod''), s3) else (Ok period, s3)) = (Inr period, s2)"
    unfolding fetchTrustingPeriod_def go_try_Inr_iff by blast
  then have 1: "QueryClientState thf 0 (ClientID thf) s0 = (Inr (TmClientState period), s2)"
    by (cases x) (auto split: if_split_asm)
  from search_pages_Inr [OF assms(2) search_keepsD(2) [OF assms(2) I0 1] 2] obtain cs page k sq sp sn where
    cs: "query_ConsensusStates thf (requestPage (ClientID thf) k) sq = (Inr page, sp)" "cs \<in> set (ConsensusStates page)"
      "cs_Height cs = h" "I sn" "suitable_at thf period height (fst (rt_now (thf_runtime thf) sn)) cs"
    by blast
  from hdr obtain hdr0 hdr1 s3 s4 s5 s6 where
    a: "retryGetLightSignedHeaderAtHeight thf height s3 = (Inr hdr0, s4)" and
    b: "retryGetLightSignedHeaderAtHeight thf (RevisionHeight h + 1) s5 = (Inr hdr1, s6)" and
    c: "hdr = hdr0\<lparr>TrustedHeight := h, TrustedValidators := ValidatorSet hdr1\<rparr>"
    by (auto simp: trustedHeaderAtHeight_def res_success)
  from retryGet_Inr [OF assms(1) a] obtain sa sb where
    A: "QueryIBCHeader thf (sint height) sa = (Inr (TendermintIBCHeader (Inr hdr0)), sb)" by blast
  from retryGet_Inr [OF assms(1) b] obtain sc sd where
    B: "QueryIBCHeader thf (sint (RevisionHeight (cs_Height cs) + 1)) sc = (Inr (TendermintIBCHeader (Inr hdr1)), sd)"
    by (auto simp: cs(3))
  show thesis using that [OF 1 cs(1,2,4,5) A B] c cs(3) by simp
qed

text \<open>
  The two chains as they are during a call: the IBC client's trusting period, the consensus states
  it holds, the headers of the target chain, and the clock, which does not go back.
\<close>

definition light_client ::
  "('s, 'x) TrustedHeaderFetcherSrv \<Rightarrow> int \<Rightarrow> ConsensusStateWithHeight set \<Rightarrow> (int \<Rightarrow> 'x tm_Header) \<Rightarrow>
   ('s \<Rightarrow> int) \<Rightarrow> bool" where
  "light_client thf period states headers clock \<longleftrightarrow>
     (\<forall>t s. search_keeps thf (\<lambda>s'. t \<le> clock s') \<and> fst (rt_now (thf_runtime thf) s) = clock s) \<and>
     (\<forall>s x s'. QueryClientState thf 0 (ClientID thf) s = (Inr (TmClientState x), s') \<longrightarrow> x = period) \<and>
     (\<forall>r s page s'. rq_ClientId r = ClientID thf \<longrightarrow> query_ConsensusStates thf r s = (Inr page, s') \<longrightarrow>
        set (ConsensusStates page) \<subseteq> states) \<and>
     (\<forall>h s hdr s'. QueryIBCHeader thf h s = (Inr (TendermintIBCHeader (Inr hdr)), s') \<longrightarrow> hdr = headers h)"

lemma Fetch_light_client:
  assumes "light_client thf period states headers clock" "retry_ok (thf_retry thf)" "Fetch fuel thf height s = (Inr hdr, s')"
  shows "\<exists>cs now. cs \<in> states \<and> clock s \<le> now \<and> suitable_at thf period height now cs \<and>
    hdr = (headers (sint height))\<lparr>TrustedHeight := cs_Height cs,
      TrustedValidators := ValidatorSet (headers (sint (RevisionHeight (cs_Height cs) + 1)))\<rparr>"
proof -
  have keeps: "search_keeps thf (\<lambda>s'. clock s \<le> clock s')" using assms(1) by (simp add: light_client_def)
  show ?thesis
  proof (rule Fetch_Inr [OF assms(2) keeps order.refl assms(3)])
    fix x cs page k hdr0 hdr1 sn s0 s1 s2 s3 s4 s5 s6 s7
    assume q: "QueryClientState thf 0 (ClientID thf) s0 = (Inr (TmClientState x), s1)"
      "query_ConsensusStates thf (requestPage (ClientID thf) k) s2 = (Inr page, s3)" "cs \<in> set (ConsensusStates page)"
      "clock s \<le> clock sn" "suitable_at thf x height (fst (rt_now (thf_runtime thf) sn)) cs"
      "QueryIBCHeader thf (sint height) s4 = (Inr (TendermintIBCHeader (Inr hdr0)), s5)"
      "QueryIBCHeader thf (sint (RevisionHeight (cs_Height cs) + 1)) s6 = (Inr (TendermintIBCHeader (Inr hdr1)), s7)"
      "hdr = hdr0\<lparr>TrustedHeight := cs_Height cs, TrustedValidators := ValidatorSet hdr1\<rparr>"
    have "rq_ClientId (requestPage (ClientID thf) k) = ClientID thf" by (simp add: requestPage_def)
    with assms(1) q(2,3) have "cs \<in> states" unfolding light_client_def by blast
    moreover have "x = period" "hdr0 = headers (sint height)" "hdr1 = headers (sint (RevisionHeight (cs_Height cs) + 1))"
      "fst (rt_now (thf_runtime thf) sn) = clock sn"
      using assms(1) q(1,6,7) unfolding light_client_def by blast+
    ultimately show ?thesis using q(4,5,8) by (intro exI [of _ cs] exI [of _ "clock sn"]) simp
  qed
qed

section \<open>The search is complete\<close>

text \<open>
  Against a chain whose answer to a page key is \<open>P key\<close> and a clock that stands still, the
  search returns the first suitable state of all pages, and fails when there is none. One unit
  of fuel per page is enough.
\<close>

fun linked_pages :: "(bytes \<Rightarrow> ConsensusStatesPage) \<Rightarrow> bytes \<Rightarrow> ConsensusStatesPage list \<Rightarrow> bool" where
  "linked_pages P key [] = False"
| "linked_pages P key (p # ps) = (P key = p \<and>
     (case cp_NextKey p of None \<Rightarrow> False
      | Some k \<Rightarrow> if k = [] then ps = [] else linked_pages P k ps))"

definition answers_pages ::
  "('s, 'x) TrustedHeaderFetcherSrv \<Rightarrow> (bytes \<Rightarrow> ConsensusStatesPage) \<Rightarrow> int \<Rightarrow> bool" where
  "answers_pages thf P now \<longleftrightarrow>
     (\<forall>key s. query_ConsensusStates thf (requestPage (ClientID thf) key) s = (Inr (P key), s)) \<and>
     (\<forall>s. rt_now (thf_runtime thf) s = (now, s))"

lemma find_append:
  "find P (xs @ ys) = (case find P xs of None \<Rightarrow> find P ys | Some x \<Rightarrow> Some x)"
  by (induction xs) auto

lemma scan_page_find:
  assumes "\<forall>s. rt_now (thf_runtime thf) s = (now, s)" "\<forall>cs \<in> set css. cs_Timestamp cs \<noteq> None"
  shows "scan_page thf period height css s =
    (Inr (map_option cs_Height (find (suitable_at thf period height now) css)), s)"
  using assms
  by (induction css)
    (auto simp: isSuitableCS_def suitable_at_def Let_def split: option.splits)

lemma search_pages_find:
  assumes "answers_pages thf P now" "linked_pages P key ps" "length ps \<le> fuel"
    "\<forall>p \<in> set ps. \<forall>cs \<in> set (ConsensusStates p). cs_Timestamp cs \<noteq> None"
  shows "search_pages fuel thf period height key s =
    (case find (suitable_at thf period height now) (concat (map ConsensusStates ps)) of
       Some cs \<Rightarrow> Ok (cs_Height cs)
     | None \<Rightarrow> Err (ErrText (''could not find any trusted consensus state for height='' @ FormatUint height)), s)"
  using assms
proof (induction fuel arbitrary: key ps)
  case (Suc fuel)
  have now: "\<forall>s. rt_now (thf_runtime thf) s = (now, s)"
    and q: "query_ConsensusStates thf (requestPage (ClientID thf) key) s = (Inr (P key), s)" for key s
    using Suc.prems(1) by (auto simp: answers_pages_def)
  from Suc.prems(2) obtain p ps' where ps: "ps = p # ps'" "P key = p" by (cases ps) auto
  note scan = scan_page_find [OF now, of "ConsensusStates p" period height s]
  show ?case
  proof (cases "find (suitable_at thf period height now) (ConsensusStates p)")
    case None
    from Suc.prems(2) ps obtain k where k: "cp_NextKey p = Some k"
      by (auto split: option.splits)
    show ?thesis
    proof (cases "k = []")
      case True
      with Suc.prems ps k None scan q show ?thesis by (simp add: find_append)
    next
      case False
      with Suc.prems(2) ps k have "linked_pages P k ps'" by simp
      with Suc.IH [OF Suc.prems(1) this] Suc.prems ps k None False scan q show ?thesis
        by (simp add: find_append)
    qed
  next
    case (Some cs)
    with Suc.prems ps scan q show ?thesis by (simp add: find_append)
  qed
qed (auto elim: linked_pages.elims)

end
