(* ===== verification/Kv_Processor.thy ===== *)
theory Kv_Processor
  imports Trusted_Headers Storage_Spec
begin

text \<open>
  \<open>internal/tmquerier/querier.go\<close> and \<open>internal/kvprocessor/kvprocessor.go\<close>: values of the
  target chain's store with their proofs, and the processing of a KV query. The RPC client, the
  chain providers and the retries are parameters; an \<open>int64\<close> height is kept as its bits.
\<close>

section \<open>The querier\<close>

record ABCIResponse =
  ab_Value :: bytes
  ab_ProofOps :: bytes
  ab_Height :: "64 word"

record 's Querier =
  ABCIQueryWithOptions :: "string \<Rightarrow> bytes \<Rightarrow> 64 word \<Rightarrow> bool \<Rightarrow> 's \<Rightarrow> ABCIResponse res \<times> 's"
  ChainID :: string

definition NewQuerier ::
  "(string \<Rightarrow> bytes \<Rightarrow> 64 word \<Rightarrow> bool \<Rightarrow> 's \<Rightarrow> ABCIResponse res \<times> 's) \<Rightarrow> string \<Rightarrow> 's Querier res" where
  "NewQuerier client chainId = Ok \<lparr>ABCIQueryWithOptions = client, ChainID = chainId\<rparr>"

definition QueryTendermintProof ::
  "'s Querier \<Rightarrow> 64 word \<Rightarrow> string \<Rightarrow> bytes \<Rightarrow> 's \<Rightarrow> (StorageValue \<times> u64) res \<times> 's" where
  "QueryTendermintProof q height storeKey key s =
     (if height \<noteq> 0 \<and> sint height \<le> 2
      then (Err (ErrText ''proof queries at height <= 2 are not supported''), s)
      else
        (let height = (if height \<noteq> 0 then height - 1 else height) in
         go_try (ABCIQueryWithOptions q (''store/'' @ storeKey @ ''/key'') key height True s)
           ''error making abci query for tendermint proof'' (\<lambda>response s.
         (Ok (\<lparr>sv_StoragePrefix = storeKey, sv_Key = key, sv_Value = ab_Value response,
               sv_Proof = ab_ProofOps response\<rparr>, ab_Height response + 1), s))))"

section \<open>The processor\<close>

text \<open>A \<open>provider.RelayerMessage\<close>: a Cosmos message or another kind.\<close>

datatype 'm relayer_message = CosmosMessage 'm | OtherMessage

record ('s, 'r, 'x, 'y, 'm) KVProcessorSrv =
  kvp_trustedHeaderFetcher :: "('s, 'x) TrustedHeaderFetcher"
  kvp_querier :: "'s Querier"
  minKVUpdatePeriod :: u64
  kvp_submitter :: "('s, 'r, 'y, 'm) Submitter"
  kvp_storage :: "('s, 'r) Storage"
  kvp_QueryLatestHeight :: "'s \<Rightarrow> int res \<times> 's"
  MsgUpdateClient :: "string \<Rightarrow> 'x tm_Header \<Rightarrow> 's \<Rightarrow> 'm relayer_message res \<times> 's"
  kvp_ClientID :: string
  kvp_retry_header :: "('s, 'x tm_Header) retry"
  kvp_retry_msg :: "('s, 'm relayer_message) retry"
  kvp_runtime :: "('s, Metrics) runtime"

definition NewKVProcessor where
  "NewKVProcessor fetcher querier period sb st latest upd client rh rm R =
     \<lparr>kvp_trustedHeaderFetcher = fetcher, kvp_querier = querier, minKVUpdatePeriod = period,
      kvp_submitter = sb, kvp_storage = st, kvp_QueryLatestHeight = latest, MsgUpdateClient = upd,
      kvp_ClientID = client, kvp_retry_header = rh, kvp_retry_msg = rm, kvp_runtime = R\<rparr>"

text \<open>The loop over the keys: the values so far and the height of the last answer.\<close>

fun storage_values ::
  "('s, 'r, 'x, 'y, 'm) KVProcessorSrv \<Rightarrow> u64 \<Rightarrow> KVKey list \<Rightarrow> StorageValue list \<Rightarrow> u64 \<Rightarrow> 's \<Rightarrow>
   (StorageValue list \<times> u64) res \<times> 's" where
  "storage_values p inputHeight [] stValues height s = (Ok (stValues, height), s)"
| "storage_values p inputHeight (key # ks) stValues height s =
     go_try (QueryTendermintProof (kvp_querier p) inputHeight (Path key) (Key key) s)
       (''failed to query tendermint proof for path='' @ Path key @ '' and key='' @ Key key) (\<lambda>(val, h) s.
     storage_values p inputHeight ks (stValues @ [val]) h s)"

definition getStorageValues ::
  "('s, 'r, 'x, 'y, 'm) KVProcessorSrv \<Rightarrow> u64 \<Rightarrow> KVKey list \<Rightarrow> 's \<Rightarrow> (StorageValue list \<times> u64) res \<times> 's" where
  "getStorageValues p inputHeight ks s = storage_values p inputHeight ks [] 0 s"

definition isQueryOnTime ::
  "('s, 'r, 'x, 'y, 'm) KVProcessorSrv \<Rightarrow> u64 \<Rightarrow> u64 \<Rightarrow> 's \<Rightarrow> bool res \<times> 's" where
  "isQueryOnTime p queryID currentBlock s =
     (if minKVUpdatePeriod p = 0 then (Ok True, s)
      else go_then (st_GetLastQueryHeight (kvp_storage p) queryID s) (\<lambda>(previous, _) s.
        if previous + minKVUpdatePeriod p \<le> currentBlock then
          go_then (st_SetLastQueryHeight (kvp_storage p) queryID currentBlock s) (\<lambda>_ s. (Ok True, s))
        else (Err (ErrText (''attempted to update query results too soon: last update was on block='' @
            FormatUint previous @ '', current block='' @ FormatUint currentBlock @
            '', maximum update period='' @ FormatUint (minKVUpdatePeriod p))), s)))"

definition getSrcChainHeader ::
  "('s, 'r, 'x, 'y, 'm) KVProcessorSrv \<Rightarrow> u64 \<Rightarrow> 's \<Rightarrow> 'x tm_Header res \<times> 's" where
  "getSrcChainHeader p height s =
     (case rt_now (kvp_runtime p) s of (start, s) \<Rightarrow>
      (case kvp_retry_header p (hf_Fetch (kvp_trustedHeaderFetcher p) height) s of
         (Inl (GoErr e), s) \<Rightarrow> (Err e, observe_since (kvp_runtime p) (RecordActionDuration ''GetIBCUpdateHeader'') start s)
       | (Inl f, s) \<Rightarrow> (Inl f, s)
       | (Inr srcHeader, s) \<Rightarrow>
           (Ok srcHeader, observe_since (kvp_runtime p) (RecordActionDuration ''GetIBCUpdateHeader'') start s)))"

definition getUpdateClientMsg ::
  "('s, 'r, 'x, 'y, 'm) KVProcessorSrv \<Rightarrow> 'x tm_Header \<Rightarrow> 's \<Rightarrow> 'm res \<times> 's" where
  "getUpdateClientMsg p srcHeader s =
     (case rt_now (kvp_runtime p) s of (start, s) \<Rightarrow>
      go_then (kvp_retry_msg p (MsgUpdateClient p (kvp_ClientID p) srcHeader) s) (\<lambda>updateMsgRelayer s.
      case updateMsgRelayer of
        OtherMessage \<Rightarrow> (Err (ErrText ''failed to cast provider.RelayerMessage to cosmos.CosmosMessage''), s)
      | CosmosMessage msg \<Rightarrow>
          (Ok msg, observe_since (kvp_runtime p) (RecordActionDuration ''GetUpdateClientMsg'') start s)))"

definition submitKVWithProof ::
  "('s, 'r, 'x, 'y, 'm) KVProcessorSrv \<Rightarrow> u64 \<Rightarrow> u64 \<Rightarrow> StorageValue list \<Rightarrow> 's \<Rightarrow> unit res \<times> 's" where
  "submitKVWithProof p height queryID proof s =
     go_try (getSrcChainHeader p height s) (''failed to get header for height: '' @ FormatInt (sint height)) (\<lambda>srcHeader s.
     go_try (getUpdateClientMsg p srcHeader s) ''failed to getUpdateClientMsg'' (\<lambda>updateClientMsg s.
     (case rt_now (kvp_runtime p) s of (st, s) \<Rightarrow>
      (case sb_SubmitKVProof (kvp_submitter p) (height - 1) (RevisionNumber (hd_Height srcHeader)) queryID proof
          updateClientMsg s of
         (Inl (GoErr e), s) \<Rightarrow>
           (Err (ErrWrap ''could not submit proof'' e),
            observe_since (kvp_runtime p) (AddFailedProof InterchainQueryTypeKV) st s)
       | (Inl f, s) \<Rightarrow> (Inl f, s)
       | (Inr _, s) \<Rightarrow> (Ok (), observe_since (kvp_runtime p) (AddSuccessProof InterchainQueryTypeKV) st s)))))"

definition KV_ProcessAndSubmit ::
  "('s, 'r, 'x, 'y, 'm) KVProcessorSrv \<Rightarrow> MessageKV \<Rightarrow> 's \<Rightarrow> unit res \<times> 's" where
  "KV_ProcessAndSubmit p m s =
     go_try (kvp_QueryLatestHeight p s) ''failed to get header for src chain'' (\<lambda>latestHeight s.
     go_try (isQueryOnTime p (kv_QueryId m) (word_of_int latestHeight) s)
       (''error on checking previous query update with query_id='' @ FormatUint (kv_QueryId m)) (\<lambda>onTime s.
     if \<not> onTime then
       (Err (ErrText (''error on checking previous query update with query_id='' @ FormatUint (kv_QueryId m) @ '': %!w(<nil>)'')), s)
     else
       go_try (getStorageValues p (word_of_int latestHeight) (kv_KVKeys m) s)
         (''failed to get storage values with proofs for query_id='' @ FormatUint (kv_QueryId m)) (\<lambda>(proofs, height) s.
       submitKVWithProof p height (kv_QueryId m) proofs s)))"

definition KVProcessorOf :: "('s, 'r, 'x, 'y, 'm) KVProcessorSrv \<Rightarrow> 's KVProcessor" where
  "KVProcessorOf p = \<lparr>kp_ProcessAndSubmit = KV_ProcessAndSubmit p\<rparr>"

section \<open>The values are those of the keys\<close>

text \<open>
  A node whose answer to a query with a proof depends on what was asked, and not on when. Then the
  values collected are, key by key and in order, the values and proofs it answers with at the height
  below the one given; the height is the one after the last answer's.
\<close>

definition abci_answers :: "'s Querier \<Rightarrow> (string \<Rightarrow> bytes \<Rightarrow> 64 word \<Rightarrow> ABCIResponse) \<Rightarrow> bool" where
  "abci_answers q A \<longleftrightarrow> (\<forall>path key h s resp s'.
     ABCIQueryWithOptions q path key h True s = (Inr resp, s') \<longrightarrow> resp = A path key h)"

lemma QueryTendermintProof_Inr:
  assumes "QueryTendermintProof q height storeKey key s = (Inr (v, h), s')"
  obtains resp where
    "ABCIQueryWithOptions q (''store/'' @ storeKey @ ''/key'') key (if height \<noteq> 0 then height - 1 else 0) True s = (Inr resp, s')"
    "v = \<lparr>sv_StoragePrefix = storeKey, sv_Key = key, sv_Value = ab_Value resp, sv_Proof = ab_ProofOps resp\<rparr>"
    "h = ab_Height resp + 1"
  using assms by (auto simp: QueryTendermintProof_def Let_def res_success split: if_splits)

lemma storage_values_answers:
  fixes ih :: u64
  assumes "abci_answers (kvp_querier p) A"
  defines "ask \<equiv> \<lambda>k. A (''store/'' @ Path k @ ''/key'') (Key k) (if ih \<noteq> 0 then ih - 1 else 0)"
  shows "storage_values p ih ks vs h s = (Inr (vs', h'), s') \<Longrightarrow>
   vs' = vs @ map (\<lambda>k. \<lparr>sv_StoragePrefix = Path k, sv_Key = Key k, sv_Value = ab_Value (ask k),
     sv_Proof = ab_ProofOps (ask k)\<rparr>) ks \<and>
   h' = (if ks = [] then h else ab_Height (ask (last ks)) + 1)"
proof (induction ks arbitrary: vs h s)
  case (Cons k ks)
  then obtain v h1 s1 where
    1: "QueryTendermintProof (kvp_querier p) ih (Path k) (Key k) s = (Inr (v, h1), s1)" and
    2: "storage_values p ih ks (vs @ [v]) h1 s1 = (Inr (vs', h'), s')"
    by (auto simp: go_try_Inr_iff)
  obtain resp where r: "ABCIQueryWithOptions (kvp_querier p) (''store/'' @ Path k @ ''/key'') (Key k)
      (if ih \<noteq> 0 then ih - 1 else 0) True s = (Inr resp, s1)" and
    v: "v = \<lparr>sv_StoragePrefix = Path k, sv_Key = Key k, sv_Value = ab_Value resp, sv_Proof = ab_ProofOps resp\<rparr>"
      "h1 = ab_Height resp + 1"
    by (rule QueryTendermintProof_Inr [OF 1])
  from assms(1) r have "resp = ask k" unfolding abci_answers_def ask_def by blast
  with v Cons.IH [OF 2] show ?case by simp
qed simp

section \<open>What a submission fetched\<close>

lemma getSrcChainHeader_Inr:
  assumes "retry_ok (kvp_retry_header p)" "getSrcChainHeader p height s = (Inr hdr, s')"
  shows "\<exists>s1 s2. hf_Fetch (kvp_trustedHeaderFetcher p) height s1 = (Inr hdr, s2)"
proof -
  obtain start s0 where s0: "rt_now (kvp_runtime p) s = (start, s0)" by fastforce
  obtain r s1 where 1: "kvp_retry_header p (hf_Fetch (kvp_trustedHeaderFetcher p) height) s0 = (r, s1)" by fastforce
  with s0 assms(2) have r: "r = Inr hdr" by (auto simp: getSrcChainHeader_def split: sum.splits fault.splits)
  from retried_Inr [OF retry_okD [OF assms(1) 1] r, of "\<lambda>_. True"] show ?thesis by blast
qed

lemma getUpdateClientMsg_Inr:
  assumes "retry_ok (kvp_retry_msg p)" "getUpdateClientMsg p hdr s = (Inr upd, s')"
  shows "\<exists>s1 s2. MsgUpdateClient p (kvp_ClientID p) hdr s1 = (Inr (CosmosMessage upd), s2)"
proof -
  obtain start s0 where s0: "rt_now (kvp_runtime p) s = (start, s0)" by fastforce
  obtain r s1 where 1: "kvp_retry_msg p (MsgUpdateClient p (kvp_ClientID p) hdr) s0 = (r, s1)" by fastforce
  from s0 1 assms(2) have "\<exists>x. r = Inr x" by (cases r) (auto simp: getUpdateClientMsg_def)
  then obtain x where x: "r = Inr x" by blast
  with s0 1 assms(2) have r: "r = Inr (CosmosMessage upd)" by (cases x) (auto simp: getUpdateClientMsg_def)
  from retried_Inr [OF retry_okD [OF assms(1) 1] r, of "\<lambda>_. True"] show ?thesis by blast
qed

lemma submitKVWithProof_Inr:
  assumes "retry_ok (kvp_retry_header p)" "retry_ok (kvp_retry_msg p)" "submitKVWithProof p height q vs s = (Inr u, s')"
  shows "\<exists>hdr upd start s1 s2 s3 s4 s5 s6. hf_Fetch (kvp_trustedHeaderFetcher p) height s1 = (Inr hdr, s2) \<and>
    MsgUpdateClient p (kvp_ClientID p) hdr s3 = (Inr (CosmosMessage upd), s4) \<and>
    sb_SubmitKVProof (kvp_submitter p) (height - 1) (RevisionNumber (hd_Height hdr)) q vs upd s5 = (Inr (), s6) \<and>
    s' = observe_since (kvp_runtime p) (AddSuccessProof InterchainQueryTypeKV) start s6"
proof -
  from assms(3) obtain hdr sa upd sb where
    1: "getSrcChainHeader p height s = (Inr hdr, sa)" "getUpdateClientMsg p hdr sa = (Inr upd, sb)" and
    2: "(case rt_now (kvp_runtime p) sb of (st, s) \<Rightarrow>
      (case sb_SubmitKVProof (kvp_submitter p) (height - 1) (RevisionNumber (hd_Height hdr)) q vs upd s of
         (Inl (GoErr e), s) \<Rightarrow> (Err (ErrWrap ''could not submit proof'' e) :: unit res,
            observe_since (kvp_runtime p) (AddFailedProof InterchainQueryTypeKV) st s)
       | (Inl f, s) \<Rightarrow> (Inl f, s)
       | (Inr _, s) \<Rightarrow> (Ok (), observe_since (kvp_runtime p) (AddSuccessProof InterchainQueryTypeKV) st s))) = (Inr u, s')"
    unfolding submitKVWithProof_def go_try_Inr_iff by blast
  from 2 obtain start sc sd where
    "sb_SubmitKVProof (kvp_submitter p) (height - 1) (RevisionNumber (hd_Height hdr)) q vs upd sc = (Inr (), sd)"
    "s' = observe_since (kvp_runtime p) (AddSuccessProof InterchainQueryTypeKV) start sd"
    by (auto split: prod.splits sum.splits fault.splits)
  with getSrcChainHeader_Inr [OF assms(1) 1(1)] getUpdateClientMsg_Inr [OF assms(2) 1(2)] show ?thesis by blast
qed

section \<open>The update period\<close>

context relay_storage
begin

text \<open>
  A query is on time exactly when the last recorded block plus the period, in 64-bit
  arithmetic, is at most the current block and the storage does not fail; then the current block is
  recorded, otherwise nothing changes.
\<close>

lemma isQueryOnTime_ok:
  assumes p: "kvp_storage p = st" "minKVUpdatePeriod p \<noteq> 0" and s: "ok s"
    and run: "isQueryOnTime p q cur s = (r, s')"
  shows "ok s' \<and> (\<forall>b. r = Inr b \<longrightarrow> b \<and> store s' = spec_SetHeight q cur (store s) \<and>
      (case heights (store s) q of None \<Rightarrow> 0 | Some h \<Rightarrow> h) + minKVUpdatePeriod p \<le> cur) \<and>
    (\<not> (case heights (store s) q of None \<Rightarrow> 0 | Some h \<Rightarrow> h) + minKVUpdatePeriod p \<le> cur \<longrightarrow>
      (\<exists>f. r = Inl f) \<and> store s' = store s) \<and>
    ((case heights (store s) q of None \<Rightarrow> 0 | Some h \<Rightarrow> h) + minKVUpdatePeriod p \<le> cur \<longrightarrow>
      (\<exists>g s1 s2. st_GetLastQueryHeight st q s = (Inr g, s1) \<and> st_SetLastQueryHeight st q cur s1 = (Inr (), s2)) \<longrightarrow>
      r = Inr True)"
proof -
  obtain g s1 where 1: "st_GetLastQueryHeight st q s = (g, s1)" by fastforce
  note get = get_height [OF s 1]
  show ?thesis
  proof (cases g)
    case (Inl f)
    with run 1 p get show ?thesis by (auto simp: isQueryOnTime_def)
  next
    case (Inr a)
    obtain prev ex where a: "a = (prev, ex)" by fastforce
    with get Inr have get': "ok s1" "store s1 = store s"
      "(case heights (store s) q of None \<Rightarrow> 0 | Some h \<Rightarrow> h) = prev" by auto
    obtain w s2 where 2: "st_SetLastQueryHeight st q cur s1 = (w, s2)" by fastforce
    from set_height [OF get'(1) 2] run 1 2 Inr a p get' show ?thesis
      by (cases w) (auto simp: isQueryOnTime_def split: if_splits)
  qed
qed

end

section \<open>A query without keys\<close>

text \<open>
  With no keys the height stays zero, no header can be trusted for it, and the submission is
  never reached: the result does not depend on the submitter.
\<close>

lemma Fetch_zero: "retry_ok (thf_retry thf) \<Longrightarrow> Fetch fuel thf 0 s \<noteq> (Inr hdr, s')"
  by (auto elim!: Fetch_Inr [where I = "\<lambda>_. True"] simp: suitable_at_def search_keeps_def)

lemma getSrcChainHeader_zero:
  assumes "retry_ok (kvp_retry_header p)" "kvp_trustedHeaderFetcher p = TrustedHeaderFetcherOf fuel thf"
    "retry_ok (thf_retry thf)"
  shows "\<exists>f. fst (getSrcChainHeader p 0 s) = Inl f"
proof -
  obtain start s0 where s0: "rt_now (kvp_runtime p) s = (start, s0)" by fastforce
  obtain r s1 where 1: "kvp_retry_header p (hf_Fetch (kvp_trustedHeaderFetcher p) 0) s0 = (r, s1)" by fastforce
  have "\<exists>f. r = Inl f"
  proof (cases r)
    case (Inr hdr)
    from retried_Inr [OF retry_okD [OF assms(1) 1] Inr, of "\<lambda>_. True"]
    obtain s2 where "hf_Fetch (kvp_trustedHeaderFetcher p) 0 s2 = (Inr hdr, s1)" by auto
    with Fetch_zero [OF assms(3)] show ?thesis by (simp add: assms(2) TrustedHeaderFetcherOf_def)
  qed simp
  with s0 1 show ?thesis by (auto simp: getSrcChainHeader_def split: fault.splits)
qed


lemma kvp_submitter_upd:
  "kvp_trustedHeaderFetcher (p\<lparr>kvp_submitter := sb\<rparr>) = kvp_trustedHeaderFetcher p"
  "kvp_querier (p\<lparr>kvp_submitter := sb\<rparr>) = kvp_querier p"
  "minKVUpdatePeriod (p\<lparr>kvp_submitter := sb\<rparr>) = minKVUpdatePeriod p"
  "kvp_storage (p\<lparr>kvp_submitter := sb\<rparr>) = kvp_storage p"
  "kvp_QueryLatestHeight (p\<lparr>kvp_submitter := sb\<rparr>) = kvp_QueryLatestHeight p"
  "kvp_retry_header (p\<lparr>kvp_submitter := sb\<rparr>) = kvp_retry_header p"
  "kvp_runtime (p\<lparr>kvp_submitter := sb\<rparr>) = kvp_runtime p"
  by simp_all

lemma KV_no_keys_Inl:
  assumes "retry_ok (kvp_retry_header p)" "kvp_trustedHeaderFetcher p = TrustedHeaderFetcherOf fuel thf"
    "retry_ok (thf_retry thf)" "kv_KVKeys m = []"
  shows "\<exists>f. fst (KV_ProcessAndSubmit p m s) = Inl f"
    and "KV_ProcessAndSubmit (p\<lparr>kvp_submitter := sb\<rparr>) m s = KV_ProcessAndSubmit p m s"
proof -
  note zero = getSrcChainHeader_zero [OF assms(1-3)]
  have submit: "submitKVWithProof p 0 q vs s =
      (Inl (wrap_fault (''failed to get header for height: '' @ FormatInt 0) (projl (fst (getSrcChainHeader p 0 s)))),
       snd (getSrcChainHeader p 0 s))" for q vs s
    using zero [of s]
    by (cases "getSrcChainHeader p 0 s")
      (auto simp: submitKVWithProof_def)
  have same: "getSrcChainHeader (p\<lparr>kvp_submitter := sb\<rparr>) h s = getSrcChainHeader p h s"
    "isQueryOnTime (p\<lparr>kvp_submitter := sb\<rparr>) q c s = isQueryOnTime p q c s" for h q c s
    unfolding getSrcChainHeader_def isQueryOnTime_def by (unfold kvp_submitter_upd) (rule refl)+
  have submit': "submitKVWithProof (p\<lparr>kvp_submitter := sb\<rparr>) 0 q vs s = submitKVWithProof p 0 q vs s" for q vs s
    using zero [of s] submit [of q vs s]
    by (cases "getSrcChainHeader p 0 s")
      (auto simp: submitKVWithProof_def same)
  show "\<exists>f. fst (KV_ProcessAndSubmit p m s) = Inl f"
    by (auto simp: KV_ProcessAndSubmit_def getStorageValues_def assms(4) submit go_try_def split: sum.split prod.split)
  show "KV_ProcessAndSubmit (p\<lparr>kvp_submitter := sb\<rparr>) m s = KV_ProcessAndSubmit p m s"
    unfolding KV_ProcessAndSubmit_def getStorageValues_def assms(4) storage_values.simps
    by (unfold kvp_submitter_upd same go_try_simps prod.case submit') (rule refl)
qed

end
