(* ===== verification/Submit.thy ===== *)
theory Submit
  imports Relay_Types Config
begin

text \<open>
  \<open>internal/submit\<close>: the transaction sender, which keeps the account sequence, estimates gas,
  prices, signs and broadcasts; and the submitter, which wraps proofs into messages for it.
  The node's RPC, the keyring, the protobuf codecs and the transaction builder of the Cosmos SDK
  are parameters: \<open>'m\<close> is an SDK message, \<open>'b\<close> a transaction builder, \<open>'k\<close> a key record and
  \<open>'d\<close> a \<open>LegacyDec\<close>.
\<close>

section \<open>The sender\<close>

text \<open>What the code sets of a \<open>tx.Factory\<close>; \<open>SIGN_MODE_DIRECT\<close> is 1 in the SDK's enumeration.\<close>

record Factory =
  tf_SignMode :: nat
  tf_ChainID :: string
  tf_GasAdjustment :: float64
  tf_GasPrices :: string
  tf_AccountNumber :: u64
  tf_Sequence :: u64
  tf_Gas :: u64

text \<open>The fields of \<open>TxSender\<close> that change, under its lock.\<close>

record SenderState =
  sequence :: u64
  accountNumber :: u64

record QueryResponse =
  qr_Code :: nat
  qr_Log :: string
  qr_Value :: bytes

record BroadcastResult =
  br_Code :: nat
  br_Log :: string

text \<open>
  \<open>unmarshal_account\<close> decodes a \<open>QueryAccountResponse\<close> down to the bytes of its account (none
  when the pointer is nil), \<open>unmarshal_simulation\<close> a \<open>SimulateResponse\<close> down to the gas used
  (none when \<open>GasInfo\<close> is nil); \<open>get_sender\<close> and \<open>put_sender\<close> reach the mutable fields;
  \<open>parses_prices\<close> says which texts \<open>sdk.ParseDecCoins\<close> reads.
\<close>

record ('s, 'm, 'b, 'k, 'd) TxSender =
  get_sender :: "'s \<Rightarrow> SenderState"
  put_sender :: "SenderState \<Rightarrow> 's \<Rightarrow> 's"
  keybase_Key :: "string \<Rightarrow> 's \<Rightarrow> 'k res \<times> 's"
  key_GetAddress :: "'k \<Rightarrow> string res"
  baseTxf :: Factory
  rpc_ABCIQuery :: "string \<Rightarrow> bytes \<Rightarrow> 's \<Rightarrow> QueryResponse res \<times> 's"
  BroadcastTxSync :: "bytes \<Rightarrow> 's \<Rightarrow> BroadcastResult res \<times> 's"
  marshal_account_request :: "string \<Rightarrow> bytes res"
  unmarshal_account :: "bytes \<Rightarrow> bytes option res"
  unmarshal_BaseAccount :: "bytes \<Rightarrow> (u64 \<times> u64) res"
  marshal_price_request :: "string \<Rightarrow> bytes res"
  unmarshal_price :: "bytes \<Rightarrow> 'd res"
  dec_Float64 :: "'d \<Rightarrow> float64 res"
  marshal_simulation :: "bytes \<Rightarrow> bytes res"
  unmarshal_simulation :: "bytes \<Rightarrow> u64 option res"
  parses_prices :: "string \<Rightarrow> bool"
  BuildUnsignedTx :: "Factory \<Rightarrow> 'm list \<Rightarrow> 'b res"
  SetSignatures :: "nat \<Rightarrow> u64 \<Rightarrow> 'b \<Rightarrow> 'b res"
  Sign :: "Factory \<Rightarrow> string \<Rightarrow> 'b \<Rightarrow> 's \<Rightarrow> 'b res \<times> 's"
  TxEncoder :: "'b \<Rightarrow> bytes res"
  sender_tmhash :: "bytes \<Rightarrow> bytes"
  sender_conv :: "float64 \<Rightarrow> u64"
  signKeyName :: string
  gasPrices :: string
  gasLimit :: u64
  denom :: string
  maxGasPrice :: float64
  gasPriceMultiplier :: float64

definition accountQueryPath :: string where
  "accountQueryPath = ''/cosmos.auth.v1beta1.Query/Account''"

definition simulateQueryPath :: string where
  "simulateQueryPath = ''/cosmos.tx.v1beta1.Service/Simulate''"

definition getPricesQueryPath :: string where
  "getPricesQueryPath = ''/feemarket.feemarket.v1.Query/GasPrice''"

definition IncorrectAccountSequenceCode :: nat where
  "IncorrectAccountSequenceCode = 32"

definition SIGN_MODE_DIRECT :: nat where
  "SIGN_MODE_DIRECT = 1"

text \<open>\<open>Factory.WithGasPrices\<close> panics on a text that is not a list of decimal coins.\<close>

definition WithGasPrices :: "('s, 'm, 'b, 'k, 'd) TxSender \<Rightarrow> string \<Rightarrow> Factory \<Rightarrow> Factory res" where
  "WithGasPrices txs prices f =
     (if parses_prices txs prices then Ok (f\<lparr>tf_GasPrices := prices\<rparr>)
      else Panic ''invalid decimal coin expression'')"

definition TestKeybase ::
  "(string \<Rightarrow> string \<Rightarrow> string \<Rightarrow> 'c \<Rightarrow> 'kb res) \<Rightarrow> string \<Rightarrow> string \<Rightarrow> 'c \<Rightarrow> 'kb res" where
  "TestKeybase keyring_New chainID keyringRootDir cdc =
     res_try (keyring_New chainID ''test'' keyringRootDir cdc)
       (''error creating keybase for chainId='' @ chainID @ '' and keyringRootDir='' @ keyringRootDir) Ok"

definition SenderAddr :: "('s, 'm, 'b, 'k, 'd) TxSender \<Rightarrow> 's \<Rightarrow> string res \<times> 's" where
  "SenderAddr txs s =
     go_try (keybase_Key txs (signKeyName txs) s)
       (''could not fetch sender info from keychain with signKeyName='' @ signKeyName txs) (\<lambda>info s.
     go_try (key_GetAddress txs info, s) ''failed to get addr from pubkey'' (\<lambda>addr s. (Ok addr, s)))"

definition queryAccount :: "('s, 'm, 'b, 'k, 'd) TxSender \<Rightarrow> string \<Rightarrow> 's \<Rightarrow> (u64 \<times> u64) res \<times> 's" where
  "queryAccount txs address s =
     go_try (marshal_account_request txs address, s)
       (''error marshalling query account request for account='' @ address) (\<lambda>req s.
     go_try (rpc_ABCIQuery txs accountQueryPath req s) (''error making abci query for account='' @ address) (\<lambda>res s.
     if qr_Code res \<noteq> 0
     then (Err (ErrText (''error fetching account with address='' @ address @ '' log='' @ qr_Log res)), s)
     else
       go_try (unmarshal_account txs (qr_Value res), s)
         (''error unmarshalling QueryAccountResponse for account='' @ address) (\<lambda>response s.
       case response of
         None \<Rightarrow> (Panic ''nil pointer dereference'', s)
       | Some bz \<Rightarrow>
           go_try (unmarshal_BaseAccount txs bz, s)
             (''error unmarshalling BaseAccount for account='' @ address) (\<lambda>account s. (Ok account, s)))))"

definition refreshAccountInfo :: "('s, 'm, 'b, 'k, 'd) TxSender \<Rightarrow> 's \<Rightarrow> unit res \<times> 's" where
  "refreshAccountInfo txs s =
     go_try (SenderAddr txs s) ''could not fetch sender addr'' (\<lambda>senderAddr s.
     go_try (queryAccount txs senderAddr s) ''error fetching account'' (\<lambda>(number, seqn) s.
     (Ok (), put_sender txs \<lparr>sequence = seqn, accountNumber = number\<rparr> s)))"

section \<open>Gas\<close>

definition queryDynamicPrice :: "('s, 'm, 'b, 'k, 'd) TxSender \<Rightarrow> 's \<Rightarrow> 'd res \<times> 's" where
  "queryDynamicPrice txs s =
     go_try (marshal_price_request txs (denom txs), s)
       (''error marshalling query gas prices request for denom='' @ denom txs) (\<lambda>req s.
     go_try (rpc_ABCIQuery txs getPricesQueryPath req s) ''error making abci query'' (\<lambda>res s.
     if qr_Code res \<noteq> 0
     then (Err (ErrText (''error fetching feemarket gas price for denom='' @ denom txs)), s)
     else go_try (unmarshal_price txs (qr_Value res), s)
       (''error unmarshalling GasPriceResponse for denom='' @ denom txs) (\<lambda>gasPrice s. (Ok gasPrice, s))))"

definition multiplyGas :: "('s, 'm, 'b, 'k, 'd) TxSender \<Rightarrow> 'd \<Rightarrow> string res" where
  "multiplyGas txs gas =
     res_then (dec_Float64 txs gas) (\<lambda>floatGas.
       (let multipliedGas = float_mul (gasPriceMultiplier txs) floatGas;
            multipliedGas = (if float_gt multipliedGas (maxGasPrice txs) then maxGasPrice txs else multipliedGas)
        in Ok (FormatFloat_g4 multipliedGas)))"

definition getGasPrice :: "('s, 'm, 'b, 'k, 'd) TxSender \<Rightarrow> 's \<Rightarrow> string res \<times> 's" where
  "getGasPrice txs s =
     (case queryDynamicPrice txs s of
        (Inl (GoErr err), s) \<Rightarrow> (Ok (gasPrices txs), s)
      | (Inl f, s) \<Rightarrow> (Inl f, s)
      | (Inr gasPrice, s) \<Rightarrow> go_then (multiplyGas txs gasPrice, s) (\<lambda>multipliedGas s.
          (Ok (multipliedGas @ denom txs), s)))"

definition buildSimulationTx ::
  "('s, 'm, 'b, 'k, 'd) TxSender \<Rightarrow> Factory \<Rightarrow> 'm list \<Rightarrow> bytes res" where
  "buildSimulationTx txs txf msgs =
     res_try (BuildUnsignedTx txs (baseTxf txs) msgs) ''error building unsigned tx for simulation'' (\<lambda>txb.
     res_try (SetSignatures txs (tf_SignMode (baseTxf txs)) (tf_Sequence txf) txb) ''error settings signatures for simulation'' (\<lambda>txb.
     res_try (TxEncoder txs txb) ''error encoding transaction'' (\<lambda>bz.
     marshal_simulation txs bz)))"

definition calculateGas ::
  "('s, 'm, 'b, 'k, 'd) TxSender \<Rightarrow> Factory \<Rightarrow> 'm list \<Rightarrow> 's \<Rightarrow> u64 res \<times> 's" where
  "calculateGas txs txf msgs s =
     go_try (buildSimulationTx txs txf msgs, s) ''error building simulation tx'' (\<lambda>simulation s.
     go_try (rpc_ABCIQuery txs simulateQueryPath simulation s)
       ''error making abci query for gas calculation'' (\<lambda>res s.
     go_try (unmarshal_simulation txs (qr_Value res), s)
       ''error unmarshalling simulate response value'' (\<lambda>simRes s.
     case simRes of
       None \<Rightarrow> (Err (ErrText (''no result in simulation response with log='' @ qr_Log res @
         '' code='' @ format_nat (qr_Code res))), s)
     | Some gasUsed \<Rightarrow>
         (Ok (u64_of_float (sender_conv txs) (float_mul (tf_GasAdjustment txf) (float_of_u64 gasUsed))), s))))"

section \<open>Sending\<close>

definition signAndBuildTxBz ::
  "('s, 'm, 'b, 'k, 'd) TxSender \<Rightarrow> Factory \<Rightarrow> 'm list \<Rightarrow> 's \<Rightarrow> bytes res \<times> 's" where
  "signAndBuildTxBz txs txf msgs s =
     go_try (BuildUnsignedTx txs txf msgs, s) ''failed to build transaction builder'' (\<lambda>txBuilder s.
     go_try (Sign txs txf (signKeyName txs) txBuilder s) ''error signing transaction'' (\<lambda>txBuilder s.
     (TxEncoder txs txBuilder, s)))"

text \<open>The answer of the node to the broadcast.\<close>

definition after_broadcast ::
  "('s, 'm, 'b, 'k, 'd) TxSender \<Rightarrow> bytes \<Rightarrow> BroadcastResult \<Rightarrow> 's \<Rightarrow> string res \<times> 's" where
  "after_broadcast txs bz res s =
     (if br_Code res = 0 then
        (Ok (hex_encode (sender_tmhash txs bz)),
         put_sender txs ((get_sender txs s)\<lparr>sequence := sequence (get_sender txs s) + 1\<rparr>) s)
      else
        go_then (if br_Code res = IncorrectAccountSequenceCode then
            go_try (refreshAccountInfo txs s)
              ''error broadcasting sync transaction: failed to reinit sender'' (\<lambda>_ s. (Ok (), s))
          else (Ok (), s)) (\<lambda>_ s.
        (Err (ErrText (''error broadcasting sync transaction: log='' @ br_Log res)), s)))"

definition Send :: "('s, 'm, 'b, 'k, 'd) TxSender \<Rightarrow> 'm list \<Rightarrow> 's \<Rightarrow> string res \<times> 's" where
  "Send txs msgs s =
     go_try (getGasPrice txs s) ''error requesting feemarket gas price'' (\<lambda>gasPrice s.
     go_then (WithGasPrices txs gasPrice ((baseTxf txs)\<lparr>tf_AccountNumber := accountNumber (get_sender txs s),
                tf_Sequence := sequence (get_sender txs s)\<rparr>), s) (\<lambda>txf s.
      case calculateGas txs txf msgs s of
           (Inl (GoErr err), s) \<Rightarrow>
             go_then (if str_contains (err_text err) ''incorrect account sequence'' then
                 go_try (refreshAccountInfo txs s)
                   ''error calculating gas: failed to reinit sender'' (\<lambda>_ s. (Ok (), s))
               else (Ok (), s)) (\<lambda>_ s.
             (Err (ErrWrap ''error calculating gas'' err), s))
         | (Inl f, s) \<Rightarrow> (Inl f, s)
         | (Inr gasNeeded, s) \<Rightarrow>
             if gasLimit txs > 0 \<and> gasNeeded > gasLimit txs then
               (Err (ErrText (''exceeds gas limit: gas needed '' @ FormatUint gasNeeded @
                  '', gas limit '' @ FormatUint (gasLimit txs))), s)
             else
               (let txf = txf\<lparr>tf_Gas := gasNeeded\<rparr> in
                go_try (signAndBuildTxBz txs txf msgs s) ''could not sign and build tx bz'' (\<lambda>bz s.
                go_try (BroadcastTxSync txs bz s) ''error broadcasting sync transaction'' (\<lambda>res s.
                after_broadcast txs bz res s)))))"

text \<open>
  \<open>NewTxSender\<close>: the sender over the configuration, with the account loaded. \<open>T\<close> supplies the
  parameters; what the function sets is set here.
\<close>

definition NewTxSender ::
  "('s, 'm, 'b, 'k, 'd) TxSender \<Rightarrow> NeutronChainConfig \<Rightarrow> string \<Rightarrow> 's \<Rightarrow>
   ('s, 'm, 'b, 'k, 'd) TxSender res \<times> 's" where
  "NewTxSender T cfg neutronChainID s =
     go_then (WithGasPrices T (nc_GasPrices cfg) \<lparr>tf_SignMode = SIGN_MODE_DIRECT, tf_ChainID = neutronChainID,
         tf_GasAdjustment = nc_GasAdjustment cfg, tf_GasPrices = [], tf_AccountNumber = 0, tf_Sequence = 0,
         tf_Gas = 0\<rparr>, s) (\<lambda>txf s.
     (let txs = T\<lparr>baseTxf := txf,
                  signKeyName := nc_SignKeyName cfg, gasPrices := nc_GasPrices cfg,
                  gasLimit := nc_GasLimit cfg, denom := nc_Denom cfg, maxGasPrice := nc_MaxGasPrice cfg,
                  gasPriceMultiplier := nc_GasPriceMultiplier cfg\<rparr>
      in go_try (refreshAccountInfo txs (put_sender txs \<lparr>sequence = 0, accountNumber = 0\<rparr> s))
           ''failed to init tx sender'' (\<lambda>_ s. (Ok txs, s))))"

text \<open>The factory of one transaction.\<close>

definition send_factory :: "('s, 'm, 'b, 'k, 'd) TxSender \<Rightarrow> SenderState \<Rightarrow> string \<Rightarrow> Factory" where
  "send_factory txs sd prices = (baseTxf txs)\<lparr>tf_AccountNumber := accountNumber sd, tf_Sequence := sequence sd,
     tf_GasPrices := prices\<rparr>"

lemma WithGasPrices_Send: "WithGasPrices txs prices ((baseTxf txs)\<lparr>tf_AccountNumber := accountNumber sd,
    tf_Sequence := sequence sd\<rparr>) =
  (if parses_prices txs prices then Ok (send_factory txs sd prices) else Panic ''invalid decimal coin expression'')"
  by (simp add: WithGasPrices_def send_factory_def)

section \<open>The submitter\<close>

text \<open>
  \<open>neutrontypes.QueryResult\<close> and \<open>MsgSubmitQueryResult\<close>, as the code fills them; \<open>mk_msg\<close>
  makes an SDK message of one, \<open>msg_Validate\<close> is its validation.
\<close>

record ('r, 'y) QueryResult =
  qr_Height :: u64
  KvResults :: "StorageValue list"
  Revision :: u64
  AllowKvCallbacks :: bool
  BlockProof :: "('r, 'y) Block option"

record ('r, 'y) MsgSubmitQueryResult =
  msg_QueryId :: u64
  msg_Sender :: string
  msg_Result :: "('r, 'y) QueryResult"
  msg_ClientId :: string

record ('s, 'm, 'b, 'k, 'd, 'r, 'y) SubmitterImpl =
  si_sender :: "('s, 'm, 'b, 'k, 'd) TxSender"
  allowKVCallbacks :: bool
  clientID :: string
  mk_msg :: "('r, 'y) MsgSubmitQueryResult \<Rightarrow> 'm"
  msg_Validate :: "('r, 'y) MsgSubmitQueryResult \<Rightarrow> unit res"

definition NewSubmitterImpl where
  "NewSubmitterImpl sender allow client mk val =
     \<lparr>si_sender = sender, allowKVCallbacks = allow, clientID = client, mk_msg = mk, msg_Validate = val\<rparr>"

definition buildProofMsg ::
  "('s, 'm, 'b, 'k, 'd, 'r, 'y) SubmitterImpl \<Rightarrow> u64 \<Rightarrow> u64 \<Rightarrow> u64 \<Rightarrow> bool \<Rightarrow> StorageValue list \<Rightarrow> 's \<Rightarrow>
   'm list res \<times> 's" where
  "buildProofMsg si height revision queryId allow proof s =
     go_try (SenderAddr (si_sender si) s) ''could not fetch sender addr for building proof msg'' (\<lambda>senderAddr s.
     (let queryResult = \<lparr>qr_Height = height, KvResults = proof, Revision = revision,
            AllowKvCallbacks = allow, BlockProof = None\<rparr>;
          msg = \<lparr>msg_QueryId = queryId, msg_Sender = senderAddr, msg_Result = queryResult, msg_ClientId = clientID si\<rparr>
      in go_try (msg_Validate si msg, s) (''invalid proof message for query='' @ FormatUint queryId) (\<lambda>_ s.
         (Ok [mk_msg si msg], s))))"

definition buildTxProofMsg ::
  "('s, 'm, 'b, 'k, 'd, 'r, 'y) SubmitterImpl \<Rightarrow> u64 \<Rightarrow> ('r, 'y) Block \<Rightarrow> 's \<Rightarrow> 'm list res \<times> 's" where
  "buildTxProofMsg si queryId proof s =
     go_try (SenderAddr (si_sender si) s) ''could not fetch sender addr for building tx proof msg'' (\<lambda>senderAddr s.
     (let queryResult = \<lparr>qr_Height = 0, KvResults = [], Revision = 0, AllowKvCallbacks = False,
            BlockProof = Some proof\<rparr>;
          msg = \<lparr>msg_QueryId = queryId, msg_Sender = senderAddr, msg_Result = queryResult, msg_ClientId = clientID si\<rparr>
      in go_try (msg_Validate si msg, s) ''invalid tx proof message'' (\<lambda>_ s. (Ok [mk_msg si msg], s))))"

definition SubmitKVProof ::
  "('s, 'm, 'b, 'k, 'd, 'r, 'y) SubmitterImpl \<Rightarrow> u64 \<Rightarrow> u64 \<Rightarrow> u64 \<Rightarrow> StorageValue list \<Rightarrow> 'm \<Rightarrow> 's \<Rightarrow>
   unit res \<times> 's" where
  "SubmitKVProof si height revision queryId proof updateClientMsg s =
     go_try (buildProofMsg si height revision queryId (allowKVCallbacks si) proof s)
       ''could not build proof msg'' (\<lambda>msgs s.
     go_then (Send (si_sender si) ([updateClientMsg] @ msgs) s) (\<lambda>_ s. (Ok (), s)))"

definition SubmitTxProof ::
  "('s, 'm, 'b, 'k, 'd, 'r, 'y) SubmitterImpl \<Rightarrow> u64 \<Rightarrow> ('r, 'y) Block \<Rightarrow> 's \<Rightarrow> string res \<times> 's" where
  "SubmitTxProof si queryId proof s =
     go_try (buildTxProofMsg si queryId proof s) ''could not build tx proof msg'' (\<lambda>msgs s.
     Send (si_sender si) msgs s)"

definition SubmitterOf :: "('s, 'm, 'b, 'k, 'd, 'r, 'y) SubmitterImpl \<Rightarrow> ('s, 'r, 'y, 'm) Submitter" where
  "SubmitterOf si = \<lparr>sb_SubmitKVProof = SubmitKVProof si, sb_SubmitTxProof = SubmitTxProof si\<rparr>"

section \<open>The account sequence\<close>

text \<open>The parameters do not touch the sender's own fields.\<close>

definition sender_frame :: "('s, 'm, 'b, 'k, 'd) TxSender \<Rightarrow> bool" where
  "sender_frame txs \<longleftrightarrow>
     (\<forall>x s. get_sender txs (put_sender txs x s) = x) \<and>
     (\<forall>n s. get_sender txs (snd (keybase_Key txs n s)) = get_sender txs s) \<and>
     (\<forall>p d s. get_sender txs (snd (rpc_ABCIQuery txs p d s)) = get_sender txs s) \<and>
     (\<forall>b s. get_sender txs (snd (BroadcastTxSync txs b s)) = get_sender txs s) \<and>
     (\<forall>f n b s. get_sender txs (snd (Sign txs f n b s)) = get_sender txs s)"

lemma sender_frameD:
  assumes "sender_frame txs"
  shows "get_sender txs (put_sender txs x s) = x"
    "keybase_Key txs n s = (r1, s') \<Longrightarrow> get_sender txs s' = get_sender txs s"
    "rpc_ABCIQuery txs p d s = (r2, s') \<Longrightarrow> get_sender txs s' = get_sender txs s"
    "BroadcastTxSync txs bz s = (r3, s') \<Longrightarrow> get_sender txs s' = get_sender txs s"
    "Sign txs f n b s = (r4, s') \<Longrightarrow> get_sender txs s' = get_sender txs s"
  using assms unfolding sender_frame_def by (metis, (metis snd_conv)+)

lemma SenderAddr_frame:
  assumes "sender_frame txs"
  shows "get_sender txs (snd (SenderAddr txs s)) = get_sender txs s"
  using sender_frameD(2) [OF assms, of "signKeyName txs" s]
  by (cases "keybase_Key txs (signKeyName txs) s"; cases "fst (keybase_Key txs (signKeyName txs) s)")
    (auto simp: SenderAddr_def go_try_def split: sum.splits)

lemma queryAccount_frame:
  assumes "sender_frame txs"
  shows "get_sender txs (snd (queryAccount txs a s)) = get_sender txs s"
proof (cases "marshal_account_request txs a")
  case (Inr req)
  obtain r s1 where 1: "rpc_ABCIQuery txs accountQueryPath req s = (r, s1)" by fastforce
  from sender_frameD(3) [OF assms 1] show ?thesis
    using Inr 1 by (cases r) (auto simp: queryAccount_def go_try_def split: sum.splits option.splits)
qed (simp add: queryAccount_def)

text \<open>Refreshing loads what the account query returned, or leaves the fields alone.\<close>

lemma refreshAccountInfo_sender:
  assumes "sender_frame txs" "refreshAccountInfo txs s = (r, s')"
  shows "case r of Inl _ \<Rightarrow> get_sender txs s' = get_sender txs s
    | Inr _ \<Rightarrow> \<exists>a s1 s2. queryAccount txs a s1 =
        (Inr (accountNumber (get_sender txs s'), sequence (get_sender txs s')), s2)"
proof -
  obtain ra s1 where a: "SenderAddr txs s = (ra, s1)" by fastforce
  with SenderAddr_frame [OF assms(1), of s] have s1: "get_sender txs s1 = get_sender txs s" by simp
  show ?thesis
  proof (cases ra)
    case (Inl f)
    with assms(2) a s1 show ?thesis by (auto simp: refreshAccountInfo_def)
  next
    case (Inr addr)
    obtain rq s2 where q: "queryAccount txs addr s1 = (rq, s2)" by fastforce
    with queryAccount_frame [OF assms(1), of addr s1] s1 have "get_sender txs s2 = get_sender txs s" by simp
    with assms(2) a Inr q show ?thesis
      by (cases rq) (auto simp: refreshAccountInfo_def sender_frameD(1) [OF assms(1)] split: prod.splits, blast)
  qed
qed


lemma queryDynamicPrice_frame:
  assumes "sender_frame txs"
  shows "get_sender txs (snd (queryDynamicPrice txs s)) = get_sender txs s"
proof (cases "marshal_price_request txs (denom txs)")
  case (Inr req)
  obtain r s1 where 1: "rpc_ABCIQuery txs getPricesQueryPath req s = (r, s1)" by fastforce
  from sender_frameD(3) [OF assms 1] show ?thesis
    using Inr 1 by (cases r) (auto simp: queryDynamicPrice_def go_try_def split: sum.splits)
qed (simp add: queryDynamicPrice_def)

lemma getGasPrice_frame:
  assumes "sender_frame txs" "getGasPrice txs s = (r, s')"
  shows "get_sender txs s' = get_sender txs s"
  using queryDynamicPrice_frame [OF assms(1), of s] assms(2)
  by (auto simp: getGasPrice_def go_then_def split: prod.splits sum.splits fault.splits)

lemma calculateGas_frame:
  assumes "sender_frame txs" "calculateGas txs txf msgs s = (r, s')"
  shows "get_sender txs s' = get_sender txs s"
proof (cases "buildSimulationTx txs txf msgs")
  case (Inr sim)
  obtain q s1 where 1: "rpc_ABCIQuery txs simulateQueryPath sim s = (q, s1)" by fastforce
  from sender_frameD(3) [OF assms(1) 1] show ?thesis
    using Inr 1 assms(2) by (cases q) (auto simp: calculateGas_def go_try_def split: sum.splits option.splits)
qed (use assms(2) in \<open>auto simp: calculateGas_def\<close>)

lemma signAndBuildTxBz_frame:
  assumes "sender_frame txs" "signAndBuildTxBz txs txf msgs s = (r, s')"
  shows "get_sender txs s' = get_sender txs s"
proof (cases "BuildUnsignedTx txs txf msgs")
  case (Inr b)
  obtain q s1 where 1: "Sign txs txf (signKeyName txs) b s = (q, s1)" by fastforce
  from sender_frameD(5) [OF assms(1) 1] show ?thesis
    using Inr 1 assms(2) by (cases q) (auto simp: signAndBuildTxBz_def)
qed (use assms(2) in \<open>auto simp: signAndBuildTxBz_def\<close>)

text \<open>
  A transaction that was sent carried the account's sequence and was accepted by the node; the
  sequence then moves by one, and the gas stayed within the limit.
\<close>

lemma Send_Inr:
  assumes fr: "sender_frame txs" and run: "Send txs msgs s = (Inr h, s')"
  obtains gasPrice gas bz res s1 s2 s3 s4 where
    "signAndBuildTxBz txs ((baseTxf txs)\<lparr>tf_AccountNumber := accountNumber (get_sender txs s),
       tf_Sequence := sequence (get_sender txs s), tf_GasPrices := gasPrice, tf_Gas := gas\<rparr>) msgs s1 = (Inr bz, s2)"
    "parses_prices txs gasPrice"
    "BroadcastTxSync txs bz s3 = (Inr res, s4)" "br_Code res = 0" "h = hex_encode (sender_tmhash txs bz)"
    "gasLimit txs = 0 \<or> gas \<le> gasLimit txs"
    "get_sender txs s' = (get_sender txs s)\<lparr>sequence := sequence (get_sender txs s) + 1\<rparr>"
proof -
  from run obtain gasPrice s1 where 1: "getGasPrice txs s = (Inr gasPrice, s1)"
    by (auto simp: Send_def res_success)
  note f1 = getGasPrice_frame [OF fr 1]
  define txf where "txf = send_factory txs (get_sender txs s) gasPrice"
  from run 1 f1 have p: "parses_prices txs gasPrice" by (auto simp: Send_def WithGasPrices_Send split: if_splits)
  obtain rg s2 where 2: "calculateGas txs txf msgs s1 = (rg, s2)" by fastforce
  note f2 = calculateGas_frame [OF fr 2]
  from run 1 2 f1 p obtain gas where gas: "rg = Inr gas"
    by (cases rg) (auto simp: Send_def WithGasPrices_Send txf_def [symmetric] Let_def res_success split: fault.splits)
  with run 1 2 f1 obtain bz s3 res s4 where lim: "gasLimit txs = 0 \<or> gas \<le> gasLimit txs" and
    3: "signAndBuildTxBz txs (txf\<lparr>tf_Gas := gas\<rparr>) msgs s2 = (Inr bz, s3)" and
    4: "BroadcastTxSync txs bz s3 = (Inr res, s4)" and
    5: "after_broadcast txs bz res s4 = (Inr h, s')"
    by (auto simp: Send_def WithGasPrices_Send p txf_def [symmetric] Let_def res_success not_less word_gt_0 split: if_splits)
  from 5 have 6: "br_Code res = 0" "h = hex_encode (sender_tmhash txs bz)"
      "s' = put_sender txs ((get_sender txs s4)\<lparr>sequence := sequence (get_sender txs s4) + 1\<rparr>) s4"
    by (auto simp: after_broadcast_def res_success split: if_splits)
  have "get_sender txs s4 = get_sender txs s"
    using f1 f2 signAndBuildTxBz_frame [OF fr 3] sender_frameD(4) [OF fr 4] by simp
  with 6(3) have "get_sender txs s' = (get_sender txs s)\<lparr>sequence := sequence (get_sender txs s) + 1\<rparr>"
    by (simp add: sender_frameD(1) [OF fr])
  from that [OF 3 [unfolded txf_def send_factory_def] p 4 6(1,2) lim this] show thesis .
qed

text \<open>A failed send leaves the account fields alone or loads what an account query returned.\<close>

definition refreshed :: "('s, 'm, 'b, 'k, 'd) TxSender \<Rightarrow> 's \<Rightarrow> bool" where
  "refreshed txs s' \<longleftrightarrow> (\<exists>a s1 s2. queryAccount txs a s1 =
     (Inr (accountNumber (get_sender txs s'), sequence (get_sender txs s')), s2))"

lemma try_refresh:
  assumes fr: "sender_frame txs"
    and run: "go_then (if c then go_try (refreshAccountInfo txs s) p (\<lambda>_ s. (Ok (), s)) else (Ok (), s))
      (\<lambda>_ s. (Err e, s)) = (r, s')"
  shows "get_sender txs s' = get_sender txs s \<or> refreshed txs s'"
proof (cases c)
  case True
  obtain q s1 where 1: "refreshAccountInfo txs s = (q, s1)" by fastforce
  from refreshAccountInfo_sender [OF fr 1] run True 1 show ?thesis
    by (cases q) (auto simp: refreshed_def)
qed (use run in auto)

lemma after_broadcast_Inl:
  assumes fr: "sender_frame txs" and run: "after_broadcast txs bz res s = (Inl f, s')"
  shows "get_sender txs s' = get_sender txs s \<or> refreshed txs s'"
proof (cases "br_Code res = 0")
  case True
  with run show ?thesis by (simp add: after_broadcast_def)
next
  case False
  show ?thesis
    by (rule try_refresh [OF fr run [unfolded after_broadcast_def if_not_P [OF False]]])
qed

lemma broadcast_Inl:
  assumes fr: "sender_frame txs"
    and run: "go_try (signAndBuildTxBz txs txf msgs s) p (\<lambda>bz s. go_try (BroadcastTxSync txs bz s) p' (\<lambda>res s.
      after_broadcast txs bz res s)) = (Inl f, s')"
  shows "get_sender txs s' = get_sender txs s \<or> refreshed txs s'"
proof -
  obtain rb s3 where 3: "signAndBuildTxBz txs txf msgs s = (rb, s3)" by fastforce
  note f3 = signAndBuildTxBz_frame [OF fr 3]
  show ?thesis
  proof (cases rb)
    case (Inl g)
    with run 3 f3 show ?thesis by auto
  next
    case (Inr bz)
    obtain rs s4 where 4: "BroadcastTxSync txs bz s3 = (rs, s4)" by fastforce
    with sender_frameD(4) [OF fr 4] f3 have "get_sender txs s4 = get_sender txs s" by simp
    with run 3 Inr 4 after_broadcast_Inl [OF fr, of bz _ s4 f s'] show ?thesis by (cases rs) auto
  qed
qed

lemma Send_Inl:
  assumes fr: "sender_frame txs" and run: "Send txs msgs s = (Inl f, s')"
  shows "get_sender txs s' = get_sender txs s \<or> refreshed txs s'"
proof -
  obtain gp s1 where 1: "getGasPrice txs s = (gp, s1)" by fastforce
  note f1 = getGasPrice_frame [OF fr 1]
  consider (stop) "get_sender txs s' = get_sender txs s" | (priced) gasPrice where "gp = Inr gasPrice" "parses_prices txs gasPrice"
    using run 1 f1 by (cases gp) (auto simp: Send_def WithGasPrices_Send split: if_splits)
  then show ?thesis
  proof cases
    case priced
    define txf where "txf = send_factory txs (get_sender txs s) gasPrice"
    note Send_simps = Send_def WithGasPrices_Send priced txf_def [symmetric] Let_def
    obtain rg s2 where 2: "calculateGas txs txf msgs s1 = (rg, s2)" by fastforce
    note f2 = calculateGas_frame [OF fr 2]
    show ?thesis
    proof (cases rg)
      case (Inr gas)
      with run 1 2 f1 f2 broadcast_Inl [OF fr, of "txf\<lparr>tf_Gas := gas\<rparr>" msgs s2] show ?thesis
        by (auto simp: Send_simps split: if_splits)
    next
      case (Inl g)
      show ?thesis
      proof (cases g)
        case (GoErr e)
        with Inl run 1 2 f1 have "go_then (if str_contains (err_text e) ''incorrect account sequence'' then
            go_try (refreshAccountInfo txs s2) ''error calculating gas: failed to reinit sender'' (\<lambda>_ s. (Ok (), s))
            else (Ok (), s2)) (\<lambda>_ s. (Err (ErrWrap ''error calculating gas'' e) :: string res, s)) = (Inl f, s')"
          by (auto simp: Send_simps split: if_splits)
        from try_refresh [OF fr this] f1 f2 show ?thesis by simp
      qed (use Inl run 1 2 f1 f2 in \<open>auto simp: Send_simps\<close>)
    qed
  qed simp
qed

end
