(* ===== verification/App.thy ===== *)
theory App
  imports Encoding Rest_Client Relayer Tx_Querier Tx_Submit_Checker Kv_Processor Submit
begin

text \<open>
  \<open>internal/app\<close> and \<open>internal/relay/config.go\<close>: how the program is put together. The chains, the
  connection parameters and the components are built here, each from the models of its own
  theory; the constructors of the third-party clients are the parameter \<open>platform\<close>.
\<close>

section \<open>Chain providers\<close>

text \<open>\<open>time.Duration.String\<close>: the fraction without trailing zeros, then the units.\<close>

fun padded_digits :: "nat \<Rightarrow> nat \<Rightarrow> string" where
  "padded_digits 0 n = []"
| "padded_digits (Suc k) n = padded_digits k (n div 10) @ [digit_char (n mod 10)]"

definition frac_text :: "nat \<Rightarrow> nat \<Rightarrow> string" where
  "frac_text v prec =
     (let ds = strip_zeros (padded_digits prec (v mod 10 ^ prec))
      in if ds = [] then [] else CHR ''.'' # ds)"

definition Duration_String :: "int \<Rightarrow> string" where
  "Duration_String d =
     (let u = nat \<bar>d\<bar>; sec = u div 10 ^ 9;
          body =
            (if u = 0 then ''0s''
             else if u < 10 ^ 3 then format_nat u @ ''ns''
             else if u < 10 ^ 6 then format_nat (u div 10 ^ 3) @ frac_text u 3 @ [CHR 0xC2, CHR 0xB5] @ ''s''
             else if u < 10 ^ 9 then format_nat (u div 10 ^ 6) @ frac_text u 6 @ ''ms''
             else
               (if 3600 \<le> sec then format_nat (sec div 3600) @ ''h'' else []) @
               (if 60 \<le> sec then format_nat (sec div 60 mod 60) @ ''m'' else []) @
               format_nat (sec mod 60) @ frac_text u 9 @ ''s'')
      in if d < 0 then CHR ''-'' # body else body)"

text \<open>\<open>cosmos.CosmosProviderConfig\<close>, the fields the code sets.\<close>

record CosmosProviderConfig =
  pc_Key :: string
  pc_ChainID :: string
  pc_RPCAddr :: string
  pc_AccountPrefix :: string
  pc_KeyringBackend :: string
  pc_GasAdjustment :: float64
  pc_GasPrices :: string
  pc_Debug :: bool
  pc_Timeout :: string
  pc_OutputFormat :: string
  pc_SignModeStr :: string

text \<open>
  \<open>newProvider\<close> is \<open>cfg.NewProvider\<close>, \<open>as_cosmos\<close> the type assertion, \<open>setKeyDirectory\<close> the
  write to the concrete provider, \<open>newChain\<close> is \<open>relayer.NewChain\<close>.
\<close>

record ('p, 'ch) chains =
  newProvider :: "CosmosProviderConfig \<Rightarrow> string \<Rightarrow> bool \<Rightarrow> string \<Rightarrow> 'p res"
  as_cosmos :: "'p \<Rightarrow> bool"
  setKeyDirectory :: "string \<Rightarrow> 'p \<Rightarrow> 'p"
  newChain :: "'p \<Rightarrow> bool \<Rightarrow> 'ch"
  Bech32MainPrefix :: string

definition getChain :: "('p, 'ch) chains \<Rightarrow> CosmosProviderConfig \<Rightarrow> string \<Rightarrow> bool \<Rightarrow> 'ch res" where
  "getChain X cfg homepath debug =
     res_try (newProvider X cfg homepath debug (pc_ChainID cfg)) ''failed to build ChainProvider for'' (\<lambda>prov.
       if \<not> as_cosmos X prov
       then Err (ErrText ''failed to patch CosmosProvider config (type cast failed)'')
       else Ok (newChain X (setKeyDirectory X homepath prov) debug))"

definition GetNeutronChain :: "('p, 'ch) chains \<Rightarrow> NeutronChainConfig \<Rightarrow> string \<Rightarrow> 'ch res" where
  "GetNeutronChain X cfg chainID =
     (let provCfg = \<lparr>pc_Key = nc_SignKeyName cfg, pc_ChainID = chainID, pc_RPCAddr = nc_RPCAddr cfg,
            pc_AccountPrefix = Bech32MainPrefix X, pc_KeyringBackend = nc_KeyringBackend cfg,
            pc_GasAdjustment = nc_GasAdjustment cfg, pc_GasPrices = nc_GasPrices cfg, pc_Debug = nc_Debug cfg,
            pc_Timeout = Duration_String (nc_Timeout cfg), pc_OutputFormat = nc_OutputFormat cfg,
            pc_SignModeStr = nc_SignModeStr cfg\<rparr>
      in res_try (getChain X provCfg (nc_HomeDir cfg) (nc_Debug cfg)) ''could not create neutron chain'' (\<lambda>chain. Ok chain))"

definition GetTargetChain :: "('p, 'ch) chains \<Rightarrow> TargetChainConfig \<Rightarrow> string \<Rightarrow> 'ch res" where
  "GetTargetChain X cfg chainID =
     (let provCfg = \<lparr>pc_Key = [], pc_ChainID = chainID, pc_RPCAddr = tc_RPCAddr cfg, pc_AccountPrefix = [],
            pc_KeyringBackend = ''test'', pc_GasAdjustment = Fin False 0 0, pc_GasPrices = [],
            pc_Debug = tc_Debug cfg, pc_Timeout = Duration_String (tc_Timeout cfg),
            pc_OutputFormat = tc_OutputFormat cfg, pc_SignModeStr = []\<rparr>
      in res_try (getChain X provCfg [] (tc_Debug cfg)) ''could not create neutron chain'' (\<lambda>chain. Ok chain))"

section \<open>Connection parameters\<close>

record connectionParams =
  neutronChainID :: string
  neutronClientID :: string
  targetChainID :: string
  targetClientID :: string
  targetConnectionID :: string

text \<open>One attempt of the retried function; a nil pointer in the answer panics.\<close>

definition query_connection :: "('s \<Rightarrow> ConnectionBody res \<times> 's) \<Rightarrow> 's \<Rightarrow> ConnectionBody res \<times> 's" where
  "query_connection fetch s =
     go_then (fetch s) (\<lambda>payload s.
       case Connection payload of
         None \<Rightarrow> (Panic ''nil pointer dereference'', s)
       | Some c \<Rightarrow>
           (case Counterparty c of
              None \<Rightarrow> (Panic ''nil pointer dereference'', s)
            | Some cp \<Rightarrow>
                if co_ConnectionID cp = [] then (Err (ErrText ''empty target connection ID''), s)
                else if co_ClientID cp = [] then (Err (ErrText ''empty target client ID''), s)
                else (Ok payload, s)))"

definition conn_params :: "string \<Rightarrow> string \<Rightarrow> ConnectionBody \<Rightarrow> connectionParams res" where
  "conn_params neutronNet targetNet payload =
     (case Connection payload of
        None \<Rightarrow> Panic ''nil pointer dereference''
      | Some c \<Rightarrow>
          (case Counterparty c of
             None \<Rightarrow> Panic ''nil pointer dereference''
           | Some cp \<Rightarrow> Ok \<lparr>neutronChainID = neutronNet, neutronClientID = cb_ClientID c,
               targetChainID = targetNet, targetClientID = co_ClientID cp,
               targetConnectionID = co_ConnectionID cp\<rparr>))"

text \<open>\<open>newREST\<close> is \<open>raw.NewRESTClient\<close>, \<open>connection\<close> the REST call, \<open>status\<close> a node's network name.\<close>

definition loadConnParams ::
  "(string \<Rightarrow> 'w res) \<Rightarrow> ('n \<Rightarrow> 's \<Rightarrow> string res \<times> 's) \<Rightarrow> ('w \<Rightarrow> string \<Rightarrow> 's \<Rightarrow> ConnectionBody res \<times> 's) \<Rightarrow>
   ('s, ConnectionBody) retry \<Rightarrow> 'n \<Rightarrow> 'n \<Rightarrow> string \<Rightarrow> string \<Rightarrow> 's \<Rightarrow> connectionParams res \<times> 's" where
  "loadConnParams newREST status connection rty neutronClient targetClient neutronRestAddress neutronConnectionId s =
     go_try (newREST neutronRestAddress, s) ''failed to get newRESTClient'' (\<lambda>restClient s.
     go_try (status targetClient s) ''failed to fetch target chain status'' (\<lambda>targetNet s.
     go_try (status neutronClient s) ''failed to fetch neutron chain status'' (\<lambda>neutronNet s.
     go_then (rty (query_connection (connection restClient neutronConnectionId)) s) (\<lambda>payload s.
     (conn_params neutronNet targetNet payload, s)))))"

section \<open>The components\<close>

record ('s, 'r, 'x, 'y, 'm, 'b, 'k, 'd, 'n, 'w, 'kb, 'p, 'ch, 'ir, 'mc, 'am, 'bm) platform =
  pf_NewRPCClient :: "string \<Rightarrow> int \<Rightarrow> 's \<Rightarrow> 'n res \<times> 's"
  pf_NewRESTClient :: "string \<Rightarrow> 'w res"
  pf_Status :: "'n \<Rightarrow> 's \<Rightarrow> string res \<times> 's"
  pf_Connection :: "'w \<Rightarrow> string \<Rightarrow> 's \<Rightarrow> ConnectionBody res \<times> 's"
  pf_retry :: "('s, ConnectionBody) retry"
  pf_ABCIQuery :: "'n \<Rightarrow> string \<Rightarrow> bytes \<Rightarrow> 64 word \<Rightarrow> bool \<Rightarrow> 's \<Rightarrow> ABCIResponse res \<times> 's"
  pf_codec :: "('s, 'ir, 'mc, 'am, 'bm) codec_lib"
  pf_keyring_New :: "string \<Rightarrow> string \<Rightarrow> string \<Rightarrow> 'mc \<Rightarrow> 'kb res"
  pf_sender :: "'n \<Rightarrow> 'mc \<Rightarrow> 'kb \<Rightarrow> ('s, 'm, 'b, 'k, 'd) TxSender"
  pf_chains :: "('p, 'ch) chains"
  pf_AddPath :: "string \<Rightarrow> string \<Rightarrow> 'ch \<Rightarrow> 'ch res"
  pf_Init :: "'ch \<Rightarrow> 's \<Rightarrow> unit res \<times> 's"
  pf_PathClientID :: "'ch \<Rightarrow> string"
  pf_QueryLatestHeight :: "'ch \<Rightarrow> 's \<Rightarrow> int res \<times> 's"
  pf_mk_msg :: "('r, 'y) MsgSubmitQueryResult \<Rightarrow> 'm"
  pf_msg_Validate :: "('r, 'y) MsgSubmitQueryResult \<Rightarrow> unit res"
  pf_txquerier :: "'n \<Rightarrow> ('s, 'r) TXQuerierSrv"
  pf_pages :: nat
  pf_fetcher :: "'ch \<Rightarrow> 'ch \<Rightarrow> ('s, 'x) TrustedHeaderFetcherSrv"
  pf_MsgUpdateClient :: "'ch \<Rightarrow> string \<Rightarrow> 'x tm_Header \<Rightarrow> 's \<Rightarrow> 'm relayer_message res \<times> 's"
  pf_retry_header :: "('s, 'x tm_Header) retry"
  pf_retry_msg :: "('s, 'm relayer_message) retry"
  pf_retry_tx :: "('s, TxResponse) retry"
  pf_Tx :: "'n \<Rightarrow> bytes \<Rightarrow> 's \<Rightarrow> TxResponse res \<times> 's"
  pf_runtime :: "('s, Metrics) runtime"
  pf_regexp :: "string \<Rightarrow> (string \<Rightarrow> bool) option"
  pf_tmhash :: "bytes \<Rightarrow> bytes"
  pf_pack :: "'x tm_Header \<Rightarrow> 'y res"
  pf_unmarshal_filter :: "string \<Rightarrow> TransactionsFilterItem list res"
  pf_float_conv :: "float64 \<Rightarrow> u64"

definition loadChains ::
  "('s, 'r, 'x, 'y, 'm, 'b, 'k, 'd, 'n, 'w, 'kb, 'p, 'ch, 'ir, 'mc, 'am, 'bm) platform \<Rightarrow> NeutronQueryRelayerConfig \<Rightarrow>
   connectionParams \<Rightarrow> 's \<Rightarrow> ('ch \<times> 'ch) res \<times> 's" where
  "loadChains P cfg connParams s =
     go_try (GetTargetChain (pf_chains P) (TargetChain cfg) (targetChainID connParams), s)
       ''failed to load target chain from env'' (\<lambda>targetChain s.
     go_try (pf_AddPath P (targetClientID connParams) (targetConnectionID connParams) targetChain, s)
       ''failed to AddPath to source chain'' (\<lambda>targetChain s.
     go_try (pf_Init P targetChain s) ''failed to Init source chain provider'' (\<lambda>_ s.
     go_try (GetNeutronChain (pf_chains P) (NeutronChain cfg) (neutronChainID connParams), s)
       ''failed to load neutron chain from env'' (\<lambda>neutronChain s.
     go_try (pf_AddPath P (neutronClientID connParams) (nc_ConnectionID (NeutronChain cfg)) neutronChain, s)
       ''failed to AddPath to destination chain'' (\<lambda>neutronChain s.
     go_try (pf_Init P neutronChain s) ''failed to Init source chain provider'' (\<lambda>_ s.
     (Ok (neutronChain, targetChain), s)))))))"

record ('s, 'r, 'x, 'y, 'm, 'ch) DependencyContainer =
  dc_txQuerier :: "('s, 'r) TXQuerier"
  dc_txProcessor :: "('s, 'r) TXProcessor"
  dc_kvProcessor :: "'s KVProcessor"
  dc_proofSubmitter :: "('s, 'r, 'y, 'm) Submitter"
  dc_trustedHeaderFetcher :: "('s, 'x) TrustedHeaderFetcher"
  dc_targetChain :: 'ch
  dc_neutronChain :: 'ch
  dc_targetQuerier :: "'s Querier"

definition default_TxProcessor where
  "default_TxProcessor P fetcher st submitter cfg =
     NewTxProcessor fetcher st submitter (pf_runtime P) (pf_regexp P) (IgnoreErrorsRegex cfg) (pf_tmhash P) (pf_pack P)"

definition default_KVProcessor where
  "default_KVProcessor P fetcher querier cfg submitter st targetChain neutronChain =
     KVProcessorOf (NewKVProcessor fetcher querier (MinKvUpdatePeriod cfg) submitter st
       (pf_QueryLatestHeight P targetChain) (pf_MsgUpdateClient P neutronChain) (pf_PathClientID P neutronChain)
       (pf_retry_header P) (pf_retry_msg P) (pf_runtime P))"

definition NewDefaultDependencyContainer ::
  "('s, 'r, 'x, 'y, 'm, 'b, 'k, 'd, 'n, 'w, 'kb, 'p, 'ch, 'ir, 'mc, 'am, 'bm) platform \<Rightarrow> NeutronQueryRelayerConfig \<Rightarrow>
   ('s, 'r) Storage \<Rightarrow> 's \<Rightarrow> ('s, 'r, 'x, 'y, 'm, 'ch) DependencyContainer res \<times> 's" where
  "NewDefaultDependencyContainer P cfg st s =
     go_try (pf_NewRPCClient P (tc_RPCAddr (TargetChain cfg)) (tc_Timeout (TargetChain cfg)) s)
       ''could not initialize target rpc client'' (\<lambda>targetClient s.
     go_try (pf_NewRPCClient P (nc_RPCAddr (NeutronChain cfg)) (nc_Timeout (NeutronChain cfg)) s)
       ''cannot create neutron client'' (\<lambda>neutronClient s.
     go_try (loadConnParams (pf_NewRESTClient P) (pf_Status P) (pf_Connection P) (pf_retry P) neutronClient targetClient
         (nc_RESTAddr (NeutronChain cfg)) (nc_ConnectionID (NeutronChain cfg)) s)
       ''cannot load network params'' (\<lambda>connParams s.
     go_try (NewQuerier (pf_ABCIQuery P targetClient) (targetChainID connParams), s)
       ''cannot connect to target chain'' (\<lambda>targetQuerier s.
     go_then (MakeCodecDefault (pf_codec P) s) (\<lambda>cdc s.
     case NewProtoCodec (pf_codec P) (InterfaceRegistry cdc) s of (keyCodec, s) \<Rightarrow>
     go_try (TestKeybase (pf_keyring_New P) (neutronChainID connParams) (nc_HomeDir (NeutronChain cfg)) keyCodec, s)
       ''cannot initialize keybase'' (\<lambda>keybase s.
     go_try (NewTxSender (pf_sender P neutronClient (Marshaller cdc) keybase) (NeutronChain cfg) (neutronChainID connParams) s)
       ''cannot create tx sender'' (\<lambda>txSender s.
     go_try (loadChains P cfg connParams s) ''failed to loadChains'' (\<lambda>(neutronChain, targetChain) s.
     (let proofSubmitter = SubmitterOf (NewSubmitterImpl txSender (AllowKVCallbacks cfg)
            (pf_PathClientID P neutronChain) (pf_mk_msg P) (pf_msg_Validate P));
          txQuerier = TXQuerierOf (pf_pages P) (pf_txquerier P targetClient);
          trustedHeaderFetcher = TrustedHeaderFetcherOf (pf_pages P) (pf_fetcher P neutronChain targetChain)
      in go_then (default_TxProcessor P trustedHeaderFetcher st proofSubmitter cfg, s) (\<lambda>txProcessor s.
         (Ok \<lparr>dc_txQuerier = txQuerier, dc_txProcessor = TXProcessorOf txProcessor,
           dc_kvProcessor = default_KVProcessor P trustedHeaderFetcher targetQuerier cfg proofSubmitter st
             targetChain neutronChain,
           dc_proofSubmitter = proofSubmitter, dc_trustedHeaderFetcher = trustedHeaderFetcher,
           dc_targetChain = targetChain, dc_neutronChain = neutronChain, dc_targetQuerier = targetQuerier\<rparr>, s)))))))))))"

text \<open>The relayer gets processors of its own, over the container's collaborators.\<close>

definition NewDefaultRelayer ::
  "('s, 'r, 'x, 'y, 'm, 'b, 'k, 'd, 'n, 'w, 'kb, 'p, 'ch, 'ir, 'mc, 'am, 'bm) platform \<Rightarrow> NeutronQueryRelayerConfig \<Rightarrow>
   ('s, 'r) Storage \<Rightarrow> ('s, 'r, 'x, 'y, 'm, 'ch) DependencyContainer \<Rightarrow> ('s, 'r) Relayer res" where
  "NewDefaultRelayer P cfg st deps =
     res_then (default_TxProcessor P (dc_trustedHeaderFetcher deps) st (dc_proofSubmitter deps) cfg) (\<lambda>txProcessor.
     (let kvProcessor = default_KVProcessor P (dc_trustedHeaderFetcher deps) (dc_targetQuerier deps) cfg
            (dc_proofSubmitter deps) st (dc_targetChain deps) (dc_neutronChain deps)
      in Ok (NewRelayer cfg (dc_txQuerier deps) st (TXProcessorOf txProcessor) kvProcessor
           (pf_QueryLatestHeight P (dc_targetChain deps)) (pf_runtime P) (pf_unmarshal_filter P)
           (pf_float_conv P) (pf_tmhash P))))"

definition NewDefaultTxSubmitChecker ::
  "('s, 'r, 'x, 'y, 'm, 'b, 'k, 'd, 'n, 'w, 'kb, 'p, 'ch, 'ir, 'mc, 'am, 'bm) platform \<Rightarrow> NeutronQueryRelayerConfig \<Rightarrow>
   ('s, 'r) Storage \<Rightarrow> 's \<Rightarrow> ('s, 'r) TxSubmitChecker res \<times> 's" where
  "NewDefaultTxSubmitChecker P cfg st s =
     go_try (pf_NewRPCClient P (nc_RPCAddr (NeutronChain cfg)) (nc_Timeout (NeutronChain cfg)) s)
       ''failed to create NewRPCClient'' (\<lambda>neutronClient s.
     (Ok (NewTxSubmitChecker st (pf_Tx P neutronClient) (pf_retry_tx P) (pf_runtime P)), s))"

text \<open>\<open>NewLevelDBStorage\<close> and \<open>NewDefaultStorage\<close>: \<open>open_file\<close> is \<open>leveldb.OpenFile\<close>.\<close>

definition NewLevelDBStorage :: "(string \<Rightarrow> 'd res) \<Rightarrow> string \<Rightarrow> 'd res" where
  "NewLevelDBStorage open_file path =
     res_try (open_file path) ''failed to initialize new stirage'' (\<lambda>database. Ok database)"

definition NewDefaultStorage :: "(string \<Rightarrow> 'd res) \<Rightarrow> NeutronQueryRelayerConfig \<Rightarrow> 'd res" where
  "NewDefaultStorage open_file cfg =
     res_try (NewLevelDBStorage open_file (StoragePath cfg)) ''failed to create NewLevelDBStorage'' (\<lambda>st. Ok st)"

section \<open>What the assembly guarantees\<close>

text \<open>
  The connection parameters are those of one answer of the node, with both identifiers of the
  counterparty present; the function never panics after the retries succeeded.
\<close>

lemma query_connection_Inr:
  assumes "query_connection fetch s = (Inr p, s')"
  shows "fetch s = (Inr p, s') \<and>
     (\<exists>c cp. Connection p = Some c \<and> Counterparty c = Some cp \<and> co_ConnectionID cp \<noteq> [] \<and> co_ClientID cp \<noteq> [])"
proof -
  from assms obtain x s1 where 1: "fetch s = (Inr x, s1)" by (auto simp: query_connection_def res_success)
  show ?thesis
  proof (cases "Connection x")
    case (Some c)
    with 1 assms show ?thesis by (cases "Counterparty c") (auto simp: query_connection_def split: if_splits)
  qed (use 1 assms in \<open>simp add: query_connection_def\<close>)
qed

lemma loadConnParams_Inr:
  assumes rty: "retry_ok rty"
    and run: "loadConnParams newREST status connection rty nc tc addr connId s = (Inr cp, s')"
  obtains w p c cparty s1 s2 s3 where "newREST addr = Inr w"
    "connection w connId s1 = (Inr p, s')" "Connection p = Some c" "Counterparty c = Some cparty"
    "co_ConnectionID cparty \<noteq> []" "co_ClientID cparty \<noteq> []"
    "neutronClientID cp = cb_ClientID c" "targetClientID cp = co_ClientID cparty"
    "targetConnectionID cp = co_ConnectionID cparty"
    "status tc s = (Inr (targetChainID cp), s2)" "status nc s2 = (Inr (neutronChainID cp), s3)"
proof -
  from run obtain w tn s2 nn s3 p where
    1: "newREST addr = Inr w" "status tc s = (Inr tn, s2)" "status nc s2 = (Inr nn, s3)" and
    2: "rty (query_connection (connection w connId)) s3 = (Inr p, s')" and 3: "conn_params nn tn p = Inr cp"
    by (auto simp: loadConnParams_def res_success)
  from retried_Inr [OF retry_okD [OF rty 2] refl, of "\<lambda>_. True"] obtain s1 where
    "query_connection (connection w connId) s1 = (Inr p, s')" by blast
  from query_connection_Inr [OF this] obtain c cparty where
    4: "connection w connId s1 = (Inr p, s')" "Connection p = Some c" "Counterparty c = Some cparty"
      "co_ConnectionID cparty \<noteq> []" "co_ClientID cparty \<noteq> []" by blast
  with 3 have "cp = \<lparr>neutronChainID = nn, neutronClientID = cb_ClientID c, targetChainID = tn,
      targetClientID = co_ClientID cparty, targetConnectionID = co_ConnectionID cparty\<rparr>"
    by (simp add: conn_params_def)
  with 1 4 show thesis by (intro that [of w s1 p c cparty s2 s3]) simp_all
qed

text \<open>
  The relayer and the web server work on the same storage with processors that agree on the
  hash of a transaction.
\<close>

lemma default_TxProcessor_Inr:
  "default_TxProcessor P fetcher st sb cfg = Inr r \<Longrightarrow> txp_storage r = st \<and> tmhash r = pf_tmhash P \<and>
     txp_trustedHeaderFetcher r = fetcher \<and> txp_submitter r = sb \<and> txp_runtime r = pf_runtime P"
  by (auto simp: default_TxProcessor_def NewTxProcessor_def split: option.splits)

lemma NewDefaultRelayer_uses:
  assumes "NewDefaultRelayer P cfg st deps = Inr rl"
  obtains r where "default_TxProcessor P (dc_trustedHeaderFetcher deps) st (dc_proofSubmitter deps) cfg = Inr r"
    "rl_txProcessor rl = TXProcessorOf r" "rl_storage rl = st" "rl_cfg rl = cfg" "rl_tmhash rl = pf_tmhash P"
    "relayer_uses rl st (TXProcessorOf r) (tx_hash_of r)"
proof -
  from assms obtain r where r: "default_TxProcessor P (dc_trustedHeaderFetcher deps) st (dc_proofSubmitter deps) cfg = Inr r"
    and rl: "rl_txProcessor rl = TXProcessorOf r" "rl_storage rl = st" "rl_cfg rl = cfg" "rl_tmhash rl = pf_tmhash P"
    by (auto simp: NewDefaultRelayer_def res_success NewRelayer_def)
  have "relayer_uses rl st (TXProcessorOf r) (tx_hash_of r)"
    using rl default_TxProcessor_Inr [OF r] by (simp add: relayer_uses_def tx_hash_of_def)
  with r rl that show thesis by blast
qed

lemma NewDefaultDependencyContainer_Inr:
  assumes "NewDefaultDependencyContainer P cfg st s = (Inr deps, s')"
  obtains r where "default_TxProcessor P (dc_trustedHeaderFetcher deps) st (dc_proofSubmitter deps) cfg = Inr r"
    "dc_txProcessor deps = TXProcessorOf r"
  using assms by (auto simp: NewDefaultDependencyContainer_def res_success Let_def case_prod_beta)

end
