(* ===== verification/Subscriber.thy ===== *)
theory Subscriber
  imports Rest_Query Registry Runtime Config "HOL-Library.AList"
begin

text \<open>
  \<open>internal/subscriber\<close>: the subscriber follows the registered queries of its connection. It
  loads them at startup, keeps them up to date with Neutron's events and queues the ones that
  are due at every block. The RPC and REST clients are parameters.
\<close>

section \<open>Events\<close>

text \<open>The constants of Neutron's types package that name event attributes.\<close>

record EventAttrs =
  EventTypeNeutronMessage :: string
  AttributeKeyConnectionID :: string
  AttributeKeyQueryID :: string
  AttributeKeyKVQuery :: string
  AttributeTransactionsFilterQuery :: string
  AttributeKeyQueryType :: string
  AttributeKeyOwner :: string
  NeutronModuleName :: string
  AttributeValueQueryUpdated :: string
  AttributeValueQueryRemoved :: string
  EventNewBlockHeader :: string

definition moduleAttr :: "EventAttrs \<Rightarrow> string" where
  "moduleAttr A = EventTypeNeutronMessage A @ ''.module''"

definition actionAttr :: "EventAttrs \<Rightarrow> string" where
  "actionAttr A = EventTypeNeutronMessage A @ ''.action''"

definition eventAttr :: string where
  "eventAttr = ''tm.event''"

definition ConnectionIdAttr :: "EventAttrs \<Rightarrow> string" where
  "ConnectionIdAttr A = EventTypeNeutronMessage A @ ''.'' @ AttributeKeyConnectionID A"

definition QueryIdAttr :: "EventAttrs \<Rightarrow> string" where
  "QueryIdAttr A = EventTypeNeutronMessage A @ ''.'' @ AttributeKeyQueryID A"

definition KvKeyAttr :: "EventAttrs \<Rightarrow> string" where
  "KvKeyAttr A = EventTypeNeutronMessage A @ ''.'' @ AttributeKeyKVQuery A"

definition TransactionsFilterAttr :: "EventAttrs \<Rightarrow> string" where
  "TransactionsFilterAttr A = EventTypeNeutronMessage A @ ''.'' @ AttributeTransactionsFilterQuery A"

definition TypeAttr :: "EventAttrs \<Rightarrow> string" where
  "TypeAttr A = EventTypeNeutronMessage A @ ''.'' @ AttributeKeyQueryType A"

definition OwnerAttr :: "EventAttrs \<Rightarrow> string" where
  "OwnerAttr A = EventTypeNeutronMessage A @ ''.'' @ AttributeKeyOwner A"

text \<open>\<open>ResultEvent.Events\<close>, a map from an attribute to its values; a missing key reads as nil.\<close>

type_synonym events = "(string \<times> string list) list"

definition event_values :: "events \<Rightarrow> string \<Rightarrow> string list" where
  "event_values ev k = (case map_of ev k of None \<Rightarrow> [] | Some vs \<Rightarrow> vs)"

section \<open>The subscriber\<close>

text \<open>
  The map \<open>activeQueries\<close> is an association list with distinct keys; \<open>get_active\<close> and
  \<open>put_active\<close> reach it. \<open>send_task\<close> is the send on the tasks channel, \<open>tasks_len\<close> its length.
\<close>

type_synonym active = "(string \<times> RegisteredQuery) list"

record 's Subscriber =
  rpc_Start :: "'s \<Rightarrow> unit res \<times> 's"
  rpc_Subscribe :: "string \<Rightarrow> string \<Rightarrow> 's \<Rightarrow> unit res \<times> 's"
  rpc_Unsubscribe :: "string \<Rightarrow> string \<Rightarrow> 's \<Rightarrow> unit res \<times> 's"
  rpc_Status :: "'s \<Rightarrow> int res \<times> 's"
  rest_RegisteredQuery :: "string \<Rightarrow> 's \<Rightarrow> RegisteredQueryBody res \<times> 's"
  rest_RegisteredQueries :: "string list \<Rightarrow> string \<Rightarrow> bytes option \<Rightarrow> 's \<Rightarrow> RegisteredQueriesBody res \<times> 's"
  sub_connectionID :: string
  sub_registry :: Registry
  watchedTypes :: "string list"
  sub_attrs :: EventAttrs
  get_active :: "'s \<Rightarrow> active"
  put_active :: "active \<Rightarrow> 's \<Rightarrow> 's"
  send_task :: "RegisteredQuery \<Rightarrow> 's \<Rightarrow> 's"
  tasks_len :: "'s \<Rightarrow> nat"
  sub_runtime :: "('s, Metrics) runtime"

text \<open>\<open>Config\<close> of the subscriber, and \<open>NewSubscriber\<close>: \<open>T\<close> supplies the parameters.\<close>

record SubscriberConfig =
  cfg_ConnectionID :: string
  cfg_WatchedTypes :: "string list"
  cfg_Registry :: Registry

definition NewSubscriber :: "'s Subscriber \<Rightarrow> SubscriberConfig \<Rightarrow> 's \<Rightarrow> 's Subscriber res \<times> 's" where
  "NewSubscriber T cfg s =
     go_try (rpc_Start T s) ''could not start tendermint rpcClient'' (\<lambda>_ s.
       (Ok (T\<lparr>sub_connectionID := cfg_ConnectionID cfg, sub_registry := cfg_Registry cfg,
             watchedTypes := foldl set_add [] (cfg_WatchedTypes cfg)\<rparr>), put_active T [] s))"

text \<open>\<open>NewDefaultSubscriber\<close>: what it configures (the clients are parameters of \<open>T\<close>).\<close>

definition default_config :: "NeutronQueryRelayerConfig \<Rightarrow> SubscriberConfig" where
  "default_config cfg = \<lparr>cfg_ConnectionID = nc_ConnectionID (NeutronChain cfg),
     cfg_WatchedTypes = [InterchainQueryTypeKV] @ (if AllowTxQueries cfg then [InterchainQueryTypeTX] else []),
     cfg_Registry = New (RegistryCfg cfg)\<rparr>"

definition NewDefaultSubscriber ::
  "(string \<Rightarrow> int \<Rightarrow> 'c1 res) \<Rightarrow> (string \<Rightarrow> int \<Rightarrow> 'c2 res) \<Rightarrow> ('c1 \<Rightarrow> 'c2 \<Rightarrow> 's Subscriber) \<Rightarrow>
   NeutronQueryRelayerConfig \<Rightarrow> 's \<Rightarrow> 's Subscriber res \<times> 's" where
  "NewDefaultSubscriber newRPC newREST T cfg s =
     go_try (newRPC (nc_RPCAddr (NeutronChain cfg)) (nc_Timeout (NeutronChain cfg)), s)
       ''could not create new tendermint rpcClient for Subscriber'' (\<lambda>rpcClient s.
     go_try (newREST (nc_RESTAddr (NeutronChain cfg)) (nc_Timeout (NeutronChain cfg)), s)
       ''failed to get NewRESTClient for Subscriber'' (\<lambda>restClient s.
     (case NewSubscriber (T rpcClient restClient) (default_config cfg) s of
        (Inl (GoErr e), s) \<Rightarrow> (Err (ErrText (''failed to create a NewSubscriber: '' @ err_text e)), s)
      | (r, s) \<Rightarrow> (r, s))))"

definition isWatchedMsgType :: "'s Subscriber \<Rightarrow> string \<Rightarrow> bool" where
  "isWatchedMsgType S msgType \<longleftrightarrow> msgType \<in> set (watchedTypes S)"

definition isWatchedQueryID :: "'s Subscriber \<Rightarrow> u64 \<Rightarrow> bool" where
  "isWatchedQueryID S queryID \<longleftrightarrow> IsQueryIDsEmpty (sub_registry S) \<or> ContainsQueryID (sub_registry S) queryID"

definition isWatchedAddress :: "'s Subscriber \<Rightarrow> string \<Rightarrow> bool" where
  "isWatchedAddress S address \<longleftrightarrow> IsAddressesEmpty (sub_registry S) \<or> ContainsAddress (sub_registry S) address"

definition subscriberName :: string where
  "subscriberName = ''neutron-rpcClient''"

text \<open>\<open>k='v'\<close>, the condition of an event query.\<close>

definition attr_eq :: "string \<Rightarrow> string \<Rightarrow> string" where
  "attr_eq k v = k @ ''='' @ [CHR 39] @ v @ [CHR 39]"

definition getQueryUpdatedSubscription :: "'s Subscriber \<Rightarrow> string" where
  "getQueryUpdatedSubscription S = (let A = sub_attrs S in
     attr_eq (ConnectionIdAttr A) (sub_connectionID S) @ '' AND '' @
     attr_eq (moduleAttr A) (NeutronModuleName A) @ '' AND '' @
     attr_eq (actionAttr A) (AttributeValueQueryUpdated A))"

definition getQueryRemovedSubscription :: "'s Subscriber \<Rightarrow> string" where
  "getQueryRemovedSubscription S = (let A = sub_attrs S in
     attr_eq (ConnectionIdAttr A) (sub_connectionID S) @ '' AND '' @
     attr_eq (moduleAttr A) (NeutronModuleName A) @ '' AND '' @
     attr_eq (actionAttr A) (AttributeValueQueryRemoved A))"

definition getNewBlockHeaderSubscription :: "'s Subscriber \<Rightarrow> string" where
  "getNewBlockHeaderSubscription S = attr_eq eventAttr (EventNewBlockHeader (sub_attrs S))"


section \<open>Loading queries\<close>

definition getNeutronRegisteredQuery :: "'s Subscriber \<Rightarrow> string \<Rightarrow> 's \<Rightarrow> RegisteredQuery res \<times> 's" where
  "getNeutronRegisteredQuery S queryId s =
     go_try (rest_RegisteredQuery S queryId s) ''failed to get NeutronInterchainqueriesRegisteredQuery'' (\<lambda>payload s.
     go_try (single_ToNeutronRegisteredQuery (rb_RegisteredQuery payload), s)
       ''failed to get neutronQueryFromRestQuery'' (\<lambda>neutronQuery s. (Ok neutronQuery, s)))"

text \<open>The loop over one page.\<close>

fun add_page :: "'s Subscriber \<Rightarrow> RestRegisteredQuery option list \<Rightarrow> active \<Rightarrow> active res" where
  "add_page S [] out = Ok out"
| "add_page S (restQuery # rs) out =
     res_try (items_ToNeutronRegisteredQuery restQuery) ''failed to cast ToNeutronRegisteredQuery'' (\<lambda>neutronQuery.
       if \<not> isWatchedMsgType S (QueryType neutronQuery) then add_page S rs out
       else if \<not> isWatchedQueryID S (Id neutronQuery) then add_page S rs out
       else (case restQuery of
           None \<Rightarrow> Panic ''nil pointer dereference''
         | Some rq \<Rightarrow> add_page S rs (AList.update (rq_ID rq) neutronQuery out)))"

text \<open>The loop over the pages, on fuel.\<close>

fun load_pages :: "nat \<Rightarrow> 's Subscriber \<Rightarrow> bytes option \<Rightarrow> active \<Rightarrow> 's \<Rightarrow> active res \<times> 's" where
  "load_pages 0 S pageKey out s = (Inl OutOfFuel, s)"
| "load_pages (Suc fuel) S pageKey out s =
     go_try (rest_RegisteredQueries S (GetAddresses (sub_registry S)) (sub_connectionID S) pageKey s)
       ''failed to get NeutronInterchainqueriesRegisteredQueries'' (\<lambda>payload s.
     go_then (add_page S (elements (RegisteredQueries payload)) out, s) (\<lambda>out s.
       case rb_Pagination payload of
         None \<Rightarrow> (Ok out, s)
       | Some p \<Rightarrow> if rp_NextKey p \<noteq> [] then load_pages fuel S (Some (rp_NextKey p)) out s else (Ok out, s)))"

definition getNeutronRegisteredQueries :: "nat \<Rightarrow> 's Subscriber \<Rightarrow> 's \<Rightarrow> active res \<times> 's" where
  "getNeutronRegisteredQueries fuel S s = load_pages fuel S None [] s"

section \<open>Event handlers\<close>

definition checkEvents :: "'s Subscriber \<Rightarrow> events \<Rightarrow> bool res" where
  "checkEvents S ev =
     (let A = sub_attrs S; icqEventsCount = length (event_values ev (ConnectionIdAttr A)) in
      if icqEventsCount = 0 then Ok False
      else if length (event_values ev (KvKeyAttr A)) \<noteq> icqEventsCount \<or>
              length (event_values ev (TransactionsFilterAttr A)) \<noteq> icqEventsCount \<or>
              length (event_values ev (QueryIdAttr A)) \<noteq> icqEventsCount \<or>
              length (event_values ev (TypeAttr A)) \<noteq> icqEventsCount
           then Err (ErrText ''events attributes length does not match for events'')
           else Ok True)"

text \<open>
  \<open>processBlockEvent\<close>: the loop visits the map's keys in an order that the runtime chooses, here
  the argument \<open>order\<close>. A full tasks channel blocks the send, which the model does not show.
\<close>

definition due :: "u64 \<Rightarrow> RegisteredQuery \<Rightarrow> bool" where
  "due currentHeight q \<longleftrightarrow> \<not> (LastSubmittedResultLocalHeight q \<noteq> 0 \<and>
     currentHeight < LastSubmittedResultLocalHeight q + UpdatePeriod q)"

fun send_due :: "'s Subscriber \<Rightarrow> u64 \<Rightarrow> string list \<Rightarrow> 's \<Rightarrow> 's" where
  "send_due S currentHeight [] s = s"
| "send_due S currentHeight (k # ks) s =
     (case map_of (get_active S s) k of
        None \<Rightarrow> send_due S currentHeight ks s
      | Some activeQuery \<Rightarrow>
          if \<not> due currentHeight activeQuery then send_due S currentHeight ks s
          else
            (let s = send_task S activeQuery s;
                 s = rt_metrics (sub_runtime S) (SetSubscriberTaskQueueNumElements (tasks_len S s)) s;
                 s = put_active S (AList.update k
                       (activeQuery\<lparr>LastSubmittedResultLocalHeight := currentHeight\<rparr>) (get_active S s)) s
             in send_due S currentHeight ks s))"

definition processBlockEvent :: "'s Subscriber \<Rightarrow> string list \<Rightarrow> 's \<Rightarrow> unit res \<times> 's" where
  "processBlockEvent S order s =
     go_try (rpc_Status S s) ''failed to get Status'' (\<lambda>latest s.
       (Ok (), send_due S (word_of_int latest) order s))"

text \<open>The loop of \<open>processUpdateEvent\<close> over the indices of the connection attribute.\<close>

fun update_each :: "'s Subscriber \<Rightarrow> events \<Rightarrow> nat list \<Rightarrow> 's \<Rightarrow> unit res \<times> 's" where
  "update_each S ev [] s = (Ok (), s)"
| "update_each S ev (idx # is) s =
     (let owners = event_values ev (OwnerAttr (sub_attrs S)); ids = event_values ev (QueryIdAttr (sub_attrs S)) in
      if \<not> idx < length owners \<or> \<not> idx < length ids then (Panic ''index out of range'', s)
      else
        (let owner = owners ! idx; queryID = ids ! idx in
         if \<not> isWatchedAddress S owner then update_each S ev is s
         else go_try (ParseUint queryID, s) ''failed to parse queryID'' (\<lambda>queryIDNumber s.
           if \<not> isWatchedQueryID S queryIDNumber then update_each S ev is s
           else (case getNeutronRegisteredQuery S queryID s of
               (Inl (GoErr err), s) \<Rightarrow> update_each S ev is s
             | (Inl f, s) \<Rightarrow> (Inl f, s)
             | (Inr neutronQuery, s) \<Rightarrow>
                 if \<not> isWatchedMsgType S (QueryType neutronQuery) then update_each S ev is s
                 else
                   (let active = AList.update queryID neutronQuery (get_active S s);
                        s = put_active S active s;
                        s = rt_metrics (sub_runtime S) (SetQueriesToProcessNumElements (length active)) s
                    in update_each S ev is s)))))"

definition processUpdateEvent :: "'s Subscriber \<Rightarrow> events \<Rightarrow> 's \<Rightarrow> unit res \<times> 's" where
  "processUpdateEvent S ev s =
     go_try (checkEvents S ev, s) ''failed to checkEvents'' (\<lambda>check s.
       if \<not> check then (Ok (), s)
       else update_each S ev [0..<length (event_values ev (ConnectionIdAttr (sub_attrs S)))] s)"

fun remove_each :: "'s Subscriber \<Rightarrow> events \<Rightarrow> nat list \<Rightarrow> 's \<Rightarrow> unit res \<times> 's" where
  "remove_each S ev [] s = (Ok (), s)"
| "remove_each S ev (idx # is) s =
     (let ids = event_values ev (QueryIdAttr (sub_attrs S)) in
      if \<not> idx < length ids then (Panic ''index out of range'', s)
      else
        (let active = AList.delete (ids ! idx) (get_active S s);
             s = put_active S active s;
             s = rt_metrics (sub_runtime S) (SetQueriesToProcessNumElements (length active)) s
         in remove_each S ev is s))"

definition processRemoveEvent :: "'s Subscriber \<Rightarrow> events \<Rightarrow> 's \<Rightarrow> unit res \<times> 's" where
  "processRemoveEvent S ev s =
     go_try (checkEvents S ev, s) ''failed to checkEvents'' (\<lambda>check s.
       if \<not> check then (Ok (), s)
       else remove_each S ev [0..<length (event_values ev (ConnectionIdAttr (sub_attrs S)))] s)"

section \<open>The subscription\<close>

text \<open>
  The three concurrent unsubscriptions, in the order in which they run; their errors are only
  logged.
\<close>

definition unsubscribe :: "'s Subscriber \<Rightarrow> 's \<Rightarrow> 's" where
  "unsubscribe S s =
     fold (\<lambda>subscription s. snd (rpc_Unsubscribe S subscriberName subscription s))
       [getQueryUpdatedSubscription S, getQueryRemovedSubscription S, getNewBlockHeaderSubscription S] s"

text \<open>An event that the \<open>select\<close> receives; a block event with the order of the map iteration.\<close>

datatype sub_event = BlockEvent "string list" | UpdateEvent events | RemoveEvent events

definition handle_event :: "'s Subscriber \<Rightarrow> sub_event \<Rightarrow> 's \<Rightarrow> unit res \<times> 's" where
  "handle_event S e s = (case e of
       BlockEvent order \<Rightarrow> go_try (processBlockEvent S order s) ''failed to processBlockEvent'' (\<lambda>_ s. (Ok (), s))
     | UpdateEvent ev \<Rightarrow> go_try (processUpdateEvent S ev s) ''failed to processUpdateEvent'' (\<lambda>_ s. (Ok (), s))
     | RemoveEvent ev \<Rightarrow> go_try (processRemoveEvent S ev s) ''failed to processRemoveEvent'' (\<lambda>_ s. (Ok (), s)))"

text \<open>The loop over the events received before the cancellation.\<close>

fun event_loop :: "'s Subscriber \<Rightarrow> sub_event list \<Rightarrow> 's \<Rightarrow> unit res \<times> 's" where
  "event_loop S [] s = (Ok (), s)"
| "event_loop S (e # es) s = go_then (handle_event S e s) (\<lambda>_ s. event_loop S es s)"

definition Subscribe :: "nat \<Rightarrow> 's Subscriber \<Rightarrow> sub_event list \<Rightarrow> 's \<Rightarrow> unit res \<times> 's" where
  "Subscribe fuel S es s =
     go_try (getNeutronRegisteredQueries fuel S s) ''could not getNeutronRegisteredQueries'' (\<lambda>queries s.
     (let s = put_active S queries s;
          s = rt_metrics (sub_runtime S) (SetQueriesToProcessNumElements (length queries)) s
      in case
           go_try (rpc_Subscribe S subscriberName (getQueryUpdatedSubscription S) s) ''could not subscribe to events'' (\<lambda>_ s.
           go_try (rpc_Subscribe S subscriberName (getQueryRemovedSubscription S) s) ''could not subscribe to events'' (\<lambda>_ s.
           go_try (rpc_Subscribe S subscriberName (getNewBlockHeaderSubscription S) s) ''could not subscribe to events'' (\<lambda>_ s.
           event_loop S es s))) of (r, s) \<Rightarrow> (r, unsubscribe S s)))"


section \<open>The active queries\<close>

text \<open>
  \<open>sub_frame S tasks\<close>: the map is read back as written, nothing else touches it, and a send
  appends to the tasks that \<open>tasks\<close> reads off the state.
\<close>

definition sub_frame :: "'s Subscriber \<Rightarrow> ('s \<Rightarrow> RegisteredQuery list) \<Rightarrow> bool" where
  "sub_frame S tasks \<longleftrightarrow>
     (\<forall>a s. get_active S (put_active S a s) = a \<and> tasks (put_active S a s) = tasks s) \<and>
     (\<forall>q s. get_active S (send_task S q s) = get_active S s \<and> tasks (send_task S q s) = tasks s @ [q]) \<and>
     (\<forall>f s. get_active S (rt_metrics (sub_runtime S) f s) = get_active S s \<and>
        tasks (rt_metrics (sub_runtime S) f s) = tasks s) \<and>
     (\<forall>s. get_active S (snd (rpc_Status S s)) = get_active S s \<and> tasks (snd (rpc_Status S s)) = tasks s) \<and>
     (\<forall>q s. get_active S (snd (rest_RegisteredQuery S q s)) = get_active S s) \<and>
     (\<forall>a b s. get_active S (snd (rpc_Subscribe S a b s)) = get_active S s) \<and>
     (\<forall>a b s. get_active S (snd (rpc_Unsubscribe S a b s)) = get_active S s)"

lemma sub_frameD:
  assumes "sub_frame S tasks"
  shows "get_active S (put_active S a s) = a" "tasks (put_active S a s) = tasks s"
    "get_active S (send_task S q s) = get_active S s" "tasks (send_task S q s) = tasks s @ [q]"
    "get_active S (rt_metrics (sub_runtime S) f s) = get_active S s"
    "tasks (rt_metrics (sub_runtime S) f s) = tasks s"
    "rpc_Status S s = (r1, s') \<Longrightarrow> get_active S s' = get_active S s \<and> tasks s' = tasks s"
    "rest_RegisteredQuery S i s = (r2, s') \<Longrightarrow> get_active S s' = get_active S s"
    "rpc_Subscribe S n u s = (r3, s') \<Longrightarrow> get_active S s' = get_active S s"
    "get_active S (snd (rpc_Unsubscribe S n u s)) = get_active S s"
  using assms unfolding sub_frame_def by (simp_all, (metis snd_conv)+)

text \<open>
  A block sends exactly the queries that are due, in the order of the iteration, each as it was
  before; then their local height is the block's. The others stay as they were.
\<close>

definition due_queries :: "u64 \<Rightarrow> active \<Rightarrow> string list \<Rightarrow> RegisteredQuery list" where
  "due_queries h a order = filter (due h) (List.map_filter (map_of a) order)"

definition after_block :: "u64 \<Rightarrow> RegisteredQuery \<Rightarrow> RegisteredQuery" where
  "after_block h q = (if due h q then q\<lparr>LastSubmittedResultLocalHeight := h\<rparr> else q)"

lemma due_queries_Cons:
  "due_queries h a (k # ks) = (case map_of a k of None \<Rightarrow> [] | Some q \<Rightarrow> if due h q then [q] else []) @ due_queries h a ks"
  by (simp add: due_queries_def List.map_filter_def split: option.splits)

lemma due_queries_cong:
  "\<forall>k \<in> set ks. map_of a k = map_of b k \<Longrightarrow> due_queries h a ks = due_queries h b ks"
  by (induction ks) (auto simp: due_queries_Cons, simp add: due_queries_def List.map_filter_def)

lemma send_due_spec:
  assumes fr: "sub_frame S tasks" and "distinct order"
  shows "tasks (send_due S h order s) = tasks s @ due_queries h (get_active S s) order \<and>
    (\<forall>k. map_of (get_active S (send_due S h order s)) k =
      (if k \<in> set order then map_option (after_block h) (map_of (get_active S s) k) else map_of (get_active S s) k)) \<and>
    map fst (get_active S (send_due S h order s)) = map fst (get_active S s)"
  using assms(2)
proof (induction order arbitrary: s)
  case Nil
  show ?case by (simp add: due_queries_def List.map_filter_def)
next
  case (Cons k ks)
  note f = sub_frameD(1-6) [OF fr]
  show ?case
  proof (cases "map_of (get_active S s) k")
    case None
    with Cons show ?thesis by (auto simp: due_queries_Cons)
  next
    case (Some q)
    show ?thesis
    proof (cases "due h q")
      case False
      with Cons Some show ?thesis by (auto simp: due_queries_Cons after_block_def)
    next
      case True
      define q' where "q' = q\<lparr>LastSubmittedResultLocalHeight := h\<rparr>"
      define s1 where "s1 = put_active S (AList.update k q' (get_active S s))
        (rt_metrics (sub_runtime S) (SetSubscriberTaskQueueNumElements (tasks_len S (send_task S q s))) (send_task S q s))"
      have run: "send_due S h (k # ks) s = send_due S h ks s1"
        using Some True by (simp add: s1_def q'_def Let_def f)
      have s1: "get_active S s1 = AList.update k q' (get_active S s)" "tasks s1 = tasks s @ [q]"
        by (simp_all add: s1_def f)
      have keys: "map fst (AList.update k q' (get_active S s)) = map fst (get_active S s)"
        using map_of_SomeD [OF Some] by (force simp: AList.update_keys)
      have "due_queries h (get_active S s1) ks = due_queries h (get_active S s) ks"
        using Cons.prems by (intro due_queries_cong) (auto simp: s1 AList.update_conv')
      with Cons.IH [of s1] Cons.prems Some True s1 keys show ?thesis
        unfolding run by (auto simp: due_queries_Cons AList.update_conv' after_block_def q'_def)
    qed
  qed
qed

section \<open>What the active queries hold\<close>

text \<open>
  The map's keys are distinct and its entries satisfy \<open>Q\<close>. \<open>admits S Q evs\<close> says that \<open>Q\<close> holds of
  whatever the subscriber may store, with update events from \<open>evs\<close>: the queries of a page that are
  watched, the query an update event names when its owner, identifier and type are watched, and a
  stored query whose local height has moved.
\<close>

definition entries :: "(string \<Rightarrow> RegisteredQuery \<Rightarrow> bool) \<Rightarrow> active \<Rightarrow> bool" where
  "entries Q a \<longleftrightarrow> distinct (map fst a) \<and> (\<forall>(k, q) \<in> set a. Q k q)"

definition admits :: "'s Subscriber \<Rightarrow> (string \<Rightarrow> RegisteredQuery \<Rightarrow> bool) \<Rightarrow> events set \<Rightarrow> bool" where
  "admits S Q evs \<longleftrightarrow>
     (\<forall>k q h. Q k q \<longrightarrow> Q k (q\<lparr>LastSubmittedResultLocalHeight := h\<rparr>)) \<and>
     (\<forall>key s payload s1 rq q.
        rest_RegisteredQueries S (GetAddresses (sub_registry S)) (sub_connectionID S) key s = (Inr payload, s1) \<longrightarrow>
        Some rq \<in> set (elements (RegisteredQueries payload)) \<longrightarrow> items_ToNeutronRegisteredQuery (Some rq) = Inr q \<longrightarrow>
        isWatchedMsgType S (QueryType q) \<longrightarrow> isWatchedQueryID S (Id q) \<longrightarrow> Q (rq_ID rq) q) \<and>
     (\<forall>ev \<in> evs. \<forall>i n s q s1.
        i < length (event_values ev (OwnerAttr (sub_attrs S))) \<longrightarrow>
        isWatchedAddress S (event_values ev (OwnerAttr (sub_attrs S)) ! i) \<longrightarrow>
        ParseUint (event_values ev (QueryIdAttr (sub_attrs S)) ! i) = Inr n \<longrightarrow> isWatchedQueryID S n \<longrightarrow>
        getNeutronRegisteredQuery S (event_values ev (QueryIdAttr (sub_attrs S)) ! i) s = (Inr q, s1) \<longrightarrow>
        isWatchedMsgType S (QueryType q) \<longrightarrow> Q (event_values ev (QueryIdAttr (sub_attrs S)) ! i) q)"

lemma admitsD:
  assumes "admits S Q evs"
  shows "Q k q \<Longrightarrow> Q k (q\<lparr>LastSubmittedResultLocalHeight := h\<rparr>)"
    "rest_RegisteredQueries S (GetAddresses (sub_registry S)) (sub_connectionID S) key s = (Inr payload, s1) \<Longrightarrow>
     Some rq \<in> set (elements (RegisteredQueries payload)) \<Longrightarrow> items_ToNeutronRegisteredQuery (Some rq) = Inr q \<Longrightarrow>
     isWatchedMsgType S (QueryType q) \<Longrightarrow> isWatchedQueryID S (Id q) \<Longrightarrow> Q (rq_ID rq) q"
    "ev \<in> evs \<Longrightarrow> i < length (event_values ev (OwnerAttr (sub_attrs S))) \<Longrightarrow>
     isWatchedAddress S (event_values ev (OwnerAttr (sub_attrs S)) ! i) \<Longrightarrow>
     ParseUint (event_values ev (QueryIdAttr (sub_attrs S)) ! i) = Inr n \<Longrightarrow> isWatchedQueryID S n \<Longrightarrow>
     getNeutronRegisteredQuery S (event_values ev (QueryIdAttr (sub_attrs S)) ! i) s = (Inr q, s1) \<Longrightarrow>
     isWatchedMsgType S (QueryType q) \<Longrightarrow> Q (event_values ev (QueryIdAttr (sub_attrs S)) ! i) q"
  using assms unfolding admits_def by (blast, blast, blast)

lemma entries_Nil: "entries Q []"
  by (simp add: entries_def)

lemma set_update_subset: "set (AList.update k v xs) \<subseteq> insert (k, v) (set xs)"
  by (induction xs) auto

lemma entries_update: "entries Q a \<Longrightarrow> Q k q \<Longrightarrow> entries Q (AList.update k q a)"
  using set_update_subset [of k q a] unfolding entries_def by (auto simp: AList.distinct_update)

lemma entries_delete: "entries Q a \<Longrightarrow> entries Q (AList.delete k a)"
  using AList.distinct_delete [of a k] unfolding entries_def by (auto simp: AList.delete_eq)

lemma add_page_entries:
  assumes "\<And>rq q. Some rq \<in> set rs \<Longrightarrow> items_ToNeutronRegisteredQuery (Some rq) = Inr q \<Longrightarrow>
      isWatchedMsgType S (QueryType q) \<Longrightarrow> isWatchedQueryID S (Id q) \<Longrightarrow> Q (rq_ID rq) q"
  shows "entries Q out \<Longrightarrow> add_page S rs out = Inr out' \<Longrightarrow> entries Q out'"
  using assms
proof (induction S rs out rule: add_page.induct)
  case (2 S r rs out)
  from "2.prems"(2) obtain q where q: "items_ToNeutronRegisteredQuery r = Inr q" by (auto simp: res_success)
  show ?case
  proof (cases "isWatchedMsgType S (QueryType q) \<and> isWatchedQueryID S (Id q)")
    case False
    with 2 q show ?thesis by (auto split: if_splits)
  next
    case True
    from q obtain rq where rq: "r = Some rq" by (cases r) (auto simp: items_ToNeutronRegisteredQuery_def)
    have "Q (rq_ID rq) q" by (rule "2.prems"(3)) (use q rq True in simp_all)
    from entries_update [OF "2.prems"(1) this] have "entries Q (AList.update (rq_ID rq) q out)" .
    with "2.IH"(3) [OF q] "2.prems"(2,3) q True rq show ?thesis by simp
  qed
qed simp

lemma load_pages_entries:
  "admits S Q evs \<Longrightarrow> entries Q out \<Longrightarrow> load_pages fuel S key out s = (Inr a, s') \<Longrightarrow> entries Q a"
proof (induction fuel S key out s rule: load_pages.induct)
  case (2 fuel S key out s)
  then obtain payload s1 out1 where
    1: "rest_RegisteredQueries S (GetAddresses (sub_registry S)) (sub_connectionID S) key s = (Inr payload, s1)" and
    2: "add_page S (elements (RegisteredQueries payload)) out = Inr out1"
    by (auto simp: res_success)
  from add_page_entries [OF admitsD(2) [OF "2.prems"(1) 1] "2.prems"(2) 2] have out1: "entries Q out1" .
  with 1 2 "2.prems"(1,3) show ?case
    by (cases "rb_Pagination payload") (auto split: if_splits intro: "2.IH" [OF 1])
qed simp

lemma metrics_put_active:
  "sub_frame S tasks \<Longrightarrow> get_active S (rt_metrics (sub_runtime S) F (put_active S A s)) = A"
  by (simp add: sub_frameD(1-6))

lemma send_due_entries:
  assumes fr: "sub_frame S tasks" and Q: "admits S Q evs" and "entries Q (get_active S s)"
  shows "entries Q (get_active S (send_due S h order s))"
  using assms(3)
proof (induction order arbitrary: s)
  case (Cons k ks)
  note f = sub_frameD(1-6) [OF fr]
  show ?case
  proof (cases "map_of (get_active S s) k")
    case (Some q)
    then have "(k, q) \<in> set (get_active S s)" by (rule map_of_SomeD)
    with Cons.prems have "Q k q" unfolding entries_def by blast
    then have "entries Q (AList.update k (q\<lparr>LastSubmittedResultLocalHeight := h\<rparr>) (get_active S s))"
      by (intro entries_update Cons.prems admitsD(1) [OF Q])
    with Cons Some show ?thesis by (simp add: Let_def f)
  qed (use Cons in simp)
qed simp

lemma getNeutronRegisteredQuery_frame:
  assumes "sub_frame S tasks" "getNeutronRegisteredQuery S i s = (r, s')"
  shows "get_active S s' = get_active S s"
proof (cases "rest_RegisteredQuery S i s")
  case (Pair p s1)
  from sub_frameD(8) [OF assms(1) Pair] assms(2) Pair show ?thesis
    by (cases p) (auto simp: getNeutronRegisteredQuery_def go_try_def split: sum.splits)
qed

lemma update_each_entries:
  assumes fr: "sub_frame S tasks" and Q: "admits S Q evs" "ev \<in> evs"
    and "entries Q (get_active S s)" "update_each S ev is s = (r, s')"
  shows "entries Q (get_active S s')"
  using assms(4,5)
proof (induction "is" arbitrary: s)
  case (Cons i "is")
  let ?owners = "event_values ev (OwnerAttr (sub_attrs S))" and ?ids = "event_values ev (QueryIdAttr (sub_attrs S))"
  show ?case
  proof (cases "i < length ?owners \<and> i < length ?ids \<and> isWatchedAddress S (?owners ! i)")
    case False
    with Cons show ?thesis by (auto simp: Let_def split: if_splits)
  next
    case in_range: True
    show ?thesis
    proof (cases "ParseUint (?ids ! i)")
      case (Inl f)
      with in_range Cons.prems show ?thesis by (simp add: Let_def)
    next
      case (Inr n)
      obtain g s1 where g: "getNeutronRegisteredQuery S (?ids ! i) s = (g, s1)" by fastforce
      have s1: "entries Q (get_active S s1)"
        using getNeutronRegisteredQuery_frame [OF fr g] Cons.prems(1) by simp
      show ?thesis
      proof (cases "isWatchedQueryID S n \<and> (\<exists>q. g = Inr q \<and> isWatchedMsgType S (QueryType q))")
        case False
        with in_range Inr g Cons s1 show ?thesis
          by (auto simp: Let_def split: if_splits sum.splits fault.splits)
      next
        case True
        then obtain q where q: "g = Inr q" "isWatchedMsgType S (QueryType q)" "isWatchedQueryID S n" by blast
        let ?a = "AList.update (?ids ! i) q (get_active S s1)"
        from g q(1) have "getNeutronRegisteredQuery S (?ids ! i) s = (Inr q, s1)" by simp
        then have "Q (?ids ! i) q" using in_range by (intro admitsD(3) [OF Q _ _ Inr q(3) _ q(2)]) simp_all
        from entries_update [OF s1 this] have a: "entries Q ?a" .
        from Cons.prems(2) in_range Inr g q have
          "update_each S ev is (rt_metrics (sub_runtime S) (SetQueriesToProcessNumElements (length ?a))
             (put_active S ?a s1)) = (r, s')"
          by (simp add: Let_def)
        from Cons.IH [OF _ this] a show ?thesis by (simp add: metrics_put_active [OF fr])
      qed
    qed
  qed
qed simp

lemma remove_each_entries:
  assumes fr: "sub_frame S tasks" and "entries Q (get_active S s)" "remove_each S ev is s = (r, s')"
  shows "entries Q (get_active S s')"
  using assms(2,3)
proof (induction "is" arbitrary: s)
  case (Cons i "is")
  let ?ids = "event_values ev (QueryIdAttr (sub_attrs S))"
  show ?case
  proof (cases "i < length ?ids")
    case True
    from Cons.prems(2) True have "remove_each S ev is
        (rt_metrics (sub_runtime S) (SetQueriesToProcessNumElements (length (AList.delete (?ids ! i) (get_active S s))))
          (put_active S (AList.delete (?ids ! i) (get_active S s)) s)) = (r, s')"
      by (simp add: Let_def)
    from Cons.IH [OF _ this] entries_delete [OF Cons.prems(1)] show ?thesis
      by (simp add: metrics_put_active [OF fr])
  next
    case False
    with Cons.prems show ?thesis by (simp add: Let_def)
  qed
qed simp

text \<open>Every event handler keeps the invariant, whatever its outcome.\<close>

lemma handle_event_entries:
  assumes fr: "sub_frame S tasks" and Q: "admits S Q {ev. UpdateEvent ev \<in> E}" "e \<in> E"
    and ok: "entries Q (get_active S s)" and run: "handle_event S e s = (r, s')"
  shows "entries Q (get_active S s')"
proof (cases e)
  case (BlockEvent order)
  obtain q s1 where 1: "rpc_Status S s = (q, s1)" by fastforce
  with sub_frameD(7) [OF fr 1] ok have "entries Q (get_active S s1)" by simp
  with BlockEvent run 1 send_due_entries [OF fr Q(1) this] show ?thesis
    by (cases q) (auto simp: handle_event_def processBlockEvent_def)
next
  case (UpdateEvent ev)
  with Q(2) have "ev \<in> {ev. UpdateEvent ev \<in> E}" by simp
  from update_each_entries [OF fr Q(1) this ok] UpdateEvent run ok show ?thesis
    by (cases "checkEvents S ev")
      (auto simp: handle_event_def processUpdateEvent_def go_try_def split: if_splits prod.splits sum.splits)
next
  case (RemoveEvent ev)
  with run ok remove_each_entries [OF fr ok] show ?thesis
    by (cases "checkEvents S ev")
      (auto simp: handle_event_def processRemoveEvent_def go_try_def split: if_splits prod.splits sum.splits)
qed

lemma event_loop_entries:
  assumes fr: "sub_frame S tasks" and Q: "admits S Q {ev. UpdateEvent ev \<in> E}"
  shows "set es \<subseteq> E \<Longrightarrow> entries Q (get_active S s) \<Longrightarrow> event_loop S es s = (r, s') \<Longrightarrow> entries Q (get_active S s')"
proof (induction es arbitrary: s)
  case (Cons e es)
  obtain q s1 where 1: "handle_event S e s = (q, s1)" by fastforce
  from handle_event_entries [OF fr Q _ Cons.prems(2) 1] Cons.IH Cons.prems(1,3) 1 show ?case by (cases q) auto
qed simp

lemma Subscribe_entries:
  assumes fr: "sub_frame S tasks" and Q: "admits S Q {ev. UpdateEvent ev \<in> set es}"
    and load: "getNeutronRegisteredQueries fuel S s = (Inr a, s1)" and run: "Subscribe fuel S es s = (r, s')"
  shows "entries Q (get_active S s')"
proof -
  have a: "entries Q a"
    using load unfolding getNeutronRegisteredQueries_def by (rule load_pages_entries [OF Q entries_Nil])
  let ?s = "rt_metrics (sub_runtime S) (SetQueriesToProcessNumElements (length a)) (put_active S a s1)"
  let ?run = "go_try (rpc_Subscribe S subscriberName (getQueryUpdatedSubscription S) ?s) ''could not subscribe to events'' (\<lambda>_ s.
     go_try (rpc_Subscribe S subscriberName (getQueryRemovedSubscription S) s) ''could not subscribe to events'' (\<lambda>_ s.
     go_try (rpc_Subscribe S subscriberName (getNewBlockHeaderSubscription S) s) ''could not subscribe to events'' (\<lambda>_ s.
     event_loop S es s)))"
  let ?ok = "\<lambda>s. entries Q (get_active S s)"
  have sub: "?ok s'" if "?ok s" "rpc_Subscribe S subscriberName q s = (x, s')" for q s x s'
    using that sub_frameD(9) [OF fr that(2)] by simp
  have step: "?ok (snd (go_try (rpc_Subscribe S subscriberName q s) m k))"
    if "?ok s" "\<And>s. ?ok s \<Longrightarrow> ?ok (snd (k () s))" for q s m and k :: "unit \<Rightarrow> 'a \<Rightarrow> unit res \<times> 'a"
    using that sub [OF that(1)] by (cases "rpc_Subscribe S subscriberName q s") (auto simp: go_try_def split: sum.split)
  have "?ok ?s" using a by (simp add: metrics_put_active [OF fr])
  moreover have "?ok (snd (event_loop S es s))" if "?ok s" for s
    using event_loop_entries [OF fr Q order.refl that] by (cases "event_loop S es s") simp
  ultimately have "?ok (snd ?run)" by (intro step)
  moreover have "s' = unsubscribe S (snd ?run)"
    using run load by (auto simp: Subscribe_def Let_def split: prod.splits)
  moreover have "get_active S (unsubscribe S t) = get_active S t" for t
    by (simp add: unsubscribe_def sub_frameD(10) [OF fr])
  ultimately show ?thesis by simp
qed

section \<open>Only watched queries are active\<close>

definition active_ok :: "'s Subscriber \<Rightarrow> active \<Rightarrow> bool" where
  "active_ok S a \<longleftrightarrow> distinct (map fst a) \<and>
     (\<forall>(k, q) \<in> set a. isWatchedMsgType S (QueryType q) \<and> (\<exists>n. ParseUint k = Inr n \<and> isWatchedQueryID S n))"

lemma active_ok_entries:
  "active_ok S = entries (\<lambda>k q. isWatchedMsgType S (QueryType q) \<and> (\<exists>n. ParseUint k = Inr n \<and> isWatchedQueryID S n))"
  by (simp add: active_ok_def entries_def fun_eq_iff)

lemma watched_admitted:
  "admits S (\<lambda>k q. isWatchedMsgType S (QueryType q) \<and> (\<exists>n. ParseUint k = Inr n \<and> isWatchedQueryID S n)) evs"
  by (auto simp: admits_def dest: items_Id)

lemma load_pages_ok:
  "active_ok S out \<Longrightarrow> load_pages fuel S key out s = (Inr a, s') \<Longrightarrow> active_ok S a"
  unfolding active_ok_entries by (rule load_pages_entries [OF watched_admitted])

lemma active_ok_Nil: "active_ok S []"
  by (simp add: active_ok_def)

text \<open>
  Neutron's part: it answers a request that names owners with their queries only, and the owner that
  an update event gives for a query is the one it answers with when asked for that query.
\<close>

definition node_owners :: "'s Subscriber \<Rightarrow> sub_event list \<Rightarrow> bool" where
  "node_owners S es \<longleftrightarrow>
     (\<forall>os c key s payload s1 rq q. rest_RegisteredQueries S os c key s = (Inr payload, s1) \<longrightarrow>
        rq \<in> set (elements (RegisteredQueries payload)) \<longrightarrow> items_ToNeutronRegisteredQuery rq = Inr q \<longrightarrow>
        os \<noteq> [] \<longrightarrow> Owner q \<in> set os) \<and>
     (\<forall>ev i s payload s1 q. UpdateEvent ev \<in> set es \<longrightarrow> i < length (event_values ev (OwnerAttr (sub_attrs S))) \<longrightarrow>
        rest_RegisteredQuery S (event_values ev (QueryIdAttr (sub_attrs S)) ! i) s = (Inr payload, s1) \<longrightarrow>
        single_ToNeutronRegisteredQuery (rb_RegisteredQuery payload) = Inr q \<longrightarrow>
        Owner q = event_values ev (OwnerAttr (sub_attrs S)) ! i)"

lemma owned_admitted:
  assumes "node_owners S es"
  shows "admits S (\<lambda>k q. isWatchedMsgType S (QueryType q) \<and> isWatchedAddress S (Owner q) \<and>
    (\<exists>n. ParseUint k = Inr n \<and> isWatchedQueryID S n)) {ev. UpdateEvent ev \<in> set es}"
proof -
  have "isWatchedAddress S (Owner q)"
    if "rest_RegisteredQueries S (addresses (sub_registry S)) c key s = (Inr payload, s1)"
      "Some rq \<in> set (elements (RegisteredQueries payload))" "items_ToNeutronRegisteredQuery (Some rq) = Inr q"
    for c key s payload s1 rq q
    using assms that unfolding node_owners_def isWatchedAddress_def IsAddressesEmpty_def ContainsAddress_def
    by (metis length_0_conv)
  moreover have "Owner q = event_values ev (OwnerAttr (sub_attrs S)) ! i"
    if "UpdateEvent ev \<in> set es" "i < length (event_values ev (OwnerAttr (sub_attrs S)))"
      "getNeutronRegisteredQuery S (event_values ev (QueryIdAttr (sub_attrs S)) ! i) s = (Inr q, s1)"
    for ev i s q s1
  proof -
    from that(3) obtain payload s2 where
      "rest_RegisteredQuery S (event_values ev (QueryIdAttr (sub_attrs S)) ! i) s = (Inr payload, s2)"
      "single_ToNeutronRegisteredQuery (rb_RegisteredQuery payload) = Inr q"
      by (auto simp: getNeutronRegisteredQuery_def res_success)
    with assms that(1,2) show ?thesis unfolding node_owners_def by blast
  qed
  ultimately show ?thesis by (auto simp: admits_def dest: items_Id)
qed

section \<open>Loading against a node that answers\<close>

definition is_watched :: "'s Subscriber \<Rightarrow> RegisteredQuery \<Rightarrow> bool" where
  "is_watched S q \<longleftrightarrow> isWatchedMsgType S (QueryType q) \<and> isWatchedQueryID S (Id q)"

definition add_watched :: "'s Subscriber \<Rightarrow> RegisteredQuery \<Rightarrow> active \<Rightarrow> active" where
  "add_watched S q out = (if is_watched S q then AList.update (FormatUint (Id q)) q out else out)"

text \<open>\<open>P key\<close> is the node's answer to a page key; from \<open>key\<close> on its pages hold the queries \<open>qss\<close>.\<close>

fun rest_pages :: "(bytes option \<Rightarrow> RegisteredQueriesBody) \<Rightarrow> bytes option \<Rightarrow> RegisteredQuery list list \<Rightarrow> bool" where
  "rest_pages P key [] = False"
| "rest_pages P key (qs # qss) =
     (elements (RegisteredQueries (P key)) = map (\<lambda>q. Some (render_query q)) qs \<and>
      (case rb_Pagination (P key) of None \<Rightarrow> qss = []
       | Some p \<Rightarrow> if rp_NextKey p = [] then qss = [] else rest_pages P (Some (rp_NextKey p)) qss))"

definition node_answers :: "'s Subscriber \<Rightarrow> (bytes option \<Rightarrow> RegisteredQueriesBody) \<Rightarrow> bool" where
  "node_answers S P \<longleftrightarrow> (\<forall>key s.
     rest_RegisteredQueries S (GetAddresses (sub_registry S)) (sub_connectionID S) key s = (Ok (P key), s))"

lemma add_page_render:
  "add_page S (map (\<lambda>q. Some (render_query q)) qs) out = Ok (fold (add_watched S) qs out)"
proof (induction qs arbitrary: out)
  case (Cons q qs)
  have "rq_ID (render_query q) = FormatUint (Id q)" by (simp add: render_query_def)
  with Cons show ?case by (simp add: add_watched_def is_watched_def)
qed simp

lemma load_pages_answers:
  assumes "node_answers S P" "rest_pages P key qss" "length qss \<le> fuel"
  shows "load_pages fuel S key out s = (Ok (fold (add_watched S) (concat qss) out), s)"
  using assms(2,3)
proof (induction fuel arbitrary: key qss out)
  case 0
  then show ?case by (cases qss) auto
next
  case (Suc fuel)
  then obtain qs qss' where qss: "qss = qs # qss'" by (cases qss) auto
  have "rest_RegisteredQueries S (GetAddresses (sub_registry S)) (sub_connectionID S) key s = (Ok (P key), s)"
    using assms(1) unfolding node_answers_def by blast
  with Suc qss show ?case
    by (cases "rb_Pagination (P key)") (auto simp: add_page_render simp del: GetAddresses_eq split: if_splits)
qed

lemma map_of_watched:
  assumes "distinct (map Id qs)"
  shows "map_of (fold (add_watched S) qs out) (FormatUint i) =
    (case find (\<lambda>q. Id q = i \<and> is_watched S q) qs of None \<Rightarrow> map_of out (FormatUint i) | Some q \<Rightarrow> Some q)"
  using assms
proof (induction qs arbitrary: out)
  case (Cons q qs)
  have "find (\<lambda>x. Id x = Id q \<and> is_watched S x) qs = None" using Cons.prems by (auto simp: find_None_iff image_iff)
  with Cons show ?case by (auto simp: add_watched_def AList.update_conv' split: option.splits)
qed simp

section \<open>Removal\<close>

lemma remove_each_spec:
  assumes fr: "sub_frame S tasks" and "\<forall>i \<in> set is. i < length (event_values ev (QueryIdAttr (sub_attrs S)))"
  shows "fst (remove_each S ev is s) = Ok () \<and>
    map_of (get_active S (snd (remove_each S ev is s))) k =
      (if k \<in> (\<lambda>i. event_values ev (QueryIdAttr (sub_attrs S)) ! i) ` set is then None else map_of (get_active S s) k)"
  using assms(2)
  by (induction "is" arbitrary: s)
    (auto simp: Let_def metrics_put_active [OF fr] AList.delete_conv')

lemma nth_image: "(\<lambda>i. xs ! i) ` {..<length xs} = set xs"
  by (auto simp: set_conv_nth)

end
