(* ===== verification/Sample.thy ===== *)
theory Sample
  imports Lifecycle App Subscriber
begin

text \<open>
  One concrete world: a database kept as an association list, a codec, a runtime with a
  standing clock, and collaborators that answer. It shows that the hypotheses of the
  properties can hold, and every witness is evaluated on it.
\<close>

section \<open>The database\<close>

type_synonym sample_db = "(bytes \<times> bytes) list"

definition put_at :: "sample_db \<Rightarrow> bytes \<Rightarrow> bytes \<Rightarrow> unit res \<times> sample_db" where
  "put_at d k v = (Ok (), (k, v) # d)"

definition delete_at :: "sample_db \<Rightarrow> bytes \<Rightarrow> unit res \<times> sample_db" where
  "delete_at d k = (Ok (), filter (\<lambda>e. fst e \<noteq> k) d)"

definition sample_leveldb :: "(sample_db, sample_db) leveldb" where
  "sample_leveldb = \<lparr>
     db_Get = (\<lambda>d k. case map_of d k of None \<Rightarrow> Err ErrNotFound | Some v \<Rightarrow> Ok v),
     db_Has = (\<lambda>d k. Ok (map_of d k \<noteq> None)),
     db_Put = put_at,
     db_IterPrefix = (\<lambda>d p. filter (\<lambda>(k, v). map_of d k = Some v \<and> HasPrefix k p) d),
     db_Close = (\<lambda>d. (Ok (), d)),
     db_OpenTransaction = (\<lambda>d. Ok d),
     t_Put = put_at, t_Delete = delete_at,
     t_Commit = (\<lambda>t d. (Ok (), t, t)),
     t_Discard = (\<lambda>t d. d)\<rparr>"

text \<open>The same database with a commit that fails.\<close>

definition failing_leveldb :: "(sample_db, sample_db) leveldb" where
  "failing_leveldb = sample_leveldb\<lparr>t_Commit := (\<lambda>t d. (Err (ErrText ''commit failed''), t, d))\<rparr>"

lemma map_of_delete: "map_of (filter (\<lambda>e. fst e \<noteq> k) d) = (map_of d)(k := None)"
  by (induction d) (auto simp: fun_eq_iff)

lemma iter_set: "set (filter (\<lambda>(k, v). map_of d k = Some v \<and> HasPrefix k p) d) =
    {(k, v). map_of d k = Some v \<and> HasPrefix k p}"
  by (auto intro: map_of_SomeD)

lemma sample_leveldb_ok [simp]: "leveldb_ok sample_leveldb map_of map_of"
  unfolding leveldb_ok_def
  by (auto simp: sample_leveldb_def put_at_def delete_at_def map_of_delete simp del: set_filter
      simp add: iter_set split: option.splits)

lemma failing_leveldb_ok [simp]: "leveldb_ok failing_leveldb map_of map_of"
  unfolding leveldb_ok_def
  by (auto simp: failing_leveldb_def sample_leveldb_def put_at_def delete_at_def map_of_delete simp del: set_filter
      simp add: iter_set split: option.splits)

section \<open>Transactions\<close>

definition zero_proof :: crypto_Proof where
  "zero_proof = \<lparr>cp_Total = 0, cp_Index = 0, cp_LeafHash = [], cp_Aunts = []\<rparr>"

definition sample_value :: "bytes \<Rightarrow> unit TxValue" where
  "sample_value b = \<lparr>InclusionProof = zero_proof, DeliveryProof = zero_proof, Response = (), Data = b\<rparr>"

definition sample_codec :: "unit txcodec" where
  "sample_codec = \<lparr>tv_marshal = (\<lambda>v. Ok (JStr (hex_encode (Data v)))),
     tv_unmarshal = (\<lambda>j. case j of JStr x \<Rightarrow> res_then (hex_decode x) (\<lambda>b. Ok (sample_value b)) | _ \<Rightarrow> type_error)\<rparr>"

definition sample_tx :: "u64 \<Rightarrow> bytes \<Rightarrow> unit Transaction" where
  "sample_tx h b = \<lparr>Tx = Some (sample_value b), Height = h\<rparr>"

definition sample_tmhash :: "bytes \<Rightarrow> bytes" where
  "sample_tmhash b = take 32 (b @ replicate 32 (CHR ''0''))"

definition sample_hash :: "bytes \<Rightarrow> string" where
  "sample_hash b = hex_encode (sample_tmhash b)"

lemma length_sample_tmhash [simp]: "length (sample_tmhash b) = 32"
  by (simp add: sample_tmhash_def)

lemma is_txhash_sample [simp]: "is_txhash (sample_hash b)"
  by (simp add: sample_hash_def)

lemma sample_tx_sel [simp]: "Tx (sample_tx h b) = Some (sample_value b)" "Height (sample_tx h b) = h"
  "Data (sample_value b) = b"
  by (simp_all add: sample_tx_def sample_value_def)

lemma sample_tx_roundtrips [simp]: "tx_roundtrips sample_codec (sample_tx h b)"
  by (auto simp: tx_roundtrips_def sample_codec_def)

lemma sample_tx_storable [simp]: "tx_storable sample_codec (Some (sample_tx h b))" "tx_storable C None"
  by (simp_all add: tx_storable_def)

definition sample_now :: string where
  "sample_now = ''2024-03-01T10:00:00Z''"

lemma rfc3339_sample [simp]: "rfc3339_ok (utf8_clean sample_now)" "rfc3339_ok sample_now"
  by (simp_all add: sample_now_def is_ascii_def rfc3339_ok_def is_digit_def two_digits_in_def two_digits_def
      digit_val_def digits_val_def days_in_def zone_ok_def Let_def)

lemma sample_encode [simp]: "encode_Transaction sample_codec (sample_tx h b) =
    Ok (JObj [(''tx'', JStr (hex_encode b)), (''height'', JNum (FormatUint h))])"
  by (simp add: encode_Transaction_def sample_codec_def)

lemmas SetTxStatus_defs = SetTxStatus_def setTxStatus_body_def setTxStatus_cache_def cacheProcessedTx_def
  setTxStatus_pending_def saveIntoPendingQueue_def removeFromPendingQueue_def setTxStatus_unsuccessful_def
  saveIntoUnsuccessfulQueue_def setTxStatus_committed_def removeFromUnsuccessfulQueue_def removeCachedTx_def

lemma sample_ops [simp]:
  "db_OpenTransaction sample_leveldb d = Ok d" "t_Put sample_leveldb d k v = (Ok (), (k, v) # d)"
  "t_Delete sample_leveldb d k = delete_at d k" "delete_at d k = (Ok (), filter (\<lambda>e. fst e \<noteq> k) d)"
  "t_Commit sample_leveldb t d = (Ok (), t, t)" "t_Discard sample_leveldb t d = d"
  "db_Put sample_leveldb d k v = (Ok (), (k, v) # d)"
  by (simp_all add: sample_leveldb_def put_at_def delete_at_def)

text \<open>Writing a status into the sample database succeeds.\<close>

lemma sample_SetTxStatus_tx:
  "\<exists>d'. SetTxStatus sample_leveldb sample_codec q h n ti (Some (sample_tx b v)) now d = (Inr (), d')"
  by (simp add: SetTxStatus_defs)

lemma sample_SetTxStatus_None:
  "\<exists>d'. SetTxStatus sample_leveldb sample_codec q h n ti None now d = (Inr (), d')"
  by (simp add: SetTxStatus_defs)

lemma sample_db_wf_empty [simp]: "db_wf C Map.empty"
  by (simp add: db_wf_def decodes_def)

section \<open>The world\<close>

record world =
  w_db :: sample_db
  w_sender :: SenderState
  w_active :: active
  w_tasks :: "RegisteredQuery list"
  w_checks :: "PendingSubmittedTxInfo list"
  w_out :: string

definition world0 :: world where
  "world0 = \<lparr>w_db = [], w_sender = \<lparr>sequence = 7, accountNumber = 3\<rparr>, w_active = [], w_tasks = [],
     w_checks = [], w_out = []\<rparr>"

definition put_db :: "sample_db \<Rightarrow> world \<Rightarrow> world" where
  "put_db d w = w\<lparr>w_db := d\<rparr>"

definition sample_clock :: "world \<Rightarrow> string \<times> world" where
  "sample_clock w = (sample_now, w)"

definition sample_runtime :: "(world, Metrics) runtime" where
  "sample_runtime = \<lparr>rt_now = (\<lambda>w. (0, w)), rt_metrics = (\<lambda>f w. w),
     rt_go_delayedTxStatusCheck = (\<lambda>p w. w\<lparr>w_checks := w_checks w @ [p]\<rparr>)\<rparr>"

definition sample_storage :: "(world, unit) Storage" where
  "sample_storage = LevelDBStorage sample_leveldb sample_codec w_db put_db sample_clock"

lemma sample_runtime_sel [simp]:
  "rt_now sample_runtime w = (0, w)" "rt_metrics sample_runtime f w = w"
  "rt_go_delayedTxStatusCheck sample_runtime p w = w\<lparr>w_checks := w_checks w @ [p]\<rparr>"
  by (simp_all add: sample_runtime_def)

lemma observe_sample [simp]: "observe_since sample_runtime f t w = w"
  by (simp add: observe_since_def)

lemma put_db_sel [simp]: "w_db (put_db d w) = d" "w_checks (put_db d w) = w_checks w"
  by (simp_all add: put_db_def)

lemma sample_part_ok [simp]: "part_ok w_db put_db"
  by (simp add: part_ok_def)

lemma sample_clock_ok [simp]: "clock_ok w_db sample_clock"
  by (simp add: clock_ok_def sample_clock_def)

lemma sample_storage_ok [simp]:
  "leveldb_storage_ok sample_leveldb sample_codec map_of map_of w_db put_db sample_clock w \<longleftrightarrow>
     db_wf sample_codec (map_of (w_db w))"
  by (simp add: leveldb_storage_ok_def)

lemma world0_wf [simp]: "db_wf C (map_of (w_db world0))"
  by (simp add: world0_def)

section \<open>The transaction processor\<close>

definition sample_header :: "unit tm_Header" where
  "sample_header = \<lparr>hd_Height = \<lparr>RevisionNumber = 1, RevisionHeight = 10\<rparr>,
     TrustedHeight = \<lparr>RevisionNumber = 1, RevisionHeight = 9\<rparr>, TrustedValidators = (), ValidatorSet = (), SignedHeader = ()\<rparr>"

definition sample_fetcher :: "(world, unit) TrustedHeaderFetcher" where
  "sample_fetcher = \<lparr>hf_Fetch = (\<lambda>h w. (Ok sample_header, w))\<rparr>"

text \<open>A submitter that answers every submission with \<open>r\<close>.\<close>

definition sample_submitter :: "string res \<Rightarrow> (world, unit, unit, unit) Submitter" where
  "sample_submitter r = \<lparr>sb_SubmitKVProof = (\<lambda>h rev q vs m w. (res_then r (\<lambda>_. Ok ()), w)),
     sb_SubmitTxProof = (\<lambda>q b w. (r, w))\<rparr>"

definition sample_txp :: "string res \<Rightarrow> (world, unit, unit, unit, unit) TXProcessorSrv" where
  "sample_txp r = \<lparr>txp_trustedHeaderFetcher = sample_fetcher, txp_storage = sample_storage,
     txp_submitter = sample_submitter r, txp_runtime = sample_runtime, ignoreErrors = default_ignores,
     tmhash = sample_tmhash, pack = (\<lambda>h. Ok ())\<rparr>"

lemma sample_txp_sel [simp]:
  "txp_storage (sample_txp r) = sample_storage" "tmhash (sample_txp r) = sample_tmhash"
  by (simp_all add: sample_txp_def)

lemma sample_txp_deps [simp]:
  "txp_deps_ok sample_leveldb sample_codec w_db put_db sample_clock (sample_txp r)"
  by (auto simp: txp_deps_ok_def txp_keeps_def rt_keeps_def sample_txp_def sample_storage_def sample_fetcher_def
      sample_submitter_def)

lemma sample_txp_ok [simp]:
  "txp_ok sample_leveldb sample_codec map_of map_of w_db put_db sample_clock (sample_txp r) w \<longleftrightarrow>
     db_wf sample_codec (map_of (w_db w))"
  by (simp add: txp_ok_def)

lemma sample_tx_hash [simp]: "tx_hash_of (sample_txp r) (sample_tx h b) = sample_hash b"
  by (simp add: tx_hash_of_def sample_hash_def)

lemma sample_txToBlock:
  "txToBlock (sample_txp r) t w = (Ok \<lparr>Header = (), NextBlockHeader = (), BlockTx = Tx t\<rparr>, w)"
  by (simp add: txToBlock_def prepareHeaders_def getTrustedHeader_def sample_txp_def sample_fetcher_def)

end
