(* ===== verification/Props_Storage.thy ===== *)
theory Props_Storage
  imports Sample
begin

text \<open>
  The properties of the storage (\<open>internal/storage/leveldb.go\<close>), stated over its model on any
  LevelDB that behaves as documented, each with a witness on the sample database.
\<close>

section \<open>Status updates\<close>

text \<open>
  C2: a successful \<open>SetTxStatus\<close> refines the abstract update: read through \<open>store_of\<close>, the
  database afterwards is \<open>spec_SetTxStatus\<close> of the database before. Status, queues and cache
  change together, and nothing else changes.
\<close>

theorem SetTxStatus_refines:
  assumes "leveldb_ok L V W" "is_txhash h" "tx_storable C tx" "time_ok ti now"
    and "SetTxStatus L C q h n ti tx now d = (Inr u, d')"
  shows "store_of C (V d') = spec_SetTxStatus q h n ti tx now (store_of C (V d))"
  using assms by (rule SetTxStatus_store)

definition w_ti :: "SubmittedTxStatus \<Rightarrow> SubmittedTxInfo" where
  "w_ti st = \<lparr>ti_Status = st, ti_Message = ''m''\<rparr>"

lemma w_ti_sel [simp]: "ti_Status (w_ti st) = st" "time_ok (w_ti st) sample_now"
  by (simp_all add: w_ti_def time_ok_def)

theorem SetTxStatus_refines_witness:
  "\<exists>d'. SetTxStatus sample_leveldb sample_codec 1 (sample_hash ''t'') ''AB'' (w_ti Submitted)
       (Some (sample_tx 5 ''t'')) sample_now [] = (Inr (), d') \<and>
     store_of sample_codec (map_of d') = spec_SetTxStatus 1 (sample_hash ''t'') ''AB'' (w_ti Submitted)
       (Some (sample_tx 5 ''t'')) sample_now (store_of sample_codec (map_of []))"
proof -
  obtain d' where d': "SetTxStatus sample_leveldb sample_codec 1 (sample_hash ''t'') ''AB'' (w_ti Submitted)
       (Some (sample_tx 5 ''t'')) sample_now [] = (Inr (), d')"
    using sample_SetTxStatus_tx by blast
  with SetTxStatus_refines [OF sample_leveldb_ok is_txhash_sample sample_tx_storable(1) w_ti_sel(2) d'] show ?thesis
    by blast
qed

text \<open>
  C16: \<open>SetTxStatus\<close> is atomic: when it returns an error, wherever the error arose (an encoding, a
  write, a deletion, the commit), the database is what it was.
\<close>

theorem SetTxStatus_atomic:
  assumes "leveldb_ok L V W" "SetTxStatus L C q h n ti tx now d = (Inl f, d')"
  shows "V d' = V d"
  using assms by (rule SetTxStatus_fault_unchanged)

theorem SetTxStatus_atomic_witness:
  "\<exists>d'. SetTxStatus failing_leveldb sample_codec 1 (sample_hash ''t'') ''AB'' (w_ti Committed) None [] [(''k'', ''v'')] =
       (Err (ErrText ''commit failed''), d') \<and> map_of d' = map_of [(''k'', ''v'')]"
proof -
  have "\<exists>d'. SetTxStatus failing_leveldb sample_codec 1 (sample_hash ''t'') ''AB'' (w_ti Committed) None []
      [(''k'', ''v'')] = (Err (ErrText ''commit failed''), d')"
    by (simp add: failing_leveldb_def SetTxStatus_defs)
  with SetTxStatus_atomic [OF failing_leveldb_ok] show ?thesis by blast
qed

section \<open>Reads\<close>

text \<open>
  Heights round trip: after a successful \<open>SetLastQueryHeight\<close>, \<open>GetLastQueryHeight\<close> returns the
  value for that query, and for every other query what it returned before.
\<close>

lemma query_height_roundtrip:
  assumes V: "leveldb_ok L V W" and set: "SetLastQueryHeight L q b d = (Inr u, d1)"
    and get: "GetLastQueryHeight L q' d1 = (Inr (b', found), d2)"
  shows "if q' = q then b' = b \<and> found
     else (if found then Some b' else None) = heights (store_of C (V d)) q'"
proof -
  have "V d1 = (V d)(uintToBytes q \<mapsto> uintToBytes b)" using SetLastQueryHeight_store [OF V set] by simp
  with GetLastQueryHeight_store [OF V get, of C] show ?thesis
    by (auto simp: store_of_set_height spec_SetHeight_def split: if_splits)
qed

text \<open>A database with one pending transaction.\<close>

definition w_pending_db :: sample_db where
  "w_pending_db = snd (SetTxStatus sample_leveldb sample_codec 1 (sample_hash ''t'') ''AB'' (w_ti Submitted)
     (Some (sample_tx 5 ''t'')) sample_now [])"

lemma w_pending_wf: "db_wf sample_codec (map_of w_pending_db)"
  unfolding w_pending_db_def
  by (rule SetTxStatus_wf [OF sample_leveldb_ok is_txhash_sample sample_tx_storable(1) w_ti_sel(2) _
        prod.collapse [symmetric]]) simp

lemma empty_store_of [simp]: "store_of C Map.empty = empty_store"
  by (simp add: store_of_def empty_store_def dec_at_def fun_eq_iff)

lemma sample_SetTxStatus_store: "store_of sample_codec (map_of (snd (SetTxStatus sample_leveldb sample_codec q
    (sample_hash v) n (w_ti st) (Some (sample_tx b v)) sample_now []))) =
  spec_SetTxStatus q (sample_hash v) n (w_ti st) (Some (sample_tx b v)) sample_now empty_store"
proof -
  obtain d' where d': "SetTxStatus sample_leveldb sample_codec q (sample_hash v) n (w_ti st)
       (Some (sample_tx b v)) sample_now [] = (Inr (), d')"
    using sample_SetTxStatus_tx by blast
  with SetTxStatus_store [OF sample_leveldb_ok is_txhash_sample sample_tx_storable(1) w_ti_sel(2) d'] show ?thesis
    by simp
qed

lemma w_pending_store: "store_of sample_codec (map_of w_pending_db) = spec_SetTxStatus 1 (sample_hash ''t'') ''AB''
    (w_ti Submitted) (Some (sample_tx 5 ''t'')) sample_now empty_store"
  by (simp add: w_pending_db_def sample_SetTxStatus_store)

text \<open>A database with one transaction in the queue of unsuccessful transactions, as read from it.\<close>

definition w_unsuccessful_db :: sample_db where
  "w_unsuccessful_db = snd (SetTxStatus sample_leveldb sample_codec 2 (sample_hash ''u'') [] (w_ti ErrorOnSubmit)
     (Some (sample_tx 6 ''u'')) sample_now [])"

lemma w_unsuccessful_store: "store_of sample_codec (map_of w_unsuccessful_db) = spec_SetTxStatus 2 (sample_hash ''u'') []
    (w_ti ErrorOnSubmit) (Some (sample_tx 6 ''u'')) sample_now empty_store"
  by (simp add: w_unsuccessful_db_def sample_SetTxStatus_store)

lemma w_unsuccessful_wf: "db_wf sample_codec (map_of w_unsuccessful_db)"
  unfolding w_unsuccessful_db_def
  by (rule SetTxStatus_wf [OF sample_leveldb_ok is_txhash_sample sample_tx_storable(1) w_ti_sel(2) _
        prod.collapse [symmetric]]) simp

lemma w_unsuccessful_read: "\<exists>xs. GetAllUnsuccessfulTxs sample_leveldb w_unsuccessful_db = (Inr xs, w_unsuccessful_db)"
  by (rule GetAllUnsuccessfulTxs_reads [OF sample_leveldb_ok w_unsuccessful_wf])

text \<open>
  The life of a transaction ends with \<open>Committed\<close>: once that status is stored, the
  transaction exists, its cached copy can no longer be read, and it is neither in the pending
  queue under that Neutron hash nor in the queue of unsuccessful transactions.
\<close>

lemma Committed_clears:
  assumes V: "leveldb_ok L V W" and h: "is_txhash h" and wf: "db_wf C (V d)" and ti: "ti_Status ti = Committed"
    and set: "SetTxStatus L C q h n ti None now d = (Inr u, d')"
    and ex: "TxExists L q h d' = (Inr b, d1)" and get: "GetCachedTx L C q h d' = (c, d2)"
    and all: "GetAllUnsuccessfulTxs L d' = (Inr xs, d3)"
  shows "b \<and> (\<forall>x. c \<noteq> Inr x) \<and> pending (store_of C (V d')) n = None \<and>
    unsuccessful (store_of C (V d')) (q, h) = None \<and>
    set xs = ran ((unsuccessful (store_of C (V d)))((q, h) := None))"
proof -
  have t: "tx_storable C None" "time_ok ti now" using ti by (simp_all add: time_ok_def)
  have st: "store_of C (V d') = spec_SetTxStatus q h n ti None now (store_of C (V d))"
    by (rule SetTxStatus_store [OF V h t set])
  have wf': "db_wf C (V d')" by (rule SetTxStatus_wf [OF V h t wf set])
  have "\<forall>x. c \<noteq> Inr x"
    using GetCachedTx_store [OF V h, of C q d' _ d2] get ti by (auto simp: st spec_SetTxStatus_def)
  with TxExists_store [OF V wf' h ex] GetAllUnsuccessfulTxs_store [OF V wf' all] ti show ?thesis
    by (simp add: st spec_SetTxStatus_def)
qed

section \<open>Keys\<close>

text \<open>
  The five name spaces of the database, as the keys the code builds for them.
\<close>

datatype db_key = HeightKey u64 | StatusKey u64 string | PendingKey string | UnsuccessfulKey u64 string | CacheKey u64 string

fun key_bytes :: "db_key \<Rightarrow> bytes" where
  "key_bytes (HeightKey q) = uintToBytes q"
| "key_bytes (StatusKey q h) = constructTxStatusKey q h"
| "key_bytes (PendingKey n) = constructPendingQueueKey n"
| "key_bytes (UnsuccessfulKey q h) = constructUnsuccessfulQueueKey q h"
| "key_bytes (CacheKey q h) = constructCacheTxKey q h"

fun proper_key :: "db_key \<Rightarrow> bool" where
  "proper_key (StatusKey q h) = is_txhash h"
| "proper_key (UnsuccessfulKey q h) = is_txhash h"
| "proper_key (CacheKey q h) = is_txhash h"
| "proper_key _ = True"

text \<open>
  C40: the name spaces of the database never collide: with transaction hashes of 64 characters,
  as the code computes them, two keys have the same bytes only when they are the same key.
  (The status key has no separator between the decimal query id and the hash.)
\<close>

theorem db_keys_injective:
  assumes "proper_key k" "proper_key k'" "key_bytes k = key_bytes k'"
  shows "k = k'"
  using assms by (cases k; cases k') (auto simp: key_facts)

theorem db_keys_injective_witness:
  "key_bytes (StatusKey 1 (sample_hash ''a'')) \<noteq> key_bytes (StatusKey 11 (sample_hash ''b''))"
  using db_keys_injective [of "StatusKey 1 (sample_hash ''a'')" "StatusKey 11 (sample_hash ''b'')"] by auto

end
