(* ===== verification/Props_Relay.thy ===== *)
theory Props_Relay
  imports Sample Props_Storage
begin

text \<open>
  The properties of the relaying of transactions (\<open>internal/relay\<close>, \<open>internal/txprocessor\<close>,
  \<open>internal/txquerier\<close>), stated over the LevelDB storage and the model's own processor, each
  with a witness on the sample world.
\<close>

section \<open>A relayer of the sample world\<close>

definition sample_cfg :: NeutronQueryRelayerConfig where
  "sample_cfg = \<lparr>
     NeutronChain = \<lparr>nc_RPCAddr = ''tcp://n:26657'', nc_RESTAddr = ''http://n:1317'', nc_HomeDir = ''/k'',
       nc_SignKeyName = ''relayer'', nc_Timeout = 10000000000, nc_GasPrices = ''0.5untrn'', nc_GasLimit = 0,
       nc_GasAdjustment = Fin False 3 (-1), nc_ConnectionID = ''connection-0'', nc_Debug = False, nc_KeyringBackend = ''test'',
       nc_OutputFormat = ''json'', nc_SignModeStr = ''direct'', nc_Denom = ''untrn'', nc_MaxGasPrice = Fin False 1 0,
       nc_GasPriceMultiplier = Fin False 3 (-1)\<rparr>,
     TargetChain = \<lparr>tc_RPCAddr = ''tcp://t:26657'', tc_Timeout = 10000000000, tc_Debug = False,
       tc_OutputFormat = ''json''\<rparr>,
     RegistryCfg = \<lparr>Addresses = [], QueryIDs = []\<rparr>, AllowTxQueries = True, AllowKVCallbacks = True,
     MinKvUpdatePeriod = 0, StoragePath = ''db'', CheckSubmittedTxStatusDelay = 10000000000,
     QueriesTaskQueueCapacity = 10000, InitialTxSearchOffset = 0, ListenAddr = ''127.0.0.1:9999'',
     IgnoreErrorsRegex = default_IgnoreErrorsRegex\<rparr>"

definition sample_relayer ::
  "string res \<Rightarrow> unit Transaction list \<Rightarrow> goerr option \<Rightarrow> (world, unit) Relayer" where
  "sample_relayer r txs e =
     \<lparr>rl_cfg = sample_cfg, rl_txQuerier = \<lparr>tq_SearchTransactions = (\<lambda>q w. (Ok (txs, e), w))\<rparr>,
      rl_storage = sample_storage, rl_txProcessor = TXProcessorOf (sample_txp r),
      rl_kvProcessor = \<lparr>kp_ProcessAndSubmit = (\<lambda>m w. (Ok (), w))\<rparr>, rl_QueryLatestHeight = (\<lambda>w. (Ok 100, w)),
      rl_runtime = sample_runtime, unmarshal_filter = (\<lambda>f. Ok []), float_conv = (\<lambda>x. 0),
      rl_tmhash = sample_tmhash\<rparr>"

lemma sample_relayer_sel [simp]:
  "rl_storage (sample_relayer r txs e) = sample_storage"
  "rl_txProcessor (sample_relayer r txs e) = TXProcessorOf (sample_txp r)"
  "rl_runtime (sample_relayer r txs e) = sample_runtime" "rl_tmhash (sample_relayer r txs e) = sample_tmhash"
  "InitialTxSearchOffset (rl_cfg (sample_relayer r txs e)) = 0"
  "unmarshal_filter (sample_relayer r txs e) f = Ok []"
  "rl_QueryLatestHeight (sample_relayer r txs e) w = (Ok 100, w)"
  "tq_SearchTransactions (rl_txQuerier (sample_relayer r txs e)) q w = (Ok (txs, e), w)"
  by (simp_all add: sample_relayer_def sample_cfg_def)

lemma sample_relayer_uses [simp]:
  "relayer_uses (sample_relayer r txs e) sample_storage (TXProcessorOf (sample_txp r')) (tx_hash_of (sample_txp r')) \<longleftrightarrow>
     TXProcessorOf (sample_txp r) = TXProcessorOf (sample_txp r')"
  by (auto simp: relayer_uses_def tx_hash_of_def sample_txp_def)

lemma sample_txp_parts [simp]:
  "txp_submitter (sample_txp r) = sample_submitter r" "txp_runtime (sample_txp r) = sample_runtime"
  "ignoreErrors (sample_txp r) = default_ignores" "txp_trustedHeaderFetcher (sample_txp r) = sample_fetcher"
  "pack (sample_txp r) h = Ok ()" "sb_SubmitTxProof (sample_submitter r) q b w = (r, w)"
  "hf_Fetch sample_fetcher height w = (Ok sample_header, w)"
  by (simp_all add: sample_txp_def sample_submitter_def sample_fetcher_def)

lemma sample_storage_ops:
  "st_TxExists sample_storage q h = on_part w_db put_db (TxExists sample_leveldb q h)"
  "ti_Status ti = Submitted \<Longrightarrow> st_SetTxStatus sample_storage q h n ti tx w =
     on_part w_db put_db (SetTxStatus sample_leveldb sample_codec q h n ti tx []) w"
  "ti_Status ti = Committed \<Longrightarrow> st_SetTxStatus sample_storage q h n ti tx w =
     on_part w_db put_db (SetTxStatus sample_leveldb sample_codec q h n ti tx []) w"
  "ti_Status ti = ErrorOnSubmit \<or> ti_Status ti = ErrorOnCommit \<Longrightarrow> st_SetTxStatus sample_storage q h n ti tx w =
     on_part w_db put_db (SetTxStatus sample_leveldb sample_codec q h n ti tx sample_now) w"
  "st_GetAllPendingTxs sample_storage = on_part w_db put_db (GetAllPendingTxs sample_leveldb)"
  "st_GetAllUnsuccessfulTxs sample_storage = on_part w_db put_db (GetAllUnsuccessfulTxs sample_leveldb)"
  "st_GetCachedTx sample_storage q h = on_part w_db put_db (GetCachedTx sample_leveldb sample_codec q h)"
  by (auto simp: sample_storage_def LevelDBStorage_def sample_clock_def)

definition msg :: MessageTX where
  "msg = \<lparr>tx_QueryId = 1, tx_TransactionsFilter = ''[]''\<rparr>"

definition world1 :: world where
  "world1 = put_db [(uintToBytes 1, uintToBytes 0)] world0"

lemma world1_wf [simp]: "db_wf C (map_of (w_db world1))"
  using set_height_wf [of C "Map.empty" 1 0] by (simp add: world1_def)

lemma world1_height [simp]: "heights (store_of C (map_of (w_db world1))) 1 = Some 0"
  using store_of_set_height [of C "Map.empty" 1 0] by (simp add: world1_def spec_SetHeight_def)

lemma FormatUint_0 [simp]: "FormatUint 0 = ''0''"
  by code_simp

lemma sample_build: "buildTxQuery (sample_relayer r txs e) msg world0 = (Inr ''tx.height>0'', world1)"
  by (simp add: buildTxQuery_def getLastQueryHeight_def sample_storage_def LevelDBStorage_def on_part_def
      GetLastQueryHeight_def SetLastQueryHeight_def msg_def world0_def world1_def put_db_def sample_leveldb_def
      put_at_def queryFromTxFilter_def getOpSign_def ToLower_def lower_char_def TxHeight_def)

lemma sample_process:
  "\<exists>s'. ProcessAndSubmit (sample_txp (Ok n)) q (sample_tx b v) w = (Inr (), s')"
proof -
  obtain d' where "SetTxStatus sample_leveldb sample_codec q (sample_hash v) n \<lparr>ti_Status = Submitted, ti_Message = []\<rparr>
      (Some (sample_tx b v)) [] (w_db w) = (Inr (), d')"
    using sample_SetTxStatus_tx by blast
  then show ?thesis
    by (simp add: ProcessAndSubmit_def sample_txToBlock submitTxWithProofs_def processSuccessfulTxSubmission_def
        sample_storage_ops on_part_def sample_hash_def [symmetric] sample_tx_def [symmetric])
qed

lemma sample_not_known: "is_txhash h \<Longrightarrow> st_TxExists sample_storage 1 h world1 = (Inr False, put_db (w_db world1) world1)"
  by (simp add: sample_storage_ops on_part_def TxExists_def sample_leveldb_def world1_def key_facts)

lemma sample_message_succeeds:
  "\<exists>s'. processMessageTX (sample_relayer (Ok ''AB'') [sample_tx 5 ''t''] None) msg world0 = (Inr (), s')"
proof -
  obtain w2 where "ProcessAndSubmit (sample_txp (Ok ''AB'')) 1 (sample_tx 5 ''t'') (put_db (w_db world1) world1) = (Inr (), w2)"
    using sample_process by blast
  moreover have "\<exists>x. st_SetLastQueryHeight sample_storage 1 5 w2 = (Inr (), x)"
    by (simp add: sample_storage_def LevelDBStorage_def on_part_def SetLastQueryHeight_def)
  moreover have "tx_QueryId msg = 1" by (simp add: msg_def)
  ultimately show ?thesis
    by (auto simp: processMessageTX_def sample_build sample_not_known TXProcessorOf_def sample_hash_def [symmetric])
qed

section \<open>The relaying loop\<close>

text \<open>
  C1: no transaction is skipped. The search returned transactions above the height it was asked
  for, in order of height. Whatever happens to them - success, an error in the middle, an error
  of the search after some were delivered - the height stored for the query afterwards never
  passes a found transaction that has no recorded status, and when \<open>processMessageTX\<close> returns
  without error every found transaction has one.
\<close>

theorem no_tx_skipped:
  assumes "relayer_uses r (LevelDBStorage L C get put clk) (TXProcessorOf p) (tx_hash_of p)"
    and "txp_ok L C V W get put clk p s2" "store_of C (V (get s2)) = store_of C (V (get s1))"
    and "\<forall>t \<in> set ts. tx_storable C (Some t) \<and> Tx t \<noteq> None" "sorted (map Height ts)"
    and "\<forall>t \<in> set ts. \<forall>h. heights (store_of C (V (get s1))) (tx_QueryId m) = Some h \<longrightarrow> h < Height t"
    and "buildTxQuery r m s = (Inr qs, s1)"
    and "tq_SearchTransactions (rl_txQuerier r) qs s1 = (Inr (ts, e), s2)"
    and "processMessageTX r m s = (res, s')"
  shows "(\<forall>h t. heights (store_of C (V (get s'))) (tx_QueryId m) = Some h \<longrightarrow> t \<in> set ts \<longrightarrow> Height t \<le> h \<longrightarrow>
       statuses (store_of C (V (get s'))) (tx_QueryId m, tx_hash_of p t) \<noteq> None) \<and>
     (\<forall>u. res = Inr u \<longrightarrow> (\<forall>t \<in> set ts. statuses (store_of C (V (get s'))) (tx_QueryId m, tx_hash_of p t) \<noteq> None))"
  using leveldb_txp.processMessageTX_after_search [OF assms] unfolding height_covered_def known_def by blast

theorem no_tx_skipped_witness:
  "\<exists>s'. processMessageTX (sample_relayer (Ok ''AB'') [sample_tx 5 ''t''] None) msg world0 = (Inr (), s') \<and>
     statuses (store_of sample_codec (map_of (w_db s'))) (1, sample_hash ''t'') \<noteq> None"
proof -
  obtain s' where run: "processMessageTX (sample_relayer (Ok ''AB'') [sample_tx 5 ''t''] None) msg world0 = (Inr (), s')"
    using sample_message_succeeds by blast
  from no_tx_skipped [where r = "sample_relayer (Ok ''AB'') [sample_tx 5 ''t''] None" and L = sample_leveldb and
      C = sample_codec and get = w_db and put = put_db and clk = sample_clock and p = "sample_txp (Ok ''AB'')" and
      V = map_of and W = map_of and ts = "[sample_tx 5 ''t'']" and e = None and ?s1.0 = world1 and ?s2.0 = world1,
      OF _ _ _ _ _ _ sample_build _ run]
  show ?thesis using run by (simp flip: sample_storage_def) (simp add: msg_def)
qed

text \<open>
  C20: nothing is submitted twice by the loop. When every transaction found already has a
  recorded status for the query - after a restart, say - the loop behaves the same with any
  processor in place of its own: the processor is never called.
\<close>

theorem no_resubmission:
  assumes "rl_storage r = LevelDBStorage L C get put clk" "leveldb_storage_ok L C V W get put clk s"
    and "\<forall>t \<in> set ts. \<forall>v. Tx t = Some v \<longrightarrow> is_txhash (hex_encode (rl_tmhash r (Data v))) \<and>
       statuses (store_of C (V (get s))) (q, hex_encode (rl_tmhash r (Data v))) \<noteq> None"
  shows "relay_txs (r\<lparr>rl_txProcessor := tp'\<rparr>) q ts l s = relay_txs r q ts l s"
  using assms(3) by (intro leveldb.relay_txs_known [OF assms(1,2)]) (simp add: known_def)

theorem no_resubmission_witness:
  "relay_txs (sample_relayer (Ok ''CD'') [] None\<lparr>rl_txProcessor := \<lparr>tp_ProcessAndSubmit = (\<lambda>q t s. (Panic ''called'', s))\<rparr>\<rparr>)
       1 [sample_tx 5 ''t''] 0 (put_db w_pending_db world0) =
     relay_txs (sample_relayer (Ok ''CD'') [] None) 1 [sample_tx 5 ''t''] 0 (put_db w_pending_db world0)"
proof (rule no_resubmission [where C = sample_codec and V = map_of and W = map_of and L = sample_leveldb and
      get = w_db and put = put_db and clk = sample_clock])
  show "rl_storage (sample_relayer (Ok ''CD'') [] None) = LevelDBStorage sample_leveldb sample_codec w_db put_db sample_clock"
    by (simp add: sample_storage_def)
  show "leveldb_storage_ok sample_leveldb sample_codec map_of map_of w_db put_db sample_clock (put_db w_pending_db world0)"
    by (simp add: w_pending_wf)
  show "\<forall>t \<in> set [sample_tx 5 ''t'']. \<forall>v. Tx t = Some v \<longrightarrow>
      is_txhash (hex_encode (rl_tmhash (sample_relayer (Ok ''CD'') [] None) (Data v))) \<and>
      statuses (store_of sample_codec (map_of (w_db (put_db w_pending_db world0))))
        (1, hex_encode (rl_tmhash (sample_relayer (Ok ''CD'') [] None) (Data v))) \<noteq> None"
    by (simp add: w_pending_store spec_SetTxStatus_def flip: sample_hash_def)
qed

section \<open>One transaction\<close>

text \<open>
  C4: what success of \<open>ProcessAndSubmit\<close> means. The block with the transaction was handed to the
  submitter, and either it answered with a Neutron hash, the transaction is recorded as submitted
  under it (pending, cached) and a delayed check of exactly that submission was started as the
  last step; or its error matches the pattern of ignored errors and the transaction is recorded
  as failed on submission, with the error's text.
\<close>

theorem process_records_outcome:
  assumes ok: "txp_ok L C V W get put clk p s" and t: "tx_storable C (Some t)" "Tx t \<noteq> None"
    and run: "ProcessAndSubmit p q t s = (Inr u, s')"
  shows "\<exists>blk s1 s2 now. BlockTx blk = Tx t \<and>
    ((\<exists>n s3. sb_SubmitTxProof (txp_submitter p) q blk s1 = (Inr n, s2) \<and>
        store_of C (V (get s3)) = spec_SetTxStatus q (tx_hash_of p t) n \<lparr>ti_Status = Submitted, ti_Message = []\<rparr>
          (Some t) now (store_of C (V (get s))) \<and>
        s' = rt_go_delayedTxStatusCheck (txp_runtime p)
          \<lparr>pd_QueryID = q, pd_SubmittedTxHash = tx_hash_of p t, pd_NeutronHash = n\<rparr> s3) \<or>
     (\<exists>e. sb_SubmitTxProof (txp_submitter p) q blk s1 = (Err e, s2) \<and> ignoreErrors p (err_text e) \<and>
        store_of C (V (get s')) = spec_SetTxStatus q (tx_hash_of p t) []
          \<lparr>ti_Status = ErrorOnSubmit, ti_Message = err_text e\<rparr> (Some t) now (store_of C (V (get s)))))"
  using leveldb_process_success [OF ok t run] unfolding submission_outcome_def .

theorem process_records_outcome_witness:
  "\<exists>s'. ProcessAndSubmit (sample_txp (Ok ''AB'')) 1 (sample_tx 5 ''t'') world0 = (Inr (), s') \<and>
     last (w_checks s') = \<lparr>pd_QueryID = 1, pd_SubmittedTxHash = sample_hash ''t'', pd_NeutronHash = ''AB''\<rparr>"
proof -
  obtain s' where run: "ProcessAndSubmit (sample_txp (Ok ''AB'')) 1 (sample_tx 5 ''t'') world0 = (Inr (), s')"
    using sample_process by blast
  from process_records_outcome [where L = sample_leveldb and C = sample_codec and V = map_of and W = map_of and
      get = w_db and put = put_db and clk = sample_clock, OF _ _ _ run]
  show ?thesis using run by auto
qed

text \<open>
  C21: a failed \<open>ProcessAndSubmit\<close> - no header, no block, a submission error that is not ignored,
  a storage error - leaves statuses, heights, queues and cache as they were, so that the
  transaction will be found and submitted again.
\<close>

theorem process_failure_keeps_store:
  assumes "txp_ok L C V W get put clk p s" "tx_storable C (Some t)" "Tx t \<noteq> None"
    and "ProcessAndSubmit p q t s = (Inl f, s')"
  shows "store_of C (V (get s')) = store_of C (V (get s))"
  using leveldb_txp.process_ok(5) [OF assms(1-3)] assms(4) by (fastforce simp: TXProcessorOf_def)

lemma sample_process_fails:
  "ProcessAndSubmit (sample_txp (Err (ErrText ''out of gas''))) q (sample_tx b v) w =
     (Err (ErrWrap ''failed to submit block'' (ErrCritical (ErrText ''out of gas''))), w)"
proof -
  have "\<not> default_ignores ''out of gas''" by code_simp
  then show ?thesis
    by (simp add: ProcessAndSubmit_def sample_txToBlock submitTxWithProofs_def processFailedTxSubmission_def)
qed

theorem process_failure_keeps_store_witness:
  "\<exists>s'. ProcessAndSubmit (sample_txp (Err (ErrText ''out of gas''))) 1 (sample_tx 5 ''t'') world1 =
      (Err (ErrWrap ''failed to submit block'' (ErrCritical (ErrText ''out of gas''))), s') \<and>
    store_of sample_codec (map_of (w_db s')) = store_of sample_codec (map_of (w_db world1))"
  using process_failure_keeps_store [where L = sample_leveldb and C = sample_codec and V = map_of and W = map_of and
      get = w_db and put = put_db and clk = sample_clock, OF _ _ _ sample_process_fails [of 1 5 "''t''" world1]]
  by (simp add: sample_process_fails)




section \<open>The main loop\<close>

text \<open>
  C23: the relayer's loop ends with an error only in a critical one. Every query before it was
  handled without ending the loop, the query that ended it is a TX query, and what is returned
  is what \<open>processMessageTX\<close> returned for it, wrapping a critical error.
\<close>

theorem run_stops_only_on_critical:
  assumes "Run r tasks s = (Err e, s')"
  shows "stops_relayer e \<and> (\<exists>pre query n post s0 s1. tasks = pre @ (query, n) # post \<and>
     Run r pre s = (Inr (), s1) \<and> QueryType query = InterchainQueryTypeTX \<and>
     processMessageTX r \<lparr>tx_QueryId = Id query, tx_TransactionsFilter = TransactionsFilter query\<rparr> s0 = (Err e, s'))"
  using Run_Err [OF assms] run_query_Err by metis

definition sample_query :: "string \<Rightarrow> RegisteredQuery" where
  "sample_query ty = \<lparr>Id = 1, Owner = ''neutron1owner'', QueryType = ty, Keys = [], TransactionsFilter = ''[]'',
     ConnectionId = ''connection-0'', UpdatePeriod = 10, LastSubmittedResultLocalHeight = 0,
     LastSubmittedResultRemoteHeight = \<lparr>RevisionNumber = 0, RevisionHeight = 0\<rparr>\<rparr>"

lemma sample_query_sel [simp]: "Id (sample_query ty) = 1" "QueryType (sample_query ty) = ty"
  "TransactionsFilter (sample_query ty) = ''[]''" "Keys (sample_query ty) = []"
  by (simp_all add: sample_query_def)

lemma query_types [simp]: "InterchainQueryTypeTX \<noteq> InterchainQueryTypeKV"
  by (simp add: InterchainQueryTypeTX_def InterchainQueryTypeKV_def)

abbreviation out_of_gas :: goerr where
  "out_of_gas \<equiv> ErrWrap ''failed to process txs'' (ErrWrap ''failed to submit block'' (ErrCritical (ErrText ''out of gas'')))"

lemma sample_message_fails:
  "\<exists>s'. processMessageTX (sample_relayer (Err (ErrText ''out of gas'')) [sample_tx 5 ''t''] None) msg world0 = (Err out_of_gas, s')"
proof -
  have "tx_QueryId msg = 1" by (simp add: msg_def)
  then show ?thesis
    by (simp add: processMessageTX_def sample_build sample_not_known TXProcessorOf_def sample_process_fails Let_def
        sample_hash_def [symmetric])
qed

theorem run_stops_only_on_critical_witness:
  "\<exists>s'. Run (sample_relayer (Err (ErrText ''out of gas'')) [sample_tx 5 ''t''] None)
      [(sample_query InterchainQueryTypeTX, 0)] world0 = (Err out_of_gas, s') \<and> stops_relayer out_of_gas"
proof -
  obtain s1 where "processMessageTX (sample_relayer (Err (ErrText ''out of gas'')) [sample_tx 5 ''t''] None) msg world0 =
      (Err out_of_gas, s1)"
    using sample_message_fails by blast
  then have "Run (sample_relayer (Err (ErrText ''out of gas'')) [sample_tx 5 ''t''] None)
      [(sample_query InterchainQueryTypeTX, 0)] world0 = (Err out_of_gas, s1)"
    by (simp add: run_query_def msg_def stops_relayer_def)
  then show ?thesis using run_stops_only_on_critical by metis
qed

end
