(* ===== verification/Props_Query.thy ===== *)
theory Props_Query
  imports Props_Relay
begin

text \<open>
  The properties of the search for transactions (\<open>internal/relay/relayer.go\<close>, the query
  string and its start, and \<open>internal/txquerier\<close>, the pagination) and of the check of
  submitted transactions (\<open>internal/txsubmitchecker\<close>).
\<close>

section \<open>Where a search starts\<close>

text \<open>
  C25: the height a search starts above is the one stored for the query. For a query seen for the
  first time it is 0 when no offset is configured; with an offset it is the target chain's latest
  height, as asked for right then, less the offset - 0 when that would be negative. It is stored.
\<close>

theorem search_start_height:
  assumes "rl_storage r = LevelDBStorage L C get put clk" "leveldb_storage_ok L C V W get put clk s"
    and "\<And>s. leveldb_storage_ok L C V W get put clk s \<Longrightarrow>
      leveldb_storage_ok L C V W get put clk (snd (rl_QueryLatestHeight r s)) \<and>
      store_of C (V (get (snd (rl_QueryLatestHeight r s)))) = store_of C (V (get s))"
    and "getLastQueryHeight r q s = (Inr n, s')"
  shows "heights (store_of C (V (get s'))) q = Some n \<and>
    (case heights (store_of C (V (get s))) q of
       Some h \<Rightarrow> n = h
     | None \<Rightarrow> if InitialTxSearchOffset (rl_cfg r) = 0 then n = 0
         else \<exists>g s1 l s2. st_GetLastQueryHeight (rl_storage r) q s = (Inr g, s1) \<and> rl_QueryLatestHeight r s1 = (Inr l, s2) \<and>
            n = (if word_of_int l > InitialTxSearchOffset (rl_cfg r)
              then word_of_int l - InitialTxSearchOffset (rl_cfg r) else 0))"
  using leveldb.getLastQueryHeight_Inr [OF assms] by blast

definition offset_relayer :: "(world, unit) Relayer" where
  "offset_relayer = (sample_relayer (Ok ''AB'') [] None)\<lparr>rl_cfg := sample_cfg\<lparr>InitialTxSearchOffset := 30\<rparr>\<rparr>"

lemma offset_relayer_sel [simp]: "rl_storage offset_relayer = sample_storage"
  "InitialTxSearchOffset (rl_cfg offset_relayer) = 30" "rl_QueryLatestHeight offset_relayer w = (Ok 100, w)"
  by (simp_all add: offset_relayer_def)

theorem search_start_height_witness:
  "\<exists>n s'. getLastQueryHeight offset_relayer 4 world0 = (Inr n, s') \<and> n = 70 \<and>
     heights (store_of sample_codec (map_of (w_db s'))) 4 = Some 70"
proof -
  have "\<exists>n s'. getLastQueryHeight offset_relayer 4 world0 = (Inr n, s')"
    by (simp add: getLastQueryHeight_def sample_storage_def LevelDBStorage_def on_part_def
        GetLastQueryHeight_def SetLastQueryHeight_def world0_def put_db_def sample_leveldb_def put_at_def)
  then obtain n s' where run: "getLastQueryHeight offset_relayer 4 world0 = (Inr n, s')" by blast
  from search_start_height [where r = offset_relayer and L = sample_leveldb and C = sample_codec and get = w_db and
      put = put_db and clk = sample_clock and V = map_of and W = map_of, OF _ _ _ run]
  have "heights (store_of sample_codec (map_of (w_db s'))) 4 = Some n \<and>
    (case heights (store_of sample_codec (map_of (w_db world0))) 4 of Some h \<Rightarrow> n = h
     | None \<Rightarrow> n = (100 :: u64) - 30)"
    by (simp add: world0_def empty_store_def flip: sample_storage_def)
  then show ?thesis using run by (simp add: world0_def empty_store_def)
qed

section \<open>The pagination\<close>

text \<open>
  C13: the paginated search is complete: when the node holds the transactions \<open>all\<close> for a query,
  answers each page there is with its slice of at most 100 of them and refuses every page after the
  last, the channel delivers every one of them, in order, with its proofs, and no error. As many
  units of fuel as there are pages are enough.
\<close>

theorem search_complete:
  assumes "node_serves t query all results" "length all \<le> 100 * fuel" "0 < fuel"
  shows "SearchTransactions fuel t query s = (Ok (map (proven t results) all, None), s)"
  using assms by (rule SearchTransactions_all)

definition sample_result :: ResultTx where
  "sample_result = \<lparr>rx_Tx = ''t'', rx_Height = 5, rx_Index = 0,
     rx_Proof = \<lparr>mp_Total = 1, mp_Index = 0, mp_LeafHash = ''leaf'', mp_Aunts = []\<rparr>\<rparr>"

definition sample_node :: "ResultTx list \<Rightarrow> (world, unit) TXQuerierSrv" where
  "sample_node all = \<lparr>
     TxSearch = (\<lambda>q prove page per order w.
       (if page = 1 \<or> 1 < page \<and> per * (page - 1) < int (length all)
        then Ok \<lparr>Txs = take (nat per) (drop (nat per * (nat page - 1)) all), TotalCount = int (length all)\<rparr>
        else Err (ErrText ''page should be within range''), w)),
     BlockResults = (\<lambda>h w. (Ok [()], w)),
     prove_result = (\<lambda>rs i. Ok \<lparr>mp_Total = 1, mp_Index = of_nat i, mp_LeafHash = ''d'', mp_Aunts = []\<rparr>),
     tx_String = (\<lambda>b. b), ctx_done = (\<lambda>w. (False, w))\<rparr>"

text \<open>Two full pages; a third would be refused.\<close>

theorem search_complete_witness:
  "\<exists>txs. SearchTransactions 2 (sample_node (replicate 200 sample_result)) ''tx.height>0'' world0 =
     (Ok (txs, None), world0) \<and> length txs = 200"
proof -
  have "node_serves (sample_node (replicate 200 sample_result)) ''tx.height>0'' (replicate 200 sample_result) (\<lambda>_. [()])"
    by (auto simp: node_serves_def sample_node_def sample_result_def)
  from search_complete [OF this, of 2 world0] show ?thesis by simp
qed

section \<open>A search that is cancelled\<close>

definition plain_result :: "bytes \<Rightarrow> ResultTx" where
  "plain_result b = \<lparr>rx_Tx = b, rx_Height = 5, rx_Index = 0,
     rx_Proof = \<lparr>mp_Total = 0, mp_Index = 0, mp_LeafHash = [], mp_Aunts = []\<rparr>\<rparr>"

definition cancelling_node :: "(world, unit) TXQuerierSrv" where
  "cancelling_node = \<lparr>
     TxSearch = (\<lambda>q prove page per order w. (Ok \<lparr>Txs = [plain_result ''t'', plain_result ''u''], TotalCount = 2\<rparr>, w)),
     BlockResults = (\<lambda>h w. (Ok [()], w)),
     prove_result = (\<lambda>rs i. Ok \<lparr>mp_Total = 0, mp_Index = 0, mp_LeafHash = [], mp_Aunts = []\<rparr>),
     tx_String = (\<lambda>b. b), ctx_done = (\<lambda>w. (w_out w \<noteq> [], w\<lparr>w_out := ''x''\<rparr>))\<rparr>"

lemma cancelled_search:
  "SearchTransactions 3 cancelling_node q world1 = (Ok ([sample_tx 5 ''t''], None), world1\<lparr>w_out := ''x''\<rparr>)"
  by (simp add: SearchTransactions_def numeral_3_eq_3 cancelling_node_def plain_result_def proofDelivery_def
      cryptoProofFromMerkleProof_def world1_def world0_def put_db_def sample_tx_def sample_value_def zero_proof_def Let_def)

definition cancelled_relayer :: "(world, unit) Relayer" where
  "cancelled_relayer = (sample_relayer (Ok ''AB'') [] None)\<lparr>rl_txQuerier := TXQuerierOf 3 cancelling_node\<rparr>"

lemma cancelled_relayer_sel [simp]: "rl_storage cancelled_relayer = sample_storage"
  "rl_txProcessor cancelled_relayer = TXProcessorOf (sample_txp (Ok ''AB''))" "rl_tmhash cancelled_relayer = sample_tmhash"
  "InitialTxSearchOffset (rl_cfg cancelled_relayer) = 0" "unmarshal_filter cancelled_relayer f = Ok []"
  "tq_SearchTransactions (rl_txQuerier cancelled_relayer) = SearchTransactions 3 cancelling_node"
  by (simp_all add: cancelled_relayer_def TXQuerierOf_def)

lemma cancelled_build: "buildTxQuery cancelled_relayer msg world0 = (Inr ''tx.height>0'', world1)"
  by (simp add: buildTxQuery_def getLastQueryHeight_def sample_storage_def LevelDBStorage_def on_part_def
      GetLastQueryHeight_def SetLastQueryHeight_def msg_def world0_def world1_def put_db_def sample_leveldb_def
      put_at_def queryFromTxFilter_def getOpSign_def ToLower_def lower_char_def TxHeight_def)

text \<open>
  C29: a search whose context is cancelled while it delivers a page ends without an error
  (\<open>case <-ctx.Done(): return\<close>), and the relayer takes what it got for the whole answer: of two
  transactions of block 5 only the first was delivered and recorded, and yet height 5 is stored,
  so that the second is never searched for again.
\<close>

theorem cancelled_search_skips:
  "\<exists>w. processMessageTX cancelled_relayer msg world0 = (Ok (), w) \<and>
     heights (store_of sample_codec (map_of (w_db w))) 1 = Some 5 \<and>
     statuses (store_of sample_codec (map_of (w_db w))) (1, sample_hash ''u'') = None"
proof -
  let ?w = "put_db (w_db world1) (world1\<lparr>w_out := ''x''\<rparr>)"
  have q: "tx_QueryId msg = 1" by (simp add: msg_def)
  obtain w2 where p: "ProcessAndSubmit (sample_txp (Ok ''AB'')) 1 (sample_tx 5 ''t'') ?w = (Inr (), w2)"
    using sample_process by blast
  have w: "txp_ok sample_leveldb sample_codec map_of map_of w_db put_db sample_clock (sample_txp (Ok ''AB'')) ?w"
    by simp
  from leveldb_txp.process [OF w, of "sample_tx 5 ''t''" 1 "Inr ()" w2] p obtain n ti now where
    2: "db_wf sample_codec (map_of (w_db w2))" "store_of sample_codec (map_of (w_db w2)) =
      spec_SetTxStatus 1 (sample_hash ''t'') n ti (Some (sample_tx 5 ''t'')) now (store_of sample_codec (map_of (w_db world1)))"
    by (auto simp: TXProcessorOf_def)
  obtain u w3 where h: "st_SetLastQueryHeight sample_storage 1 5 w2 = (u, w3)" by fastforce
  moreover have "\<exists>x. st_SetLastQueryHeight sample_storage 1 5 w2 = (Inr (), x)"
    by (simp add: sample_storage_def LevelDBStorage_def on_part_def SetLastQueryHeight_def)
  ultimately have u: "u = Inr ()" by auto
  from leveldb.set_height [of sample_leveldb sample_codec map_of map_of w_db put_db sample_clock w2 1 5 u w3] 2 h u
  have 3: "store_of sample_codec (map_of (w_db w3)) = spec_SetHeight 1 5 (store_of sample_codec (map_of (w_db w2)))"
    by (simp add: sample_storage_def)
  have "st_TxExists sample_storage 1 (sample_hash ''t'') (world1\<lparr>w_out := ''x''\<rparr>) = (Inr False, ?w)"
    by (simp add: sample_storage_ops on_part_def TxExists_def sample_leveldb_def world1_def key_facts)
  with p h u have "processMessageTX cancelled_relayer msg world0 = (Ok (), w3)"
    by (simp add: processMessageTX_def cancelled_build q cancelled_search TXProcessorOf_def sample_hash_def [symmetric])
  moreover have "sample_hash ''u'' \<noteq> sample_hash ''t''" by code_simp
  moreover have "statuses (store_of sample_codec (map_of (w_db world1))) k = None" for k
    using store_of_set_height [of sample_codec "Map.empty" 1 0] by (simp add: world1_def spec_SetHeight_def empty_store_def)
  ultimately show ?thesis
    by (simp add: 2 3 spec_SetTxStatus_def spec_SetHeight_def)
qed

section \<open>The check of a submitted transaction\<close>

text \<open>
  C17: a check changes the store only as the node answered. Either nothing is changed (the hash
  does not decode, the retries fail, the storage fails), or the transaction is resolved as the
  answer to its own Neutron hash says: code 0 commits it, any other code records a failure on
  commit.
\<close>

theorem check_outcome:
  assumes "tc_storage tc = LevelDBStorage L C get put clk"
    and "\<And>S. check_keeps tc (\<lambda>s. leveldb_storage_ok L C V W get put clk s \<and> store_of C (V (get s)) = S)"
    and "leveldb_storage_ok L C V W get put clk s" "is_txhash (pd_SubmittedTxHash tx)"
    and "processSubmittedTx tc tx s = (r, s')"
  shows "store_of C (V (get s')) = store_of C (V (get s)) \<or>
    (\<exists>b resp s1 s2 ti now. hex_decode (pd_NeutronHash tx) = Inr b \<and> tc_Tx tc b s1 = (Inr resp, s2) \<and>
       ti_Status ti = (if tr_Code resp = CodeTypeOK then Committed else ErrorOnCommit) \<and>
       store_of C (V (get s')) = spec_SetTxStatus (pd_QueryID tx) (pd_SubmittedTxHash tx) (pd_NeutronHash tx) ti
         None now (store_of C (V (get s))))"
  using leveldb.processSubmittedTx_ok [OF assms] unfolding resolves_def by blast

definition sample_checker :: "nat \<Rightarrow> (world, unit) TxSubmitChecker" where
  "sample_checker code = \<lparr>tc_storage = sample_storage, tc_Tx = (\<lambda>b w. (Ok \<lparr>tr_Code = code, tr_Log = ''log''\<rparr>, w)),
     tc_retry = retry_attempts 3, tc_runtime = sample_runtime\<rparr>"

lemma sample_checker_sel [simp]: "tc_storage (sample_checker code) = sample_storage"
  "tc_Tx (sample_checker code) b w = (Ok \<lparr>tr_Code = code, tr_Log = ''log''\<rparr>, w)"
  "tc_retry (sample_checker code) = retry_attempts 3" "tc_runtime (sample_checker code) = sample_runtime"
  by (simp_all add: sample_checker_def)

lemma sample_checker_keeps [simp]: "check_keeps (sample_checker code)
    (\<lambda>w. db_wf sample_codec (map_of (w_db w)) \<and> store_of sample_codec (map_of (w_db w)) = S)"
  by (simp add: check_keeps_def retry_attempts_ok)

lemma sample_answers: "retry_attempts 3 (tc_Tx (sample_checker code) b) w = (Ok \<lparr>tr_Code = code, tr_Log = ''log''\<rparr>, w)"
  by (simp add: numeral_3_eq_3)

definition pending_task :: PendingSubmittedTxInfo where
  "pending_task = \<lparr>pd_QueryID = 1, pd_SubmittedTxHash = sample_hash ''t'', pd_NeutronHash = ''AB''\<rparr>"

lemma pending_task_sel [simp]: "pd_SubmittedTxHash pending_task = sample_hash ''t''" "pd_NeutronHash pending_task = ''AB''"
  "pd_QueryID pending_task = 1"
  by (simp_all add: pending_task_def)

lemma decode_AB: "\<exists>b. hex_decode ''AB'' = Inr b"
  by (simp add: hex_decode.simps hex_val_def)

lemma sample_writes: "\<exists>w'. st_SetTxStatus sample_storage q h n ti None w = (Inr (), w')"
proof -
  have "\<exists>d'. SetTxStatus sample_leveldb sample_codec q h n ti None now d = (Inr (), d')" for now d
    by (rule sample_SetTxStatus_None)
  then obtain f where f: "\<And>now d. SetTxStatus sample_leveldb sample_codec q h n ti None now d = (Inr (), f now d)"
    by metis
  show ?thesis by (simp add: sample_storage_def LevelDBStorage_def on_part_def f split: prod.splits)
qed

lemma sample_check: "\<exists>w'. processSubmittedTx (sample_checker code) pending_task w = (Inr (), w')"
proof -
  have "\<exists>w'. updateTxStatus (sample_checker code) tx ti w = (Inr (), w')" for tx ti w
    using sample_writes [of "pd_QueryID tx" "pd_SubmittedTxHash tx" "pd_NeutronHash tx" ti w]
    by (auto simp: updateTxStatus_def)
  with decode_AB show ?thesis by (auto simp: processSubmittedTx_def retryGetTxStatus_def sample_answers)
qed

theorem check_outcome_witness:
  "\<exists>w'. processSubmittedTx (sample_checker 5) pending_task (put_db w_pending_db world0) = (Inr (), w') \<and>
     (store_of sample_codec (map_of (w_db w')) = store_of sample_codec (map_of w_pending_db) \<or>
      pending (store_of sample_codec (map_of (w_db w'))) ''AB'' = None)"
proof -
  obtain w' where run: "processSubmittedTx (sample_checker 5) pending_task (put_db w_pending_db world0) = (Inr (), w')"
    using sample_check by blast
  from check_outcome [where L = sample_leveldb and C = sample_codec and get = w_db and put = put_db and clk = sample_clock
      and V = map_of and W = map_of, OF _ _ _ _ run]
  consider "store_of sample_codec (map_of (w_db w')) = store_of sample_codec (map_of w_pending_db)"
    | ti now where "ti_Status ti = ErrorOnCommit" "store_of sample_codec (map_of (w_db w')) =
        spec_SetTxStatus 1 (sample_hash ''t'') ''AB'' ti None now (store_of sample_codec (map_of w_pending_db))"
    by (simp add: w_pending_wf CodeTypeOK_def flip: sample_storage_def) blast
  then show ?thesis using run by cases (simp_all add: pending_SetTxStatus(3))
qed

text \<open>
  C7: restart loses nothing. When the node answers for every hash and the storage does not fail,
  the checker's startup leaves no transaction pending, whatever was pending when it started -
  the entries written by a process that ended before its delayed checks ran.
\<close>

theorem startup_resolves_pending:
  assumes tc: "tc_storage tc = LevelDBStorage L C get put clk"
    and keeps: "\<And>S. check_keeps tc (\<lambda>s. leveldb_storage_ok L C V W get put clk s \<and> store_of C (V (get s)) = S)"
    and ok: "leveldb_storage_ok L C V W get put clk s"
    and wf: "\<And>n p. pending (store_of C (V (get s))) n = Some p \<Longrightarrow> pd_NeutronHash p = n \<and>
      is_txhash (pd_SubmittedTxHash p) \<and> (\<exists>b. hex_decode n = Inr b)"
    and answers: "\<And>b s. \<exists>resp s'. tc_retry tc (tc_Tx tc b) s = (Inr resp, s')"
    and writes: "\<And>q h n ti s. leveldb_storage_ok L C V W get put clk s \<Longrightarrow>
      \<exists>s'. st_SetTxStatus (LevelDBStorage L C get put clk) q h n ti None s = (Inr (), s')"
    and reads: "st_GetAllPendingTxs (LevelDBStorage L C get put clk) s = (Inr ps, s1)"
  shows "\<exists>s'. CheckerRun tc [] s = (Inr (), s') \<and> pending (store_of C (V (get s'))) = Map.empty"
proof -
  let ?st = "\<lambda>s. store_of C (V (get s))"
  from leveldb.get_pending [OF ok reads] have s1: "leveldb_storage_ok L C V W get put clk s1" "?st s1 = ?st s"
    "set ps = ran (pending (?st s))" by auto
  have ps: "\<forall>tx \<in> set ps. is_txhash (pd_SubmittedTxHash tx) \<and> (\<exists>b. hex_decode (pd_NeutronHash tx) = Inr b)"
    using wf unfolding s1(3) ran_def by blast
  from leveldb.process_all_answered [OF tc keeps s1(1) ps answers writes] obtain s' where
    s': "process_all tc ps s1 = (Inr (), s')" "\<forall>n. pending (?st s1) n = None \<longrightarrow> pending (?st s') n = None"
      "\<forall>tx \<in> set ps. pending (?st s') (pd_NeutronHash tx) = None" by auto
  have "pending (?st s') n = None" for n
  proof (cases "pending (?st s) n")
    case None
    with s'(2) s1(2) show ?thesis by simp
  next
    case (Some p)
    with wf [OF this] s1(3) s'(3) show ?thesis by (auto simp: ran_def)
  qed
  moreover have "CheckerRun tc [] s = (Inr (), s')" using reads s'(1) tc by (simp add: CheckerRun_def)
  ultimately show ?thesis by (intro exI [of _ s']) (simp add: fun_eq_iff)
qed

lemma w_pending_read: "\<exists>xs. GetAllPendingTxs sample_leveldb w_pending_db = (Inr xs, w_pending_db)"
  by (rule GetAllPendingTxs_reads [OF sample_leveldb_ok w_pending_wf])

theorem startup_resolves_pending_witness:
  "\<exists>w'. CheckerRun (sample_checker 0) [] (put_db w_pending_db world0) = (Inr (), w') \<and>
     pending (store_of sample_codec (map_of (w_db w'))) = Map.empty"
proof -
  obtain xs where xs: "GetAllPendingTxs sample_leveldb w_pending_db = (Inr xs, w_pending_db)"
    using w_pending_read by blast
  have p: "pd_NeutronHash p = n \<and> is_txhash (pd_SubmittedTxHash p) \<and> (\<exists>b. hex_decode n = Inr b)"
    if "pending (store_of sample_codec (map_of (w_db (put_db w_pending_db world0)))) n = Some p" for n p
    using that decode_AB
    by (auto simp: w_pending_store spec_SetTxStatus_def empty_store_def spec_pending_entry_def clean_Pending_def
        is_ascii_def split: if_splits)
  show ?thesis
    by (rule startup_resolves_pending [where L = sample_leveldb and C = sample_codec and get = w_db and put = put_db and
        clk = sample_clock and V = map_of and W = map_of and ps = xs, OF _ _ _ p])
      (auto simp: w_pending_wf sample_writes sample_answers xs on_part_def sample_storage_ops simp flip: sample_storage_def)
qed

end
