(* ===== verification/Props_Server.thy ===== *)
theory Props_Server
  imports Props_Query Http
begin

text \<open>
  The properties of the web server and its client (\<open>internal/http\<close>): each request as the
  client sees it, over a network that delivers requests to the router.
\<close>

section \<open>The client's calls end to end\<close>

text \<open>A call of \<open>ResubmitTxs\<close> without error is a request the server answered with 200.\<close>

lemma ResubmitTxs_each:
  assumes net: "serves N M (Router st tp R handler)" and hs: "\<forall>x\<in>set xs. is_txhash (rtx_Hash x)"
    and run: "ResubmitTxs N c \<lparr>rq_Txs = Some xs\<rparr> s = (Inr u, s')"
  obtains resp where "resubmit_each st tp xs s = (Inr resp, s')" "rs_StatusCode resp = 200"
proof -
  let ?u = "(ic_host c)\<lparr>u_Path := ResubmitTxs_path\<rparr>" and ?b = "encode_compact (encode_ResubmitRequest \<lparr>rq_Txs = Some xs\<rparr>)"
  from run obtain resp where 1: "http_Do N (ic_Timeout c) ''POST'' ?u ?b s = (Inr resp, s')" "cr_StatusCode resp = 200"
    by (auto simp: ResubmitTxs_def res_success Let_def split: if_splits)
  have clean: "map clean_ResubmitTx xs = xs"
    using hs by (induction xs) (auto simp: clean_ResubmitTx_def)
  obtain r s1 where 2: "resubmit_each st tp xs s = (r, s1)" by fastforce
  have "resubmitFailedTxs st tp ?b s = (r, s1)" using 2 clean by (simp add: resubmit_request_read)
  with 1 router_serves(2) [OF net, of ?u "ic_Timeout c" ?b s] have "s1 = s'" "response_of r = Inr resp" by auto
  with 1(2) obtain x where "r = Inr x" "rs_StatusCode x = 200" by (auto simp: response_of_def split: sum.splits)
  with 2 \<open>s1 = s'\<close> that show thesis by blast
qed

section \<open>A network of the sample world\<close>

definition sample_mux :: "world mux" where
  "sample_mux routes m p body w = (case find (route_matches m p) routes of
     None \<Rightarrow> (Ok (http_Error ''404 page not found'' 404), w) | Some r \<Rightarrow> ro_Handler r body w)"

definition sample_router :: "string res \<Rightarrow> world Route list" where
  "sample_router r = Router sample_storage (TXProcessorOf (sample_txp r)) sample_runtime
     (\<lambda>w. (Ok \<lparr>rs_StatusCode = 200, rs_Body = ''metrics''\<rparr>, w))"

definition sample_net :: "string res \<Rightarrow> (world, unit) net" where
  "sample_net r = \<lparr>url_Parse = (\<lambda>h. Ok \<lparr>u_rest = (), u_Path = [], u_RawQuery = []\<rparr>), http_NewRequest = (\<lambda>m u. Ok ()),
     http_Do = (\<lambda>t m u body w. case sample_mux (sample_router r) m (u_Path u) body w of (x, w) \<Rightarrow> (response_of x, w))\<rparr>"

definition sample_client :: "unit ICQClient" where
  "sample_client = \<lparr>ic_host = \<lparr>u_rest = (), u_Path = [], u_RawQuery = []\<rparr>, ic_Timeout = getTimeout\<rparr>"

lemma sample_serves: "serves (sample_net r) sample_mux (sample_router r)"
  by (auto simp: serves_def mux_ok_def sample_mux_def sample_net_def fun_eq_iff)

lemma sample_Do [simp]: "http_NewRequest (sample_net r) m u = Ok ()"
  by (simp add: sample_net_def)

text \<open>
  C34: the list of unsuccessful transactions a client gets over HTTP is exactly the storage's
  queue, after rendering as indented JSON, the network and decoding again (invalid UTF-8 in a
  message replaced), and asking for it changes nothing.
\<close>

theorem client_gets_queue:
  assumes "serves N M (Router (LevelDBStorage L C get put clk) tp R handler)" "leveldb_storage_ok L C V W get put clk s"
    and "\<forall>u\<in>ran (unsuccessful (store_of C (V (get s)))). rfc3339_ok (utf8_clean (un_ErrorTime u))"
    and "GetUnsuccessfulTxs N c s = (Inr txs, s')"
  shows "store_of C (V (get s')) = store_of C (V (get s)) \<and>
    (\<exists>us. txs = Some (map clean_Unsuccessful us) \<and> set us = ran (unsuccessful (store_of C (V (get s)))))"
  using leveldb.GetUnsuccessfulTxs_queue [OF assms] by blast

lemma w_unsuccessful_ran: "ran (unsuccessful (store_of sample_codec (map_of w_unsuccessful_db))) =
    {spec_unsuccessful_entry 2 (sample_hash ''u'') [] (w_ti ErrorOnSubmit) sample_now}"
  by (simp add: w_unsuccessful_store spec_SetTxStatus_def empty_store_def)

lemma sample_now_clean [simp]: "utf8_clean sample_now = sample_now"
  by (simp add: sample_now_def is_ascii_def)

lemma w_unsuccessful_time: "un_ErrorTime (spec_unsuccessful_entry q h n ti sample_now) = utf8_clean sample_now"
  by (simp add: spec_unsuccessful_entry_def clean_Unsuccessful_def)

theorem client_gets_queue_witness:
  "\<exists>txs w'. GetUnsuccessfulTxs (sample_net (Ok ''AB'')) sample_client (put_db w_unsuccessful_db world0) = (Inr (Some txs), w') \<and>
     set txs = {clean_Unsuccessful (spec_unsuccessful_entry 2 (sample_hash ''u'') [] (w_ti ErrorOnSubmit) sample_now)}"
proof -
  obtain xs where xs: "GetAllUnsuccessfulTxs sample_leveldb w_unsuccessful_db = (Inr xs, w_unsuccessful_db)"
    using w_unsuccessful_read by blast
  have us: "set xs = {spec_unsuccessful_entry 2 (sample_hash ''u'') [] (w_ti ErrorOnSubmit) sample_now}"
    using GetAllUnsuccessfulTxs_store [OF sample_leveldb_ok w_unsuccessful_wf xs] w_unsuccessful_ran by simp
  then have times: "\<And>u. u \<in> set xs \<Longrightarrow> rfc3339_ok (utf8_clean (un_ErrorTime u))"
    by (simp add: w_unsuccessful_time)
  let ?u = "(ic_host sample_client)\<lparr>u_Path := UnsuccessfulTxsResource\<rparr>"
  have "http_Do (sample_net (Ok ''AB'')) (ic_Timeout sample_client) ''GET'' ?u [] (put_db w_unsuccessful_db world0) =
      (Inr \<lparr>cr_StatusCode = 200, cr_Body = Inr (encode_indented (encode_slice encode_Unsuccessful (Some xs)))\<rparr>,
       put_db w_unsuccessful_db (put_db w_unsuccessful_db world0))"
    using router_serves(1) [OF sample_serves [of "Ok ''AB''", unfolded sample_router_def], of ?u] xs
    by (simp add: unsuccessfulTxs_def sample_storage_ops on_part_def response_of_def)
  then have run: "GetUnsuccessfulTxs (sample_net (Ok ''AB'')) sample_client (put_db w_unsuccessful_db world0) =
      (Inr (Some (map clean_Unsuccessful xs)), put_db w_unsuccessful_db (put_db w_unsuccessful_db world0))"
    using unsuccessful_page_read [OF times] by (simp add: GetUnsuccessfulTxs_def Let_def)
  from client_gets_queue [where L = sample_leveldb and C = sample_codec and get = w_db and put = put_db and clk = sample_clock
      and V = map_of and W = map_of, OF sample_serves [of "Ok ''AB''", unfolded sample_router_def sample_storage_def] _ _ run]
  obtain us where "map clean_Unsuccessful xs = map clean_Unsuccessful us"
    "set us = {spec_unsuccessful_entry 2 (sample_hash ''u'') [] (w_ti ErrorOnSubmit) sample_now}"
    by (auto simp: w_unsuccessful_wf w_unsuccessful_ran w_unsuccessful_time)
  with run show ?thesis by (metis list.set_map image_empty image_insert)
qed

text \<open>
  C19: when the client's resubmission request succeeds, the transactions it named were submitted
  again, one after the other and in order: each was taken from the cache under its query and its own
  hash, its block was handed to the submitter, and either it was accepted, is recorded as submitted
  under the new Neutron hash and its check was started, or the submitter's error is ignored and
  recorded. The cache still holds only transactions that can be resubmitted under their own
  hashes, no height moved, and each of them has a status.
\<close>

theorem resubmission_recorded:
  assumes "serves N M (Router (LevelDBStorage L C get put clk) (TXProcessorOf p) R handler)"
    and "txp_ok L C V W get put clk p s" "cache_ok (tx_storable C) (tx_hash_of p) (store_of C (V (get s)))"
    and "\<forall>x\<in>set xs. is_txhash (rtx_Hash x)" "ResubmitTxs N c \<lparr>rq_Txs = Some xs\<rparr> s = (Inr u, s')"
  shows "resubmitted p (\<lambda>s. store_of C (V (get s))) xs s s' \<and>
    cache_ok (tx_storable C) (tx_hash_of p) (store_of C (V (get s'))) \<and>
    heights (store_of C (V (get s'))) = heights (store_of C (V (get s))) \<and>
    (\<forall>x\<in>set xs. statuses (store_of C (V (get s'))) (rtx_QueryID x, rtx_Hash x) \<noteq> None)"
proof -
  obtain resp where "resubmit_each (LevelDBStorage L C get put clk) (TXProcessorOf p) xs s = (Inr resp, s')"
    "rs_StatusCode resp = 200"
    by (rule ResubmitTxs_each [OF assms(1,4,5)])
  with resubmit_each_submits [OF assms(2-4)] leveldb_txp.resubmit_each_ok [OF assms(2-4)] show ?thesis by blast
qed

definition resubmit_one :: ResubmitTx where
  "resubmit_one = \<lparr>rtx_QueryID = 2, rtx_Hash = sample_hash ''u''\<rparr>"

lemma resubmit_one_sel [simp]: "rtx_QueryID resubmit_one = 2" "rtx_Hash resubmit_one = sample_hash ''u''"
  by (simp_all add: resubmit_one_def)

lemma decode_map_of: "unmarshal (decode_Transaction C) v = Inr t \<Longrightarrow> unmarshal decode_map v = Inr ()"
  by (auto simp: unmarshal_def decode_Transaction_def decode_struct_def decode_map_def type_error_def res_success
      split: json.splits)

lemma w_unsuccessful_cached:
  "GetCachedTx sample_leveldb sample_codec 2 (sample_hash ''u'') w_unsuccessful_db =
     (Inr (sample_tx 6 ''u''), w_unsuccessful_db)"
proof -
  have "cached (store_of sample_codec (map_of w_unsuccessful_db)) (2, sample_hash ''u'') = Some (sample_tx 6 ''u'')"
    by (simp add: w_unsuccessful_store spec_SetTxStatus_def)
  then obtain v where v: "map_of w_unsuccessful_db (constructCacheTxKey 2 (sample_hash ''u'')) = Some v"
    "unmarshal (decode_Transaction sample_codec) v = Inr (sample_tx 6 ''u'')"
    by (auto simp: store_of_sel dec_at_def ok_of_def split: option.splits sum.splits)
  with decode_map_of [OF v(2)] show ?thesis by (simp add: GetCachedTx_def sample_leveldb_def Let_def)
qed

lemma w_unsuccessful_cache_ok:
  "cache_ok (tx_storable sample_codec) (tx_hash_of (sample_txp r)) (store_of sample_codec (map_of w_unsuccessful_db))"
  by (auto simp: cache_ok_def w_unsuccessful_store spec_SetTxStatus_def empty_store_def split: if_splits)

lemma sample_resubmits:
  "\<exists>w'. ResubmitTxs (sample_net (Ok ''CD'')) sample_client \<lparr>rq_Txs = Some [resubmit_one]\<rparr> (put_db w_unsuccessful_db world0) =
     (Inr (), w')"
proof -
  let ?w = "put_db w_unsuccessful_db world0"
  let ?b = "encode_compact (encode_ResubmitRequest \<lparr>rq_Txs = Some [resubmit_one]\<rparr>)"
  let ?u = "(ic_host sample_client)\<lparr>u_Path := ResubmitTxs_path\<rparr>"
  obtain w' where "ProcessAndSubmit (sample_txp (Ok ''CD'')) 2 (sample_tx 6 ''u'') (put_db w_unsuccessful_db ?w) = (Inr (), w')"
    using sample_process by blast
  then have "resubmit_each sample_storage (TXProcessorOf (sample_txp (Ok ''CD''))) [clean_ResubmitTx resubmit_one] ?w =
      (Ok \<lparr>rs_StatusCode = 200, rs_Body = []\<rparr>, w')"
    by (simp add: clean_ResubmitTx_def sample_storage_ops on_part_def w_unsuccessful_cached TXProcessorOf_def)
  then have "http_Do (sample_net (Ok ''CD'')) (ic_Timeout sample_client) ''POST'' ?u ?b ?w =
      (Inr \<lparr>cr_StatusCode = 200, cr_Body = Inr []\<rparr>, w')"
    using router_serves(2) [OF sample_serves [of "Ok ''CD''", unfolded sample_router_def], of ?u _ ?b ?w]
    by (simp add: resubmit_request_read response_of_def)
  then show ?thesis by (simp add: ResubmitTxs_def Let_def)
qed

theorem resubmission_recorded_witness:
  "\<exists>w'. ResubmitTxs (sample_net (Ok ''CD'')) sample_client \<lparr>rq_Txs = Some [resubmit_one]\<rparr>
       (put_db w_unsuccessful_db world0) = (Inr (), w') \<and>
     last (w_checks w') = \<lparr>pd_QueryID = 2, pd_SubmittedTxHash = sample_hash ''u'', pd_NeutronHash = ''CD''\<rparr>"
proof -
  obtain w' where run: "ResubmitTxs (sample_net (Ok ''CD'')) sample_client \<lparr>rq_Txs = Some [resubmit_one]\<rparr>
      (put_db w_unsuccessful_db world0) = (Inr (), w')"
    using sample_resubmits by blast
  have "resubmitted (sample_txp (Ok ''CD'')) (\<lambda>w. store_of sample_codec (map_of (w_db w))) [resubmit_one]
      (put_db w_unsuccessful_db world0) w'"
    using resubmission_recorded [where L = sample_leveldb and C = sample_codec and get = w_db and put = put_db and
      clk = sample_clock and V = map_of and W = map_of,
      OF sample_serves [of "Ok ''CD''", unfolded sample_router_def sample_storage_def] _ _ _ run]
    by (simp add: w_unsuccessful_wf w_unsuccessful_cache_ok)
  with run show ?thesis by (auto simp: submission_outcome_def)
qed

text \<open>
  A request whose first transaction is not in the cache is refused: the client's call fails
  and the store is what it was.
\<close>

lemma resubmission_refused:
  assumes net: "serves N M (Router (LevelDBStorage L C get put clk) tp R handler)"
    and s: "leveldb_storage_ok L C V W get put clk s" "is_txhash (rtx_Hash x)"
      "cached (store_of C (V (get s))) (rtx_QueryID x, rtx_Hash x) = None"
    and run: "ResubmitTxs N c \<lparr>rq_Txs = Some (x # xs)\<rparr> s = (res, s')"
  shows "store_of C (V (get s')) = store_of C (V (get s)) \<and> (\<exists>f. res = Inl f)"
proof -
  let ?u = "(ic_host c)\<lparr>u_Path := ResubmitTxs_path\<rparr>"
  let ?b = "encode_compact (encode_ResubmitRequest \<lparr>rq_Txs = Some (x # xs)\<rparr>)"
  let ?st = "LevelDBStorage L C get put clk"
  obtain r s1 where 1: "resubmit_each ?st tp (x # map clean_ResubmitTx xs) s = (r, s1)" by fastforce
  from leveldb.resubmit_missing [OF s 1] have store: "store_of C (V (get s1)) = store_of C (V (get s))"
    and code: "\<And>resp. r = Inr resp \<Longrightarrow> rs_StatusCode resp \<noteq> 200" by auto
  have "map clean_ResubmitTx (x # xs) = x # map clean_ResubmitTx xs"
    using s(2) by (simp add: clean_ResubmitTx_def)
  with 1 have "http_Do N (ic_Timeout c) ''POST'' ?u ?b s = (response_of r, s1)"
    using router_serves(2) [OF net, of ?u _ ?b s] by (simp add: resubmit_request_read del: list.map)
  with run code store show ?thesis
    by (cases "http_NewRequest N ''POST'' ?u"; cases r)
      (auto simp: ResubmitTxs_def Let_def response_of_def split: if_splits)
qed

end
