(* ===== verification/Float_Text.thy ===== *)
theory Float_Text
  imports Float64
begin

text \<open>
  What the text of a \<open>float64\<close> says as a number: the four digits of \<open>FormatFloat(x, 'g', 4, 64)\<close>
  are within one part in two thousand of \<open>x\<close>; between \<open>10^-4\<close> and \<open>9999.5\<close> they are written
  as a plain decimal number, outside with an exponent.
\<close>

section \<open>Plain decimal numbers\<close>

definition decimal_text :: "string \<Rightarrow> bool" where
  "decimal_text t \<longleftrightarrow>
     (let i = takeWhile is_digit t; f = dropWhile is_digit t
      in i \<noteq> [] \<and> (f = [] \<or> (hd f = CHR ''.'' \<and> tl f \<noteq> [] \<and> list_all is_digit (tl f))))"

definition decimal_val :: "string \<Rightarrow> real" where
  "decimal_val t =
     (let i = takeWhile is_digit t; f = tl (dropWhile is_digit t)
      in real (digits_val (i @ f)) / 10 ^ length f)"

section \<open>The decimal point\<close>

lemma dec_exp_up_spec:
  assumes "n < d * 10 ^ (k + f)"
  shows "k \<le> dec_exp_up f n d k \<and> n < d * 10 ^ dec_exp_up f n d k \<and>
    (dec_exp_up f n d k = k \<or> d * 10 ^ (dec_exp_up f n d k - 1) \<le> n)"
  using assms
proof (induction f arbitrary: k)
  case (Suc f)
  show ?case
  proof (cases "n < d * 10 ^ k")
    case False
    have "n < d * 10 ^ (Suc k + f)" using Suc.prems by simp
    from Suc.IH [OF this] False show ?thesis by auto
  qed simp
qed simp

lemma dec_exp_up_ge:
  "d * 10 ^ j \<le> n \<Longrightarrow> k + f > j \<Longrightarrow> dec_exp_up f n d k > j"
proof (induction f arbitrary: k)
  case (Suc f)
  show ?case
  proof (cases "n < d * 10 ^ k")
    case True
    then have "d * 10 ^ j < d * 10 ^ k" using Suc.prems(1) by linarith
    then have "j < k" by simp
    with True show ?thesis by simp
  qed (use Suc in simp)
qed simp

lemma dec_exp_down_spec:
  assumes "n * 10 ^ k < d" "d \<le> n * 10 ^ Suc (k + f)"
  shows "k \<le> dec_exp_down f n d k \<and> n * 10 ^ dec_exp_down f n d k < d \<and> d \<le> n * 10 ^ Suc (dec_exp_down f n d k)"
  using assms
proof (induction f arbitrary: k)
  case (Suc f)
  show ?case
  proof (cases "n * 10 ^ Suc k < d")
    case True
    have "d \<le> n * 10 ^ Suc (Suc k + f)" using Suc.prems by simp
    from Suc.IH [OF True this] True show ?thesis by auto
  qed (use Suc in auto)
qed simp

lemma dec_exp_down_ge:
  "n * 10 ^ j < d \<Longrightarrow> k + f \<ge> j \<Longrightarrow> dec_exp_down f n d k \<ge> j"
proof (induction f arbitrary: k)
  case (Suc f)
  show ?case
  proof (cases "n * 10 ^ Suc k < d")
    case False
    then have "n * 10 ^ j < n * 10 ^ Suc k" using Suc.prems(1) by linarith
    then have "(10::nat) ^ j < 10 ^ Suc k" by (metis mult_less_cancel1)
    then have "j < Suc k" by (metis one_less_numeral_iff power_less_imp_less_exp semiring_norm(76))
    with False show ?thesis by simp
  qed (use Suc in simp)
qed simp

text \<open>Within the bound of the search it finds the decimal point.\<close>

lemma of_nat_scaled:
  "n < d * 10 ^ r \<longleftrightarrow> real n < real d * 10 ^ r" "d * 10 ^ r \<le> n \<longleftrightarrow> real d * 10 ^ r \<le> real n"
  "n * 10 ^ r < d \<longleftrightarrow> real n * 10 ^ r < real d" "d \<le> n * 10 ^ r \<longleftrightarrow> real d \<le> real n * 10 ^ r"
  by (simp_all flip: of_nat_less_iff [where 'a = real] of_nat_le_iff [where 'a = real])

lemma dec_exp_spec:
  assumes d: "0 < d" and n: "n < d * 10 ^ N" "d \<le> n * 10 ^ N" and N: "N \<le> 400"
  shows "10 powi (dec_exp n d - 1) \<le> real n / real d \<and> real n / real d < 10 powi dec_exp n d"
proof -
  obtain F :: nat where F: "F = 400" by blast
  have "N \<le> F" "N \<le> Suc F" using N F by simp_all
  then have le: "(10::nat) ^ N \<le> 10 ^ F" "(10::nat) ^ N \<le> 10 ^ Suc F" by (intro power_increasing; simp)+
  show ?thesis
  proof (cases "d \<le> n")
    case True
    define r where "r = dec_exp_up F n d 0"
    have "n < d * 10 ^ (0 + F)" using n(1) le(1) by (metis add_0 less_le_trans mult_le_mono2)
    from dec_exp_up_spec [OF this] have "n < d * 10 ^ r" "r = 0 \<or> d * 10 ^ (r - 1) \<le> n" by (simp_all add: r_def)
    moreover from this True have "r \<noteq> 0" by (cases "r = 0") auto
    ultimately obtain k where k: "r = Suc k" "real n < real d * 10 ^ Suc k" "real d * 10 ^ k \<le> real n"
      using of_nat_scaled by (metis diff_Suc_1 not0_implies_Suc)
    have "dec_exp n d = int r" using True by (simp only: dec_exp_def r_def F if_True)
    with k(1) have "dec_exp n d = int (Suc k)" "dec_exp n d - 1 = int k" by simp_all
    then show ?thesis using k(2,3) d
      by (simp only: power_int_of_nat) (simp add: pos_le_divide_eq pos_divide_less_eq mult.commute del: power_Suc)
  next
    case False
    define r where "r = dec_exp_down F n d 0"
    have "d \<le> n * 10 ^ Suc (0 + F)" using n(2) le(2) by (metis add_0 le_trans mult_le_mono2)
    moreover have "n * 10 ^ 0 < d" using False by simp
    ultimately have "n * 10 ^ r < d" "d \<le> n * 10 ^ Suc r"
      using dec_exp_down_spec [of n 0 d F] by (simp_all add: r_def)
    then have r: "real n * 10 ^ r < real d" "real d \<le> real n * 10 ^ Suc r"
      by (simp_all only: of_nat_scaled)
    moreover have "dec_exp n d = - int r" using False by (simp only: dec_exp_def r_def F if_False)
    moreover have "- int r - 1 = - int (Suc r)" by simp
    ultimately have e: "dec_exp n d = - int r" "dec_exp n d - 1 = - int (Suc r)" by simp_all
    have "10 powi (- int k) = (1::real) / 10 ^ k" for k by (simp add: power_int_minus divide_inverse)
    then have "10 powi dec_exp n d = (1::real) / 10 ^ r" "10 powi (dec_exp n d - 1) = (1::real) / 10 ^ Suc r"
      using e by metis+
    moreover have "1 / 10 ^ Suc r \<le> real n / real d" "real n / real d < 1 / 10 ^ r"
      using r d by (simp_all add: divide_simps mult.commute del: power_Suc)
    ultimately show ?thesis by simp
  qed
qed

text \<open>Far outside, the decimal point is out of the range of plain numbers.\<close>

lemma dec_exp_large: "0 < d \<Longrightarrow> d * 10 ^ 4 \<le> n \<Longrightarrow> 5 \<le> dec_exp n d"
  using dec_exp_up_ge [of d 4 n 0 400] by (simp add: dec_exp_def)

lemma dec_exp_small: "n * 10 ^ 4 < d \<Longrightarrow> dec_exp n d \<le> - 4"
  using dec_exp_down_ge [of n 4 d 0 400] by (simp add: dec_exp_def)

section \<open>The four digits\<close>

lemma div_round_error:
  assumes "0 < d"
  shows "\<bar>real (div_round n d) - real n / real d\<bar> \<le> 1 / 2"
proof -
  define q r where "q = n div d" and "r = n mod d"
  have n: "real n = real q * real d + real r" and r: "r < d"
    using assms by (simp_all add: q_def r_def flip: of_nat_mult of_nat_add)
  show ?thesis
  proof (cases "2 * r < d \<or> (2 * r = d \<and> even q)")
    case True
    then have "div_round n d = q" "2 * real r \<le> real d" by (auto simp: div_round_def q_def r_def Let_def)
    then show ?thesis using n assms by (simp add: field_simps)
  next
    case False
    then have "div_round n d = Suc q" "real d \<le> 2 * real r" by (auto simp: div_round_def q_def r_def Let_def)
    then show ?thesis using n assms r by (simp add: field_simps abs_le_iff)
  qed
qed

text \<open>The digits kept as a number, before zeros are dropped, and the decimal point.\<close>

definition digits4 :: "nat \<Rightarrow> nat \<Rightarrow> nat \<times> int" where
  "digits4 n d =
     (let dp = dec_exp n d;
          v = (if dp \<le> 4 then div_round (n * 10 ^ nat (4 - dp)) d else div_round n (d * 10 ^ nat (dp - 4)))
      in if v = 10000 then (1000, dp + 1) else (v, dp))"

lemma decimal4_digits: "decimal4 n d = (case digits4 n d of (v, dp) \<Rightarrow> (strip_zeros (format_nat v), dp))"
  by (simp add: decimal4_def digits4_def Let_def)

text \<open>The number rounded is \<open>x\<close> moved to four digits before the point.\<close>

lemma digits4_rounded:
  assumes d: "0 < d"
  obtains v where "\<bar>real v - real n / real d * 10 powi (4 - dec_exp n d)\<bar> \<le> 1 / 2"
    "digits4 n d = (if v = 10000 then (1000, dec_exp n d + 1) else (v, dec_exp n d))"
proof -
  define dp v where "dp = dec_exp n d" and
    "v = (if dp \<le> 4 then div_round (n * 10 ^ nat (4 - dp)) d else div_round n (d * 10 ^ nat (dp - 4)))"
  have "\<bar>real v - real n / real d * 10 powi (4 - dp)\<bar> \<le> 1 / 2"
  proof (cases "dp \<le> 4")
    case True
    then have "10 powi (4 - dp) = (10::real) ^ nat (4 - dp)" by (simp flip: power_int_of_nat)
    with True div_round_error [OF d, of "n * 10 ^ nat (4 - dp)"] show ?thesis by (simp add: v_def)
  next
    case False
    then have "10 powi (4 - dp) = 1 / (10::real) ^ nat (dp - 4)"
      by (simp add: divide_inverse flip: power_int_minus power_int_of_nat)
    with False div_round_error [of "d * 10 ^ nat (dp - 4)" n] d show ?thesis by (simp add: v_def)
  qed
  moreover have "digits4 n d = (if v = 10000 then (1000, dp + 1) else (v, dp))"
    by (simp add: digits4_def v_def dp_def Let_def)
  ultimately show thesis using that by (simp add: dp_def)
qed

lemma digits4_spec:
  assumes d: "0 < d" and n: "n < d * 10 ^ N" "d \<le> n * 10 ^ N" "N \<le> 400" and ds: "digits4 n d = (v, dp)"
  shows "1000 \<le> v" "v \<le> 9999"
    and "\<bar>real v * 10 powi (dp - 4) - real n / real d\<bar> \<le> real n / real d / 2000"
    and "dp = dec_exp n d \<or> (dp = dec_exp n d + 1 \<and> 9999.5 \<le> real n / real d * 10 powi (4 - dec_exp n d))"
proof -
  define x where "x = real n / real d"
  define p where "p = dec_exp n d"
  define y where "y = x * 10 powi (4 - p)"
  have x: "10 powi (p - 1) \<le> x" "x < 10 powi p" using dec_exp_spec [OF d n] by (simp_all add: x_def p_def)
  have xy: "x = y * 10 powi (p - 4)" by (simp add: y_def power_int_diff)
  have "10 powi (p - 1) = 1000 * (10::real) powi (p - 4)" "10 powi p = 10000 * (10::real) powi (p - 4)"
    by (simp_all add: power_int_diff)
  with x xy have y: "1000 \<le> y" "y < 10000" by simp_all
  obtain w where w: "\<bar>real w - y\<bar> \<le> 1 / 2" "digits4 n d = (if w = 10000 then (1000, p + 1) else (w, p))"
    using digits4_rounded [OF d] unfolding y_def x_def p_def by metis
  have "1000 \<le> real w + 1 / 2" "real w \<le> 10000 + 1 / 2" using w(1) y by linarith+
  then have w2: "1000 \<le> w" "w \<le> 10000" by linarith+
  have v: "real v * 10 powi (dp - 4) = real w * 10 powi (p - 4)"
    using w(2) ds by (auto simp: power_int_add power_int_diff split: if_splits)
  show "1000 \<le> v" "v \<le> 9999" using w(2) ds w2 by (auto split: if_splits)
  have "\<bar>real v * 10 powi (dp - 4) - x\<bar> = \<bar>real w - y\<bar> * 10 powi (p - 4)"
    by (simp add: v xy left_diff_distrib [symmetric] abs_mult)
  also have "\<dots> \<le> y / 2000 * 10 powi (p - 4)" using w(1) y by (intro mult_right_mono) auto
  finally show "\<bar>real v * 10 powi (dp - 4) - real n / real d\<bar> \<le> real n / real d / 2000"
    using xy by (simp add: x_def)
  show "dp = dec_exp n d \<or> (dp = dec_exp n d + 1 \<and> 9999.5 \<le> real n / real d * 10 powi (4 - dec_exp n d))"
  proof (cases "w = 10000")
    case True
    then have "9999.5 \<le> y" using abs_le_D1 [OF w(1)] by simp
    with True w(2) ds show ?thesis by (simp add: p_def x_def y_def)
  qed (use w(2) ds in \<open>simp add: p_def\<close>)
qed

section \<open>The text\<close>

lemma length_format_nat_four:
  assumes "1000 \<le> v" "v \<le> 9999"
  shows "length (format_nat v) = 4"
proof -
  have "v div 10 div 10 div 10 < 10" "10 \<le> v div 10 div 10" using assms by (simp_all flip: div_mult2_eq)
  moreover from this have "10 \<le> v div 10" "10 \<le> v" by linarith+
  ultimately show ?thesis
    by (simp add: format_nat.simps [of v] format_nat.simps [of "v div 10"] format_nat.simps [of "v div 10 div 10"]
        format_nat.simps [of "v div 10 div 10 div 10"])
qed

lemma digits_val_two: "digits_val (xs @ ys) = digits_val xs * 10 ^ length ys + digits_val ys"
  by (induction ys rule: rev_induct) (simp_all add: digits_val_append digits_val_def flip: append_assoc)

lemma digit_zero_dot [simp]: "is_digit CHR ''0''" "\<not> is_digit CHR ''.''" "digit_val CHR ''0'' = 0"
  by (simp_all add: is_digit_def digit_val_def)

lemma digits_val_0 [simp]: "digits_val [] = 0" "digits_val (CHR ''0'' # xs) = digits_val xs"
  by (simp_all add: digits_val_def)

lemma digits_val_zeros [simp]: "digits_val (replicate k CHR ''0'') = 0"
  by (induction k) simp_all

lemma strip_zeros_append: "\<exists>k. s = strip_zeros s @ replicate k CHR ''0''"
proof -
  have "takeWhile (\<lambda>c. c = CHR ''0'') (rev s) = replicate (length (takeWhile (\<lambda>c. c = CHR ''0'') (rev s))) CHR ''0''"
    by (rule replicate_length_same [symmetric]) (auto dest: set_takeWhileD)
  then have "rev (takeWhile (\<lambda>c. c = CHR ''0'') (rev s)) = replicate (length (takeWhile (\<lambda>c. c = CHR ''0'') (rev s))) CHR ''0''"
    by (metis rev_replicate)
  moreover have "s = strip_zeros s @ rev (takeWhile (\<lambda>c. c = CHR ''0'') (rev s))"
    unfolding strip_zeros_def by (metis rev_append rev_rev_ident takeWhile_dropWhile_id)
  ultimately show ?thesis by metis
qed

text \<open>The digits before and after the point.\<close>

lemma digits_before:
  "map (\<lambda>i. nth_digit ds (int i)) [0..<k] = take k ds @ replicate (k - length ds) CHR ''0''"
  by (rule nth_equalityI) (auto simp: nth_digit_def nth_append)

lemma digits_after:
  assumes "p \<le> int (length ds)"
  shows "map (\<lambda>i. nth_digit ds (p + int i)) [0..<nat (int (length ds) - p)] =
    replicate (nat (- p)) CHR ''0'' @ drop (nat p) ds"
  using assms by (intro nth_equalityI) (auto simp: nth_digit_def nth_append intro!: arg_cong [where f = "(!) ds"])


lemma split_digits:
  assumes "list_all is_digit xs"
  shows "takeWhile is_digit (xs @ CHR ''.'' # ys) = xs" "dropWhile is_digit (xs @ CHR ''.'' # ys) = CHR ''.'' # ys"
    "takeWhile is_digit xs = xs" "dropWhile is_digit xs = []"
  using assms by (induction xs) simp_all

lemma fmtF_decimal:
  fixes dp :: int
  assumes ds: "list_all is_digit ds" "ds \<noteq> []"
  defines "t \<equiv> fmtF ds dp (nat (max (int (length ds) - dp) 0))"
  shows "decimal_text t \<and> decimal_val t = real (digits_val ds) * 10 powi (dp - int (length ds))"
proof -
  let ?n = "int (length ds)"
  have zeros: "list_all is_digit (replicate k CHR ''0'')" for k by (induction k) simp_all
  define i where "i = (if 0 < dp then take (nat dp) ds @ replicate (nat dp - length ds) CHR ''0'' else ''0'')"
  have i: "list_all is_digit i" "i \<noteq> []"
    using ds zeros by (auto simp: i_def list_all_iff dest: in_set_takeD)
  show ?thesis
  proof (cases "dp < ?n")
    case True
    define f where "f = replicate (nat (- dp)) CHR ''0'' @ drop (nat dp) ds"
    have f: "list_all is_digit f" "f \<noteq> []" "length f = nat (?n - dp)"
      using ds zeros True by (auto simp: f_def list_all_iff dest: in_set_dropD)
    have "t = i @ CHR ''.'' # f"
      using True digits_after [of dp ds] by (simp add: t_def fmtF_def i_def f_def digits_before)
    moreover have "digits_val (i @ f) = digits_val ds"
    proof (cases "0 < dp")
      case True
      with \<open>dp < ?n\<close> have "i @ f = ds" by (simp add: i_def f_def)
      then show ?thesis by simp
    qed (simp add: i_def f_def digits_val_two)
    moreover have "10 powi (dp - ?n) = 1 / (10::real) ^ length f"
      using True f(3) by (simp add: divide_inverse flip: power_int_minus power_int_of_nat)
    ultimately show ?thesis
      using i(1,2) f(1,2) split_digits(1,2) [OF i(1), of f] by (simp add: decimal_text_def decimal_val_def)
  next
    case False
    then have dp: "0 < dp" "length ds \<le> nat dp" using ds by (cases ds; simp)+
    have "t = i" using False dp by (simp add: t_def fmtF_def i_def digits_before)
    moreover have "digits_val i = digits_val ds * 10 ^ (nat dp - length ds)"
      using dp by (simp add: i_def digits_val_two)
    moreover have "10 powi (dp - ?n) = (10::real) ^ (nat dp - length ds)"
      using dp False by (simp add: nat_diff_distrib flip: power_int_of_nat)
    ultimately show ?thesis
      using i split_digits(3,4) [OF i(1)]
      by (simp add: decimal_text_def decimal_val_def del: takeWhile_eq_all_conv dropWhile_eq_Nil_conv)
  qed
qed

text \<open>With the point between \<open>-3\<close> and \<open>4\<close> the text is plain and reads as the digits say.\<close>

lemma format_g4_plain:
  assumes v: "1000 \<le> v" "v \<le> 9999" and dp: "- 3 \<le> dp" "dp \<le> 4"
  defines "t \<equiv> format_g4 (strip_zeros (format_nat v)) dp"
  shows "decimal_text t \<and> decimal_val t = real v * 10 powi (dp - 4)"
proof -
  define ds where "ds = strip_zeros (format_nat v)"
  obtain k where k: "format_nat v = ds @ replicate k CHR ''0''" using strip_zeros_append ds_def by metis
  have len: "length ds + k = 4" using length_format_nat_four [OF v] k by simp
  have digits: "list_all is_digit ds" using format_nat_digits [of v] k by simp
  have val: "v = digits_val ds * 10 ^ k" using digits_val_format_nat [of v] k by (simp add: digits_val_two)
  with v have ne: "ds \<noteq> []" by (auto simp: digits_val_def)
  then have "0 < length ds" by simp
  then have "t = fmtF ds dp (nat (max (int (length ds) - dp) 0))"
    using dp len unfolding t_def ds_def [symmetric] by (auto simp: format_g4_def Let_def)
  moreover have "real (digits_val ds) * 10 powi (dp - int (length ds)) = real v * 10 powi (dp - 4)"
  proof -
    have "dp - int (length ds) = int k + (dp - 4)" using len by simp
    then have "10 powi (dp - int (length ds)) = 10 powi int k * (10::real) powi (dp - 4)"
      by (metis power_int_add zero_neq_numeral)
    then show ?thesis by (simp add: val)
  qed
  ultimately show ?thesis using fmtF_decimal [OF digits ne, of dp] by simp
qed

text \<open>Elsewhere it has an exponent.\<close>

lemma format_g4_exponent:
  "dp < - 3 \<or> 4 < dp \<Longrightarrow> CHR ''e'' \<in> set (format_g4 ds dp) \<and> (4 < dp \<longrightarrow> CHR ''+'' \<in> set (format_g4 ds dp))"
  by (auto simp: format_g4_def fmtE_def Let_def)

text \<open>
  The text of a positive finite number. Between \<open>10^-4\<close> and \<open>9999.5\<close> it is a plain decimal
  number within one part in two thousand; from \<open>10^4\<close> on and below \<open>0.00009999\<close> it has an exponent.
\<close>

definition plain_range :: "real \<Rightarrow> bool" where
  "plain_range x \<longleftrightarrow> 1 / 10000 \<le> x \<and> x < 9999.5"

definition exponent_range :: "real \<Rightarrow> bool" where
  "exponent_range x \<longleftrightarrow> 10000 \<le> x \<or> (0 < x \<and> x < 0.00009999)"

lemma decimal4_text:
  fixes n d :: nat
  assumes d: "0 < d"
  defines "x \<equiv> real n / real d" and "t \<equiv> (case decimal4 n d of (ds, dp) \<Rightarrow> format_g4 ds dp)"
  shows "plain_range x \<Longrightarrow> decimal_text t \<and> \<bar>decimal_val t - x\<bar> \<le> x / 2000"
    and "exponent_range x \<Longrightarrow> CHR ''e'' \<in> set t \<and> (10000 \<le> x \<longrightarrow> CHR ''+'' \<in> set t)"
proof -
  obtain v dp where v: "digits4 n d = (v, dp)" by fastforce
  have t: "t = format_g4 (strip_zeros (format_nat v)) dp" by (simp add: t_def decimal4_digits v)
  have four: "(10::nat) ^ 4 \<le> 10 ^ 5" "(4::nat) \<le> 400" by simp_all
  {
    assume x: "plain_range x"
    have "real n < real d * 10 ^ 4" "real d \<le> real n * 10 ^ 4"
      using x d by (simp_all add: plain_range_def x_def field_simps)
    then have n: "n < d * 10 ^ 4" "d \<le> n * 10 ^ 4" using of_nat_scaled by blast+
    note sp = digits4_spec [OF d n four(2) v, folded x_def]
    define p where "p = dec_exp n d"
    have p: "10 powi (p - 1) \<le> x" "x < 10 powi p" using dec_exp_spec [OF d n four(2)] by (simp_all add: x_def p_def)
    have "p \<le> 4"
    proof (rule ccontr)
      assume "\<not> p \<le> 4"
      then have "(10::real) powi 4 \<le> 10 powi (p - 1)" by (intro power_int_increasing) auto
      with p x show False by (simp add: plain_range_def)
    qed
    moreover have "- 3 \<le> p"
    proof (rule ccontr)
      assume "\<not> - 3 \<le> p"
      then have "(10::real) powi p \<le> 10 powi (- 4)" by (intro power_int_increasing) auto
      with p x show False by (simp add: plain_range_def power_int_minus)
    qed
    moreover have "dp \<noteq> 5"
    proof
      assume "dp = 5"
      with sp(4) \<open>p \<le> 4\<close> have "p = 4" "9999.5 \<le> x * 10 powi (4 - p)" by (auto simp: p_def)
      with x show False by (simp add: plain_range_def)
    qed
    ultimately have "- 3 \<le> dp" "dp \<le> 4" using sp(4) by (auto simp: p_def)
    from format_g4_plain [OF sp(1,2) this] sp(3) show "decimal_text t \<and> \<bar>decimal_val t - x\<bar> \<le> x / 2000"
      by (simp add: t)
  }
  {
    assume x: "exponent_range x"
    define p where "p = dec_exp n d"
    obtain w where w: "\<bar>real w - x * 10 powi (4 - p)\<bar> \<le> 1 / 2"
        "digits4 n d = (if w = 10000 then (1000, p + 1) else (w, p))"
      using digits4_rounded [OF d] unfolding x_def p_def by metis
    have "if 10000 \<le> x then 4 < dp else dp < - 3"
    proof (cases "10000 \<le> x")
      case True
      then have "real d * 10 ^ 4 \<le> real n" using d by (simp add: x_def field_simps)
      then have "5 \<le> p" using dec_exp_large [OF d] of_nat_scaled(2) by (metis p_def)
      with True w(2) v show ?thesis by (auto split: if_splits)
    next
      case False
      with x have x: "x < 0.00009999" by (simp add: exponent_range_def)
      then have "real n * 10 ^ 4 < real d" using d by (simp add: x_def field_simps)
      then have p: "p \<le> - 4" using dec_exp_small of_nat_scaled(3) by (metis p_def)
      have "p \<noteq> - 4" if "w = 10000"
      proof
        assume "p = - 4"
        with abs_le_D1 [OF w(1)] that x show False by simp
      qed
      with p x w(2) v show ?thesis by (auto split: if_splits)
    qed
    then show "CHR ''e'' \<in> set t \<and> (10000 \<le> x \<longrightarrow> CHR ''+'' \<in> set t)"
      using format_g4_exponent [of dp] by (simp add: t split: if_splits)
  }
qed

text \<open>The same for \<open>FormatFloat\<close>.\<close>

lemma FormatFloat_text:
  assumes g: "is_finite g"
  shows "plain_range (float_val g) \<Longrightarrow> decimal_text (FormatFloat_g4 g) \<and>
      \<bar>decimal_val (FormatFloat_g4 g) - float_val g\<bar> \<le> float_val g / 2000"
    and "exponent_range (float_val g) \<Longrightarrow> CHR ''e'' \<in> set (FormatFloat_g4 g) \<and>
      (10000 \<le> float_val g \<longrightarrow> CHR ''+'' \<in> set (FormatFloat_g4 g))"
proof -
  obtain s m e where sme: "g = Fin s m e" using g by (cases g) auto
  {
    assume pos: "0 < float_val g"
    moreover have "(0::real) < 2 powi e" by simp
    ultimately have s: "\<not> s" and m: "m \<noteq> 0" using sme by (auto split: if_splits simp: zero_less_mult_iff)
    define n d where "n = (if 0 \<le> e then m * 2 ^ nat e else m)" and "d = (if 0 \<le> e then 1 else 2 ^ nat (- e) :: nat)"
    have d: "0 < d" by (simp add: d_def)
    have val: "float_val g = real n / real d"
    proof (cases "0 \<le> e")
      case False
      then have "2 powi e = 1 / (2::real) ^ nat (- e)" by (simp add: divide_inverse flip: power_int_minus power_int_of_nat)
      with False s sme show ?thesis by (simp add: n_def d_def)
    qed (use s sme in \<open>simp add: n_def d_def flip: power_int_of_nat\<close>)
    have fmt: "FormatFloat_g4 g = (case decimal4 n d of (ds, dp) \<Rightarrow> format_g4 ds dp)"
      using s m sme by (simp add: n_def d_def)
    have "(plain_range (float_val g) \<longrightarrow> decimal_text (FormatFloat_g4 g) \<and>
        \<bar>decimal_val (FormatFloat_g4 g) - float_val g\<bar> \<le> float_val g / 2000) \<and>
      (exponent_range (float_val g) \<longrightarrow> CHR ''e'' \<in> set (FormatFloat_g4 g) \<and>
        (10000 \<le> float_val g \<longrightarrow> CHR ''+'' \<in> set (FormatFloat_g4 g)))"
      using decimal4_text [OF d, of n] unfolding fmt val by blast
  }
  then show "plain_range (float_val g) \<Longrightarrow> decimal_text (FormatFloat_g4 g) \<and>
      \<bar>decimal_val (FormatFloat_g4 g) - float_val g\<bar> \<le> float_val g / 2000"
    and "exponent_range (float_val g) \<Longrightarrow> CHR ''e'' \<in> set (FormatFloat_g4 g) \<and>
      (10000 \<le> float_val g \<longrightarrow> CHR ''+'' \<in> set (FormatFloat_g4 g))"
    by (auto simp: plain_range_def exponent_range_def)
qed

lemma FormatFloat_le:
  assumes "is_finite g" "plain_range (float_val g)" "float_val g \<le> M"
  shows "decimal_val (FormatFloat_g4 g) \<le> M * 1.0005"
proof -
  have "decimal_val (FormatFloat_g4 g) - float_val g \<le> float_val g / 2000"
    using FormatFloat_text(1) [OF assms(1,2)] abs_le_D1 by blast
  with assms(3) show ?thesis by simp
qed

end
