(* ===== verification/Props_Chain.thy ===== *)
theory Props_Chain
  imports Props_Relay Kv_Processor Submit Float_Text
begin

text \<open>
  The properties of what the relayer gets from the target chain and gives to Neutron: trusted
  headers (\<open>internal/trusted_headers\<close>), the transaction sender (\<open>internal/submit\<close>) and
  key-value queries (\<open>internal/kvprocessor\<close>, \<open>internal/tmquerier\<close>).
\<close>

section \<open>Trusted headers\<close>

text \<open>
  C8: a header that \<open>Fetch\<close> returns is the target chain's header at the height asked for. Its
  trusted height is that of a consensus state the client holds that is strictly lower, of the
  target chain's revision and, when the call began, within the client's trusting period less
  five minutes (in nanoseconds); its trusted validators are those of the header right above that
  height.
\<close>

theorem fetched_header_trusted:
  assumes "light_client thf period states headers clock" "retry_ok (thf_retry thf)"
    and "Fetch fuel thf height s = (Inr hdr, s')"
  shows "\<exists>cs ts. cs \<in> states \<and> RevisionNumber (cs_Height cs) = revisionNumber thf \<and>
    RevisionHeight (cs_Height cs) < height \<and>
    cs_Timestamp cs = Some ts \<and> clock s < sint ts + period - 5 * 60 * 10 ^ 9 \<and>
    hdr = (headers (sint height))\<lparr>TrustedHeight := cs_Height cs,
      TrustedValidators := ValidatorSet (headers (sint (RevisionHeight (cs_Height cs) + 1)))\<rparr>"
proof -
  from Fetch_light_client [OF assms] obtain cs now where
    "cs \<in> states" "clock s \<le> now" "suitable_at thf period height now cs"
    "hdr = (headers (sint height))\<lparr>TrustedHeight := cs_Height cs,
      TrustedValidators := ValidatorSet (headers (sint (RevisionHeight (cs_Height cs) + 1)))\<rparr>"
    by blast
  then show ?thesis
    by (intro exI [of _ cs]) (auto simp: suitable_at_def submissionMarginPeriod_def split: option.splits)
qed

text \<open>A client with two pages of consensus states, of which the second page has the suitable one.\<close>

definition sample_state :: "u64 \<Rightarrow> u64 \<Rightarrow> ConsensusStateWithHeight" where
  "sample_state h ts = \<lparr>cs_Height = \<lparr>RevisionNumber = 1, RevisionHeight = h\<rparr>, cs_Timestamp = Some ts\<rparr>"

definition sample_pages :: "bytes \<Rightarrow> ConsensusStatesPage" where
  "sample_pages k = (if k = [] then \<lparr>ConsensusStates = [sample_state 50 900], cp_NextKey = Some ''k''\<rparr>
     else \<lparr>ConsensusStates = [sample_state 20 800, sample_state 10 700], cp_NextKey = Some []\<rparr>)"

definition sample_thf :: "(world, unit) TrustedHeaderFetcherSrv" where
  "sample_thf = \<lparr>thf_runtime = sample_runtime, is_CosmosProvider = True, ClientID = ''07-tendermint-0'',
     query_ConsensusStates = (\<lambda>r w. (Ok (sample_pages (rq_Key r)), w)),
     QueryClientState = (\<lambda>h c w. (Ok (TmClientState 1000000000000), w)),
     QueryIBCHeader = (\<lambda>h w. (Ok (TendermintIBCHeader (Ok sample_header)), w)),
     thf_retry = retry_attempts 3, revisionNumber = 1\<rparr>"

lemma sample_thf_sel [simp]: "thf_retry sample_thf = retry_attempts 3" "is_CosmosProvider sample_thf"
  "QueryClientState sample_thf h c w = (Ok (TmClientState 1000000000000), w)"
  "QueryIBCHeader sample_thf i w = (Ok (TendermintIBCHeader (Ok sample_header)), w)"
  "thf_runtime sample_thf = sample_runtime" "revisionNumber sample_thf = 1"
  by (simp_all add: sample_thf_def)

lemma sample_answers_pages [simp]: "answers_pages sample_thf sample_pages 0"
  by (simp add: answers_pages_def sample_thf_def requestPage_def)

text \<open>
  C24: the search for a trusted height ends. Against a client whose pages are \<open>ps\<close> and a clock
  that stands still, as many units of fuel as there are pages give the height of the first
  suitable state in the order of the pages, or the error that there is none.
\<close>

theorem trusted_height_found:
  assumes "answers_pages thf P now" "linked_pages P [] ps" "length ps \<le> fuel"
    and "\<forall>p \<in> set ps. \<forall>cs \<in> set (ConsensusStates p). cs_Timestamp cs \<noteq> None"
    and "is_CosmosProvider thf" "QueryClientState thf 0 (ClientID thf) s = (Ok (TmClientState period), s')" "period \<noteq> 0"
  shows "getTrustedHeight fuel thf height s =
    (case find (suitable_at thf period height now) (concat (map ConsensusStates ps)) of
       Some cs \<Rightarrow> Ok (cs_Height cs)
     | None \<Rightarrow> Err (ErrText (''could not find any trusted consensus state for height='' @ FormatUint height)), s')"
  using search_pages_find [OF assms(1-4), of period height s'] assms(5-7)
  by (simp add: getTrustedHeight_def fetchTrustingPeriod_def)

theorem trusted_height_found_witness:
  "getTrustedHeight 2 sample_thf 30 world0 = (Ok \<lparr>RevisionNumber = 1, RevisionHeight = 20\<rparr>, world0)"
proof -
  have "find (suitable_at sample_thf 1000000000000 30 0)
      (concat (map ConsensusStates [sample_pages [], sample_pages ''k''])) = Some (sample_state 20 800)"
    by (simp add: sample_pages_def sample_state_def suitable_at_def submissionMarginPeriod_def)
  moreover have "getTrustedHeight 2 sample_thf 30 world0 =
    (case find (suitable_at sample_thf 1000000000000 30 0) (concat (map ConsensusStates [sample_pages [], sample_pages ''k''])) of
       Some cs \<Rightarrow> Ok (cs_Height cs)
     | None \<Rightarrow> Err (ErrText (''could not find any trusted consensus state for height='' @ FormatUint 30)), world0)"
    by (rule trusted_height_found [OF sample_answers_pages])
      (auto simp: sample_pages_def sample_state_def)
  ultimately show ?thesis by (simp add: sample_state_def)
qed

lemma sample_Fetch: "\<exists>hdr w. Fetch 2 sample_thf 30 world0 = (Inr hdr, w)"
proof -
  have "search_pages 2 sample_thf 1000000000000 30 [] world0 = (Ok \<lparr>RevisionNumber = 1, RevisionHeight = 20\<rparr>, world0)"
    by (subst search_pages_find [where P = sample_pages and now = 0 and ps = "[sample_pages [], sample_pages ''k'']"])
      (auto simp: sample_pages_def sample_state_def suitable_at_def submissionMarginPeriod_def)
  then have "getTrustedHeight 2 sample_thf 30 world0 = (Ok \<lparr>RevisionNumber = 1, RevisionHeight = 20\<rparr>, world0)"
    by (simp add: getTrustedHeight_def fetchTrustingPeriod_def)
  then show ?thesis
    by (simp add: Fetch_def trustedHeaderAtHeight_def retryGetLightSignedHeaderAtHeight_def queryLightHeader_def
        numeral_3_eq_3)
qed

lemma sample_light_client: "light_client sample_thf 1000000000000 {sample_state 50 900, sample_state 20 800, sample_state 10 700}
    (\<lambda>_. sample_header) (\<lambda>_. 0)"
  by (auto simp: light_client_def search_keeps_def sample_thf_def sample_pages_def)

theorem fetched_header_trusted_witness:
  "\<exists>hdr w. Fetch 2 sample_thf 30 world0 = (Inr hdr, w) \<and>
     TrustedHeight hdr \<in> {\<lparr>RevisionNumber = 1, RevisionHeight = 20\<rparr>, \<lparr>RevisionNumber = 1, RevisionHeight = 10\<rparr>}"
proof -
  obtain hdr w where run: "Fetch 2 sample_thf 30 world0 = (Inr hdr, w)" using sample_Fetch by blast
  from fetched_header_trusted [OF sample_light_client _ run] run show ?thesis
    by (auto simp: retry_attempts_ok sample_state_def)
qed

section \<open>The transaction sender\<close>

text \<open>A sender whose node answers the broadcast with \<open>code\<close> and the account query with sequence 42.\<close>

definition sample_sender :: "nat \<Rightarrow> (world, string, unit, unit, float64) TxSender" where
  "sample_sender code = \<lparr>
     get_sender = w_sender, put_sender = (\<lambda>x w. w\<lparr>w_sender := x\<rparr>),
     keybase_Key = (\<lambda>n w. (Ok (), w)), key_GetAddress = (\<lambda>k. Ok ''neutron1''),
     baseTxf = \<lparr>tf_SignMode = SIGN_MODE_DIRECT, tf_ChainID = ''neutron-1'', tf_GasAdjustment = Fin False 3 (-1), tf_GasPrices = ''0.5untrn'',
       tf_AccountNumber = 0, tf_Sequence = 0, tf_Gas = 0\<rparr>,
     rpc_ABCIQuery = (\<lambda>p d w. (Ok \<lparr>qr_Code = 0, qr_Log = [], qr_Value = d\<rparr>, w)),
     BroadcastTxSync = (\<lambda>bz w. (Ok \<lparr>br_Code = code, br_Log = ''log''\<rparr>, w)),
     marshal_account_request = Ok, unmarshal_account = (\<lambda>v. Ok (Some v)), unmarshal_BaseAccount = (\<lambda>v. Ok (3, 42)),
     marshal_price_request = Ok, unmarshal_price = (\<lambda>v. Ok (Fin False 2 (- 1))), dec_Float64 = Ok,
     marshal_simulation = Ok, unmarshal_simulation = (\<lambda>v. Ok (Some 1000)),
     parses_prices = (\<lambda>p. CHR ''+'' \<notin> set p),
     BuildUnsignedTx = (\<lambda>f ms. Ok ()), SetSignatures = (\<lambda>m n b. Ok b), Sign = (\<lambda>f n b w. (Ok b, w)),
     TxEncoder = (\<lambda>b. Ok ''signed''), sender_tmhash = sample_tmhash, sender_conv = (\<lambda>x. 0),
     signKeyName = ''relayer'', gasPrices = ''0.5untrn'', gasLimit = 2000, denom = ''untrn'',
     maxGasPrice = Fin False 4506301787146918 (- 52), gasPriceMultiplier = Fin False 3 (- 1)\<rparr>"

lemma sample_sender_frame [simp]: "sender_frame (sample_sender code)"
  by (simp add: sender_frame_def sample_sender_def)

lemma sample_sender_sel [simp]:
  "get_sender (sample_sender code) = w_sender" "put_sender (sample_sender code) x w = w\<lparr>w_sender := x\<rparr>"
  "keybase_Key (sample_sender code) n w = (Ok (), w)" "key_GetAddress (sample_sender code) k = Ok ''neutron1''"
  "rpc_ABCIQuery (sample_sender code) p d w = (Ok \<lparr>qr_Code = 0, qr_Log = [], qr_Value = d\<rparr>, w)"
  "BroadcastTxSync (sample_sender code) bz w = (Ok \<lparr>br_Code = code, br_Log = ''log''\<rparr>, w)"
  "marshal_account_request (sample_sender code) a = Ok a" "unmarshal_account (sample_sender code) v = Ok (Some v)"
  "unmarshal_BaseAccount (sample_sender code) v = Ok (3, 42)" "marshal_price_request (sample_sender code) a = Ok a"
  "unmarshal_price (sample_sender code) v = Ok (Fin False 2 (- 1))" "dec_Float64 (sample_sender code) g = Ok g"
  "marshal_simulation (sample_sender code) v = Ok v" "unmarshal_simulation (sample_sender code) v = Ok (Some 1000)"
  "BuildUnsignedTx (sample_sender code) f ms = Ok ()" "SetSignatures (sample_sender code) sm sq tb = Ok tb"
  "parses_prices (sample_sender code) p \<longleftrightarrow> CHR ''+'' \<notin> set p"
  "Sign (sample_sender code) f m tb w = (Ok tb, w)" "TxEncoder (sample_sender code) tb = Ok ''signed''"
  "tf_GasAdjustment (baseTxf (sample_sender code)) = Fin False 3 (- 1)"
  "gasLimit (sample_sender code) = 2000" "denom (sample_sender code) = ''untrn''" "gasPrices (sample_sender code) = ''0.5untrn''"
  "maxGasPrice (sample_sender code) = Fin False 4506301787146918 (- 52)"
  "gasPriceMultiplier (sample_sender code) = Fin False 3 (- 1)"
  by (simp_all add: sample_sender_def)

lemma dec_exp_up_numeral: "dec_exp_up (numeral v) n d k =
    (if n < d * 10 ^ k then k else dec_exp_up (pred_numeral v) n d (Suc k))"
  by (simp add: numeral_eq_Suc)

lemma sample_price: "float_gt (float_mul (Fin False 3 (- 1)) (Fin False 2 (- 1))) (Fin False 4506301787146918 (- 52))"
  "FormatFloat_g4 (Fin False 4506301787146918 (- 52)) = ''1.001''"
  subgoal by (simp add: round64_def bitlen.simps Let_def scaled_def)
  subgoal
  proof -
    have "format_g4 (strip_zeros (format_nat 1001)) 1 = ''1.001''" by code_simp
    then show ?thesis by (simp add: decimal4_def dec_exp_def dec_exp_up_numeral div_round_def Let_def)
  qed
  done

lemma sample_getGasPrice: "getGasPrice (sample_sender code) w = (Ok ''1.001untrn'', w)"
  by (simp add: getGasPrice_def queryDynamicPrice_def multiplyGas_def sample_price Let_def
      del: float_mul.simps float_gt.simps FormatFloat_g4.simps)

lemma world0_sender: "w_sender world0 = \<lparr>sequence = 7, accountNumber = 3\<rparr>"
  by (simp add: world0_def)

lemma sample_gas: "u64_of_float c (float_mul (Fin False 3 (- 1)) (float_of_u64 1000)) = 1500"
  by (simp add: float_of_u64_def round64_def bitlen.simps rne_def Let_def)

lemma multiplyGas_capped:
  assumes "multiplyGas txs d = Inr t" "is_finite (maxGasPrice txs)"
  shows "\<exists>f x g. dec_Float64 txs d = Inr f \<and> x = float_mul (gasPriceMultiplier txs) f \<and> t = FormatFloat_g4 g \<and>
    (is_finite x \<longrightarrow> is_finite g \<and> float_val g = min (float_val x) (float_val (maxGasPrice txs)))"
proof -
  from assms(1) obtain f where f: "dec_Float64 txs d = Inr f" and
    t: "t = FormatFloat_g4 (let x = float_mul (gasPriceMultiplier txs) f
          in if float_gt x (maxGasPrice txs) then maxGasPrice txs else x)"
    by (auto simp: multiplyGas_def res_success Let_def)
  let ?x = "float_mul (gasPriceMultiplier txs) f"
  let ?g = "if float_gt ?x (maxGasPrice txs) then maxGasPrice txs else ?x"
  have "is_finite ?x \<longrightarrow> is_finite ?g \<and> float_val ?g = min (float_val ?x) (float_val (maxGasPrice txs))"
    using float_gt_val [of ?x "maxGasPrice txs"] assms(2) by auto
  with f t show ?thesis by (auto simp: Let_def)
qed

lemma sample_calculateGas: "tf_GasAdjustment f = Fin False 3 (- 1) \<Longrightarrow>
    calculateGas (sample_sender code) f ms w = (Ok 1500, w)"
  by (simp add: calculateGas_def buildSimulationTx_def sample_gas del: float_mul.simps u64_of_float.simps)

lemma sample_refresh: "refreshAccountInfo (sample_sender code) w =
    (Ok (), w\<lparr>w_sender := \<lparr>sequence = 42, accountNumber = 3\<rparr>\<rparr>)"
  by (simp add: refreshAccountInfo_def SenderAddr_def queryAccount_def)

lemma sample_Send:
  "\<exists>h w. Send (sample_sender 0) ms world0 = (Inr h, w)"
  "\<exists>e w. Send (sample_sender 32) ms world0 = (Inl e, w)"
  by (simp_all add: Send_def WithGasPrices_Send send_factory_def sample_getGasPrice sample_calculateGas signAndBuildTxBz_def after_broadcast_def
      sample_refresh IncorrectAccountSequenceCode_def Let_def)

text \<open>
  C10: a transaction that \<open>Send\<close> reports as sent was signed with the account number and the
  sequence the sender held, within the gas limit when one is set, and the node accepted it; the
  hash returned is that of the bytes broadcast, and the sequence moves by one. After any other
  end the sequence and the account number are what they were or what an account query has just
  returned: a rejected transaction never consumes a sequence number.
\<close>

theorem sent_with_sequence:
  assumes "sender_frame txs" "Send txs msgs s = (r, s')"
  shows "case r of
    Inr h \<Rightarrow> \<exists>gasPrice gas bz res s1 s2 s3 s4.
      signAndBuildTxBz txs ((baseTxf txs)\<lparr>tf_AccountNumber := accountNumber (get_sender txs s),
         tf_Sequence := sequence (get_sender txs s), tf_GasPrices := gasPrice, tf_Gas := gas\<rparr>) msgs s1 = (Inr bz, s2) \<and>
      BroadcastTxSync txs bz s3 = (Inr res, s4) \<and> br_Code res = 0 \<and> h = hex_encode (sender_tmhash txs bz) \<and>
      (gasLimit txs = 0 \<or> gas \<le> gasLimit txs) \<and>
      get_sender txs s' = (get_sender txs s)\<lparr>sequence := sequence (get_sender txs s) + 1\<rparr>
  | Inl f \<Rightarrow> get_sender txs s' = get_sender txs s \<or>
      (\<exists>a s1 s2. queryAccount txs a s1 =
         (Inr (accountNumber (get_sender txs s'), sequence (get_sender txs s')), s2))"
proof (cases r)
  case (Inr h)
  then show ?thesis using Send_Inr [OF assms(1), of msgs s h s'] assms(2) by (simp, metis)
next
  case (Inl f)
  then show ?thesis using Send_Inl [OF assms(1), of msgs s f s'] assms(2) by (simp add: refreshed_def)
qed

theorem sent_with_sequence_witness:
  "(\<exists>h w. Send (sample_sender 0) [''msg''] world0 = (Inr h, w) \<and> sequence (w_sender w) = 8) \<and>
   (\<exists>e w. Send (sample_sender 32) [''msg''] world0 = (Inl e, w) \<and> sequence (w_sender w) \<in> {7, 42})"
proof
  obtain h w where run: "Send (sample_sender 0) [''msg''] world0 = (Inr h, w)" using sample_Send(1) by blast
  from sent_with_sequence [OF _ run] run
  show "\<exists>h w. Send (sample_sender 0) [''msg''] world0 = (Inr h, w) \<and> sequence (w_sender w) = 8" by (auto simp: world0_def)
  obtain e w where run: "Send (sample_sender 32) [''msg''] world0 = (Inl e, w)" using sample_Send(2) by blast
  have account: "queryAccount (sample_sender 32) a w1 = (Ok (3, 42), w1)" for a w1
    by (simp add: queryAccount_def)
  from sent_with_sequence [OF _ run] have "sequence (w_sender w) \<in> {7, 42}"
    by (auto simp: world0_sender account)
  with run show "\<exists>e w. Send (sample_sender 32) [''msg''] world0 = (Inl e, w) \<and> sequence (w_sender w) \<in> {7, 42}" by blast
qed

text \<open>
  C33: the price offered is the configured one when the node's price cannot be had. Otherwise it is
  the text of a number \<open>g\<close>, followed by the denomination: \<open>g\<close> is the node's price times the
  multiplier, or the maximum when that is lower. From \<open>10^-4\<close> on and below \<open>9999.5\<close> that text is a
  plain decimal number within one part in two thousand of \<open>g\<close>; from \<open>10^4\<close> on, and between 0 and
  \<open>0.00009999\<close>, it has an exponent. Nothing is said of the text at 0 and in the two gaps, where the
  rounding to four digits decides.
\<close>

theorem gas_price_capped:
  assumes "getGasPrice txs s = (Inr price, s')" "is_finite (maxGasPrice txs)"
  shows "((\<exists>e. queryDynamicPrice txs s = (Err e, s')) \<and> price = gasPrices txs) \<or>
    (\<exists>d f x g t. queryDynamicPrice txs s = (Inr d, s') \<and> dec_Float64 txs d = Inr f \<and>
       x = float_mul (gasPriceMultiplier txs) f \<and> price = t @ denom txs \<and> t = FormatFloat_g4 g \<and>
       (is_finite x \<longrightarrow> float_val g = min (float_val x) (float_val (maxGasPrice txs)) \<and>
         (1 / 10000 \<le> float_val g \<and> float_val g < 9999.5 \<longrightarrow>
           decimal_text t \<and> \<bar>decimal_val t - float_val g\<bar> \<le> float_val g / 2000 \<and>
           decimal_val t \<le> float_val (maxGasPrice txs) * 1.0005) \<and>
         (10000 \<le> float_val g \<or> (0 < float_val g \<and> float_val g < 0.00009999) \<longrightarrow> CHR ''e'' \<in> set t)))"
proof (cases "fst (queryDynamicPrice txs s)")
  case (Inl r)
  with assms(1) show ?thesis by (auto simp: getGasPrice_def split: prod.splits fault.splits)
next
  case (Inr d)
  with assms(1) obtain t where q: "queryDynamicPrice txs s = (Inr d, s')"
    and t: "multiplyGas txs d = Inr t" "price = t @ denom txs"
    by (auto simp: getGasPrice_def res_success split: prod.splits sum.splits fault.splits)
  from multiplyGas_capped [OF t(1) assms(2)] obtain f x g where
    g: "dec_Float64 txs d = Inr f" "x = float_mul (gasPriceMultiplier txs) f" "t = FormatFloat_g4 g"
      "is_finite x \<longrightarrow> is_finite g \<and> float_val g = min (float_val x) (float_val (maxGasPrice txs))" by blast
  have "is_finite x \<longrightarrow> (plain_range (float_val g) \<longrightarrow> decimal_text t \<and>
        \<bar>decimal_val t - float_val g\<bar> \<le> float_val g / 2000 \<and> decimal_val t \<le> float_val (maxGasPrice txs) * 1.0005) \<and>
      (exponent_range (float_val g) \<longrightarrow> CHR ''e'' \<in> set t)"
    using FormatFloat_text [of g] FormatFloat_le [of g "float_val (maxGasPrice txs)"] g by (metis min.cobounded2)
  with q t g show ?thesis
    by (intro disjI2 exI [of _ d] exI [of _ f] exI [of _ x] exI [of _ g] exI [of _ t])
      (simp add: plain_range_def exponent_range_def)
qed

text \<open>The sender whose node asks for 1.0, with the multiplier 1.5 and the maximum 1.0006.\<close>

theorem gas_price_capped_witness:
  "\<exists>g price. getGasPrice (sample_sender 0) world0 = (Inr price, world0) \<and> price = FormatFloat_g4 g @ ''untrn'' \<and>
     float_val g = float_val (maxGasPrice (sample_sender 0))"
proof -
  have x: "is_finite (float_mul (Fin False 3 (- 1)) (Fin False 2 (- 1)))" by (simp add: round64_def bitlen.simps Let_def)
  have max: "is_finite (maxGasPrice (sample_sender 0))" by simp
  have "float_val (maxGasPrice (sample_sender 0)) \<le> float_val (float_mul (Fin False 3 (- 1)) (Fin False 2 (- 1)))"
    using sample_price float_gt_val [OF x max] by simp
  then have le: "min (float_val (float_mul (Fin False 3 (- 1)) (Fin False 2 (- 1)))) (float_val (maxGasPrice (sample_sender 0))) =
      float_val (maxGasPrice (sample_sender 0))" by (rule min_absorb2)
  have price: "queryDynamicPrice (sample_sender 0) world0 = (Inr (Fin False 2 (- 1)), world0)"
    by (simp add: queryDynamicPrice_def)
  have "gasPriceMultiplier (sample_sender 0) = Fin False 3 (- 1)" "dec_Float64 (sample_sender 0) = Inr"
    "denom (sample_sender 0) = ''untrn''" by (simp_all add: fun_eq_iff)
  with gas_price_capped [OF sample_getGasPrice [of 0 world0] max] price x le obtain g where
    "''1.001untrn'' = FormatFloat_g4 g @ ''untrn''" "float_val g = float_val (maxGasPrice (sample_sender 0))"
    by (metis Pair_inject sum.distinct(1) sum.inject(2))
  with sample_getGasPrice [of 0 world0] show ?thesis by blast
qed

text \<open>
  C32: a price of \<open>10^4\<close> or more, with a maximum as high, ends the program: the sender writes it
  with a signed exponent, which the SDK does not read as a coin, and \<open>WithGasPrices\<close> panics.
\<close>

theorem high_price_panics:
  assumes "\<forall>t. parses_prices txs t \<longrightarrow> CHR ''+'' \<notin> set t"
    and "queryDynamicPrice txs s = (Inr d, s1)" "dec_Float64 txs d = Inr f"
    and "is_finite (float_mul (gasPriceMultiplier txs) f)" "10000 \<le> float_val (float_mul (gasPriceMultiplier txs) f)"
    and "is_finite (maxGasPrice txs)" "10000 \<le> float_val (maxGasPrice txs)"
  shows "\<exists>m s'. Send txs msgs s = (Inl (GoPanic m), s')"
proof -
  define x where "x = float_mul (gasPriceMultiplier txs) f"
  define g where "g = (if float_gt x (maxGasPrice txs) then maxGasPrice txs else x)"
  have "CHR ''+'' \<in> set (FormatFloat_g4 g)"
    using FormatFloat_text(2) [of g] assms(4-7) by (simp add: g_def x_def exponent_range_def)
  then have "\<not> parses_prices txs (FormatFloat_g4 g @ denom txs)" using assms(1) by auto
  moreover have "getGasPrice txs s = (Inr (FormatFloat_g4 g @ denom txs), s1)"
    using assms(2,3) by (simp add: getGasPrice_def multiplyGas_def g_def x_def Let_def)
  ultimately show ?thesis by (simp add: Send_def WithGasPrices_Send)
qed

definition pricey_sender :: "(world, string, unit, unit, float64) TxSender" where
  "pricey_sender = (sample_sender 0)\<lparr>maxGasPrice := Fin False 1 14, gasPriceMultiplier := Fin False 3 14\<rparr>"

lemma pricey_product: "float_mul (Fin False 3 14) (Fin False 2 (- 1)) = Fin False 6755399441055744 (- 37)"
  by (simp add: round64_def bitlen.simps Let_def)

theorem high_price_panics_witness:
  "\<exists>m w. Send pricey_sender [''msg''] world0 = (Inl (GoPanic m), w)"
proof (rule high_price_panics [where f = "Fin False 2 (- 1)"])
  show "queryDynamicPrice pricey_sender world0 = (Inr (Fin False 2 (- 1)), world0)"
    by (simp add: queryDynamicPrice_def pricey_sender_def)
qed (simp_all add: pricey_sender_def pricey_product power_int_def power_one_over del: float_mul.simps)

text \<open>
  The text is rounded to four significant digits after the number was capped, so that what
  is offered can be above the maximum: with a maximum of 1.0006 the price is 1.001.
\<close>

lemma gas_price_text_above_cap:
  "float_val (maxGasPrice (sample_sender 0)) < 1001 / 1000 \<and>
   fst (getGasPrice (sample_sender 0) world0) = Inr ''1.001untrn''"
  by (simp add: sample_getGasPrice power_int_def field_simps)

section \<open>Key-value queries\<close>

text \<open>
  C9: a KV query processed without error was sent to Neutron as one transaction of two messages:
  the update of the client with the header fetched for the height one above the values' height,
  then the result: for each key of the query, in order, the value and the proof the node holds
  under that key and the path of its store at the height below the target chain's latest one. The
  message is from the sender's own address, and the transaction is the last thing done but for the
  metrics.
\<close>

theorem kv_submission:
  assumes p: "kvp_submitter p = SubmitterOf si" "retry_ok (kvp_retry_header p)" "retry_ok (kvp_retry_msg p)"
    and answers: "abci_answers (kvp_querier p) A" and run: "KV_ProcessAndSubmit p m s = (Inr u, s')"
  shows "\<exists>latest s0 ask vs height hdr upd sender h start s1 s2 s3 s4 s5 s6 s7.
    kvp_QueryLatestHeight p s = (Inr latest, s0) \<and>
    ask = (\<lambda>k. A (''store/'' @ Path k @ ''/key'') (Key k) (if word_of_int latest \<noteq> (0 :: u64) then word_of_int latest - 1 else 0)) \<and>
    vs = map (\<lambda>k. \<lparr>sv_StoragePrefix = Path k, sv_Key = Key k, sv_Value = ab_Value (ask k),
      sv_Proof = ab_ProofOps (ask k)\<rparr>) (kv_KVKeys m) \<and>
    height = (if kv_KVKeys m = [] then 0 else ab_Height (ask (last (kv_KVKeys m))) + 1) \<and>
    hf_Fetch (kvp_trustedHeaderFetcher p) height s1 = (Inr hdr, s2) \<and>
    MsgUpdateClient p (kvp_ClientID p) hdr s3 = (Inr (CosmosMessage upd), s4) \<and>
    SenderAddr (si_sender si) s5 = (Inr sender, s6) \<and>
    Send (si_sender si) [upd, mk_msg si \<lparr>msg_QueryId = kv_QueryId m, msg_Sender = sender,
      msg_Result = \<lparr>qr_Height = height - 1, KvResults = vs, Revision = RevisionNumber (hd_Height hdr),
        AllowKvCallbacks = allowKVCallbacks si, BlockProof = None\<rparr>, msg_ClientId = clientID si\<rparr>] s6 = (Inr h, s7) \<and>
    s' = observe_since (kvp_runtime p) (AddSuccessProof InterchainQueryTypeKV) start s7"
proof -
  from run obtain latest s0 vs height sa sb where latest: "kvp_QueryLatestHeight p s = (Inr latest, s0)" and
    vs: "storage_values p (word_of_int latest) (kv_KVKeys m) [] 0 sa = (Inr (vs, height), sb)" and
    sub: "submitKVWithProof p height (kv_QueryId m) vs sb = (Inr (), s')"
    by (auto simp: KV_ProcessAndSubmit_def res_success getStorageValues_def split: if_splits)
  from submitKVWithProof_Inr [OF p(2,3) sub] obtain hdr upd start s1 s2 s3 s4 s5 s7 where
    1: "hf_Fetch (kvp_trustedHeaderFetcher p) height s1 = (Inr hdr, s2)"
      "MsgUpdateClient p (kvp_ClientID p) hdr s3 = (Inr (CosmosMessage upd), s4)" and
    2: "SubmitKVProof si (height - 1) (RevisionNumber (hd_Height hdr)) (kv_QueryId m) vs upd s5 = (Inr (), s7)"
      "s' = observe_since (kvp_runtime p) (AddSuccessProof InterchainQueryTypeKV) start s7"
    by (auto simp: p(1) SubmitterOf_def)
  from 2(1) obtain sender h s6 where 3: "SenderAddr (si_sender si) s5 = (Inr sender, s6)"
    "Send (si_sender si) [upd, mk_msg si \<lparr>msg_QueryId = kv_QueryId m, msg_Sender = sender,
      msg_Result = \<lparr>qr_Height = height - 1, KvResults = vs, Revision = RevisionNumber (hd_Height hdr),
        AllowKvCallbacks = allowKVCallbacks si, BlockProof = None\<rparr>, msg_ClientId = clientID si\<rparr>] s6 = (Inr h, s7)"
    by (auto simp: SubmitKVProof_def buildProofMsg_def res_success Let_def)
  show ?thesis
    by (intro exI, intro conjI, rule latest, rule refl,
        rule storage_values_answers [OF answers vs, THEN conjunct1, unfolded append_Nil],
        rule storage_values_answers [OF answers vs, THEN conjunct2]) (rule 1 3 2(2))+
qed

definition sample_si :: "(world, string, unit, unit, float64, unit, unit) SubmitterImpl" where
  "sample_si = \<lparr>si_sender = sample_sender 0, allowKVCallbacks = True, clientID = ''07-tendermint-0'',
     mk_msg = (\<lambda>m. ''result''), msg_Validate = (\<lambda>m. Ok ())\<rparr>"

definition sample_kvp :: "u64 \<Rightarrow> (world, unit, unit, unit, string) KVProcessorSrv" where
  "sample_kvp period = \<lparr>kvp_trustedHeaderFetcher = sample_fetcher,
     kvp_querier = \<lparr>ABCIQueryWithOptions = (\<lambda>p k h prove w. (Ok \<lparr>ab_Value = ''v'', ab_ProofOps = ''p'', ab_Height = 99\<rparr>, w)),
       ChainID = ''target-1''\<rparr>,
     minKVUpdatePeriod = period, kvp_submitter = SubmitterOf sample_si, kvp_storage = sample_storage,
     kvp_QueryLatestHeight = (\<lambda>w. (Ok 100, w)), MsgUpdateClient = (\<lambda>c h w. (Ok (CosmosMessage ''update''), w)),
     kvp_ClientID = ''07-tendermint-0'', kvp_retry_header = retry_attempts 3, kvp_retry_msg = retry_attempts 3,
     kvp_runtime = sample_runtime\<rparr>"

lemma sample_kvp_sel [simp]: "kvp_submitter (sample_kvp period) = SubmitterOf sample_si"
  "kvp_retry_header (sample_kvp period) = retry_attempts 3" "kvp_retry_msg (sample_kvp period) = retry_attempts 3"
  "kvp_storage (sample_kvp period) = sample_storage" "minKVUpdatePeriod (sample_kvp period) = period"
  "kvp_trustedHeaderFetcher (sample_kvp period) = sample_fetcher" "kvp_runtime (sample_kvp period) = sample_runtime"
  "kvp_QueryLatestHeight (sample_kvp period) w = (Ok 100, w)" "kvp_ClientID (sample_kvp period) = ''07-tendermint-0''"
  "MsgUpdateClient (sample_kvp period) c h w = (Ok (CosmosMessage ''update''), w)"
  "ABCIQueryWithOptions (kvp_querier (sample_kvp period)) pa k ht prove w =
     (Ok \<lparr>ab_Value = ''v'', ab_ProofOps = ''p'', ab_Height = 99\<rparr>, w)"
  by (simp_all add: sample_kvp_def)

definition kv_message :: MessageKV where
  "kv_message = \<lparr>kv_QueryId = 3, kv_KVKeys = [\<lparr>Path = ''bank'', Key = ''k1''\<rparr>, \<lparr>Path = ''staking'', Key = ''k2''\<rparr>]\<rparr>"

lemma sample_kv_runs: "\<exists>w. KV_ProcessAndSubmit (sample_kvp 0) kv_message world0 = (Inr (), w)"
proof -
  have fetch: "hf_Fetch sample_fetcher h w = (Ok sample_header, w)" for h w by (simp add: sample_fetcher_def)
  have hdr: "getSrcChainHeader (sample_kvp 0) h w = (Ok sample_header, w)" for h w
    by (simp add: getSrcChainHeader_def numeral_3_eq_3 fetch)
  have upd: "getUpdateClientMsg (sample_kvp 0) hdr w = (Ok ''update'', w)" for hdr w
    by (simp add: getUpdateClientMsg_def numeral_3_eq_3)
  have sb: "\<exists>w. sb_SubmitKVProof (SubmitterOf sample_si) h rev q vs upd world0 = (Inr (), w)" for h rev q vs upd
  proof -
    have "buildProofMsg sample_si h rev q (allowKVCallbacks sample_si) vs world0 = (Ok [''result''], world0)"
      by (simp add: buildProofMsg_def sample_si_def SenderAddr_def Let_def)
    moreover obtain n w where "Send (si_sender sample_si) [upd, ''result''] world0 = (Inr n, w)"
      using sample_Send(1) [of "[upd, ''result'']"] by (auto simp: sample_si_def)
    ultimately show ?thesis by (simp add: SubmitterOf_def SubmitKVProof_def)
  qed
  have submit: "\<exists>w. submitKVWithProof (sample_kvp 0) h q vs world0 = (Inr (), w)" for h q vs
  proof -
    obtain w where "sb_SubmitKVProof (SubmitterOf sample_si) (h - 1) (RevisionNumber (hd_Height sample_header)) q vs
        ''update'' world0 = (Inr (), w)" using sb by blast
    then show ?thesis by (simp add: submitKVWithProof_def hdr upd)
  qed
  show ?thesis
    using submit by (simp add: KV_ProcessAndSubmit_def isQueryOnTime_def getStorageValues_def QueryTendermintProof_def
        kv_message_def Let_def)
qed

lemma sample_kv_answers: "abci_answers (kvp_querier (sample_kvp period))
    (\<lambda>path key h. \<lparr>ab_Value = ''v'', ab_ProofOps = ''p'', ab_Height = 99\<rparr>)"
  by (simp add: abci_answers_def)

theorem kv_submission_witness:
  "\<exists>w vs sa sb h. KV_ProcessAndSubmit (sample_kvp 0) kv_message world0 = (Inr (), w) \<and>
     vs = [\<lparr>sv_StoragePrefix = ''bank'', sv_Key = ''k1'', sv_Value = ''v'', sv_Proof = ''p''\<rparr>,
       \<lparr>sv_StoragePrefix = ''staking'', sv_Key = ''k2'', sv_Value = ''v'', sv_Proof = ''p''\<rparr>] \<and>
     Send (si_sender sample_si) [''update'', mk_msg sample_si \<lparr>msg_QueryId = 3, msg_Sender = ''neutron1'',
       msg_Result = \<lparr>qr_Height = 99, KvResults = vs, Revision = RevisionNumber (hd_Height sample_header),
         AllowKvCallbacks = True, BlockProof = None\<rparr>, msg_ClientId = ''07-tendermint-0''\<rparr>] sa = (Inr h, sb)"
proof -
  obtain w where run: "KV_ProcessAndSubmit (sample_kvp 0) kv_message world0 = (Inr (), w)" using sample_kv_runs by blast
  have [simp]: "hf_Fetch sample_fetcher x y = (Ok sample_header, y)" for x y by (simp add: sample_fetcher_def)
  from kv_submission [OF sample_kvp_sel(1) _ _ sample_kv_answers run] run show ?thesis
    by (auto simp: retry_attempts_ok kv_message_def sample_si_def SenderAddr_def)
qed

text \<open>
  C31: a query is let through exactly when the block last recorded for it (0 at first) plus the
  minimal period, in 64-bit arithmetic, is at most the current block, and then the current block
  is recorded: it is let through only then, and always then, as long as the storage's two operations
  do not fail. Otherwise the check fails and the store is what it was.
\<close>

theorem kv_on_time:
  assumes "kvp_storage p = LevelDBStorage L C get put clk" "minKVUpdatePeriod p \<noteq> 0"
    and "leveldb_storage_ok L C V W get put clk s" "isQueryOnTime p q cur s = (r, s')"
  shows "(\<forall>b. r = Inr b \<longrightarrow> b \<and> store_of C (V (get s')) = spec_SetHeight q cur (store_of C (V (get s))) \<and>
      (case heights (store_of C (V (get s))) q of None \<Rightarrow> 0 | Some h \<Rightarrow> h) + minKVUpdatePeriod p \<le> cur) \<and>
    (\<not> (case heights (store_of C (V (get s))) q of None \<Rightarrow> 0 | Some h \<Rightarrow> h) + minKVUpdatePeriod p \<le> cur \<longrightarrow>
      (\<exists>f. r = Inl f) \<and> store_of C (V (get s')) = store_of C (V (get s))) \<and>
    ((case heights (store_of C (V (get s))) q of None \<Rightarrow> 0 | Some h \<Rightarrow> h) + minKVUpdatePeriod p \<le> cur \<longrightarrow>
      (\<exists>g s1 s2. st_GetLastQueryHeight (kvp_storage p) q s = (Inr g, s1) \<and>
        st_SetLastQueryHeight (kvp_storage p) q cur s1 = (Inr (), s2)) \<longrightarrow>
      r = Inr True)"
  using leveldb.isQueryOnTime_ok [OF assms] unfolding assms(1) by blast

text \<open>At block 9 a query that was never submitted is refused for a period of 10; at block 10 it goes through.\<close>

theorem kv_on_time_witness:
  "(\<exists>r w. isQueryOnTime (sample_kvp 10) 3 9 world0 = (r, w) \<and> (\<exists>f. r = Inl f) \<and>
     store_of sample_codec (map_of (w_db w)) = store_of sample_codec (map_of (w_db world0))) \<and>
   (\<exists>w. isQueryOnTime (sample_kvp 10) 3 10 world0 = (Inr True, w) \<and>
     heights (store_of sample_codec (map_of (w_db w))) 3 = Some 10)"
proof
  obtain r w where run: "isQueryOnTime (sample_kvp 10) 3 9 world0 = (r, w)" by fastforce
  from kv_on_time [where L = sample_leveldb and C = sample_codec and get = w_db and put = put_db and clk = sample_clock and
      V = map_of and W = map_of, OF _ _ _ run]
  show "\<exists>r w. isQueryOnTime (sample_kvp 10) 3 9 world0 = (r, w) \<and> (\<exists>f. r = Inl f) \<and>
     store_of sample_codec (map_of (w_db w)) = store_of sample_codec (map_of (w_db world0))"
    using run by (simp add: world0_def empty_store_def flip: sample_storage_def)
  obtain r w where run: "isQueryOnTime (sample_kvp 10) 3 10 world0 = (r, w)" by fastforce
  have "\<exists>g s1 s2. st_GetLastQueryHeight sample_storage 3 world0 = (Inr g, s1) \<and>
      st_SetLastQueryHeight sample_storage 3 10 s1 = (Inr (), s2)"
    by (simp add: sample_storage_def LevelDBStorage_def on_part_def GetLastQueryHeight_def SetLastQueryHeight_def
        world0_def put_db_def sample_leveldb_def put_at_def) (rule exI [of _ False], simp)
  with kv_on_time [where L = sample_leveldb and C = sample_codec and get = w_db and put = put_db and clk = sample_clock and
      V = map_of and W = map_of, OF _ _ _ run]
  show "\<exists>w. isQueryOnTime (sample_kvp 10) 3 10 world0 = (Inr True, w) \<and>
     heights (store_of sample_codec (map_of (w_db w))) 3 = Some 10"
    using run by (simp add: world0_def empty_store_def spec_SetHeight_def flip: sample_storage_def)
qed

end
