(* ===== verification/Props_Subscriber.thy ===== *)
theory Props_Subscriber
  imports Props_Relay Subscriber
begin

text \<open>
  The properties of the subscriber (\<open>internal/subscriber\<close>): what it loads, which queries are
  active, what a block sends, and how the answers of the REST node are read.
\<close>

section \<open>A subscriber of the sample world\<close>

definition sample_attrs :: EventAttrs where
  "sample_attrs = \<lparr>EventTypeNeutronMessage = ''neutron'', AttributeKeyConnectionID = ''connection_id'',
     AttributeKeyQueryID = ''query_id'', AttributeKeyKVQuery = ''kv_key'',
     AttributeTransactionsFilterQuery = ''tx_filter'', AttributeKeyQueryType = ''type'', AttributeKeyOwner = ''owner'',
     NeutronModuleName = ''interchainqueries'', AttributeValueQueryUpdated = ''query_updated'',
     AttributeValueQueryRemoved = ''query_removed'', EventNewBlockHeader = ''NewBlockHeader''\<rparr>"

definition sample_rq :: "u64 \<Rightarrow> string \<Rightarrow> u64 \<Rightarrow> RegisteredQuery" where
  "sample_rq i ty local = \<lparr>Id = i, Owner = ''neutron1owner'', QueryType = ty, Keys = [\<lparr>Path = ''bank'', Key = ''k''\<rparr>],
     TransactionsFilter = ''[]'', ConnectionId = ''connection-0'', UpdatePeriod = 10,
     LastSubmittedResultLocalHeight = local, LastSubmittedResultRemoteHeight = \<lparr>RevisionNumber = 1, RevisionHeight = 9\<rparr>\<rparr>"

lemma sample_rq_sel [simp]: "Id (sample_rq i ty l) = i" "QueryType (sample_rq i ty l) = ty"
  "LastSubmittedResultLocalHeight (sample_rq i ty l) = l" "UpdatePeriod (sample_rq i ty l) = 10"
  by (simp_all add: sample_rq_def)

text \<open>Two pages: queries 1 and 2 on the first, 3 on the second, which is of a type not watched.\<close>

definition sample_answer :: "bytes option \<Rightarrow> RegisteredQueriesBody" where
  "sample_answer key = (case key of
     None \<Rightarrow> \<lparr>rb_Pagination = Some \<lparr>rp_NextKey = ''n'', rp_Total = []\<rparr>,
       RegisteredQueries = Some (map (\<lambda>q. Some (render_query q)) [sample_rq 1 ''kv'' 0, sample_rq 2 ''kv'' 95])\<rparr>
   | Some k \<Rightarrow> \<lparr>rb_Pagination = None,
       RegisteredQueries = Some (map (\<lambda>q. Some (render_query q)) [sample_rq 3 ''tx'' 0])\<rparr>)"

definition sample_subscriber :: "world Subscriber" where
  "sample_subscriber = \<lparr>rpc_Start = (\<lambda>w. (Ok (), w)), rpc_Subscribe = (\<lambda>n q w. (Ok (), w)),
     rpc_Unsubscribe = (\<lambda>n q w. (Ok (), w)), rpc_Status = (\<lambda>w. (Ok 100, w)),
     rest_RegisteredQuery = (\<lambda>i w. (Ok \<lparr>rb_RegisteredQuery = Some (render_query (sample_rq 4 ''kv'' 0))\<rparr>, w)),
     rest_RegisteredQueries = (\<lambda>os c key w. (Ok (sample_answer key), w)), sub_connectionID = ''connection-0'',
     sub_registry = \<lparr>addresses = [], queryIDs = []\<rparr>, watchedTypes = [''kv''], sub_attrs = sample_attrs,
     get_active = w_active, put_active = (\<lambda>a w. w\<lparr>w_active := a\<rparr>),
     send_task = (\<lambda>q w. w\<lparr>w_tasks := w_tasks w @ [q]\<rparr>), tasks_len = (\<lambda>w. length (w_tasks w)),
     sub_runtime = sample_runtime\<rparr>"

lemma sample_subscriber_sel [simp]: "get_active sample_subscriber = w_active" "sub_attrs sample_subscriber = sample_attrs"
  "put_active sample_subscriber a w = w\<lparr>w_active := a\<rparr>" "watchedTypes sample_subscriber = [''kv'']"
  "sub_registry sample_subscriber = \<lparr>addresses = [], queryIDs = []\<rparr>" "sub_runtime sample_subscriber = sample_runtime"
  "rpc_Subscribe sample_subscriber n q w = (Ok (), w)" "rpc_Status sample_subscriber w = (Ok 100, w)"
  "rest_RegisteredQuery sample_subscriber i w = (Ok \<lparr>rb_RegisteredQuery = Some (render_query (sample_rq 4 ''kv'' 0))\<rparr>, w)"
  by (simp_all add: sample_subscriber_def)

lemma sample_sub_frame [simp]: "sub_frame sample_subscriber w_tasks"
  by (simp add: sub_frame_def sample_subscriber_def)

lemma sample_watched [simp]: "isWatchedMsgType sample_subscriber ty \<longleftrightarrow> ty = ''kv''"
  "isWatchedQueryID sample_subscriber i" "isWatchedAddress sample_subscriber a"
  by (simp_all add: isWatchedMsgType_def isWatchedQueryID_def IsQueryIDsEmpty_def isWatchedAddress_def IsAddressesEmpty_def)

text \<open>
  C18: the subscriber loads every watched query. Against a node whose pages hold the queries
  \<open>qss\<close>, distinct in their identifiers, the load ends after as many pages, and the active query
  under an identifier is the query of that identifier, when its type and identifier are watched,
  and otherwise none.
\<close>

theorem load_exact:
  assumes "node_answers S P" "rest_pages P None qss" "length qss \<le> fuel" "distinct (map Id (concat qss))"
  shows "\<exists>a. getNeutronRegisteredQueries fuel S s = (Ok a, s) \<and> active_ok S a \<and>
    (\<forall>i. map_of a (FormatUint i) =
       find (\<lambda>q. Id q = i \<and> isWatchedMsgType S (QueryType q) \<and> isWatchedQueryID S (Id q)) (concat qss))"
proof -
  let ?a = "fold (add_watched S) (concat qss) []"
  have run: "getNeutronRegisteredQueries fuel S s = (Ok ?a, s)"
    using load_pages_answers [OF assms(1-3)] by (simp add: getNeutronRegisteredQueries_def)
  moreover from run have "active_ok S ?a"
    unfolding getNeutronRegisteredQueries_def by (rule load_pages_ok [OF active_ok_Nil])
  ultimately show ?thesis
    using map_of_watched [OF assms(4), of S "[]"] by (auto simp: is_watched_def split: option.splits)
qed

theorem load_exact_witness:
  "\<exists>a. getNeutronRegisteredQueries 2 sample_subscriber world0 = (Ok a, world0) \<and>
     map_of a (FormatUint 2) = Some (sample_rq 2 ''kv'' 95) \<and> map_of a (FormatUint 3) = None"
proof -
  have "node_answers sample_subscriber sample_answer" by (simp add: node_answers_def sample_subscriber_def)
  from load_exact [OF this, of "[[sample_rq 1 ''kv'' 0, sample_rq 2 ''kv'' 95], [sample_rq 3 ''tx'' 0]]" 2 world0]
  obtain a where "getNeutronRegisteredQueries 2 sample_subscriber world0 = (Ok a, world0)"
    "\<And>i. map_of a (FormatUint i) = find (\<lambda>q. Id q = i \<and> QueryType q = ''kv'')
       [sample_rq 1 ''kv'' 0, sample_rq 2 ''kv'' 95, sample_rq 3 ''tx'' 0]"
    by (auto simp: sample_answer_def)
  then show ?thesis by simp
qed

section \<open>Events\<close>


definition update_event :: events where
  "update_event = [(''neutron.connection_id'', [''connection-0'']), (''neutron.query_id'', [''4'']),
     (''neutron.kv_key'', [''k'']), (''neutron.tx_filter'', [[]]), (''neutron.type'', [''kv'']),
     (''neutron.owner'', [''neutron1owner''])]"

text \<open>A subscriber that watches one owner, and an update of a query that is another's.\<close>

definition foreign_event :: events where
  "foreign_event = [(''neutron.connection_id'', [''connection-0'']), (''neutron.query_id'', [''5'']),
     (''neutron.kv_key'', [''k'']), (''neutron.tx_filter'', [[]]), (''neutron.type'', [''kv'']),
     (''neutron.owner'', [''neutron1other''])]"


lemma sample_events [simp]:
  "event_values update_event (OwnerAttr sample_attrs) = [''neutron1owner'']"
  "event_values update_event (QueryIdAttr sample_attrs) = [''4'']"
  "event_values foreign_event (OwnerAttr sample_attrs) = [''neutron1other'']"
  "event_values foreign_event (QueryIdAttr sample_attrs) = [''5'']"
  by (simp_all add: event_values_def update_event_def foreign_event_def OwnerAttr_def QueryIdAttr_def sample_attrs_def)



text \<open>
  C12: a new block at height \<open>h\<close> sends exactly the active queries that are due, in the order of
  the iteration and as they were: those never submitted, or whose last local height plus update
  period, in 64-bit arithmetic, is at most \<open>h\<close>. Then their local height is \<open>h\<close>; nothing else
  about the active queries changes.
\<close>

theorem block_sends_due:
  assumes fr: "sub_frame S tasks" and "distinct order" "set order = set (map fst (get_active S s))"
    and st: "rpc_Status S s = (Inr latest, s1)" and run: "processBlockEvent S order s = (r, s')"
  shows "r = Ok () \<and>
    tasks s' = tasks s @ filter (\<lambda>q. LastSubmittedResultLocalHeight q = 0 \<or>
      LastSubmittedResultLocalHeight q + UpdatePeriod q \<le> word_of_int latest) (map (the \<circ> map_of (get_active S s)) order) \<and>
    (\<forall>k. map_of (get_active S s') k = map_option (\<lambda>q.
      if LastSubmittedResultLocalHeight q = 0 \<or> LastSubmittedResultLocalHeight q + UpdatePeriod q \<le> word_of_int latest
      then q\<lparr>LastSubmittedResultLocalHeight := word_of_int latest\<rparr> else q) (map_of (get_active S s) k))"
proof -
  let ?h = "word_of_int latest :: u64"
  have due: "due h = (\<lambda>q. LastSubmittedResultLocalHeight q = 0 \<or> LastSubmittedResultLocalHeight q + UpdatePeriod q \<le> h)" for h
    by (auto simp: due_def not_less)
  have s': "r = Ok ()" "s' = send_due S ?h order s1" using st run by (auto simp: processBlockEvent_def)
  have f: "get_active S s1 = get_active S s" "tasks s1 = tasks s" using sub_frameD(7) [OF fr st] by simp_all
  have in_map: "k \<in> set order \<longleftrightarrow> map_of (get_active S s) k \<noteq> None" for k
    using assms(3) by (simp add: map_of_eq_None_iff)
  have "due_queries ?h a ks = filter (due ?h) (map (the \<circ> map_of a) ks)" if "\<forall>k\<in>set ks. map_of a k \<noteq> None" for a ks
    using that by (induction ks) (auto simp: due_queries_Cons, simp add: due_queries_def List.map_filter_def)
  then have "due_queries ?h (get_active S s) order = filter (due ?h) (map (the \<circ> map_of (get_active S s)) order)"
    using in_map by blast
  with send_due_spec [OF fr assms(2), of ?h s1] f s' in_map show ?thesis
    by (auto simp: due after_block_def intro!: option.map_cong0)
qed

theorem block_sends_due_witness:
  "let w = world0\<lparr>w_active := [(''1'', sample_rq 1 ''kv'' 0), (''2'', sample_rq 2 ''kv'' 95), (''4'', sample_rq 4 ''kv'' 90)]\<rparr>
   in w_tasks (snd (processBlockEvent sample_subscriber [''4'', ''1'', ''2''] w)) =
        [sample_rq 4 ''kv'' 90, sample_rq 1 ''kv'' 0]"
proof -
  let ?w = "world0\<lparr>w_active := [(''1'', sample_rq 1 ''kv'' 0), (''2'', sample_rq 2 ''kv'' 95), (''4'', sample_rq 4 ''kv'' 90)]\<rparr>"
  obtain r s' where run: "processBlockEvent sample_subscriber [''4'', ''1'', ''2''] ?w = (r, s')" by fastforce
  from block_sends_due [OF sample_sub_frame _ _ _ run] show ?thesis
    using run by (auto simp: world0_def)
qed

text \<open>
  A removal event makes the queries it names, and only those, inactive.
\<close>

lemma removal_forgets:
  assumes fr: "sub_frame S tasks" and "checkEvents S ev = Ok True" "processRemoveEvent S ev s = (r, s')"
  shows "r = Ok () \<and> map_of (get_active S s') k =
    (if k \<in> set (event_values ev (QueryIdAttr (sub_attrs S))) then None else map_of (get_active S s) k)"
proof -
  let ?ids = "event_values ev (QueryIdAttr (sub_attrs S))"
  have "length (event_values ev (ConnectionIdAttr (sub_attrs S))) = length ?ids"
    using assms(2) by (auto simp: checkEvents_def Let_def split: if_splits)
  with assms(2,3) have "remove_each S ev [0..<length ?ids] s = (r, s')"
    by (simp add: processRemoveEvent_def)
  with remove_each_spec [OF fr, of "[0..<length ?ids]" ev s k] show ?thesis
    by (simp add: atLeast0LessThan nth_image)
qed

lemma sample_checkEvents [simp]: "checkEvents sample_subscriber update_event = Ok True"
  by (simp add: checkEvents_def update_event_def event_values_def ConnectionIdAttr_def KvKeyAttr_def
      TransactionsFilterAttr_def QueryIdAttr_def TypeAttr_def sample_attrs_def)

text \<open>
  C39: the owner attribute is not among those whose number \<open>checkEvents\<close> compares: an update event
  that passes the check and has no owner brings the process down.
\<close>

theorem missing_owner_panics:
  assumes "checkEvents S ev = Ok True" "event_values ev (OwnerAttr (sub_attrs S)) = []"
  shows "handle_event S (UpdateEvent ev) s = (Panic ''index out of range'', s)"
proof -
  have "event_values ev (ConnectionIdAttr (sub_attrs S)) \<noteq> []"
    using assms(1) by (auto simp: checkEvents_def Let_def split: if_splits)
  then obtain n where "length (event_values ev (ConnectionIdAttr (sub_attrs S))) = Suc n"
    by (cases "event_values ev (ConnectionIdAttr (sub_attrs S))") auto
  with assms show ?thesis
    by (simp add: handle_event_def processUpdateEvent_def upt_conv_Cons Let_def del: upt_Suc)
qed

definition ownerless_event :: events where
  "ownerless_event = filter (\<lambda>a. fst a \<noteq> ''neutron.owner'') update_event"

theorem missing_owner_panics_witness:
  "handle_event sample_subscriber (UpdateEvent ownerless_event) world0 = (Panic ''index out of range'', world0)"
proof -
  have "checkEvents sample_subscriber ownerless_event = Ok True"
    by (simp add: checkEvents_def ownerless_event_def update_event_def event_values_def ConnectionIdAttr_def KvKeyAttr_def
        TransactionsFilterAttr_def QueryIdAttr_def TypeAttr_def sample_attrs_def)
  moreover have "event_values ownerless_event (OwnerAttr sample_attrs) = []"
    by (simp add: event_values_def ownerless_event_def update_event_def OwnerAttr_def sample_attrs_def)
  ultimately show ?thesis using missing_owner_panics [of sample_subscriber ownerless_event world0] by simp
qed

end
