(* ===== verification/Lifecycle_Runs.thy ===== *)
theory Lifecycle_Runs
  imports Lifecycle
begin

text \<open>
  The components take the steps of \<open>Lifecycle\<close>: the relayer's main loop, the web server's
  resubmissions and the checker, as they are modelled, move the node that their state stands for
  along its steps. So the invariant of the node is one of the program's database. The processor of
  KV queries is a hypothesis of the relayer's lemma here, discharged in \<open>Lifecycle_Program\<close>.
\<close>

section \<open>The node a state stands for\<close>

text \<open>
  The database is a part of the state. What else a node knows of it is given by two functions:
  the checks that were started, and the hashes of the Neutron transactions broadcast so far.
\<close>

definition node_at ::
  "('s \<Rightarrow> 'r tx_store) \<Rightarrow> ('s \<Rightarrow> PendingSubmittedTxInfo set) \<Rightarrow> ('s \<Rightarrow> string set) \<Rightarrow> 's \<Rightarrow> 'r node" where
  "node_at store tasks used s = \<lparr>nd_store = store s, nd_tasks = tasks s, nd_used = used s\<rparr>"

text \<open>An operation that may broadcast but does not touch the database and starts no check.\<close>

definition quiet ::
  "('s \<Rightarrow> 'r tx_store) \<Rightarrow> ('s \<Rightarrow> PendingSubmittedTxInfo set) \<Rightarrow> ('s \<Rightarrow> string set) \<Rightarrow> 's \<Rightarrow> 's \<Rightarrow> bool" where
  "quiet store tasks used s s' \<longleftrightarrow>
     store s' = store s \<and> tasks s' = tasks s \<and> used s \<subseteq> used s' \<and> [] \<notin> used s'"

lemma quiet_refl: "[] \<notin> used s \<Longrightarrow> quiet store tasks used s s"
  by (simp add: quiet_def)

lemma quiet_trans: "quiet store tasks used s s1 \<Longrightarrow> quiet store tasks used s1 s2 \<Longrightarrow> quiet store tasks used s s2"
  by (auto simp: quiet_def)

lemma quiet_steps:
  assumes "quiet store tasks used s s'"
  shows "node_step\<^sup>*\<^sup>* (node_at store tasks used s) (node_at store tasks used s')"
  using assms node_step.broadcast [of "node_at store tasks used s" "used s'"]
  by (auto simp: quiet_def node_at_def)

text \<open>The storage operations start no check and broadcast nothing.\<close>

definition unseen :: "('s \<Rightarrow> PendingSubmittedTxInfo set) \<Rightarrow> ('s \<Rightarrow> string set) \<Rightarrow> 's \<Rightarrow> 's \<Rightarrow> bool" where
  "unseen tasks used s s' \<longleftrightarrow> tasks s' = tasks s \<and> used s' = used s"

definition storage_silent ::
  "('s, 'r) Storage \<Rightarrow> ('s \<Rightarrow> PendingSubmittedTxInfo set) \<Rightarrow> ('s \<Rightarrow> string set) \<Rightarrow> 's \<Rightarrow> bool" where
  "storage_silent st tasks used s \<longleftrightarrow>
     (\<forall>q. unseen tasks used s (snd (st_GetLastQueryHeight st q s))) \<and>
     (\<forall>q b. unseen tasks used s (snd (st_SetLastQueryHeight st q b s))) \<and>
     (\<forall>q h. unseen tasks used s (snd (st_TxExists st q h s))) \<and>
     (\<forall>q h. unseen tasks used s (snd (st_GetCachedTx st q h s))) \<and>
     unseen tasks used s (snd (st_GetAllPendingTxs st s)) \<and>
     unseen tasks used s (snd (st_GetAllUnsuccessfulTxs st s)) \<and>
     (\<forall>q h n ti tx. unseen tasks used s (snd (st_SetTxStatus st q h n ti tx s)))"

lemma storage_silentD:
  assumes "storage_silent st tasks used s"
  shows "st_GetLastQueryHeight st q s = (r1, s') \<Longrightarrow> unseen tasks used s s'"
    "st_SetLastQueryHeight st q b s = (r2, s') \<Longrightarrow> unseen tasks used s s'"
    "st_TxExists st q h s = (r3, s') \<Longrightarrow> unseen tasks used s s'"
    "st_GetCachedTx st q h s = (r4, s') \<Longrightarrow> unseen tasks used s s'"
    "st_GetAllPendingTxs st s = (r5, s') \<Longrightarrow> unseen tasks used s s'"
    "st_GetAllUnsuccessfulTxs st s = (r6, s') \<Longrightarrow> unseen tasks used s s'"
    "st_SetTxStatus st q h n ti tx s = (r7, s') \<Longrightarrow> unseen tasks used s s'"
  using assms unfolding storage_silent_def by (metis snd_conv)+

section \<open>The contract of a processor that takes these steps\<close>

text \<open>
  \<open>leads s s'\<close>: the state \<open>s'\<close> is good, its node is one that steps lead to from the node of \<open>s\<close>,
  and the cache still holds only transactions that can be submitted.
\<close>

definition leads ::
  "('s \<Rightarrow> bool) \<Rightarrow> ('s \<Rightarrow> 'r tx_store) \<Rightarrow> ('r Transaction option \<Rightarrow> bool) \<Rightarrow> ('r Transaction \<Rightarrow> string) \<Rightarrow>
   ('s \<Rightarrow> PendingSubmittedTxInfo set) \<Rightarrow> ('s \<Rightarrow> string set) \<Rightarrow> 's \<Rightarrow> 's \<Rightarrow> bool" where
  "leads ok store storable hash_of tasks used s s' \<longleftrightarrow>
     ok s' \<and> node_step\<^sup>*\<^sup>* (node_at store tasks used s) (node_at store tasks used s') \<and>
     (cache_ok storable hash_of (store s) \<longrightarrow> cache_ok storable hash_of (store s'))"

locale lifecycle_processor = tx_processor st ok store storable tp hash_of
  for st :: "('s, 'r) Storage" and ok :: "'s \<Rightarrow> bool" and store :: "'s \<Rightarrow> 'r tx_store"
    and storable :: "'r Transaction option \<Rightarrow> bool" and tp :: "('s, 'r) TXProcessor"
    and hash_of :: "'r Transaction \<Rightarrow> string" +
  fixes tasks :: "'s \<Rightarrow> PendingSubmittedTxInfo set"
    and used :: "'s \<Rightarrow> string set"
  assumes no_empty_hash: "ok s \<Longrightarrow> [] \<notin> used s"
    and silent: "ok s \<Longrightarrow> storage_silent st tasks used s"
    and process_steps: "ok s \<Longrightarrow> storable (Some t) \<Longrightarrow> Tx t \<noteq> None \<Longrightarrow> tp_ProcessAndSubmit tp q t s = (rp, s') \<Longrightarrow>
      node_step\<^sup>*\<^sup>* (node_at store tasks used s) (node_at store tasks used s')"
begin

abbreviation to where
  "to \<equiv> leads ok store storable hash_of tasks used"

lemma to_refl: "ok s \<Longrightarrow> to s s"
  by (simp add: leads_def)

lemma to_trans: "to s s1 \<Longrightarrow> to s1 s2 \<Longrightarrow> to s s2"
  by (auto simp: leads_def)

lemma to_quiet: "ok s' \<Longrightarrow> quiet store tasks used s s' \<Longrightarrow> to s s'"
  using quiet_steps [of store tasks used s s'] by (auto simp: leads_def quiet_def)

lemma to_same:
  assumes "ok s" "ok s'" "store s' = store s" "unseen tasks used s s'"
  shows "to s s'"
  using assms no_empty_hash [OF assms(1)] by (intro to_quiet) (auto simp: quiet_def unseen_def)

lemma to_ok: "to s s1 \<Longrightarrow> ok s1"
  by (simp add: leads_def)

lemma cache_ok_height: "cache_ok storable hash_of (spec_SetHeight q b S) = cache_ok storable hash_of S"
  by (simp add: cache_ok_def)

lemma to_get_height: "ok s \<Longrightarrow> to s (snd (st_GetLastQueryHeight st q s))"
  by (cases "st_GetLastQueryHeight st q s")
    (use get_height storage_silentD(1) [OF silent] in \<open>fastforce intro: to_same\<close>)

lemma to_tx_exists: "ok s \<Longrightarrow> is_txhash h \<Longrightarrow> to s (snd (st_TxExists st q h s))"
  by (cases "st_TxExists st q h s")
    (use tx_exists storage_silentD(3) [OF silent] in \<open>fastforce intro: to_same\<close>)

lemma to_get_cached: "ok s \<Longrightarrow> is_txhash h \<Longrightarrow> to s (snd (st_GetCachedTx st q h s))"
  by (cases "st_GetCachedTx st q h s")
    (use get_cached storage_silentD(4) [OF silent] in \<open>fastforce intro: to_same\<close>)

lemma to_set_height:
  assumes "ok s"
  shows "to s (snd (st_SetLastQueryHeight st q b s))"
proof (cases "st_SetLastQueryHeight st q b s")
  case (Pair r s')
  from set_height [OF assms Pair] consider "ok s'" "store s' = store s"
    | "ok s'" "store s' = spec_SetHeight q b (store s)" by (auto split: sum.splits)
  then show ?thesis
  proof cases
    case 1
    with to_same [OF assms] storage_silentD(2) [OF silent [OF assms] Pair] Pair show ?thesis by simp
  next
    case 2
    with storage_silentD(2) [OF silent [OF assms] Pair] node_step.height [of "node_at store tasks used s" q b]
    have "node_step (node_at store tasks used s) (node_at store tasks used s')" by (simp add: node_at_def unseen_def)
    with 2 Pair show ?thesis by (simp add: leads_def cache_ok_height r_into_rtranclp)
  qed
qed

lemma to_process:
  assumes "ok s" "storable (Some t)" "Tx t \<noteq> None"
  shows "to s (snd (tp_ProcessAndSubmit tp q t s))"
proof (cases "tp_ProcessAndSubmit tp q t s")
  case (Pair r s')
  from process [OF assms Pair] cache_ok_SetTxStatus [of storable hash_of "store s" t] assms(2,3)
  have "ok s'" "cache_ok storable hash_of (store s) \<Longrightarrow> cache_ok storable hash_of (store s')"
    by (auto split: sum.splits)
  with process_steps [OF assms Pair] Pair show ?thesis by (simp add: leads_def)
qed

text \<open>A sequence of fallible steps leads on if each step does.\<close>

lemma to_go_try:
  assumes "to s (snd m)" "\<And>x s1. to s s1 \<Longrightarrow> to s (snd (k x s1))"
  shows "to s (snd (go_try m p k))"
  by (rule go_try_state [where P = "to s"]) (use assms in auto)

lemma to_go_then:
  assumes "to s (snd m)" "\<And>x s1. m = (Inr x, s1) \<Longrightarrow> to s s1 \<Longrightarrow> to s (snd (k x s1))"
  shows "to s (snd (go_then m k))"
  by (rule go_then_state [where P = "to s"]) (use assms in auto)

end

section \<open>The relayer takes these steps\<close>

text \<open>
  What the relayer's other collaborators do: the search and the node queries do not touch the
  database, and the search delivers transactions that can be stored. The processor of KV queries
  takes steps too: it records heights.
\<close>

definition op_quiet where
  "op_quiet ok store tasks used f \<longleftrightarrow>
     (\<forall>s. ok s \<longrightarrow> ok (snd (f s)) \<and> quiet store tasks used s (snd (f s)))"

definition relayer_quiet ::
  "('s \<Rightarrow> bool) \<Rightarrow> ('s \<Rightarrow> 'r tx_store) \<Rightarrow> ('r Transaction option \<Rightarrow> bool) \<Rightarrow>
   ('s \<Rightarrow> PendingSubmittedTxInfo set) \<Rightarrow> ('s \<Rightarrow> string set) \<Rightarrow> ('s, 'r) Relayer \<Rightarrow> bool" where
  "relayer_quiet ok store storable tasks used r \<longleftrightarrow>
     op_quiet ok store tasks used (rl_QueryLatestHeight r) \<and>
     (\<forall>q. op_quiet ok store tasks used (tq_SearchTransactions (rl_txQuerier r) q)) \<and>
     (\<forall>q s ts e s'. ok s \<longrightarrow> tq_SearchTransactions (rl_txQuerier r) q s = (Inr (ts, e), s') \<longrightarrow>
        (\<forall>t \<in> set ts. storable (Some t) \<and> Tx t \<noteq> None)) \<and>
     op_quiet ok store tasks used (rt_now (rl_runtime r)) \<and>
     (\<forall>f. op_quiet ok store tasks used (\<lambda>s. ((), rt_metrics (rl_runtime r) f s)))"

context lifecycle_processor
begin

text \<open>A KV processor that takes these steps.\<close>

definition kv_steps :: "'s KVProcessor \<Rightarrow> bool" where
  "kv_steps kp \<longleftrightarrow> (\<forall>m s. ok s \<longrightarrow> to s (snd (kp_ProcessAndSubmit kp m s)))"

lemma to_op_quiet: "op_quiet ok store tasks used f \<Longrightarrow> ok s \<Longrightarrow> to s (snd (f s))"
  by (auto simp: op_quiet_def intro: to_quiet)

lemma relay_txs_to:
  assumes "relayer_uses r st tp hash_of" "ok s" "\<forall>t \<in> set ts. storable (Some t) \<and> Tx t \<noteq> None"
  shows "to s (snd (relay_txs r q ts l s))"
  using assms(2,3)
proof (induction ts arbitrary: l s)
  case Nil
  then show ?case by (simp add: to_refl)
next
  case (Cons t ts)
  have t: "storable (Some t)" "Tx t \<noteq> None" using Cons.prems(2) by auto
  have handle: "to s1 (snd (handle_tx st tp q (hash_of t) t s1))" if s1: "ok s1" for s1
    unfolding handle_tx_def
  proof (rule to_go_try)
    show "to s1 (snd (st_TxExists st q (hash_of t) s1))" using s1 t(2) by (intro to_tx_exists hash_of_ok)
    show "to s1 (snd (if x then (Ok (), s2) else go_try (tp_ProcessAndSubmit tp q t s2) ''failed to process txs'' (\<lambda>_ s. (Ok (), s))))"
      if "to s1 s2" for x s2
      using that to_trans [OF that to_process [OF to_ok [OF that] t]] by (auto intro: to_go_try)
  qed
  show ?case
    unfolding relay_txs_Cons [OF assms(1) t(2)]
  proof (rule to_go_then)
    show "to s (snd (if Height t > l \<and> l > 0
        then go_try (st_SetLastQueryHeight st q l s) ''failed to save last height of query'' (\<lambda>_ s. (Ok (), s))
        else (Ok (), s)))"
      using Cons.prems(1) by (auto intro: to_go_try to_set_height to_refl)
    show "to s (snd (go_then (handle_tx st tp q (hash_of t) t s1) (\<lambda>_ s. relay_txs r q ts (Height t) s)))" if "to s s1" for s1
      by (rule to_go_then, rule to_trans [OF that handle [OF to_ok [OF that]]])
        (use Cons.IH Cons.prems(2) in \<open>auto intro: to_trans to_ok\<close>)
  qed
qed

lemma buildTxQuery_to:
  assumes "rl_storage r = st" "op_quiet ok store tasks used (rl_QueryLatestHeight r)" "ok s"
  shows "to s (snd (buildTxQuery r m s))"
proof -
  have "to s (snd (getLastQueryHeight r q s))" for q
    unfolding getLastQueryHeight_def assms(1)
  proof (rule to_go_try)
    show "to s (snd (st_GetLastQueryHeight st q s))" using assms(3) by (rule to_get_height)
    have latest: "to s (snd (let offset = InitialTxSearchOffset (rl_cfg r) in
          if offset \<noteq> 0 then
            go_try (rl_QueryLatestHeight r s1) ''could not get latest target chain height'' (\<lambda>latestHeight s.
              (Ok (if word_of_int latestHeight > offset then word_of_int latestHeight - offset else 0), s))
          else (Ok 0, s1)))" if s1: "to s s1" for s1
      using s1 to_trans [OF s1 to_op_quiet [OF assms(2) to_ok [OF s1]]]
      by (auto simp: Let_def intro: to_go_try)
    have save: "to s (snd (go_try (st_SetLastQueryHeight st q height s1) p (\<lambda>_ s. (Ok height, s))))"
      if s1: "to s s1" for s1 height p
      using to_trans [OF s1 to_set_height [OF to_ok [OF s1]]] by (auto intro: to_go_try)
    show "to s (snd ((\<lambda>(height, found) s. if found then (Ok height, s)
        else go_then (let offset = InitialTxSearchOffset (rl_cfg r) in
          if offset \<noteq> 0 then
            go_try (rl_QueryLatestHeight r s) ''could not get latest target chain height'' (\<lambda>latestHeight s.
              (Ok (if word_of_int latestHeight > offset then word_of_int latestHeight - offset else 0), s))
          else (Ok 0, s)) (\<lambda>height s. go_try (st_SetLastQueryHeight st q height s)
           ''failed to set a 0 last height for an uninitialised query'' (\<lambda>_ s. (Ok height, s)))) x s1))"
      if "to s s1" for x s1
      using that latest save by (cases x) (auto intro!: to_go_then)
  qed
  then show ?thesis
    unfolding buildTxQuery_def by (auto intro!: to_go_try)
qed

lemma processMessageTX_to:
  assumes r: "relayer_uses r st tp hash_of" "relayer_quiet ok store storable tasks used r" and s: "ok s"
  shows "to s (snd (processMessageTX r m s))"
  unfolding processMessageTX_def
proof (rule to_go_try)
  note st = relayer_usesD(1) [OF r(1)]
  show "to s (snd (buildTxQuery r m s))" using st r(2) s by (intro buildTxQuery_to) (auto simp: relayer_quiet_def)
  fix query s1
  assume s1: "to s s1"
  show "to s (snd (go_then (tq_SearchTransactions (rl_txQuerier r) query s1) (\<lambda>(txs, stoppedWithErr) s.
     go_then (relay_txs r (tx_QueryId m) txs 0 s) (\<lambda>lastProcessedHeight s.
     (case stoppedWithErr of
        Some e \<Rightarrow> (Err (ErrWrap ''failed to query txs'' e), s)
      | None \<Rightarrow>
          if lastProcessedHeight > 0 then
            go_try (st_SetLastQueryHeight (rl_storage r) (tx_QueryId m) lastProcessedHeight s)
              ''failed to save last height of query'' (\<lambda>_ s. (Ok (), s))
          else (Ok (), s))))))"
  proof (rule to_go_then)
    show "to s (snd (tq_SearchTransactions (rl_txQuerier r) query s1))"
      using r(2) by (intro to_trans [OF s1 to_op_quiet]) (auto simp: relayer_quiet_def to_ok [OF s1])
    fix x s2
    assume found: "tq_SearchTransactions (rl_txQuerier r) query s1 = (Inr x, s2)" and s2: "to s s2"
    obtain ts e where x: "x = (ts, e)" by fastforce
    with found r(2) to_ok [OF s1] have ts: "\<forall>t \<in> set ts. storable (Some t) \<and> Tx t \<noteq> None"
      unfolding relayer_quiet_def by blast
    have save: "to s (snd (go_try (st_SetLastQueryHeight st q height s1) p (\<lambda>_ s. (Ok (), s))))"
      if s1: "to s s1" for s1 height p q
      using to_trans [OF s1 to_set_height [OF to_ok [OF s1]]] by (auto intro: to_go_try)
    show "to s (snd ((\<lambda>(txs, stoppedWithErr) s. go_then (relay_txs r (tx_QueryId m) txs 0 s) (\<lambda>lastProcessedHeight s.
       (case stoppedWithErr of
          Some e \<Rightarrow> (Err (ErrWrap ''failed to query txs'' e), s)
        | None \<Rightarrow>
            if lastProcessedHeight > 0 then
              go_try (st_SetLastQueryHeight (rl_storage r) (tx_QueryId m) lastProcessedHeight s)
                ''failed to save last height of query'' (\<lambda>_ s. (Ok (), s))
            else (Ok (), s)))) x s2))"
      unfolding x prod.case st
      by (rule to_go_then, rule to_trans [OF s2 relay_txs_to [OF r(1) to_ok [OF s2] ts]])
        (auto intro: save split: option.split)
  qed
qed

lemma run_query_to:
  assumes r: "relayer_uses r st tp hash_of" "relayer_quiet ok store storable tasks used r"
    and kv: "kv_steps (rl_kvProcessor r)" and s: "ok s"
  shows "to s (snd (run_query r query queued s))"
proof -
  obtain start s1 where s1: "rt_now (rl_runtime r) s = (start, s1)" by fastforce
  with r(2) s have t1: "to s s1" using to_op_quiet [of "rt_now (rl_runtime r)" s] by (auto simp: relayer_quiet_def)
  have metrics: "to s (rt_metrics (rl_runtime r) f s2)" if "to s s2" for f s2
    using to_op_quiet [of "\<lambda>s. ((), rt_metrics (rl_runtime r) f s)" s2] r(2) to_ok [OF that] to_trans [OF that]
    by (auto simp: relayer_quiet_def)
  have now: "to s (snd (rt_now (rl_runtime r) s2))" if "to s s2" for s2
    using to_op_quiet [of "rt_now (rl_runtime r)" s2] r(2) to_ok [OF that] to_trans [OF that]
    by (auto simp: relayer_quiet_def)
  have observe: "to s (observe_since (rl_runtime r) f t s2)" if "to s s2" for f t s2
    using metrics [OF now [OF that]] by (cases "rt_now (rl_runtime r) s2") (simp add: observe_since_def)
  define s2 where "s2 = rt_metrics (rl_runtime r) (SetSubscriberTaskQueueNumElements queued) s1"
  have t2: "to s s2" unfolding s2_def by (rule metrics [OF t1])
  define m where "m = (if QueryType query = InterchainQueryTypeKV then
               processMessageKV r \<lparr>kv_QueryId = Id query, kv_KVKeys = Keys query\<rparr> s2
             else if QueryType query = InterchainQueryTypeTX then
               processMessageTX r \<lparr>tx_QueryId = Id query, tx_TransactionsFilter = TransactionsFilter query\<rparr> s2
             else (Err (ErrText (''unknown query type: '' @ QueryType query)), s2))"
  have "to s2 (snd (processMessageKV r x s2))" for x
    unfolding processMessageKV_def using kv to_ok [OF t2] by (simp add: kv_steps_def)
  moreover have "to s2 (snd (processMessageTX r x s2))" for x
    by (rule processMessageTX_to [OF r to_ok [OF t2]])
  ultimately have tm: "to s (snd m)"
    using t2 by (auto simp: m_def intro: to_trans)
  obtain x s3 where m: "m = (x, s3)" by fastforce
  have "run_query r query queued s = (case m of
       (Inl (GoErr err), s) \<Rightarrow>
           if QueryType query = InterchainQueryTypeTX \<and> stops_relayer err then (Err err, s)
           else (Ok (), observe_since (rl_runtime r) (AddFailedRequest (QueryType query)) start s)
       | (Inl f, s) \<Rightarrow> (Inl f, s)
       | (Inr _, s) \<Rightarrow> (Ok (), observe_since (rl_runtime r) (AddSuccessRequest (QueryType query)) start s))"
    unfolding run_query_def s1 m_def s2_def by (simp only: Let_def prod.case)
  with tm observe m show ?thesis by (auto split: sum.splits fault.splits)
qed

lemma Run_to:
  assumes r: "relayer_uses r st tp hash_of" "relayer_quiet ok store storable tasks used r"
    and kv: "kv_steps (rl_kvProcessor r)" and s: "ok s"
  shows "to s (snd (Run r queries s))"
  using s
proof (induction queries arbitrary: s)
  case (Cons a queries)
  obtain query queued where a: "a = (query, queued)" by fastforce
  show ?case
    unfolding a Run.simps
    by (rule to_go_then, rule run_query_to [OF r kv Cons.prems]) (auto intro: to_trans Cons.IH to_ok)
qed (simp add: to_refl)

end

section \<open>The web server takes these steps\<close>

text \<open>What a request body asks for: transactions named by hashes.\<close>

definition asks_for :: "string \<Rightarrow> ResubmitTx list" where
  "asks_for body = (case res_then (json_decode_first body) decode_ResubmitRequest of
     Inl f \<Rightarrow> [] | Inr reqBody \<Rightarrow> case rq_Txs reqBody of None \<Rightarrow> [] | Some txs \<Rightarrow> txs)"

context lifecycle_processor
begin

lemma resubmit_each_to:
  assumes "ok s" "cache_ok storable hash_of (store s)" "\<forall>x \<in> set txs. is_txhash (rtx_Hash x)"
  shows "to s (snd (resubmit_each st tp txs s))"
  using assms
proof (induction txs arbitrary: s)
  case (Cons x txs)
  have h: "is_txhash (rtx_Hash x)" using Cons.prems(3) by simp
  obtain c s1 where 1: "st_GetCachedTx st (rtx_QueryID x) (rtx_Hash x) s = (c, s1)" by fastforce
  with to_get_cached [OF Cons.prems(1) h] have t1: "to s s1" by (metis snd_conv)
  show ?case
  proof (cases c)
    case (Inl f)
    with 1 t1 show ?thesis by (cases f) auto
  next
    case (Inr t)
    with get_cached [OF Cons.prems(1) h 1] have "cached (store s) (rtx_QueryID x, rtx_Hash x) = Some t" by simp
    with Cons.prems(2) have t: "storable (Some t)" "Tx t \<noteq> None" unfolding cache_ok_def by blast+
    obtain p s2 where 2: "tp_ProcessAndSubmit tp (rtx_QueryID x) t s1 = (p, s2)" by fastforce
    with to_process [OF to_ok [OF t1] t] have t2: "to s s2" by (metis snd_conv to_trans t1)
    then have "cache_ok storable hash_of (store s2)" using Cons.prems(2) by (simp add: leads_def)
    from Cons.IH [OF to_ok [OF t2] this] Cons.prems(3) have "to s (snd (resubmit_each st tp txs s2))"
      by (auto intro: to_trans [OF t2])
    with 1 2 Inr t2 show ?thesis by (auto split: sum.splits fault.splits)
  qed
qed (simp add: to_refl)

lemma resubmitFailedTxs_to:
  assumes "ok s" "cache_ok storable hash_of (store s)" "\<forall>x \<in> set (asks_for body). is_txhash (rtx_Hash x)"
  shows "to s (snd (resubmitFailedTxs st tp body s))"
  using assms resubmit_each_to [OF assms]
  by (auto simp: resubmitFailedTxs_def asks_for_def to_refl split: sum.splits fault.splits option.splits)

end

section \<open>The checker takes these steps\<close>

lemma cache_ok_resolves: "resolves x resp S S' \<Longrightarrow> cache_ok P H S \<Longrightarrow> cache_ok P H S'"
  by (auto simp: resolves_def cache_ok_def spec_SetTxStatus_def split: if_splits)

text \<open>The storage, seen with the checks and the broadcasts that its operations leave alone.\<close>

definition checker_quiet ::
  "('s \<Rightarrow> bool) \<Rightarrow> ('s \<Rightarrow> 'r tx_store) \<Rightarrow> ('s \<Rightarrow> PendingSubmittedTxInfo set) \<Rightarrow> ('s \<Rightarrow> string set) \<Rightarrow>
   ('s, 'r) TxSubmitChecker \<Rightarrow> bool" where
  "checker_quiet ok store tasks used tc \<longleftrightarrow>
     (\<forall>S T U. check_keeps tc (\<lambda>s. (ok s \<and> tasks s = T \<and> U \<subseteq> used s) \<and> store s = S))"

context lifecycle_processor
begin

lemma storage_seen: "relay_storage st (\<lambda>s. ok s \<and> tasks s = T \<and> U \<subseteq> used s) store storable"
proof (unfold_locales, goal_cases)
  case (1 s q r s')
  with get_height [of s q r s'] storage_silentD(1) [OF silent, of s q r s'] show ?case by (auto simp: unseen_def)
next
  case (2 s q b r s')
  with set_height [of s q b r s'] storage_silentD(2) [OF silent, of s q b r s'] show ?case by (auto simp: unseen_def)
next
  case (3 s h q r s')
  with tx_exists [of s h q r s'] storage_silentD(3) [OF silent, of s q h r s'] show ?case by (auto simp: unseen_def)
next
  case (4 s h q r s')
  with get_cached [of s h q r s'] storage_silentD(4) [OF silent, of s q h r s'] show ?case by (auto simp: unseen_def)
next
  case (5 s r s')
  with get_pending [of s r s'] storage_silentD(5) [OF silent, of s r s'] show ?case by (auto simp: unseen_def)
next
  case (6 s r s')
  with get_unsuccessful [of s r s'] storage_silentD(6) [OF silent, of s r s'] show ?case by (auto simp: unseen_def)
next
  case (7 s h tx q n ti r s')
  with set_status [of s h tx q n ti r s'] storage_silentD(7) [OF silent, of s q h n ti tx r s'] show ?case
    by (auto simp: unseen_def)
qed (simp add: storable_None)

text \<open>\<open>T\<close>: the checks the node may make, among them those at hand.\<close>

definition checks_to where
  "checks_to T s s' \<longleftrightarrow> ok s' \<and> tasks s' = tasks s \<and>
     node_step\<^sup>*\<^sup>* \<lparr>nd_store = store s, nd_tasks = T, nd_used = used s\<rparr> \<lparr>nd_store = store s', nd_tasks = T, nd_used = used s'\<rparr> \<and>
     (cache_ok storable hash_of (store s) \<longrightarrow> cache_ok storable hash_of (store s'))"

lemma checks_to_refl: "ok s \<Longrightarrow> checks_to T s s"
  by (simp add: checks_to_def)

lemma checks_to_trans: "checks_to T s s1 \<Longrightarrow> checks_to T s1 s2 \<Longrightarrow> checks_to T s s2"
  by (auto simp: checks_to_def)

lemma check_to:
  assumes tc: "tc_storage tc = st" "checker_quiet ok store tasks used tc"
    and s: "ok s" "x \<in> T" "is_txhash (pd_SubmittedTxHash x)"
  shows "checks_to T s (snd (processSubmittedTx tc x s))"
proof (cases "processSubmittedTx tc x s")
  case (Pair r s')
  have "check_keeps tc (\<lambda>z. (ok z \<and> tasks z = tasks s \<and> used s \<subseteq> used z) \<and> store z = S)" for S
    using tc(2) by (simp add: checker_quiet_def)
  note checked = relay_storage.processSubmittedTx_ok [OF storage_seen [of "tasks s" "used s"] tc(1) this _ s(3) Pair]
  from checked s(1) have ok: "ok s'" "tasks s' = tasks s" "used s \<subseteq> used s'"
    and store: "store s' = store s \<or> (\<exists>resp. resolves x resp (store s) (store s'))" by blast+
  let ?N = "\<lambda>S U. \<lparr>nd_store = S, nd_tasks = T, nd_used = U\<rparr>"
  have "node_step\<^sup>*\<^sup>* (?N (store s) (used s)) (?N (store s') (used s))"
    using store s(2) node_step.resolved [of x "?N (store s) (used s)" _ "store s'"] by auto
  moreover have "node_step (?N (store s') (used s)) (?N (store s') (used s'))"
    using node_step.broadcast [of "?N (store s') (used s)" "used s'"] ok no_empty_hash [OF ok(1)] by simp
  ultimately show ?thesis
    using ok store Pair cache_ok_resolves by (auto simp: checks_to_def intro: rtranclp.rtrancl_into_rtrancl)
qed

lemma process_all_to:
  assumes tc: "tc_storage tc = st" "checker_quiet ok store tasks used tc"
    and s: "ok s" "set xs \<subseteq> T" "\<forall>x \<in> T. is_txhash (pd_SubmittedTxHash x)"
  shows "checks_to T s (snd (process_all tc xs s))"
  using s
proof (induction xs arbitrary: s)
  case (Cons x xs)
  obtain r s1 where 1: "processSubmittedTx tc x s = (r, s1)" by fastforce
  with check_to [OF tc Cons.prems(1), of x T] Cons.prems have t1: "checks_to T s s1" by auto
  then have "ok s1" by (simp add: checks_to_def)
  from checks_to_trans [OF t1 Cons.IH [OF this]] Cons.prems 1 t1 show ?case
    by (auto split: sum.splits fault.splits)
qed (simp add: checks_to_refl)

text \<open>The run of the checker: the pending transactions first, then the tasks it receives.\<close>

lemma CheckerRun_to:
  assumes tc: "tc_storage tc = st" "checker_quiet ok store tasks used tc"
    and s: "ok s" "node_ok (node_at store tasks used s)" "set queue \<subseteq> tasks s"
  shows "to s (snd (CheckerRun tc queue s))"
proof -
  obtain p s1 where 1: "st_GetAllPendingTxs st s = (p, s1)" by fastforce
  from get_pending [OF s(1) 1] storage_silentD(5) [OF silent [OF s(1)] 1]
  have s1: "ok s1" "store s1 = store s" "tasks s1 = tasks s" "used s1 = used s"
    and p: "\<And>xs. p = Inr xs \<Longrightarrow> set xs = ran (pending (store s))"
    by (auto simp: unseen_def)
  have to1: "to s s1" using s1 s(1) by (intro to_same) (auto simp: unseen_def)
  define T where "T = tasks s \<union> ran (pending (store s))"
  have hashes: "hashes_ok (node_at store tasks used s)" using s(2) by (simp add: node_ok_def)
  have T: "\<forall>x \<in> T. is_txhash (pd_SubmittedTxHash x)"
    using hashes_taskD(2) [OF hashes] hashes_pendingD(3) [OF hashes] by (auto simp: T_def node_at_def ran_def)
  have finish: "to s s'" if "checks_to T s1 s'" for s'
  proof -
    have "node_step (node_at store tasks used s) \<lparr>nd_store = store s, nd_tasks = T, nd_used = used s\<rparr>"
      using node_step.startup [of "node_at store tasks used s"] by (simp add: node_at_def T_def)
    moreover have "node_step \<lparr>nd_store = store s', nd_tasks = T, nd_used = used s'\<rparr> (node_at store tasks used s')"
      using node_step.dropped [of "tasks s'" "\<lparr>nd_store = store s', nd_tasks = T, nd_used = used s'\<rparr>"] that s1(3)
      by (simp add: node_at_def T_def checks_to_def)
    ultimately show ?thesis
      using that s1 by (auto simp: leads_def checks_to_def intro: converse_rtranclp_into_rtranclp rtranclp.rtrancl_into_rtrancl)
  qed
  show ?thesis
  proof (cases p)
    case (Inl f)
    with to1 1 tc(1) show ?thesis by (simp add: CheckerRun_def)
  next
    case (Inr xs)
    have xs: "set xs \<subseteq> T" using p [OF Inr] by (simp add: T_def)
    have queue: "set queue \<subseteq> T" using s(3) by (auto simp: T_def)
    obtain r2 s2 where 2: "process_all tc xs s1 = (r2, s2)" by fastforce
    with process_all_to [OF tc s1(1) xs T] have t2: "checks_to T s1 s2" by simp
    then have "ok s2" by (simp add: checks_to_def)
    from checks_to_trans [OF t2 process_all_to [OF tc this queue T]] have "to s (snd (process_all tc queue s2))" by (rule finish)
    with finish [OF t2] 1 2 Inr tc(1) show ?thesis by (cases r2) (simp_all add: CheckerRun_def)
  qed
qed

end

section \<open>The processor takes these steps\<close>

text \<open>
  What the processor's collaborators have to do with checks and broadcasts: an accepted submission
  answers with a hash that was not used before (the transaction carries a new account sequence), and
  the goroutine it starts is a check.
\<close>

definition txp_accounts ::
  "('s, 'r, 'x, 'y, 'm) TXProcessorSrv \<Rightarrow> ('s \<Rightarrow> PendingSubmittedTxInfo set) \<Rightarrow> ('s \<Rightarrow> string set) \<Rightarrow> bool" where
  "txp_accounts r tasks used \<longleftrightarrow>
     (\<forall>s. [] \<notin> used s) \<and>
     (\<forall>h s. unseen tasks used s (snd (hf_Fetch (txp_trustedHeaderFetcher r) h s))) \<and>
     (\<forall>s. unseen tasks used s (snd (rt_now (txp_runtime r) s))) \<and>
     (\<forall>f s. unseen tasks used s (rt_metrics (txp_runtime r) f s)) \<and>
     (\<forall>p s. tasks (rt_go_delayedTxStatusCheck (txp_runtime r) p s) = insert p (tasks s) \<and>
        used (rt_go_delayedTxStatusCheck (txp_runtime r) p s) = used s) \<and>
     (\<forall>q b s n s'. sb_SubmitTxProof (txp_submitter r) q b s = (Inr n, s') \<longrightarrow> is_ascii n \<and> n \<noteq> [] \<and>
        n \<notin> used s \<and> tasks s' = tasks s \<and> insert n (used s) \<subseteq> used s') \<and>
     (\<forall>q b s f s'. sb_SubmitTxProof (txp_submitter r) q b s = (Inl f, s') \<longrightarrow>
        tasks s' = tasks s \<and> used s \<subseteq> used s')"

lemma txp_accounts_quiet:
  assumes "txp_accounts r tasks used"
  shows "[] \<notin> used s" "unseen tasks used s (snd (hf_Fetch (txp_trustedHeaderFetcher r) h s))"
    "unseen tasks used s (snd (rt_now (txp_runtime r) s))" "unseen tasks used s (rt_metrics (txp_runtime r) f s)"
    "tasks (rt_go_delayedTxStatusCheck (txp_runtime r) p s) = insert p (tasks s)"
    "used (rt_go_delayedTxStatusCheck (txp_runtime r) p s) = used s"
  using assms by (simp_all add: txp_accounts_def)

lemma txp_accounts_submit:
  assumes "txp_accounts r tasks used"
  shows "sb_SubmitTxProof (txp_submitter r) q b s = (Inr n, s') \<Longrightarrow> is_ascii n \<and> n \<noteq> [] \<and>
        n \<notin> used s \<and> tasks s' = tasks s \<and> insert n (used s) \<subseteq> used s'"
    "sb_SubmitTxProof (txp_submitter r) q b s = (Inl f', s') \<Longrightarrow> tasks s' = tasks s \<and> used s \<subseteq> used s'"
  using assms unfolding txp_accounts_def by blast+

context relay_storage
begin

lemma submit_steps:
  assumes r: "txp_storage r = st" "\<And>S. txp_keeps r (\<lambda>s. ok s \<and> store s = S)" "txp_accounts r tasks used"
    and silent: "\<And>s. storage_silent st tasks used s"
    and s: "ok s" "storable (Some \<lparr>Tx = Some v, Height = h\<rparr>)" "is_txhash (hex_encode (tmhash r (Data v)))"
    and b: "BlockTx b = Some v" and run: "submitTxWithProofs r q h b s = (res, s')"
  shows "node_step\<^sup>*\<^sup>* (node_at store tasks used s) (node_at store tasks used s')"
proof -
  let ?hash = "hex_encode (tmhash r (Data v))" and ?t = "\<lparr>Tx = Some v, Height = h\<rparr>"
  let ?N = "\<lambda>S T U. \<lparr>nd_store = S, nd_tasks = T, nd_used = U\<rparr>"
  define K where "K = (\<lambda>s1. ok s1 \<and> store s1 = store s)"
  have K: "K s" and keeps: "txp_keeps r K" using s r(2) by (simp_all add: K_def)
  note rt = txp_keepsD(3) [OF keeps K]
  note acc = txp_accounts_quiet [OF r(3)] txp_accounts_submit [OF r(3)]
  obtain start s1 where s1: "rt_now (txp_runtime r) s = (start, s1)" by fastforce
  with rt_keepsD(2) [OF rt K] acc(3) [of s] have K1: "K s1" and v1: "tasks s1 = tasks s" "used s1 = used s"
    by (auto simp: unseen_def)
  obtain a s2 where s2: "sb_SubmitTxProof (txp_submitter r) q b s1 = (a, s2)" by fastforce
  with txp_keepsD(2) [OF keeps K1, of q b] have K2: "K s2" by simp
  have obs: "K (observe_since (txp_runtime r) f start s2)" "unseen tasks used s2 (observe_since (txp_runtime r) f start s2)" for f
    using rt_keepsD(5) [OF rt K2] acc(3) [of s2] acc(4)
    by (auto simp: observe_since_def unseen_def split: prod.splits)
  have grows: ?thesis if "store s' = store s" "tasks s' = tasks s" "used s \<subseteq> used s'"
    using that acc(1) by (intro quiet_steps) (simp add: quiet_def)
  show ?thesis
  proof (cases a)
    case (Inr n)
    define s3 where "s3 = observe_since (txp_runtime r) (AddSuccessProof InterchainQueryTypeTX) start s2"
    define x where "x = \<lparr>pd_QueryID = q, pd_SubmittedTxHash = ?hash, pd_NeutronHash = n\<rparr>"
    from acc(7) [OF s2 [unfolded Inr]] v1 have n: "is_ascii n" "n \<noteq> []" "n \<notin> used s" "tasks s2 = tasks s" "insert n (used s) \<subseteq> used s2"
      by auto
    have s3: "ok s3" "store s3 = store s" "tasks s3 = tasks s" "used s3 = used s2"
      using obs n(4) unfolding s3_def by (auto simp: unseen_def K_def)
    obtain w s4 where w: "st_SetTxStatus st q ?hash n \<lparr>ti_Status = Submitted, ti_Message = []\<rparr> (Some ?t) s3 = (w, s4)"
      by fastforce
    from set_status [OF s3(1) s(3,2) w] storage_silentD(7) [OF silent w] s3(2-4)
    have s4: "tasks s4 = tasks s" "used s4 = used s2" "case w of Inl _ \<Rightarrow> store s4 = store s
      | Inr _ \<Rightarrow> \<exists>now. store s4 = spec_SetTxStatus q ?hash n \<lparr>ti_Status = Submitted, ti_Message = []\<rparr> (Some ?t) now (store s)"
      by (cases w; simp add: unseen_def)+
    have run': "(res, s') = go_try (w, s4) ''failed to store tx submit status'' (\<lambda>_ s. (Ok (), rt_go_delayedTxStatusCheck (txp_runtime r) x s))"
      using run b s1 s2 Inr r(1) w
      by (simp add: submitTxWithProofs_def processSuccessfulTxSubmission_def Let_def s3_def [symmetric] x_def)
    show ?thesis
    proof (cases w)
      case (Inl f)
      with run' s4 n(5) show ?thesis by (intro grows) auto
    next
      case w': (Inr u)
      with s4(3) obtain now where S: "store s4 = spec_SetTxStatus q ?hash n \<lparr>ti_Status = Submitted, ti_Message = []\<rparr> (Some ?t) now (store s)"
        by auto
      have s': "s' = rt_go_delayedTxStatusCheck (txp_runtime r) x s4" using run' w' by simp
      have "rt_keeps (txp_runtime r) (\<lambda>z. ok z \<and> store z = store s4)" using r(2) by (simp add: txp_keeps_def)
      moreover have "ok s4" using set_status [OF s3(1) s(3,2) w] by simp
      ultimately have "store s' = store s4" unfolding s' using rt_keepsD(4) by fastforce
      with s' acc(5,6) s4 have view: "node_at store tasks used s' = ?N (store s4) (insert x (tasks s)) (used s2)"
        by (simp add: node_at_def)
      have "node_step (node_at store tasks used s) (?N (store s4) (insert x (tasks s)) (insert n (used s)))"
        using node_step.submitted [of ?hash n "node_at store tasks used s" "\<lparr>ti_Status = Submitted, ti_Message = []\<rparr>" q ?t now] n s(3)
        by (simp add: node_at_def S x_def)
      moreover have "node_step (?N (store s4) (insert x (tasks s)) (insert n (used s))) (node_at store tasks used s')"
        using node_step.broadcast [of "?N (store s4) (insert x (tasks s)) (insert n (used s))" "used s2"] n(5) acc(1) [of s2]
        by (simp add: view)
      ultimately show ?thesis by simp
    qed
  next
    case (Inl f)
    with acc(8) [OF s2 [unfolded Inl]] v1 have g: "tasks s2 = tasks s" "used s \<subseteq> used s2" by auto
    define s3 where "s3 = observe_since (txp_runtime r) (AddFailedProof InterchainQueryTypeTX) start s2"
    have s3: "ok s3" "store s3 = store s" "tasks s3 = tasks s" "used s3 = used s2"
      using obs g unfolding s3_def by (auto simp: unseen_def K_def)
    show ?thesis
    proof (cases "\<exists>e. f = GoErr e \<and> ignoreErrors r (err_text e)")
      case False
      with Inl run b s1 s2 have "s' = s2 \<or> s' = s3"
        by (cases f) (auto simp: submitTxWithProofs_def processFailedTxSubmission_def Let_def s3_def)
      with K2 s3 g show ?thesis by (intro grows) (auto simp: K_def)
    next
      case True
      then obtain e where e: "f = GoErr e" "ignoreErrors r (err_text e)" by blast
      let ?ti = "\<lparr>ti_Status = ErrorOnSubmit, ti_Message = err_text e\<rparr>"
      obtain w s4 where w: "st_SetTxStatus st q ?hash [] ?ti (Some ?t) s3 = (w, s4)" by fastforce
      from set_status [OF s3(1) s(3,2) w] storage_silentD(7) [OF silent w] s3(2-4)
      have s4: "tasks s4 = tasks s" "used s4 = used s2" "case w of Inl _ \<Rightarrow> store s4 = store s
        | Inr _ \<Rightarrow> \<exists>now. store s4 = spec_SetTxStatus q ?hash [] ?ti (Some ?t) now (store s)"
        by (cases w; simp add: unseen_def)+
      have s': "s' = s4"
        using e Inl run b s1 s2 r(1) w
        by (cases w) (auto simp: submitTxWithProofs_def processFailedTxSubmission_def Let_def s3_def [symmetric])
      show ?thesis
      proof (cases w)
        case (Inl f)
        with s4 g s' show ?thesis by (intro grows) auto
      next
        case (Inr u)
        with s4(3) obtain now where S: "store s4 = spec_SetTxStatus q ?hash [] ?ti (Some ?t) now (store s)" by auto
        have "node_step (node_at store tasks used s) (?N (store s4) (tasks s) (used s))"
          using node_step.ignored [of ?hash ?ti "node_at store tasks used s" q ?t now] s(3) by (simp add: node_at_def S)
        moreover have "node_step (?N (store s4) (tasks s) (used s)) (node_at store tasks used s4)"
          using node_step.broadcast [of "?N (store s4) (tasks s) (used s)" "used s2"] g(2) acc(1) [of s2] s4
          by (simp add: node_at_def)
        ultimately show ?thesis by (simp add: s')
      qed
    qed
  qed
qed

lemma ProcessAndSubmit_steps:
  assumes r: "txp_storage r = st" "\<And>S. txp_keeps r (\<lambda>s. ok s \<and> store s = S)" "txp_accounts r tasks used"
    and silent: "\<And>s. storage_silent st tasks used s"
    and s: "ok s" "storable (Some t)" "Tx t = Some v" "is_txhash (tx_hash_of r t)"
    and run: "ProcessAndSubmit r q t s = (res, s')"
  shows "node_step\<^sup>*\<^sup>* (node_at store tasks used s) (node_at store tasks used s')"
proof -
  define P where "P = (\<lambda>x. ok x \<and> store x = store s \<and> unseen tasks used s x)"
  note acc = txp_accounts_quiet [OF r(3)]
  obtain a s1 where a: "txToBlock r t s = (a, s1)" by fastforce
  have fetch: "P (snd (hf_Fetch (txp_trustedHeaderFetcher r) h x))" if "P x" for h x
    using that txp_keepsD(1) [OF r(2), of x "store s" h] acc(2) [of x h] by (auto simp: P_def unseen_def)
  have header: "P (snd (getTrustedHeader r h x))" if "P x" for h x
    unfolding getTrustedHeader_def
    by (rule go_try_state [where P = P], rule fetch [OF that], rule go_try_state [where P = P]) simp_all
  have "P (snd (prepareHeaders r t s))"
    unfolding prepareHeaders_def
    by (rule go_try_state [where P = P], rule header, simp add: P_def s unseen_def, rule go_try_state [where P = P],
        rule header) simp_all
  then have "P (snd (txToBlock r t s))"
    unfolding txToBlock_def by (rule go_try_state [where P = P]) (simp split: prod.splits)
  with a have s1: "ok s1" "store s1 = store s" "tasks s1 = tasks s" "used s1 = used s"
    by (auto simp: P_def unseen_def)
  have same: "node_at store tasks used s1 = node_at store tasks used s" using s1 by (simp add: node_at_def)
  have t: "\<lparr>Tx = Some v, Height = Height t\<rparr> = t" using s(3) by (cases t) simp
  show ?thesis
  proof (cases a)
    case (Inl f)
    with run a same show ?thesis by (auto simp: ProcessAndSubmit_def)
  next
    case (Inr blk)
    obtain x s2 where x: "submitTxWithProofs r q (Height t) blk s1 = (x, s2)" by fastforce
    have "s' = s2" using run a Inr x by (cases x) (auto simp: ProcessAndSubmit_def)
    moreover have "BlockTx blk = Some v" using txToBlock_Tx [of r t s blk s1] a Inr s(3) by simp
    moreover have "is_txhash (hex_encode (tmhash r (Data v)))" using s(3,4) by (simp add: tx_hash_of_def)
    ultimately show ?thesis
      using submit_steps [OF r silent s1(1), of v "Height t" blk q x s2] s(2) t x same by simp
  qed
qed

end

section \<open>The LevelDB storage and this processor provide the contract\<close>

definition lifecycle_deps where
  "lifecycle_deps put clk r tasks used \<longleftrightarrow> (\<forall>d s. unseen tasks used s (put d s)) \<and>
     (\<forall>s. unseen tasks used s (snd (clk s))) \<and> txp_accounts r tasks used"

definition lifecycle_ok where
  "lifecycle_ok L C V W get put clk r tasks used s \<longleftrightarrow>
     txp_ok L C V W get put clk r s \<and> lifecycle_deps put clk r tasks used"

lemma leveldb_silent:
  assumes "lifecycle_deps put clk r tasks used"
  shows "storage_silent (LevelDBStorage L C get put clk) tasks used s"
  using assms
  by (auto simp: lifecycle_deps_def unseen_def storage_silent_def LevelDBStorage_def on_part_def split: prod.splits)
    (metis snd_conv)+

lemma tx_processor_const:
  assumes "tx_processor st ok store storable tp hash_of"
  shows "tx_processor st (\<lambda>s. ok s \<and> Q) store storable tp hash_of"
proof (cases Q)
  case True
  with assms show ?thesis by simp
next
  case False
  with relay_storage.storable_None [OF tx_processor.axioms(1) [OF assms]] show ?thesis by unfold_locales simp_all
qed

interpretation leveldb_lifecycle: lifecycle_processor
  "LevelDBStorage L C get put clk" "lifecycle_ok L C V W get put clk r tasks used" "\<lambda>s. store_of C (V (get s))"
  "tx_storable C" "TXProcessorOf r" "tx_hash_of r" tasks used
  for L :: "('d, 't) leveldb" and C :: "'r txcodec" and V W and get :: "'s \<Rightarrow> 'd" and put clk r tasks used
proof (intro lifecycle_processor.intro lifecycle_processor_axioms.intro, goal_cases)
  case 1
  show ?case unfolding lifecycle_ok_def by (rule tx_processor_const [OF leveldb_txp.tx_processor_axioms])
next
  case (2 s)
  then have "txp_accounts r tasks used" by (simp add: lifecycle_ok_def lifecycle_deps_def)
  then show ?case by (rule txp_accounts_quiet(1))
next
  case (3 s)
  then have "lifecycle_deps put clk r tasks used" by (simp add: lifecycle_ok_def)
  then show ?case by (rule leveldb_silent)
next
  case (4 s t q res s')
  then obtain v where v: "Tx t = Some v" by blast
  have ok: "txp_ok L C V W get put clk r s" and deps: "lifecycle_deps put clk r tasks used"
    and txp: "txp_deps_ok L C get put clk r"
    using 4(1) by (simp_all add: lifecycle_ok_def txp_ok_def)
  have storage: "txp_storage r = LevelDBStorage L C get put clk" using txp by (simp add: txp_deps_ok_def)
  have acc: "txp_accounts r tasks used" using deps by (simp add: lifecycle_deps_def)
  have run: "ProcessAndSubmit r q t s = (res, s')" using 4(4) by (simp add: TXProcessorOf_def)
  show ?case
    by (rule relay_storage.ProcessAndSubmit_steps [OF leveldb_txp_storage storage txp_ok_keeps [OF txp] acc
          leveldb_silent [OF deps] ok 4(2) v leveldb_txp.hash_of_ok [OF ok 4(3)] run])
qed

end
