(* ===== verification/Lifecycle_Program.thy ===== *)
theory Lifecycle_Program
  imports Lifecycle_Runs Kv_Processor
begin

text \<open>
  The whole program takes the steps of \<open>Lifecycle\<close>: the processor of KV queries, which records
  heights in the same database, and then the parts of the program together.
\<close>

section \<open>The processor of KV queries takes these steps\<close>

text \<open>Its other collaborators do not touch the database; a retry repeats calls and nothing else.\<close>

definition kv_quiet ::
  "('s \<Rightarrow> bool) \<Rightarrow> ('s \<Rightarrow> 'r tx_store) \<Rightarrow> ('s \<Rightarrow> PendingSubmittedTxInfo set) \<Rightarrow> ('s \<Rightarrow> string set) \<Rightarrow>
   ('s, 'r, 'x, 'y, 'm) KVProcessorSrv \<Rightarrow> bool" where
  "kv_quiet ok store tasks used p \<longleftrightarrow>
     retry_ok (kvp_retry_header p) \<and> retry_ok (kvp_retry_msg p) \<and>
     op_quiet ok store tasks used (kvp_QueryLatestHeight p) \<and>
     (\<forall>path key h prove. op_quiet ok store tasks used (ABCIQueryWithOptions (kvp_querier p) path key h prove)) \<and>
     (\<forall>h. op_quiet ok store tasks used (hf_Fetch (kvp_trustedHeaderFetcher p) h)) \<and>
     (\<forall>c hdr. op_quiet ok store tasks used (MsgUpdateClient p c hdr)) \<and>
     (\<forall>h revision q vs upd. op_quiet ok store tasks used (sb_SubmitKVProof (kvp_submitter p) h revision q vs upd)) \<and>
     op_quiet ok store tasks used (rt_now (kvp_runtime p)) \<and>
     (\<forall>f. op_quiet ok store tasks used (\<lambda>s. ((), rt_metrics (kvp_runtime p) f s)))"

lemma kv_quietD:
  assumes "kv_quiet ok store tasks used p"
  shows "retry_ok (kvp_retry_header p)" "retry_ok (kvp_retry_msg p)"
    "op_quiet ok store tasks used (kvp_QueryLatestHeight p)"
    "op_quiet ok store tasks used (ABCIQueryWithOptions (kvp_querier p) path key h prove)"
    "op_quiet ok store tasks used (hf_Fetch (kvp_trustedHeaderFetcher p) h')"
    "op_quiet ok store tasks used (MsgUpdateClient p c hdr)"
    "op_quiet ok store tasks used (sb_SubmitKVProof (kvp_submitter p) h revision q vs upd)"
    "op_quiet ok store tasks used (rt_now (kvp_runtime p))"
    "op_quiet ok store tasks used (\<lambda>s. ((), rt_metrics (kvp_runtime p) f s))"
  using assms by (simp_all add: kv_quiet_def)

context lifecycle_processor
begin

lemma to_then_quiet: "op_quiet ok store tasks used f \<Longrightarrow> to s s1 \<Longrightarrow> to s (snd (f s1))"
  using to_op_quiet [of f s1] by (blast intro: to_trans to_ok)

lemma to_retry:
  assumes R: "retry_ok R" and s: "to s s1" and f: "\<And>s1. to s s1 \<Longrightarrow> to s (snd (f s1))"
  shows "to s (snd (R f s1))"
  by (rule retried_state [OF retry_okD [OF R prod.collapse [symmetric]], where P = "to s"]) (use s f in auto)

lemma kv_observe_to:
  assumes "kv_quiet ok store tasks used p" "to s s1"
  shows "to s (observe_since (kvp_runtime p) f t s1)"
  using to_then_quiet [OF kv_quietD(9) [OF assms(1)] to_then_quiet [OF kv_quietD(8) [OF assms(1)] assms(2)]]
  by (cases "rt_now (kvp_runtime p) s1") (simp add: observe_since_def)

lemma isQueryOnTime_to:
  assumes "kvp_storage p = st" "to s s1"
  shows "to s (snd (isQueryOnTime p q b s1))"
proof (cases "minKVUpdatePeriod p = 0")
  case False
  have "to s (snd (st_SetLastQueryHeight st q b s2))" if "to s s2" for s2
    using to_trans [OF that to_set_height [OF to_ok [OF that]]] .
  then show ?thesis
    using False to_trans [OF assms(2) to_get_height [OF to_ok [OF assms(2)]]]
    by (auto simp: isQueryOnTime_def assms(1) intro!: to_go_then split: prod.split)
qed (simp add: isQueryOnTime_def assms(2))

lemma storage_values_to:
  assumes "kv_quiet ok store tasks used p" "to s s1"
  shows "to s (snd (storage_values p ih ks vs h s1))"
  using assms(2)
proof (induction ks arbitrary: vs h s1)
  case (Cons k ks)
  have "to s (snd (QueryTendermintProof (kvp_querier p) ih (Path k) (Key k) s1))"
    using to_then_quiet [OF kv_quietD(4) [OF assms(1)] Cons.prems] Cons.prems
    by (auto simp: QueryTendermintProof_def Let_def intro!: to_go_try)
  then show ?case using Cons.IH by (auto intro!: to_go_try split: prod.split)
qed simp

lemma getSrcChainHeader_to:
  assumes p: "kv_quiet ok store tasks used p" and s: "to s s1"
  shows "to s (snd (getSrcChainHeader p h s1))"
proof -
  obtain start s2 where 2: "rt_now (kvp_runtime p) s1 = (start, s2)" by fastforce
  with to_then_quiet [OF kv_quietD(8) [OF p] s] have "to s s2" by simp
  then have to: "to s (snd (kvp_retry_header p (hf_Fetch (kvp_trustedHeaderFetcher p) h) s2))"
    by (rule to_retry [OF kv_quietD(1) [OF p]]) (rule to_then_quiet [OF kv_quietD(5) [OF p]])
  obtain r s3 where 3: "kvp_retry_header p (hf_Fetch (kvp_trustedHeaderFetcher p) h) s2 = (r, s3)" by fastforce
  with to kv_observe_to [OF p] 2 show ?thesis by (auto simp: getSrcChainHeader_def split: sum.split fault.split)
qed

lemma getUpdateClientMsg_to:
  assumes p: "kv_quiet ok store tasks used p" and s: "to s s1"
  shows "to s (snd (getUpdateClientMsg p hdr s1))"
proof -
  obtain start s2 where 2: "rt_now (kvp_runtime p) s1 = (start, s2)" by fastforce
  with to_then_quiet [OF kv_quietD(8) [OF p] s] have "to s s2" by simp
  then have "to s (snd (kvp_retry_msg p (MsgUpdateClient p (kvp_ClientID p) hdr) s2))"
    by (rule to_retry [OF kv_quietD(2) [OF p]]) (rule to_then_quiet [OF kv_quietD(6) [OF p]])
  then show ?thesis
    using 2 kv_observe_to [OF p]
    by (auto simp: getUpdateClientMsg_def intro!: to_go_then split: prod.split relayer_message.split)
qed

lemma submitKVWithProof_to:
  assumes p: "kv_quiet ok store tasks used p" and s: "to s s1"
  shows "to s (snd (submitKVWithProof p h q vs s1))"
  unfolding submitKVWithProof_def
proof (rule to_go_try, rule getSrcChainHeader_to [OF p s], rule to_go_try, rule getUpdateClientMsg_to [OF p])
  fix hdr s2 upd s3
  assume 3: "to s s3"
  obtain start s4 where 4: "rt_now (kvp_runtime p) s3 = (start, s4)" by fastforce
  with to_then_quiet [OF kv_quietD(8) [OF p] 3] have to4: "to s s4" by simp
  obtain r s5 where 5: "sb_SubmitKVProof (kvp_submitter p) (h - 1) (RevisionNumber (hd_Height hdr)) q vs upd s4 = (r, s5)"
    by fastforce
  from to_then_quiet [OF kv_quietD(7) [OF p] to4, of "h - 1" "RevisionNumber (hd_Height hdr)" q vs upd] 4 5 kv_observe_to [OF p]
  show "to s (snd (case rt_now (kvp_runtime p) s3 of (st, s) \<Rightarrow>
      (case sb_SubmitKVProof (kvp_submitter p) (h - 1) (RevisionNumber (hd_Height hdr)) q vs upd s of
         (Inl (GoErr e), s) \<Rightarrow>
           (Err (ErrWrap ''could not submit proof'' e),
            observe_since (kvp_runtime p) (AddFailedProof InterchainQueryTypeKV) st s)
       | (Inl f, s) \<Rightarrow> (Inl f, s)
       | (Inr _, s) \<Rightarrow> (Ok (), observe_since (kvp_runtime p) (AddSuccessProof InterchainQueryTypeKV) st s))))"
    by (auto split: sum.split fault.split)
qed assumption

lemma KV_steps:
  assumes p: "kvp_storage p = st" "kv_quiet ok store tasks used p"
  shows "kv_steps (KVProcessorOf p)"
proof -
  have "to s (snd (KV_ProcessAndSubmit p m s))" if "ok s" for m s
    unfolding KV_ProcessAndSubmit_def
    using to_then_quiet [OF kv_quietD(3) [OF p(2)] to_refl [OF that]] isQueryOnTime_to [OF p(1)]
      storage_values_to [OF p(2)] submitKVWithProof_to [OF p(2)]
    by (auto simp: getStorageValues_def intro!: to_go_try split: prod.split)
  then show ?thesis by (simp add: kv_steps_def KVProcessorOf_def)
qed

end

section \<open>The program takes these steps\<close>

text \<open>
  The parts of the program on one storage, as \<open>startRelayer\<close> builds them, each doing one thing at a
  time: a query, a request, a run of the checker over the pending queue and the tasks it has received,
  or the end of the process and its start on the same database.
\<close>

inductive activity ::
  "('s, 'r) Relayer \<Rightarrow> ('s, 'r) Storage \<Rightarrow> ('s, 'r) TXProcessor \<Rightarrow> ('s, 'r) TxSubmitChecker \<Rightarrow>
   ('s \<Rightarrow> 'd) \<Rightarrow> ('s \<Rightarrow> PendingSubmittedTxInfo set) \<Rightarrow> ('s \<Rightarrow> string set) \<Rightarrow> 's \<Rightarrow> 's \<Rightarrow> bool"
  for r st tp tc get tasks used where
  queries: "Run r queue s = (x, s') \<Longrightarrow> activity r st tp tc get tasks used s s'"
| request: "resubmitFailedTxs st tp body s = (y, s') \<Longrightarrow> \<forall>a \<in> set (asks_for body). is_txhash (rtx_Hash a) \<Longrightarrow>
     activity r st tp tc get tasks used s s'"
| checks: "CheckerRun tc received s = (x, s') \<Longrightarrow> set received \<subseteq> tasks s \<Longrightarrow>
     activity r st tp tc get tasks used s s'"
| restart: "get s' = get s \<Longrightarrow> tasks s' = {} \<Longrightarrow> used s \<subseteq> used s' \<Longrightarrow> activity r st tp tc get tasks used s s'"

text \<open>
  How the parts are wired: relayer, processors and checker work on one LevelDB storage, the relayer
  with the processor \<open>p\<close> of transactions and \<open>kv\<close> of KV queries. What the rest leaves alone.
\<close>

definition program_wired where
  "program_wired st p kv r tc \<longleftrightarrow>
     relayer_uses r st (TXProcessorOf p) (tx_hash_of p) \<and> rl_kvProcessor r = KVProcessorOf kv \<and> kvp_storage kv = st \<and>
     tc_storage tc = st"

definition program_quiet where
  "program_quiet L C V W get put clk p kv tasks used r tc \<longleftrightarrow>
     (let ok = lifecycle_ok L C V W get put clk p tasks used; store = (\<lambda>s. store_of C (V (get s)))
      in relayer_quiet ok store (tx_storable C) tasks used r \<and> kv_quiet ok store tasks used kv \<and>
         checker_quiet ok store tasks used tc)"

definition program_ok where
  "program_ok L C V W get put clk p kv tasks used r tc \<longleftrightarrow>
     program_wired (LevelDBStorage L C get put clk) p kv r tc \<and>
     program_quiet L C V W get put clk p kv tasks used r tc"

lemma reachable_steps: "node_step\<^sup>*\<^sup>* N N' \<Longrightarrow> reachable N \<Longrightarrow> reachable N'"
  by (induction rule: rtranclp_induct) (auto intro: reachable.step)

lemma activity_reachable:
  fixes C :: "'r txcodec"
  assumes prog: "program_ok L C V W get put clk p kv tasks used r tc"
    and s: "lifecycle_ok L C V W get put clk p tasks used s"
      "reachable (node_at (\<lambda>s. store_of C (V (get s))) tasks used s)"
      "cache_ok (tx_storable C) (tx_hash_of p) (store_of C (V (get s)))"
    and act: "activity r (LevelDBStorage L C get put clk) (TXProcessorOf p) tc get tasks used s s'"
  shows "lifecycle_ok L C V W get put clk p tasks used s' \<and>
    reachable (node_at (\<lambda>s. store_of C (V (get s))) tasks used s') \<and>
    cache_ok (tx_storable C) (tx_hash_of p) (store_of C (V (get s')))"
proof -
  let ?ok = "lifecycle_ok L C V W get put clk p tasks used" and ?store = "\<lambda>s. store_of C (V (get s))"
  let ?to = "leads ?ok ?store (tx_storable C) (tx_hash_of p) tasks used"
  have wired: "program_wired (LevelDBStorage L C get put clk) p kv r tc"
    and quiet: "relayer_quiet ?ok ?store (tx_storable C) tasks used r" "kv_quiet ?ok ?store tasks used kv"
      "checker_quiet ?ok ?store tasks used tc"
    using prog by (simp_all add: program_ok_def program_quiet_def Let_def)
  have r: "relayer_uses r (LevelDBStorage L C get put clk) (TXProcessorOf p) (tx_hash_of p)"
    "relayer_quiet ?ok ?store (tx_storable C) tasks used r"
    and kv: "rl_kvProcessor r = KVProcessorOf kv" "kvp_storage kv = LevelDBStorage L C get put clk"
    and tc: "tc_storage tc = LevelDBStorage L C get put clk" "checker_quiet ?ok ?store tasks used tc"
    using wired quiet by (simp_all add: program_wired_def)
  have "?to s s'"
    using act
  proof cases
    case (queries queue x)
    with leveldb_lifecycle.Run_to [OF r leveldb_lifecycle.KV_steps [OF kv(2) quiet(2), folded kv(1)] s(1), of queue]
    show ?thesis by simp
  next
    case (request body y)
    with leveldb_lifecycle.resubmitFailedTxs_to [OF s(1,3), of body] show ?thesis by simp
  next
    case (checks received x)
    with leveldb_lifecycle.CheckerRun_to [OF tc s(1) reachable_node_ok [OF s(2)], of received] show ?thesis by simp
  next
    case restart
    have ok: "?ok s'" using s(1) restart(1)
      by (simp add: lifecycle_ok_def txp_ok_def leveldb_storage_ok_def)
    have "node_step (node_at ?store tasks used s) \<lparr>nd_store = ?store s, nd_tasks = {}, nd_used = used s\<rparr>"
      using node_step.dropped [of "{}" "node_at ?store tasks used s"] by (simp add: node_at_def)
    moreover have "node_step \<lparr>nd_store = ?store s, nd_tasks = {}, nd_used = used s\<rparr> (node_at ?store tasks used s')"
      using node_step.broadcast [of "\<lparr>nd_store = ?store s, nd_tasks = {}, nd_used = used s\<rparr>" "used s'"] restart
        leveldb_lifecycle.no_empty_hash [OF ok] by (simp add: node_at_def)
    ultimately show ?thesis using ok restart(1) by (auto simp: leads_def)
  qed
  with reachable_steps s(2,3) show ?thesis by (auto simp: leads_def)
qed

lemma activities_ok:
  fixes C :: "'r txcodec"
  assumes "program_ok L C V W get put clk p kv tasks used r tc"
    and "lifecycle_ok L C V W get put clk p tasks used s"
      "reachable (node_at (\<lambda>s. store_of C (V (get s))) tasks used s)"
      "cache_ok (tx_storable C) (tx_hash_of p) (store_of C (V (get s)))"
    and "(activity r (LevelDBStorage L C get put clk) (TXProcessorOf p) tc get tasks used)\<^sup>*\<^sup>* s s'"
  shows "lifecycle_ok L C V W get put clk p tasks used s' \<and>
    reachable (node_at (\<lambda>s. store_of C (V (get s))) tasks used s') \<and>
    cache_ok (tx_storable C) (tx_hash_of p) (store_of C (V (get s')))"
  using assms(5)
proof (induction rule: rtranclp_induct)
  case base
  with assms(2-4) show ?case by blast
next
  case (step s1 s2)
  with activity_reachable [OF assms(1), of s1 s2] show ?case by blast
qed

lemmas activities_reachable = activities_ok [THEN conjunct2, THEN conjunct1]

end
