(* ===== verification/Start.thy ===== *)
theory Start
  imports App Lifecycle_Program Subscriber
begin

text \<open>
  \<open>startRelayer\<close> (\<open>cmd/neutron_query_relayer/cmd/start.go\<close>): the construction of the
  components, and the process they make up: four goroutines that share a context, a queue of
  tasks between the subscriber and the relayer, and the storage, which is closed at the end.
\<close>

section \<open>Construction\<close>

text \<open>The names of the loggers, in the order they are registered.\<close>

definition log_contexts :: "string list" where
  "log_contexts = [''main'', ''app'', ''subscriber'', ''relayer'', ''http'', ''target_chain_rpc'', ''neutron_chain_rpc'',
     ''target_chain_provider'', ''neutron_chain_provider'', ''tx_sender'', ''tx_processor'', ''tx_submit_checker'',
     ''trusted_headers_fetcher'', ''kv_processor'', ''monitoring'']"

record ('s, 'r, 'x, 'y, 'm, 'ch) components =
  cm_cfg :: NeutronQueryRelayerConfig
  cm_storage :: "('s, 'r) Storage"
  cm_subscriber :: "'s Subscriber"
  cm_deps :: "('s, 'r, 'x, 'y, 'm, 'ch) DependencyContainer"
  cm_relayer :: "('s, 'r) Relayer"
  cm_checker :: "('s, 'r) TxSubmitChecker"

text \<open>
  An error here is what \<open>logger.Fatal\<close> prints before the process exits; deferred calls do not
  run then. \<open>make(chan ..., n)\<close> panics when \<open>n\<close> is negative. \<open>storage_of\<close> is the storage over
  the opened database, \<open>newSubscriber\<close> is \<open>NewDefaultSubscriber\<close> on its clients.
\<close>

definition startRelayer ::
  "(string list \<Rightarrow> unit res) \<Rightarrow> (string \<Rightarrow> NeutronQueryRelayerConfig res) \<Rightarrow> (string \<Rightarrow> 'd res) \<Rightarrow>
   ('d \<Rightarrow> ('s, 'r) Storage) \<Rightarrow> (NeutronQueryRelayerConfig \<Rightarrow> 's \<Rightarrow> 's Subscriber res \<times> 's) \<Rightarrow>
   ('s, 'r, 'x, 'y, 'm, 'b, 'k, 'e, 'n, 'w, 'kb, 'p, 'ch, 'ir, 'mc, 'am, 'bm) platform \<Rightarrow> 's \<Rightarrow>
   ('s, 'r, 'x, 'y, 'm, 'ch) components res \<times> 's" where
  "startRelayer newLoggers process open_file storage_of newSubscriber P s =
     go_try (newLoggers log_contexts, s) ''couldn't initialize loggers registry'' (\<lambda>_ s.
     go_try (NewNeutronQueryRelayerConfig process, s) ''cannot initialize relayer config'' (\<lambda>cfg s.
     go_try (NewDefaultStorage open_file cfg, s) ''failed to create NewDefaultStorage'' (\<lambda>database s.
     (let st = storage_of database in
      if QueriesTaskQueueCapacity cfg < 0 then (Panic ''makechan: size out of range'', s)
      else
        go_try (newSubscriber cfg s) ''Failed to get NewDefaultSubscriber'' (\<lambda>subscriber s.
        go_try (NewDefaultDependencyContainer P cfg st s) ''failed to initialize dependency container'' (\<lambda>deps s.
        go_try (NewDefaultRelayer P cfg st deps, s) ''Failed to get NewDefaultRelayer'' (\<lambda>relayer s.
        go_try (NewDefaultTxSubmitChecker P cfg st s) ''Failed to get NewDefaultTxSubmitChecker'' (\<lambda>checker s.
        (Ok \<lparr>cm_cfg = cfg, cm_storage = st, cm_subscriber = subscriber, cm_deps = deps, cm_relayer = relayer,
          cm_checker = checker\<rparr>, s)))))))))"

text \<open>
  The parts are wired as the steps of the program need it: relayer, checker and web server share one
  storage, and name transactions alike.
\<close>

lemma startRelayer_shares:
  fixes P :: "('s, 'r, 'x, 'y, 'm, 'b, 'k, 'e, 'n, 'w, 'kb, 'p, 'ch, 'ir, 'mc, 'am, 'bm) platform"
  assumes "startRelayer newLoggers process open_file storage_of newSubscriber P s = (Inr c, s')"
  shows "rl_cfg (cm_relayer c) = cm_cfg c \<and>
    (\<exists>(p :: ('s, 'r, 'x, 'y, 'm) TXProcessorSrv) (kv :: ('s, 'r, 'x, 'y, 'm) KVProcessorSrv).
       dc_txProcessor (cm_deps c) = TXProcessorOf p \<and> txp_storage p = cm_storage c \<and>
       txp_submitter p = dc_proofSubmitter (cm_deps c) \<and> kvp_submitter kv = dc_proofSubmitter (cm_deps c) \<and>
       program_wired (cm_storage c) p kv (cm_relayer c) (cm_checker c))"
proof -
  from assms obtain d s1 s2 s3 where
    deps: "NewDefaultDependencyContainer P (cm_cfg c) (cm_storage c) s1 = (Inr (cm_deps c), s2)" and
    rl: "NewDefaultRelayer P (cm_cfg c) (cm_storage c) (cm_deps c) = Inr (cm_relayer c)" and
    tc: "NewDefaultTxSubmitChecker P (cm_cfg c) (cm_storage c) s2 = (Inr (cm_checker c), s3)"
    by (auto simp: startRelayer_def res_success Let_def split: if_splits)
  from NewDefaultDependencyContainer_Inr [OF deps] obtain r where
    r: "default_TxProcessor P (dc_trustedHeaderFetcher (cm_deps c)) (cm_storage c) (dc_proofSubmitter (cm_deps c))
        (cm_cfg c) = Inr r" "dc_txProcessor (cm_deps c) = TXProcessorOf r" .
  from NewDefaultRelayer_uses [OF rl] r(1) have
    "rl_txProcessor (cm_relayer c) = TXProcessorOf r" "rl_storage (cm_relayer c) = cm_storage c"
    "rl_cfg (cm_relayer c) = cm_cfg c" "relayer_uses (cm_relayer c) (cm_storage c) (TXProcessorOf r) (tx_hash_of r)"
    by auto
  moreover define kv where "kv = NewKVProcessor (dc_trustedHeaderFetcher (cm_deps c)) (dc_targetQuerier (cm_deps c))
    (MinKvUpdatePeriod (cm_cfg c)) (dc_proofSubmitter (cm_deps c)) (cm_storage c)
    (pf_QueryLatestHeight P (dc_targetChain (cm_deps c))) (pf_MsgUpdateClient P (dc_neutronChain (cm_deps c)))
    (pf_PathClientID P (dc_neutronChain (cm_deps c))) (pf_retry_header P) (pf_retry_msg P) (pf_runtime P)"
  moreover have "rl_kvProcessor (cm_relayer c) = KVProcessorOf kv"
    using rl by (auto simp: NewDefaultRelayer_def res_success NewRelayer_def default_KVProcessor_def kv_def Let_def
        dest!: arg_cong [of _ _ rl_kvProcessor])
  moreover have "kvp_storage kv = cm_storage c" "kvp_submitter kv = dc_proofSubmitter (cm_deps c)"
    by (simp_all add: kv_def NewKVProcessor_def)
  moreover from tc obtain n where
    "cm_checker c = NewTxSubmitChecker (cm_storage c) (pf_Tx P n) (pf_retry_tx P) (pf_runtime P)"
    by (auto simp: NewDefaultTxSubmitChecker_def res_success) metis
  then have "tc_storage (cm_checker c) = cm_storage c" by (simp add: NewTxSubmitChecker_def)
  ultimately show ?thesis
    using r(2) default_TxProcessor_Inr [OF r(1)] by (auto simp: program_wired_def)
qed

section \<open>The process\<close>

datatype worker = WebServer | StatusChecker | QuerySubscriber | QueryRelayer

text \<open>
  The goroutines still running, those of them that are not at their \<open>select\<close> but at work, whether the
  context is cancelled, the tasks in the queue, whether the subscriber stands at the send
  \<open>tasks <- *activeQuery\<close>, whether the storage has been closed and whether a panic has ended the
  process.
\<close>

record process =
  workers :: "worker set"
  busy :: "worker set"
  cancelled :: bool
  queued :: nat
  sending :: bool
  closed :: bool
  crashed :: bool

text \<open>The checker begins with the pending transactions and the subscriber with loading the queries.\<close>

definition started :: process where
  "started = \<lparr>workers = {WebServer, StatusChecker, QuerySubscriber, QueryRelayer}, busy = {StatusChecker, QuerySubscriber},
     cancelled = False, queued = 0, sending = False, closed = False, crashed = False\<rparr>"

text \<open>A goroutine at the send can do nothing else; the send does not watch the context.\<close>

definition can_go :: "process \<Rightarrow> worker \<Rightarrow> bool" where
  "can_go p w \<longleftrightarrow> w \<in> workers p \<and> \<not> crashed p \<and> (w = QuerySubscriber \<longrightarrow> \<not> sending p)"

text \<open>
  The loops \<open>for { select { ... case <-ctx.Done(): return nil } }\<close> of the four \<open>Run\<close> functions, as they
  go without an error; \<open>cap\<close> is the capacity of the queue. At its \<open>select\<close> a goroutine gets to work:
  the checker and the subscriber on what they receive from outside (\<open>begins\<close>), the relayer on a task
  from the queue (\<open>taken\<close>) or straight from the waiting sender (\<open>handed\<close>). What it works on comes
  to an end (\<open>finishes\<close>). Only at its \<open>select\<close> does it see that the context is cancelled and returns
  (\<open>stops\<close>); in the models of the components this is the end of the list of what was received. The
  subscriber at work may come to a send (\<open>at_send\<close>), which ends when there is room (\<open>sent\<close>).
  \<open>closes\<close> is the deferred call after \<open>wg.Wait()\<close>.
\<close>

inductive work_step :: "nat \<Rightarrow> process \<Rightarrow> process \<Rightarrow> bool" for cap where
  begins: "can_go p w \<Longrightarrow> w \<in> {StatusChecker, QuerySubscriber} \<Longrightarrow> w \<notin> busy p \<Longrightarrow>
    work_step cap p (p\<lparr>busy := insert w (busy p)\<rparr>)"
| taken: "can_go p QueryRelayer \<Longrightarrow> QueryRelayer \<notin> busy p \<Longrightarrow> queued p > 0 \<Longrightarrow>
    work_step cap p (p\<lparr>queued := queued p - 1, busy := insert QueryRelayer (busy p)\<rparr>)"
| handed: "can_go p QueryRelayer \<Longrightarrow> QueryRelayer \<notin> busy p \<Longrightarrow> sending p \<Longrightarrow> queued p = 0 \<Longrightarrow>
    work_step cap p (p\<lparr>sending := False, busy := insert QueryRelayer (busy p)\<rparr>)"
| finishes: "can_go p w \<Longrightarrow> w \<in> busy p \<Longrightarrow> work_step cap p (p\<lparr>busy := busy p - {w}\<rparr>)"
| stops: "can_go p w \<Longrightarrow> w \<notin> busy p \<Longrightarrow> cancelled p \<Longrightarrow> work_step cap p (p\<lparr>workers := workers p - {w}\<rparr>)"
| at_send: "can_go p QuerySubscriber \<Longrightarrow> QuerySubscriber \<in> busy p \<Longrightarrow> work_step cap p (p\<lparr>sending := True\<rparr>)"
| sent: "sending p \<Longrightarrow> \<not> crashed p \<Longrightarrow> queued p < cap \<Longrightarrow> work_step cap p (p\<lparr>sending := False, queued := queued p + 1\<rparr>)"
| closes: "workers p = {} \<Longrightarrow> \<not> crashed p \<Longrightarrow> \<not> closed p \<Longrightarrow> work_step cap p (p\<lparr>closed := True\<rparr>)"

text \<open>
  What else can happen: the signal; a goroutine that returns an error from its work - the web server
  from its \<open>select\<close> - and cancels the context (\<open>fails\<close>); one that takes the process down (\<open>panics\<close>).
\<close>

inductive proc_step :: "nat \<Rightarrow> process \<Rightarrow> process \<Rightarrow> bool" for cap where
  works: "work_step cap p p' \<Longrightarrow> proc_step cap p p'"
| signal: "\<not> crashed p \<Longrightarrow> proc_step cap p (p\<lparr>cancelled := True\<rparr>)"
| fails: "can_go p w \<Longrightarrow> w \<in> busy p \<or> w = WebServer \<Longrightarrow>
    proc_step cap p (p\<lparr>workers := workers p - {w}, busy := busy p - {w}, cancelled := True\<rparr>)"
| panics: "can_go p w \<Longrightarrow> proc_step cap p (p\<lparr>crashed := True\<rparr>)"

inductive_cases work_stepE: "work_step cap p p'"
inductive_cases proc_stepE: "proc_step cap p p'"

abbreviation runs_to :: "nat \<Rightarrow> process \<Rightarrow> process \<Rightarrow> bool" where
  "runs_to cap \<equiv> (proc_step cap)\<^sup>*\<^sup>*"

abbreviation works_to :: "nat \<Rightarrow> process \<Rightarrow> process \<Rightarrow> bool" where
  "works_to cap \<equiv> (work_step cap)\<^sup>*\<^sup>*"

section \<open>Shutdown\<close>

text \<open>
  The storage is closed only after every goroutine has ended; one ends only with the context
  cancelled; the queue stays within its capacity; only a running subscriber, at work, stands at the send.
\<close>

definition process_ok :: "nat \<Rightarrow> process \<Rightarrow> bool" where
  "process_ok cap p \<longleftrightarrow> (closed p \<longrightarrow> workers p = {}) \<and> (\<forall>w. w \<notin> workers p \<longrightarrow> cancelled p) \<and>
     queued p \<le> cap \<and> (sending p \<longrightarrow> QuerySubscriber \<in> workers p \<inter> busy p)"

lemma process_ok_work: "process_ok cap p \<Longrightarrow> work_step cap p p' \<Longrightarrow> process_ok cap p'"
  by (erule work_stepE; simp add: process_ok_def can_go_def; (blast | arith)?)

lemma process_ok_step: "process_ok cap p \<Longrightarrow> proc_step cap p p' \<Longrightarrow> process_ok cap p'"
  by (erule proc_stepE; (erule (1) process_ok_work)?; simp add: process_ok_def can_go_def; blast?)

lemma process_ok_runs: "runs_to cap started p \<Longrightarrow> process_ok cap p"
proof (induction rule: rtranclp_induct)
  case base
  show ?case using worker.exhaust by (auto simp: process_ok_def started_def)
qed (rule process_ok_step)

instantiation worker :: finite
begin

instance
proof
  show "finite (UNIV :: worker set)"
    using worker.exhaust by (intro finite_subset [of UNIV "{WebServer, StatusChecker, QuerySubscriber, QueryRelayer}"]) auto
qed

end

text \<open>Work in progress comes to an end, and then the goroutine stops: a cancelled process goes on to its end.\<close>

lemma worker_idle:
  assumes "can_go p w"
  shows "works_to cap p (p\<lparr>busy := busy p - {w}\<rparr>)"
proof (cases "w \<in> busy p")
  case True
  with assms show ?thesis by (intro r_into_rtranclp work_step.finishes)
next
  case False
  then have "p\<lparr>busy := busy p - {w}\<rparr> = p" by simp
  then show ?thesis by simp
qed

lemma worker_stops:
  assumes "can_go p w" "cancelled p"
  shows "works_to cap p (p\<lparr>busy := busy p - {w}, workers := workers p - {w}\<rparr>)"
proof -
  let ?q = "p\<lparr>busy := busy p - {w}\<rparr>"
  have "work_step cap ?q (?q\<lparr>workers := workers ?q - {w}\<rparr>)"
    using assms by (intro work_step.stops) (simp_all add: can_go_def)
  with worker_idle [OF assms(1), of cap] show ?thesis by (simp add: rtranclp.rtrancl_into_rtrancl)
qed

lemma shutdown_free:
  "cancelled p \<Longrightarrow> \<not> crashed p \<Longrightarrow> \<not> sending p \<Longrightarrow> \<not> closed p \<Longrightarrow> \<exists>p'. works_to cap p p' \<and> closed p'"
proof (induction "card (workers p)" arbitrary: p)
  case 0
  then have "workers p = {}" by simp
  with 0 show ?case by (intro exI [of _ "p\<lparr>closed := True\<rparr>"]) (auto intro: work_step.closes)
next
  case (Suc n)
  then obtain w where w: "w \<in> workers p" by (metis card.empty nat.distinct(1) ex_in_conv)
  let ?q = "p\<lparr>busy := busy p - {w}, workers := workers p - {w}\<rparr>"
  have "works_to cap p ?q" using Suc.prems w by (intro worker_stops) (simp_all add: can_go_def)
  moreover have "\<exists>p'. works_to cap ?q p' \<and> closed p'"
    using Suc.hyps(2) Suc.prems w by (intro Suc.hyps(1)) simp_all
  ultimately show ?case by (meson rtranclp_trans)
qed

text \<open>A send ends as long as there is room or the relayer still runs.\<close>

lemma send_ends:
  assumes "sending p" "\<not> crashed p" "queued p \<le> cap" "queued p < cap \<or> QueryRelayer \<in> workers p"
  shows "\<exists>q. works_to cap p q \<and> cancelled q = cancelled p \<and> \<not> crashed q \<and> \<not> sending q \<and> closed q = closed p"
proof (cases "queued p < cap")
  case True
  let ?q = "p\<lparr>sending := False, queued := queued p + 1\<rparr>"
  have "work_step cap p ?q" using True assms by (intro work_step.sent)
  with assms show ?thesis by (intro exI [of _ ?q]) (simp add: r_into_rtranclp)
next
  case full: False
  with assms have rl: "can_go p QueryRelayer" by (simp add: can_go_def)
  let ?i = "p\<lparr>busy := busy p - {QueryRelayer}\<rparr>"
  note idle = worker_idle [OF rl, of cap]
  have go: "can_go ?i QueryRelayer" "QueryRelayer \<notin> busy ?i" using rl by (simp_all add: can_go_def)
  show ?thesis
  proof (cases "queued p = 0")
    case True
    let ?q = "?i\<lparr>sending := False, busy := insert QueryRelayer (busy ?i)\<rparr>"
    have "work_step cap ?i ?q" using True assms go by (intro work_step.handed) simp_all
    with idle have "works_to cap p ?q" by (rule rtranclp.rtrancl_into_rtrancl)
    with assms show ?thesis by (intro exI [of _ ?q]) simp
  next
    case False
    let ?r = "?i\<lparr>queued := queued ?i - 1, busy := insert QueryRelayer (busy ?i)\<rparr>"
    let ?q = "?r\<lparr>sending := False, queued := queued ?r + 1\<rparr>"
    have "work_step cap ?i ?r" using False go by (intro work_step.taken) simp_all
    moreover have "work_step cap ?r ?q" using False assms full by (intro work_step.sent) simp_all
    ultimately have "works_to cap p ?q" using idle by (meson rtranclp.rtrancl_into_rtrancl)
    with assms show ?thesis by (intro exI [of _ ?q]) simp
  qed
qed

text \<open>
  Otherwise it does not: the relayer has ended, the queue is full, and the subscriber stands at a
  send that no one will receive and that does not watch the context. \<open>wg.Wait()\<close> never returns.
\<close>

definition stuck :: "nat \<Rightarrow> process \<Rightarrow> bool" where
  "stuck cap p \<longleftrightarrow> sending p \<and> QuerySubscriber \<in> workers p \<and> QueryRelayer \<notin> workers p \<and> cap \<le> queued p"

lemma stuck_work: "stuck cap p \<Longrightarrow> work_step cap p p' \<Longrightarrow> stuck cap p' \<and> closed p' = closed p"
  by (erule work_stepE; simp add: stuck_def can_go_def; blast?)

lemma stuck_step: "stuck cap p \<Longrightarrow> proc_step cap p p' \<Longrightarrow> stuck cap p' \<and> closed p' = closed p"
  by (erule proc_stepE; (erule (1) stuck_work)?; simp add: stuck_def can_go_def; blast?)

lemma stuck_forever:
  assumes "runs_to cap p p'" "stuck cap p"
  shows "stuck cap p' \<and> closed p' = closed p"
  using assms by (induction rule: rtranclp_induct) (auto dest: stuck_step)

lemma works_to_runs: "works_to cap p p' \<Longrightarrow> runs_to cap p p'"
  by (induction rule: rtranclp_induct) (auto intro: proc_step.works rtranclp.rtrancl_into_rtrancl)

lemma works_to_ok:
  assumes "works_to cap p p'" "process_ok cap p" "\<not> crashed p"
  shows "process_ok cap p' \<and> \<not> crashed p'"
  using assms
proof (induction rule: rtranclp_induct)
  case (step y z)
  from step.hyps(2) step.IH step.prems have "crashed z = crashed y" by (elim work_stepE) simp_all
  with step process_ok_work show ?case by blast
qed simp

text \<open>A cancelled process ends by itself, with the storage closed, exactly when it is not stuck.\<close>

lemma shutdown_iff:
  assumes ok: "process_ok cap p" "cancelled p" "\<not> crashed p"
  shows "(\<exists>p'. works_to cap p p' \<and> closed p') \<longleftrightarrow> \<not> stuck cap p"
proof
  assume "\<exists>p'. works_to cap p p' \<and> closed p'"
  then obtain p' where p': "works_to cap p p'" "closed p'" by blast
  show "\<not> stuck cap p"
  proof
    assume stuck: "stuck cap p"
    with ok(1) have "\<not> closed p" by (auto simp: stuck_def process_ok_def)
    with stuck_forever [OF works_to_runs [OF p'(1)] stuck] p'(2) show False by simp
  qed
next
  assume free: "\<not> stuck cap p"
  consider "closed p" | "\<not> closed p" "\<not> sending p" | "\<not> closed p" "sending p" by blast
  then show "\<exists>p'. works_to cap p p' \<and> closed p'"
  proof cases
    case 3
    with ok(1) free have "queued p \<le> cap" "queued p < cap \<or> QueryRelayer \<in> workers p"
      by (auto simp: stuck_def process_ok_def)
    from send_ends [OF 3(2) ok(3) this] 3(1) ok(2) shutdown_free show ?thesis by (meson rtranclp_trans)
  qed (use ok shutdown_free in blast)+
qed

text \<open>
  A cancelled process is stuck when the relayer has stopped while the queue is full. (Having loaded
  the queries the subscriber finishes and begins with a block; the state is then \<open>started\<close> again, and
  it sends from there.)
\<close>

lemma fill_queue:
  "n \<le> cap \<Longrightarrow> runs_to cap started (started\<lparr>queued := n\<rparr>)"
proof (induction n)
  case (Suc n)
  let ?p = "started\<lparr>queued := n\<rparr>"
  let ?s = "?p\<lparr>sending := True\<rparr>"
  let ?q = "?s\<lparr>sending := False, queued := queued ?s + 1\<rparr>"
  have "proc_step cap ?p ?s" by (intro proc_step.works work_step.at_send) (simp_all add: can_go_def started_def)
  moreover have "proc_step cap ?s ?q" using Suc.prems by (intro proc_step.works work_step.sent) (simp_all add: started_def)
  moreover have "?q = started\<lparr>queued := Suc n\<rparr>" by (simp add: started_def)
  ultimately show ?case using Suc by (metis Suc_leD rtranclp.rtrancl_into_rtrancl)
next
  case 0
  have "started\<lparr>queued := 0\<rparr> = started" by (simp add: started_def)
  then show ?case by simp
qed

lemma stuck_reachable:
  "\<exists>p. runs_to cap started p \<and> cancelled p \<and> \<not> crashed p \<and> \<not> closed p \<and> stuck cap p"
proof -
  let ?p = "started\<lparr>queued := cap\<rparr>"
  let ?s = "?p\<lparr>sending := True\<rparr>"
  let ?c = "?s\<lparr>cancelled := True\<rparr>"
  let ?q = "?c\<lparr>workers := workers ?c - {QueryRelayer}\<rparr>"
  have "runs_to cap started ?p" by (rule fill_queue) simp
  moreover have "proc_step cap ?p ?s" by (intro proc_step.works work_step.at_send) (simp_all add: can_go_def started_def)
  moreover have "proc_step cap ?s ?c" by (intro proc_step.signal) (simp add: started_def)
  moreover have "proc_step cap ?c ?q" by (intro proc_step.works work_step.stops) (simp_all add: can_go_def started_def)
  ultimately have "runs_to cap started ?q" by (metis rtranclp.rtrancl_into_rtrancl)
  moreover have "stuck cap ?q" "cancelled ?q" "\<not> crashed ?q" "\<not> closed ?q"
    by (simp_all add: stuck_def started_def)
  ultimately show ?thesis by blast
qed

end
