(* ===== verification/Props_App.thy ===== *)
theory Props_App
  imports Props_Query Props_Chain Props_Subscriber Start
begin

text \<open>
  The properties of the construction of the program (\<open>internal/app\<close>, \<open>startRelayer\<close>), on a
  platform of the sample world.
\<close>

section \<open>A platform\<close>

definition sample_connection :: ConnectionBody where
  "sample_connection = \<lparr>Connection = Some \<lparr>cb_ClientID = ''07-tendermint-0'',
       Counterparty = Some \<lparr>co_ClientID = ''07-tendermint-9'', co_ConnectionID = ''connection-9'', co_Prefix = None\<rparr>,
       cb_DelayPeriod = [], cb_State = Some ''STATE_OPEN'', cb_Versions = None\<rparr>,
     ob_Proof = [], ob_ProofHeight = None\<rparr>"

definition sample_platform ::
  "(world, unit, unit, unit, string, unit, unit, float64, string, unit, unit, unit, string, unit, unit, unit, unit) platform" where
  "sample_platform = \<lparr>
     pf_NewRPCClient = (\<lambda>a t w. (Ok a, w)), pf_NewRESTClient = (\<lambda>a. Ok ()), pf_Status = (\<lambda>n w. (Ok n, w)),
     pf_Connection = (\<lambda>c i w. (Ok sample_connection, w)), pf_retry = retry_attempts 3,
     pf_ABCIQuery = (\<lambda>n p d h prove w. (Ok \<lparr>ab_Value = ''v'', ab_ProofOps = ''p'', ab_Height = 99\<rparr>, w)),
     pf_codec = \<lparr>NewInterfaceRegistry = Pair (), NewProtoCodec = (\<lambda>r. Pair ()), NewLegacyAmino = Pair (),
       NewBasicManager = (\<lambda>ms. Pair ()), std_RegisterLegacyAminoCodec = (\<lambda>a. Pair (Ok ())),
       std_RegisterInterfaces = (\<lambda>r. Pair (Ok ())), bm_RegisterLegacyAminoCodec = (\<lambda>b a. Pair (Ok ())),
       bm_RegisterInterfaces = (\<lambda>b r. Pair (Ok ()))\<rparr>,
     pf_keyring_New = (\<lambda>a b c d. Ok ()), pf_sender = (\<lambda>n c kb. sample_sender 0),
     pf_chains = \<lparr>newProvider = (\<lambda>cfg home dbg i. Ok ()), as_cosmos = (\<lambda>p. True), setKeyDirectory = (\<lambda>h p. p),
       newChain = (\<lambda>p d. ''chain''), Bech32MainPrefix = ''neutron''\<rparr>,
     pf_AddPath = (\<lambda>client conn ch. Ok ch), pf_Init = (\<lambda>ch w. (Ok (), w)), pf_PathClientID = (\<lambda>ch. ''07-tendermint-0''),
     pf_QueryLatestHeight = (\<lambda>ch w. (Ok 100, w)), pf_mk_msg = (\<lambda>m. ''result''), pf_msg_Validate = (\<lambda>m. Ok ()),
     pf_txquerier = (\<lambda>n. sample_node []), pf_pages = 100, pf_fetcher = (\<lambda>a b. sample_thf),
     pf_MsgUpdateClient = (\<lambda>ch c h w. (Ok (CosmosMessage ''update''), w)), pf_retry_header = retry_attempts 3,
     pf_retry_msg = retry_attempts 3, pf_retry_tx = retry_attempts 3,
     pf_Tx = (\<lambda>n b w. (Ok \<lparr>tr_Code = 0, tr_Log = []\<rparr>, w)), pf_runtime = sample_runtime,
     pf_regexp = (\<lambda>p. Some default_ignores), pf_tmhash = sample_tmhash, pf_pack = (\<lambda>h. Ok ()),
     pf_unmarshal_filter = (\<lambda>f. Ok []), pf_float_conv = (\<lambda>x. 0)\<rparr>"

section \<open>The connection\<close>

lemma sample_conn: "loadConnParams (\<lambda>a. Ok ()) (\<lambda>n w. (Ok n, w)) (\<lambda>c i w. (Ok sample_connection, w)) (retry_attempts 3)
     n t a i w = (Ok \<lparr>neutronChainID = n, neutronClientID = ''07-tendermint-0'', targetChainID = t,
       targetClientID = ''07-tendermint-9'', targetConnectionID = ''connection-9''\<rparr>, w)"
  by (simp add: loadConnParams_def numeral_3_eq_3 query_connection_def sample_connection_def conn_params_def)

section \<open>The program\<close>

text \<open>
  C38: what \<open>startRelayer\<close> builds is wired as \<open>program_lifecycle\<close> asks: the relayer, its processors of
  transactions and of KV queries, the checker of submitted transactions and the processor given
  to the web server all work on one storage, the relayer with the configuration that was read;
  relayer and web server name a transaction by the same hash, so that a status written by one is
  found by the other, and both kinds of queries go out through one submitter.
\<close>

theorem one_storage:
  fixes P :: "('s, 'r, 'x, 'y, 'm, 'b, 'k, 'e, 'n, 'w, 'kb, 'p, 'ch, 'ir, 'mc, 'am, 'bm) platform"
  assumes "startRelayer newLoggers process open_file storage_of newSubscriber P s = (Inr c, s')"
  shows "rl_cfg (cm_relayer c) = cm_cfg c \<and>
    (\<exists>(p :: ('s, 'r, 'x, 'y, 'm) TXProcessorSrv) (kv :: ('s, 'r, 'x, 'y, 'm) KVProcessorSrv).
       dc_txProcessor (cm_deps c) = TXProcessorOf p \<and> txp_storage p = cm_storage c \<and>
       txp_submitter p = dc_proofSubmitter (cm_deps c) \<and> kvp_submitter kv = dc_proofSubmitter (cm_deps c) \<and>
       program_wired (cm_storage c) p kv (cm_relayer c) (cm_checker c))"
  by (rule startRelayer_shares [OF assms])

definition sample_start where
  "sample_start = startRelayer (\<lambda>names. Ok ()) (\<lambda>prefix. Ok sample_cfg) (\<lambda>path. Ok ()) (\<lambda>d. sample_storage)
     (NewDefaultSubscriber (\<lambda>a t. Ok ()) (\<lambda>a t. Ok ()) (\<lambda>a b. sample_subscriber)) sample_platform world0"

lemma sample_starts: "\<exists>c w. sample_start = (Inr c, w)"
proof -
  have tx: "\<exists>t w'. NewTxSender (sample_sender 0) (NeutronChain sample_cfg) i w = (Inr t, w')" for i w
    by (simp add: NewTxSender_def WithGasPrices_def sample_cfg_def Let_def refreshAccountInfo_def SenderAddr_def queryAccount_def sample_sender_def)
  have sub: "\<exists>S w'. NewDefaultSubscriber (\<lambda>a t. Ok ()) (\<lambda>a t. Ok ()) (\<lambda>a b. sample_subscriber) cfg w = (Inr S, w')" for cfg w
    by (simp add: NewDefaultSubscriber_def NewSubscriber_def sample_subscriber_def)
  have chains: "loadChains sample_platform cfg cp w = (Ok (''chain'', ''chain''), w)" for cfg cp w
    by (simp add: loadChains_def GetTargetChain_def GetNeutronChain_def getChain_def sample_platform_def Let_def)
  have txp: "\<exists>r. default_TxProcessor sample_platform f st sb cfg = Inr r" for f st sb cfg
    by (simp add: default_TxProcessor_def NewTxProcessor_def sample_platform_def)
  have deps: "\<exists>d w'. NewDefaultDependencyContainer sample_platform sample_cfg st w = (Inr d, w')" for st w
  proof -
    let ?cfg = sample_cfg
    obtain t w' where t: "NewTxSender (sample_sender 0) (NeutronChain ?cfg) (nc_RPCAddr (NeutronChain ?cfg)) w = (Inr t, w')"
      using tx by blast
    let ?sb = "SubmitterOf (NewSubmitterImpl t (AllowKVCallbacks ?cfg) (pf_PathClientID sample_platform ''chain'')
      (pf_mk_msg sample_platform) (pf_msg_Validate sample_platform))"
    obtain r where "default_TxProcessor sample_platform (TrustedHeaderFetcherOf (pf_pages sample_platform)
        (pf_fetcher sample_platform ''chain'' ''chain'')) st ?sb ?cfg = Inr r" using txp by blast
    then show ?thesis
      using t by (simp add: NewDefaultDependencyContainer_def chains NewQuerier_def TestKeybase_def
          MakeCodecDefault_def MakeCodec_def MakeCodecConfig_def Let_def)
        (simp add: sample_platform_def sample_conn)
  qed
  have relayer: "\<exists>r. NewDefaultRelayer sample_platform cfg st d = Inr r" for cfg st d
    using txp [of "dc_trustedHeaderFetcher d" st "dc_proofSubmitter d" cfg] by (auto simp: NewDefaultRelayer_def Let_def)
  have checker: "\<exists>k. NewDefaultTxSubmitChecker sample_platform cfg st w = (Inr k, w)" for cfg st w
    by (simp add: NewDefaultTxSubmitChecker_def sample_platform_def)
  obtain S w1 where 1: "NewDefaultSubscriber (\<lambda>a t. Ok ()) (\<lambda>a t. Ok ()) (\<lambda>a b. sample_subscriber) sample_cfg world0 = (Inr S, w1)"
    using sub by blast
  obtain d w2 where 2: "NewDefaultDependencyContainer sample_platform sample_cfg sample_storage w1 = (Inr d, w2)"
    using deps by blast
  obtain r where 3: "NewDefaultRelayer sample_platform sample_cfg sample_storage d = Inr r" using relayer by blast
  obtain k where 4: "NewDefaultTxSubmitChecker sample_platform sample_cfg sample_storage w2 = (Inr k, w2)"
    using checker by blast
  have cap: "\<not> QueriesTaskQueueCapacity sample_cfg < 0" by (simp add: sample_cfg_def)
  show ?thesis
    by (simp add: sample_start_def startRelayer_def NewNeutronQueryRelayerConfig_def NewDefaultStorage_def
        NewLevelDBStorage_def Let_def cap 1 2 3 4)
qed

theorem one_storage_witness:
  "\<exists>c w. sample_start = (Inr c, w) \<and> rl_storage (cm_relayer c) = tc_storage (cm_checker c) \<and>
     rl_cfg (cm_relayer c) = cm_cfg c"
proof -
  obtain c w where run: "sample_start = (Inr c, w)" using sample_starts by blast
  from one_storage [OF run [unfolded sample_start_def]] run show ?thesis
    by (auto simp: program_wired_def relayer_uses_def)
qed

end
