(* ===== verification/Relay_Pipeline.thy ===== *)
theory Relay_Pipeline
  imports Relayer Tx_Querier "HOL-Library.Sublist"
begin

text \<open>
  The concurrency inside one TX query. \<open>SearchTransactions\<close> (\<open>internal/txquerier\<close>) starts a
  goroutine that sends the transactions it finds into a buffered channel, and \<open>processMessageTX\<close>
  (\<open>internal/relay/relayer.go\<close>) takes them from it while the search goes on. Elsewhere the search is
  a function that returns the list of what it delivered; here both run as processes, and every
  interleaving is shown to end as that function and the loop over its list do.
\<close>

section \<open>The searching goroutine\<close>

text \<open>
  \<open>Offering\<close> is the select between the send and the end of the context. \<open>Finished e\<close>: both
  channels are closed, with \<open>e\<close> sent on the channel of errors; \<open>Crashed\<close>: a panic.
\<close>

datatype 'r producer =
    Searching int
  | Sending int int "ResultTx list"
  | Offering int int "'r Transaction" "ResultTx list"
  | Finished "goerr option"
  | Crashed fault

definition search_answer :: "int \<Rightarrow> ResultTxSearch res \<Rightarrow> 'r producer" where
  "search_answer page x = (case x of
     Inl (GoErr err) \<Rightarrow> Finished (Some (ErrWrap ''could not query new transactions to proof'' err))
   | Inl f \<Rightarrow> Crashed f
   | Inr searchResult \<Rightarrow>
       if length (Txs searchResult) = 0 then Finished None
       else Sending page (TotalCount searchResult) (Txs searchResult))"

definition proof_answer ::
  "('p, 'r) TXQuerierSrv \<Rightarrow> int \<Rightarrow> int \<Rightarrow> ResultTx \<Rightarrow> ResultTx list \<Rightarrow> (crypto_Proof \<times> 'r) res \<Rightarrow> 'r producer" where
  "proof_answer t page count tx txs x = (case x of
     Inl (GoErr err) \<Rightarrow>
       Finished (Some (ErrWrap (''could not proof transaction with hash='' @ tx_String t (rx_Tx tx)) err))
   | Inl f \<Rightarrow> Crashed f
   | Inr (deliveryProof, deliveryResult) \<Rightarrow>
       Offering page count \<lparr>Tx = Some \<lparr>InclusionProof = cryptoProofFromMerkleProof (rx_Proof tx),
         DeliveryProof = deliveryProof, Response = deliveryResult, Data = rx_Tx tx\<rparr>, Height = rx_Height tx\<rparr> txs)"

definition page_done :: "int \<Rightarrow> int \<Rightarrow> 'r producer" where
  "page_done page count = (if page * perPage \<ge> count then Finished None else Searching (page + 1))"

section \<open>The relaying loop\<close>

text \<open>One turn of the loop over the channel, and what follows it.\<close>

definition relay_one :: "('s, 'r) Relayer \<Rightarrow> u64 \<Rightarrow> u64 \<Rightarrow> 'r Transaction \<Rightarrow> 's \<Rightarrow> u64 res \<times> 's" where
  "relay_one r q lastHeight tx s =
     go_then
       (if Height tx > lastHeight \<and> lastHeight > 0 then
          go_try (st_SetLastQueryHeight (rl_storage r) q lastHeight s)
            ''failed to save last height of query'' (\<lambda>_ s. (Ok (), s))
        else (Ok (), s)) (\<lambda>_ s.
     (case Tx tx of
        None \<Rightarrow> (Panic ''nil pointer dereference'', s)
      | Some v \<Rightarrow>
          go_try (st_TxExists (rl_storage r) q (hex_encode (rl_tmhash r (Data v))) s)
            ''failed to check tx existence'' (\<lambda>txExists s.
          if txExists then (Ok (Height tx), s)
          else go_try (tp_ProcessAndSubmit (rl_txProcessor r) q tx s) ''failed to process txs'' (\<lambda>_ s.
            (Ok (Height tx), s)))))"

definition finish_message :: "('s, 'r) Relayer \<Rightarrow> u64 \<Rightarrow> goerr option \<Rightarrow> u64 \<Rightarrow> 's \<Rightarrow> unit res \<times> 's" where
  "finish_message r q stoppedWithErr lastProcessedHeight s = (case stoppedWithErr of
     Some e \<Rightarrow> (Err (ErrWrap ''failed to query txs'' e), s)
   | None \<Rightarrow>
       if lastProcessedHeight > 0 then
         go_try (st_SetLastQueryHeight (rl_storage r) q lastProcessedHeight s)
           ''failed to save last height of query'' (\<lambda>_ s. (Ok (), s))
       else (Ok (), s))"

text \<open>The function that stands for both elsewhere, over the list of what was delivered.\<close>

definition relay_found ::
  "('s, 'r) Relayer \<Rightarrow> u64 \<Rightarrow> 'r Transaction list \<Rightarrow> goerr option \<Rightarrow> 's \<Rightarrow> unit res \<times> 's" where
  "relay_found r q txs e s = go_then (relay_txs r q txs 0 s) (\<lambda>h s. finish_message r q e h s)"

lemma processMessageTX_found:
  "processMessageTX r m s =
     go_try (buildTxQuery r m s) ''failed to build tx query string'' (\<lambda>queryString s.
     go_then (tq_SearchTransactions (rl_txQuerier r) queryString s) (\<lambda>(txs, e) s.
     relay_found r (tx_QueryId m) txs e s))"
  by (simp add: processMessageTX_def relay_found_def finish_message_def cong: option.case_cong)

lemma relay_txs_one: "relay_txs r q (tx # txs) h s = go_then (relay_one r q h tx s) (relay_txs r q txs)"
  by (auto simp: relay_one_def go_then_def go_try_def Let_def split: option.splits sum.splits prod.splits)

lemma relay_txs_append:
  "relay_txs r q (xs @ ys) h s = go_then (relay_txs r q xs h s) (relay_txs r q ys)"
  by (induction xs arbitrary: h s)
    (auto simp: relay_txs_one go_then_def simp del: relay_txs.simps(2) split: sum.splits prod.splits)

section \<open>Both together\<close>

datatype consumer = Receiving u64 | ReturnedWith "unit res"

text \<open>
  \<open>pp_node\<close> is what the search sees of the target chain, \<open>pp_state\<close> what the relayer sees; the search
  does not look at the storage. \<open>pp_taken\<close> and \<open>pp_pages\<close> only record what has happened.
\<close>

record ('p, 's, 'r) pipe =
  pp_producer :: "'r producer"
  pp_node :: 'p
  pp_chan :: "'r Transaction list"
  pp_consumer :: consumer
  pp_state :: 's
  pp_cancelled :: bool
  pp_taken :: "'r Transaction list"
  pp_pages :: nat

definition pipe_init :: "'p \<Rightarrow> 's \<Rightarrow> ('p, 's, 'r) pipe" where
  "pipe_init p s = \<lparr>pp_producer = Searching 1, pp_node = p, pp_chan = [], pp_consumer = Receiving 0, pp_state = s,
     pp_cancelled = False, pp_taken = [], pp_pages = 0\<rparr>"

text \<open>The search's context ends with its parent or when \<open>processMessageTX\<close> returns (\<open>defer cancel()\<close>).\<close>

definition search_cancelled :: "('p, 's, 'r) pipe \<Rightarrow> bool" where
  "search_cancelled P \<longleftrightarrow> pp_cancelled P \<or> (\<exists>x. pp_consumer P = ReturnedWith x)"

definition TxsChanSize :: nat where
  "TxsChanSize = 100"

text \<open>
  \<open>cap\<close> is the capacity of the channel, \<open>TxsChanSize\<close>. A call to the node whose context has ended may fail with any error.
  \<open>drained\<close>: the channel is closed and empty.
\<close>

inductive pipe_step ::
  "nat \<Rightarrow> ('p, 'r) TXQuerierSrv \<Rightarrow> string \<Rightarrow> ('s, 'r) Relayer \<Rightarrow> u64 \<Rightarrow>
   ('p, 's, 'r) pipe \<Rightarrow> ('p, 's, 'r) pipe \<Rightarrow> bool" for cap t query r q where
  searched: "pp_producer P = Searching page \<Longrightarrow>
     TxSearch t query True page perPage orderBy (pp_node P) = (x, p') \<Longrightarrow>
     pipe_step cap t query r q P
       (P\<lparr>pp_producer := search_answer page x, pp_node := p', pp_pages := Suc (pp_pages P)\<rparr>)"
| proved: "pp_producer P = Sending page count (tx # txs) \<Longrightarrow>
     proofDelivery t (rx_Height tx) (rx_Index tx) (pp_node P) = (x, p') \<Longrightarrow>
     pipe_step cap t query r q P (P\<lparr>pp_producer := proof_answer t page count tx txs x, pp_node := p'\<rparr>)"
| paged: "pp_producer P = Sending page count [] \<Longrightarrow>
     pipe_step cap t query r q P (P\<lparr>pp_producer := page_done page count\<rparr>)"
| sent: "pp_producer P = Offering page count tx txs \<Longrightarrow> length (pp_chan P) < cap \<Longrightarrow>
     pipe_step cap t query r q P (P\<lparr>pp_producer := Sending page count txs, pp_chan := pp_chan P @ [tx]\<rparr>)"
| gave_up: "pp_producer P = Offering page count tx txs \<Longrightarrow> search_cancelled P \<Longrightarrow>
     pipe_step cap t query r q P (P\<lparr>pp_producer := Finished None\<rparr>)"
| call_failed: "pp_producer P = Searching page \<or> pp_producer P = Sending page count (tx # txs) \<Longrightarrow>
     search_cancelled P \<Longrightarrow> pipe_step cap t query r q P (P\<lparr>pp_producer := Finished (Some e)\<rparr>)"
| taken: "pp_consumer P = Receiving h \<Longrightarrow> pp_chan P = tx # rest \<Longrightarrow> relay_one r q h tx (pp_state P) = (x, s') \<Longrightarrow>
     pipe_step cap t query r q P (P\<lparr>pp_chan := rest, pp_taken := pp_taken P @ [tx], pp_state := s',
       pp_consumer := (case x of Inr h' \<Rightarrow> Receiving h' | Inl f \<Rightarrow> ReturnedWith (Inl f))\<rparr>)"
| drained: "pp_consumer P = Receiving h \<Longrightarrow> pp_chan P = [] \<Longrightarrow> pp_producer P = Finished e \<Longrightarrow>
     finish_message r q e h (pp_state P) = (x, s') \<Longrightarrow>
     pipe_step cap t query r q P (P\<lparr>pp_state := s', pp_consumer := ReturnedWith x\<rparr>)"

inductive_cases pipe_stepE: "pipe_step cap t query r q P P'"

text \<open>A run of the program, in which the parent context may end at any moment.\<close>

inductive pipe_runs ::
  "nat \<Rightarrow> ('p, 'r) TXQuerierSrv \<Rightarrow> string \<Rightarrow> ('s, 'r) Relayer \<Rightarrow> u64 \<Rightarrow>
   ('p, 's, 'r) pipe \<Rightarrow> ('p, 's, 'r) pipe \<Rightarrow> bool" for cap t query r q P0 where
  start: "pipe_runs cap t query r q P0 P0"
| step: "pipe_runs cap t query r q P0 P \<Longrightarrow> pipe_step cap t query r q P P' \<Longrightarrow> pipe_runs cap t query r q P0 P'"
| cancel: "pipe_runs cap t query r q P0 P \<Longrightarrow> pipe_runs cap t query r q P0 (P\<lparr>pp_cancelled := True\<rparr>)"

section \<open>What is left of a search\<close>

definition page_rest ::
  "nat \<Rightarrow> ('p, 'r) TXQuerierSrv \<Rightarrow> string \<Rightarrow> int \<Rightarrow> int \<Rightarrow> ('r Transaction list \<times> page_end) res \<times> 'p \<Rightarrow>
   ('r Transaction list \<times> goerr option) res \<times> 'p" where
  "page_rest F t query page count m = go_then m (\<lambda>(sent, e) s. case e of
     Failed err \<Rightarrow> (Ok (sent, Some err), s)
   | Returned \<Rightarrow> (Ok (sent, None), s)
   | PageSent \<Rightarrow> if page * perPage \<ge> count then (Ok (sent, None), s) else search_loop F t query (page + 1) sent s)"

fun search_rest ::
  "nat \<Rightarrow> ('p, 'r) TXQuerierSrv \<Rightarrow> string \<Rightarrow> 'r producer \<Rightarrow> 'r Transaction list \<Rightarrow> 'p \<Rightarrow>
   ('r Transaction list \<times> goerr option) res \<times> 'p" where
  "search_rest F t query (Searching page) done p = search_loop F t query page done p"
| "search_rest F t query (Sending page count txs) done p = page_rest F t query page count (send_page t txs done p)"
| "search_rest F t query (Offering page count tx txs) done p =
     page_rest F t query page count (send_page t txs (done @ [tx]) p)"
| "search_rest F t query (Finished e) done p = (Ok (done, e), p)"
| "search_rest F t query (Crashed f) done p = (Inl f, p)"

lemma page_rest_simps [simp]:
  "page_rest F t query page count (Inl f, s) = (Inl f, s)"
  "page_rest F t query page count (Inr (sent, Failed err), s) = (Ok (sent, Some err), s)"
  "page_rest F t query page count (Inr (sent, Returned), s) = (Ok (sent, None), s)"
  "page_rest F t query page count (Inr (sent, PageSent), s) =
     (if page * perPage \<ge> count then (Ok (sent, None), s) else search_loop F t query (page + 1) sent s)"
  by (simp_all add: page_rest_def)

lemma page_rest_cases:
  assumes "page_rest F t query page count m = (Inr y, p')"
  obtains sent e s where "m = (Inr (sent, e), s)" "y = (sent, None)" "p' = s" "e = Returned \<or> e = PageSent \<and> page * perPage \<ge> count"
  | sent err s where "m = (Inr (sent, Failed err), s)" "y = (sent, Some err)" "p' = s"
  | sent s where "m = (Inr (sent, PageSent), s)" "\<not> page * perPage \<ge> count" "search_loop F t query (page + 1) sent s = (Inr y, p')"
proof -
  obtain x s where m: "m = (x, s)" by fastforce
  show thesis
  proof (cases x)
    case (Inr z)
    obtain sent e where z: "z = (sent, e)" by fastforce
    with assms m Inr that show thesis by (cases e) (auto split: if_splits)
  qed (use assms m in simp)
qed

lemma search_loop_rest:
  "TxSearch t query True page perPage orderBy p = (x, p') \<Longrightarrow>
   search_loop (Suc F) t query page done p = search_rest F t query (search_answer page x) done p'"
  by (auto simp: search_answer_def page_rest_def split: sum.splits fault.splits)

lemma page_done_rest:
  "search_rest F t query (Sending page count []) done p = search_rest F t query (page_done page count) done p"
  by (simp add: page_rest_def page_done_def)

lemma proof_rest:
  assumes "\<And>p. ctx_done t p = (False, p)" "proofDelivery t (rx_Height tx) (rx_Index tx) p = (x, p')"
  shows "search_rest F t query (Sending page count (tx # txs)) done p =
    search_rest F t query (proof_answer t page count tx txs x) done p'"
  using assms by (auto simp: proof_answer_def page_rest_def Let_def split: sum.splits fault.splits)

text \<open>More fuel does not change a result, and what was sent stays sent.\<close>

lemma page_rest_mono:
  assumes "\<And>sent s. search_loop F t query (page + 1) sent s = (Inr y, p') \<Longrightarrow> search_loop F' t query (page + 1) sent s = (Inr y, p')"
    "page_rest F t query page count m = (Inr y, p')"
  shows "page_rest F' t query page count m = (Inr y, p')"
  using assms(2) by (rule page_rest_cases) (auto simp: assms(1))

lemma search_loop_fuel:
  "search_loop F t query page done p = (Inr y, p') \<Longrightarrow> F \<le> F' \<Longrightarrow> search_loop F' t query page done p = (Inr y, p')"
proof (induction F arbitrary: F' page "done" p)
  case (Suc F)
  then obtain F'' where F'': "F' = Suc F''" "F \<le> F''" by (cases F') auto
  obtain x p1 where x: "TxSearch t query True page perPage orderBy p = (x, p1)" by fastforce
  note mono = page_rest_mono [of F t query page y p' F'', OF Suc.IH [OF _ F''(2)]]
  from Suc.prems(1) show ?case
    unfolding F''(1) search_loop_rest [OF x]
    by (auto simp: search_answer_def intro: mono split: sum.splits fault.splits if_splits)
qed simp

lemma send_page_prefix: "send_page t txs done p = (Inr (sent, e), p') \<Longrightarrow> prefix done sent"
proof (induction t txs "done" p rule: send_page.induct)
  case (2 t tx txs "done" s)
  obtain x s1 where x: "proofDelivery t (rx_Height tx) (rx_Index tx) s = (x, s1)" by fastforce
  show ?case
  proof (cases x)
    case (Inl f)
    with 2(2) x show ?thesis by (cases f) auto
  next
    case (Inr y)
    obtain a b where y: "y = (a, b)" by fastforce
    obtain fin s2 where fin: "ctx_done t s1 = (fin, s2)" by fastforce
    note IH = 2(1) [of x s1 y a b _ fin s2, OF x [symmetric] Inr y [symmetric] refl fin [symmetric]]
    from 2(2) x Inr y fin IH show ?thesis by (cases fin) (auto simp: Let_def dest: append_prefixD)
  qed
qed simp

lemma page_rest_prefix:
  assumes "\<And>sent' s. search_loop F t query (page + 1) sent' s = (Inr (sent, e), p') \<Longrightarrow> prefix sent' sent"
    "page_rest F t query page count (send_page t txs done p) = (Inr (sent, e), p')"
  shows "prefix done sent"
  using assms(2) by (rule page_rest_cases) (auto dest!: send_page_prefix assms(1) intro: prefix_order.trans)

lemma search_loop_prefix: "search_loop F t query page done p = (Inr (sent, e), p') \<Longrightarrow> prefix done sent"
proof (induction F arbitrary: page "done" p)
  case (Suc F)
  obtain x p1 where x: "TxSearch t query True page perPage orderBy p = (x, p1)" by fastforce
  note rest = page_rest_prefix [of F t query page sent e p', OF Suc.IH]
  from Suc.prems show ?case
    unfolding search_loop_rest [OF x]
    by (auto simp: search_answer_def intro: rest split: sum.splits fault.splits if_splits)
qed simp

lemma search_rest_prefix:
  "search_rest F t query pr done p = (Inr (sent, e), p') \<Longrightarrow> prefix done sent"
  by (cases pr) (auto dest!: search_loop_prefix send_page_prefix append_prefixD elim!: page_rest_cases intro: prefix_order.trans)

section \<open>The invariant\<close>

text \<open>
  As long as the search was not cut short, what is left of it completes what it has sent to what
  the whole search sends; afterwards it has sent a part of that. The relayer is where the loop is
  after the transactions taken.
\<close>

definition pipe_sent :: "('p, 's, 'r) pipe \<Rightarrow> 'r Transaction list" where
  "pipe_sent P = pp_taken P @ pp_chan P"

definition search_whole ::
  "('p, 'r) TXQuerierSrv \<Rightarrow> string \<Rightarrow> 'p \<Rightarrow> ('p, 's, 'r) pipe \<Rightarrow> bool" where
  "search_whole t query p0 P \<longleftrightarrow> (\<forall>F. search_loop (pp_pages P + F) t query 1 [] p0 =
     search_rest F t query (pp_producer P) (pipe_sent P) (pp_node P))"

definition search_part ::
  "('p, 'r) TXQuerierSrv \<Rightarrow> string \<Rightarrow> 'p \<Rightarrow> ('p, 's, 'r) pipe \<Rightarrow> bool" where
  "search_part t query p0 P \<longleftrightarrow> (\<exists>e. pp_producer P = Finished e) \<and>
     (\<forall>F all e p. search_loop F t query 1 [] p0 = (Inr (all, e), p) \<longrightarrow> prefix (pipe_sent P) all)"

definition relayer_at :: "('s, 'r) Relayer \<Rightarrow> u64 \<Rightarrow> 's \<Rightarrow> ('p, 's, 'r) pipe \<Rightarrow> bool" where
  "relayer_at r q s0 P \<longleftrightarrow> (case pp_consumer P of
     Receiving h \<Rightarrow> relay_txs r q (pp_taken P) 0 s0 = (Inr h, pp_state P)
   | ReturnedWith x \<Rightarrow>
       (\<exists>f. relay_txs r q (pp_taken P) 0 s0 = (Inl f, pp_state P) \<and> x = Inl f) \<or>
       (\<exists>e h s. pp_chan P = [] \<and> pp_producer P = Finished e \<and> relay_txs r q (pp_taken P) 0 s0 = (Inr h, s) \<and>
          finish_message r q e h s = (x, pp_state P)))"

text \<open>The search is cut short when the parent's context ends or the loop has failed.\<close>

definition cut_short :: "('s, 'r) Relayer \<Rightarrow> u64 \<Rightarrow> 's \<Rightarrow> ('p, 's, 'r) pipe \<Rightarrow> bool" where
  "cut_short r q s0 P \<longleftrightarrow> pp_cancelled P \<or>
     (\<exists>f. pp_consumer P = ReturnedWith (Inl f) \<and> relay_txs r q (pp_taken P) 0 s0 = (Inl f, pp_state P))"

definition pipe_inv ::
  "('p, 'r) TXQuerierSrv \<Rightarrow> string \<Rightarrow> ('s, 'r) Relayer \<Rightarrow> u64 \<Rightarrow> 'p \<Rightarrow> 's \<Rightarrow> ('p, 's, 'r) pipe \<Rightarrow> bool" where
  "pipe_inv t query r q p0 s0 P \<longleftrightarrow> relayer_at r q s0 P \<and>
     (search_whole t query p0 P \<or> search_part t query p0 P \<and> cut_short r q s0 P)"

lemma pipe_inv_init: "pipe_inv t query r q p0 s0 (pipe_init p0 s0)"
  by (simp add: pipe_inv_def relayer_at_def search_whole_def pipe_sent_def pipe_init_def)

text \<open>A step of the goroutine that goes on with the search.\<close>

lemma search_whole_step:
  assumes "search_whole t query p0 P" "pp_pages P \<le> pp_pages P'"
    "\<And>F. search_rest (pp_pages P' - pp_pages P + F) t query (pp_producer P) (pipe_sent P) (pp_node P) =
       search_rest F t query (pp_producer P') (pipe_sent P') (pp_node P')"
  shows "search_whole t query p0 P'"
proof -
  have "search_loop (pp_pages P' + F) t query 1 [] p0 = search_rest F t query (pp_producer P') (pipe_sent P') (pp_node P')" for F
    using assms(1) [unfolded search_whole_def, rule_format, of "pp_pages P' - pp_pages P + F"] assms(2,3) by simp
  then show ?thesis by (simp add: search_whole_def)
qed

text \<open>What a whole search has sent so far is a part of what it sends.\<close>

lemma search_whole_prefix:
  assumes "search_whole t query p0 P" "search_loop F t query 1 [] p0 = (Inr (all, e), p)"
  shows "search_rest F t query (pp_producer P) (pipe_sent P) (pp_node P) = (Inr (all, e), p)" "prefix (pipe_sent P) all"
proof -
  have "search_loop (pp_pages P + F) t query 1 [] p0 = (Inr (all, e), p)"
    by (rule search_loop_fuel [OF assms(2)]) simp
  with assms(1) show rest: "search_rest F t query (pp_producer P) (pipe_sent P) (pp_node P) = (Inr (all, e), p)"
    by (simp add: search_whole_def)
  then show "prefix (pipe_sent P) all" by (rule search_rest_prefix)
qed

text \<open>A step that cuts the search short.\<close>

lemma search_part_step:
  assumes "search_whole t query p0 P" "pp_producer P' = Finished e" "pipe_sent P' = pipe_sent P"
  shows "search_part t query p0 P'"
  using assms search_whole_prefix(2) [OF assms(1)] by (auto simp: search_part_def)

lemma relayer_at_cut:
  assumes "relayer_at r q s0 P" "search_cancelled P" "\<And>e. pp_producer P \<noteq> Finished e"
  shows "cut_short r q s0 P"
  using assms by (auto simp: relayer_at_def cut_short_def search_cancelled_def)

lemmas pipe_sel = pipe_sent_def relayer_at_def cut_short_def search_cancelled_def

lemma pipe_inv_step:
  assumes "pipe_inv t query r q p0 s0 P" "pipe_step cap t query r q P P'" "\<And>p. ctx_done t p = (False, p)"
  shows "pipe_inv t query r q p0 s0 P'"
proof -
  have whole: "search_whole t query p0 P" if "\<And>e. pp_producer P \<noteq> Finished e"
    using that assms(1) by (auto simp: pipe_inv_def search_part_def)
  have at: "relayer_at r q s0 P" using assms(1) by (simp add: pipe_inv_def)
  have goes_on: ?thesis
    if "\<And>e. pp_producer P \<noteq> Finished e" "relayer_at r q s0 P'" "search_whole t query p0 P \<Longrightarrow> search_whole t query p0 P'"
    using that whole by (simp add: pipe_inv_def)
  have ends: ?thesis
    if "\<And>e. pp_producer P \<noteq> Finished e" "P' = P\<lparr>pp_producer := Finished e\<rparr>" "search_cancelled P" for e
    using that at search_part_step [OF whole, of P' e] relayer_at_cut [OF at]
    by (auto simp: pipe_inv_def pipe_sel split: consumer.splits)
  have same: "search_whole t query p0 P' = search_whole t query p0 P" "search_part t query p0 P' = search_part t query p0 P"
    if "pp_producer P' = pp_producer P" "pp_node P' = pp_node P" "pp_pages P' = pp_pages P" "pipe_sent P' = pipe_sent P"
    using that by (simp_all add: search_whole_def search_part_def)
  have at': "relayer_at r q s0 P'"
    if "\<And>e. pp_producer P \<noteq> Finished e" "pp_consumer P' = pp_consumer P" "pp_taken P' = pp_taken P" "pp_state P' = pp_state P"
    using that at by (auto simp: relayer_at_def split: consumer.splits)
  from assms(2) show ?thesis
  proof cases
    case (searched page x p')
    show ?thesis
      by (intro goes_on at' search_whole_step [of t query p0 P P'])
        (use searched search_loop_rest [OF searched(3)] in \<open>simp_all add: pipe_sent_def\<close>)
  next
    case (proved page count tx txs x p')
    show ?thesis
      by (intro goes_on at' search_whole_step [of t query p0 P P'])
        (use proved proof_rest [OF assms(3) proved(3)] in \<open>simp_all add: pipe_sent_def del: search_rest.simps\<close>)
  next
    case (paged page count)
    show ?thesis
      by (intro goes_on at' search_whole_step [of t query p0 P P'])
        (use paged page_done_rest in \<open>simp_all add: pipe_sent_def del: search_rest.simps\<close>)
  next
    case (sent page count tx txs)
    show ?thesis
      by (intro goes_on at' search_whole_step [of t query p0 P P']) (use sent in \<open>simp_all add: pipe_sent_def\<close>)
  next
    case (gave_up page count tx txs)
    then show ?thesis by (intro ends) auto
  next
    case (call_failed page count tx txs e)
    then show ?thesis by (intro ends) auto
  next
    case (taken h tx rest x s')
    with at have "relay_txs r q (pp_taken P @ [tx]) 0 s0 = (x, s')"
      by (cases x) (simp_all add: relayer_at_def relay_txs_append relay_txs_one del: relay_txs.simps(2))
    with taken have "relayer_at r q s0 P'" by (auto simp: relayer_at_def split: sum.splits)
    moreover have "cut_short r q s0 P \<Longrightarrow> cut_short r q s0 P'" using taken by (simp add: cut_short_def)
    moreover have "pipe_sent P' = pipe_sent P" using taken by (simp add: pipe_sent_def)
    ultimately show ?thesis using assms(1) same taken by (auto simp: pipe_inv_def)
  next
    case (drained h e x s')
    with assms(1) same show ?thesis by (auto simp: pipe_inv_def pipe_sel)
  qed
qed

lemma pipe_inv_cancel:
  "pipe_inv t query r q p0 s0 P \<Longrightarrow> pipe_inv t query r q p0 s0 (P\<lparr>pp_cancelled := True\<rparr>)"
  by (cases "pp_consumer P") (auto simp: pipe_inv_def search_whole_def search_part_def pipe_sel)

lemma pipe_runs_inv:
  assumes "pipe_runs cap t query r q (pipe_init p0 s0) P" "\<And>p. ctx_done t p = (False, p)"
  shows "pipe_inv t query r q p0 s0 P"
  using assms(1)
  by (induction rule: pipe_runs.induct) (auto intro: pipe_inv_init pipe_inv_cancel pipe_inv_step assms(2))

section \<open>How a run ends\<close>

text \<open>The loop has failed on a part of what was found: the rest does not matter.\<close>

lemma relay_found_failed:
  assumes "relay_txs r q ts 0 s = (Inl f, s')" "prefix ts all"
  shows "relay_found r q all e s = (Inl f, s')"
proof -
  from assms(2) obtain zs where "all = ts @ zs" by (rule prefixE)
  with assms(1) show ?thesis by (simp add: relay_found_def relay_txs_append)
qed

lemma pipe_sent_prefix:
  assumes "pipe_inv t query r q p0 s0 P" "search_loop F t query 1 [] p0 = (Inr (all, e), p)"
  shows "prefix (pipe_sent P) all"
proof (cases "search_whole t query p0 P")
  case True
  then show ?thesis using assms(2) by (rule search_whole_prefix(2))
next
  case False
  with assms(1) have "search_part t query p0 P" by (simp add: pipe_inv_def)
  with assms(2) show ?thesis unfolding search_part_def by blast
qed

lemma pipe_returned:
  assumes "pipe_inv t query r q p0 s0 P" "search_loop F t query 1 [] p0 = (Inr (all, e), p)"
    "pp_consumer P = ReturnedWith x"
  shows "\<exists>e'. relay_found r q (pp_taken P) e' s0 = (x, pp_state P)"
    and "\<not> pp_cancelled P \<Longrightarrow> relay_found r q all e s0 = (x, pp_state P)"
proof -
  have "prefix (pp_taken P) all"
    using pipe_sent_prefix [OF assms(1,2)] by (auto simp: pipe_sent_def dest: append_prefixD)
  note failed = relay_found_failed [of r q "pp_taken P" s0 _ "pp_state P" all e, OF _ this]
    relay_found_failed [of r q "pp_taken P" s0 _ "pp_state P" "pp_taken P" e, OF _ prefix_order.refl]
  have "(\<exists>e'. relay_found r q (pp_taken P) e' s0 = (x, pp_state P)) \<and>
      (\<not> pp_cancelled P \<longrightarrow> relay_found r q all e s0 = (x, pp_state P))"
  proof (cases "\<exists>f. relay_txs r q (pp_taken P) 0 s0 = (Inl f, pp_state P) \<and> x = Inl f")
    case True
    with failed show ?thesis by blast
  next
    case False
    with assms(1,3) obtain e' h s where fin: "pp_chan P = []" "pp_producer P = Finished e'"
      "relay_txs r q (pp_taken P) 0 s0 = (Inr h, s)" "finish_message r q e' h s = (x, pp_state P)"
      by (auto simp: pipe_inv_def relayer_at_def)
    from fin(3,4) have found: "relay_found r q (pp_taken P) e' s0 = (x, pp_state P)"
      by (simp add: relay_found_def)
    have "all = pp_taken P \<and> e = e'" if "\<not> pp_cancelled P"
    proof -
      have "search_whole t query p0 P" using assms(1,3) False that by (auto simp: pipe_inv_def cut_short_def)
      from search_whole_prefix(1) [OF this assms(2)] fin(1,2) show ?thesis by (simp add: pipe_sent_def)
    qed
    with found show ?thesis by auto
  qed
  then show "\<exists>e'. relay_found r q (pp_taken P) e' s0 = (x, pp_state P)"
    and "\<not> pp_cancelled P \<Longrightarrow> relay_found r q all e s0 = (x, pp_state P)" by auto
qed

section \<open>Every run ends\<close>

text \<open>The call has returned and the goroutine has closed its channels, or a panic has ended the process.\<close>

definition pipe_over :: "('p, 's, 'r) pipe \<Rightarrow> bool" where
  "pipe_over P \<longleftrightarrow> (\<exists>f. pp_producer P = Crashed f) \<or>
     (\<exists>x e. pp_consumer P = ReturnedWith x \<and> pp_producer P = Finished e)"

lemma pipe_progress:
  assumes "0 < cap" "\<not> pipe_over P"
  shows "\<exists>P'. pipe_step cap t query r q P P'"
proof (cases "pp_producer P")
  case (Searching page)
  then show ?thesis by (metis searched surj_pair)
next
  case (Sending page count txs)
  then show ?thesis by (cases txs) (metis paged, metis proved surj_pair)
next
  case (Offering page count tx txs)
  note offering = this
  show ?thesis
  proof (cases "pp_consumer P")
    case (Receiving h)
    show ?thesis
    proof (cases "pp_chan P")
      case Nil
      with offering assms(1) show ?thesis by (metis sent list.size(3))
    next
      case (Cons a list)
      with Receiving show ?thesis by (metis taken surj_pair)
    qed
  next
    case (ReturnedWith x)
    with offering show ?thesis by (metis gave_up search_cancelled_def)
  qed
next
  case (Finished e)
  with assms(2) obtain h where h: "pp_consumer P = Receiving h" by (cases "pp_consumer P") (auto simp: pipe_over_def)
  with Finished show ?thesis by (cases "pp_chan P") (metis drained surj_pair, metis taken surj_pair)
qed (use assms(2) in \<open>simp add: pipe_over_def\<close>)

fun producer_rank :: "'r producer \<Rightarrow> nat" where
  "producer_rank (Searching page) = 1"
| "producer_rank (Sending page count txs) = 2 * length txs + 2"
| "producer_rank (Offering page count tx txs) = 2 * length txs + 3"
| "producer_rank (Finished e) = 0"
| "producer_rank (Crashed f) = 0"

definition consumer_rank :: "('p, 's, 'r) pipe \<Rightarrow> nat" where
  "consumer_rank P = length (pp_chan P) + (case pp_consumer P of Receiving h \<Rightarrow> 1 | ReturnedWith x \<Rightarrow> 0)"

definition pipe_rank :: "nat \<Rightarrow> ('p, 's, 'r) pipe \<Rightarrow> nat \<times> nat \<times> nat" where
  "pipe_rank F P = (F - pp_pages P, producer_rank (pp_producer P), consumer_rank P)"

abbreviation rank_less :: "((nat \<times> nat \<times> nat) \<times> (nat \<times> nat \<times> nat)) set" where
  "rank_less \<equiv> less_than <*lex*> less_than <*lex*> less_than"

lemma searching_fuel:
  assumes "pipe_inv t query r q p0 s0 P" "search_loop F t query 1 [] p0 = (Inr y, p)" "pp_producer P = Searching page"
  shows "pp_pages P < F"
proof (rule ccontr)
  assume "\<not> pp_pages P < F"
  with search_loop_fuel [OF assms(2)] have "search_loop (pp_pages P + 0) t query 1 [] p0 = (Inr y, p)" by simp
  moreover have "search_whole t query p0 P" using assms(1,3) by (auto simp: pipe_inv_def search_part_def)
  ultimately show False using assms(3) by (auto simp: search_whole_def dest: spec [of _ 0])
qed

lemma pipe_step_rank:
  assumes "pipe_inv t query r q p0 s0 P" "search_loop F t query 1 [] p0 = (Inr y, p)" "pipe_step cap t query r q P P'"
  shows "(pipe_rank F P', pipe_rank F P) \<in> rank_less"
  using assms(3)
proof cases
  case (searched page x p')
  with searching_fuel [OF assms(1,2)] show ?thesis by (auto simp: pipe_rank_def)
next
  case (proved page count tx txs x p')
  then show ?thesis by (auto simp: pipe_rank_def proof_answer_def split: sum.splits fault.splits)
next
  case (taken h tx rest x s')
  then show ?thesis by (auto simp: pipe_rank_def consumer_rank_def split: sum.splits)
qed (auto simp: pipe_rank_def page_done_def consumer_rank_def)

lemma pipe_runs_end:
  assumes "pipe_runs cap t query r q (pipe_init p0 s0) P" "\<And>p. ctx_done t p = (False, p)"
    "search_loop F t query 1 [] p0 = (Inr y, p)"
  shows "\<not> (\<exists>f. f 0 = P \<and> (\<forall>i. pipe_step cap t query r q (f i) (f (Suc i))))"
proof
  assume "\<exists>f. f 0 = P \<and> (\<forall>i. pipe_step cap t query r q (f i) (f (Suc i)))"
  then obtain f where f: "f 0 = P" "\<And>i. pipe_step cap t query r q (f i) (f (Suc i))" by blast
  have "pipe_inv t query r q p0 s0 (f i)" for i
  proof (induction i)
    case (Suc i)
    then show ?case by (rule pipe_inv_step [OF _ f(2) assms(2)])
  qed (simp add: f(1) pipe_runs_inv [OF assms(1,2)])
  from pipe_step_rank [OF this assms(3) f(2)]
  have "\<exists>g. \<forall>i. (g (Suc i), g i) \<in> rank_less" by (intro exI [of _ "\<lambda>i. pipe_rank F (f i)"]) blast
  moreover have "wf rank_less" by (intro wf_lex_prod wf_less_than)
  ultimately show False using wf_iff_no_infinite_down_chain by blast
qed

end
