(* ===== verification/Props_Pipeline.thy ===== *)
theory Props_Pipeline
  imports Relay_Pipeline Props_Query
begin

text \<open>
  Properties of one TX query whose search and relaying run concurrently (\<open>Relay_Pipeline\<close>).
\<close>

section \<open>The interleavings\<close>

text \<open>A search that has delivered \<open>ts\<close> and ended with \<open>e\<close>.\<close>

definition delivers :: "'r Transaction list \<Rightarrow> goerr option \<Rightarrow> ('s, 'r) TXQuerier" where
  "delivers ts e = \<lparr>tq_SearchTransactions = (\<lambda>query s. (Ok (ts, e), s))\<rparr>"

lemma rl_querier_upd [simp]:
  "rl_storage (r\<lparr>rl_txQuerier := y\<rparr>) = rl_storage r" "rl_txProcessor (r\<lparr>rl_txQuerier := y\<rparr>) = rl_txProcessor r"
  by simp_all

lemma relay_txs_querier: "relay_txs (r\<lparr>rl_txQuerier := y\<rparr>) q ts l s = relay_txs r q ts l s"
proof (induction ts arbitrary: l s)
  case (Cons t ts)
  have "relay_one (r\<lparr>rl_txQuerier := y\<rparr>) q l t = relay_one r q l t" by (simp add: relay_one_def fun_eq_iff cong: option.case_cong if_cong)
  moreover have "relay_txs (r\<lparr>rl_txQuerier := y\<rparr>) q ts = relay_txs r q ts" using Cons by (simp add: fun_eq_iff)
  ultimately show ?case by (simp only: relay_txs_one)
qed simp

lemma relay_found_querier: "relay_found (r\<lparr>rl_txQuerier := y\<rparr>) q ts e s = relay_found r q ts e s"
  by (simp add: relay_found_def relay_txs_querier finish_message_def cong: option.case_cong if_cong)

lemma buildTxQuery_querier: "buildTxQuery (r\<lparr>rl_txQuerier := y\<rparr>) m s = buildTxQuery r m s"
  by (simp add: buildTxQuery_def getLastQueryHeight_def Let_def cong: if_cong)

lemma processMessageTX_delivers:
  assumes "buildTxQuery r m s = (Ok query, s0)"
  shows "processMessageTX (r\<lparr>rl_txQuerier := delivers ts e\<rparr>) m s = relay_found r (tx_QueryId m) ts e s0"
  by (simp add: processMessageTX_found buildTxQuery_querier assms delivers_def relay_found_querier)

text \<open>
  C14: whatever the order in which the searching goroutine and the relaying loop take their steps,
  a TX query ends with the result and the state of the loop over the list of all transactions found;
  if the context of the relayer ends meanwhile, with those of the loop over a first part of them.
\<close>

theorem interleavings_equivalent:
  assumes "buildTxQuery r m s = (Ok query, s0)"
    and "SearchTransactions F t query p0 = (Ok (all, e), p1)" "\<And>p. ctx_done t p = (False, p)"
    and "pipe_runs TxsChanSize t query r (tx_QueryId m) (pipe_init p0 s0) P"
    and "pp_consumer P = ReturnedWith x"
  shows "\<exists>ts e'. prefix ts all \<and> (\<not> pp_cancelled P \<longrightarrow> ts = all \<and> e' = e) \<and>
    processMessageTX (r\<lparr>rl_txQuerier := delivers ts e'\<rparr>) m s = (x, pp_state P)"
proof -
  note inv = pipe_runs_inv [OF assms(4,3)]
  note search = assms(2) [unfolded SearchTransactions_def]
  have "prefix (pp_taken P) all"
    using pipe_sent_prefix [OF inv search] by (auto simp: pipe_sent_def dest: append_prefixD)
  with pipe_returned [OF inv search assms(5)] show ?thesis
    unfolding processMessageTX_delivers [OF assms(1)] by blast
qed

text \<open>A node with one transaction, and a run in which the loop takes it before the search has ended.\<close>

definition one_node :: "(world, unit) TXQuerierSrv" where
  "one_node = cancelling_node\<lparr>
     TxSearch := (\<lambda>q prove page per order w. (Ok \<lparr>Txs = [plain_result ''t''], TotalCount = 1\<rparr>, w)),
     ctx_done := (\<lambda>w. (False, w))\<rparr>"

abbreviation one_relayer :: "(world, unit) Relayer" where
  "one_relayer \<equiv> sample_relayer (Ok ''AB'') [] None"

abbreviation one_init :: "(world, world, unit) pipe" where
  "one_init \<equiv> pipe_init world1 world1"

lemma one_node_sel [simp]: "ctx_done one_node w = (False, w)"
  "TxSearch one_node q prove page per order w = (Ok \<lparr>Txs = [plain_result ''t''], TotalCount = 1\<rparr>, w)"
  by (simp_all add: one_node_def)

lemma plain_result_sel [simp]: "rx_Height (plain_result b) = 5" "rx_Index (plain_result b) = 0"
  by (simp_all add: plain_result_def)

lemma one_proof: "proofDelivery one_node h 0 w = (Ok (zero_proof, ()), w)"
  by (simp add: proofDelivery_def one_node_def cancelling_node_def cryptoProofFromMerkleProof_def zero_proof_def)

lemma one_transaction:
  "proof_answer one_node page n (plain_result ''t'') txs (Ok (zero_proof, ())) = Offering page n (sample_tx 5 ''t'') txs"
  by (simp add: proof_answer_def plain_result_def cryptoProofFromMerkleProof_def sample_tx_def sample_value_def zero_proof_def)

lemma one_search: "SearchTransactions 3 one_node q world1 = (Ok ([sample_tx 5 ''t''], None), world1)"
  by (simp add: SearchTransactions_def numeral_3_eq_3 plain_result_def one_proof cryptoProofFromMerkleProof_def
      sample_tx_def sample_value_def zero_proof_def perPage_def Let_def)

lemma one_run:
  obtains P where "pipe_runs TxsChanSize one_node q one_relayer 1 one_init P"
    "pp_consumer P = ReturnedWith (Ok ())" "\<not> pp_cancelled P"
proof -
  obtain w2 where w2: "ProcessAndSubmit (sample_txp (Ok ''AB'')) 1 (sample_tx 5 ''t'') (put_db (w_db world1) world1) = (Inr (), w2)"
    using sample_process by blast
  obtain w3 where w3: "st_SetLastQueryHeight sample_storage 1 5 w2 = (Inr (), w3)"
    by (simp add: sample_storage_def LevelDBStorage_def on_part_def SetLastQueryHeight_def)
  define run where "run = pipe_runs TxsChanSize one_node q one_relayer 1 one_init"
  have go: "run P \<Longrightarrow> pipe_step TxsChanSize one_node q one_relayer 1 P P' \<Longrightarrow> P' = P'' \<Longrightarrow> run P''" for P P' P''
    unfolding run_def by (auto intro: pipe_runs.step)
  have one: "relay_one one_relayer 1 0 (sample_tx 5 ''t'') world1 = (Ok 5, w2)"
    using w2 by (simp add: relay_one_def sample_not_known TXProcessorOf_def sample_hash_def [symmetric])
  have fin: "finish_message one_relayer 1 None 5 w2 = (Ok (), w3)"
    using w3 by (simp add: finish_message_def)
  have "run one_init" unfolding run_def by (rule pipe_runs.start)
  then have "run (one_init\<lparr>pp_producer := Sending 1 1 [plain_result ''t''], pp_pages := 1\<rparr>)"
    by (rule go [OF _ pipe_step.searched [where page = 1 and p' = world1 and
        x = "Ok \<lparr>Txs = [plain_result ''t''], TotalCount = 1\<rparr>"]])
      (simp_all add: pipe_init_def search_answer_def)
  then have "run (one_init\<lparr>pp_producer := Offering 1 1 (sample_tx 5 ''t'') [], pp_pages := 1\<rparr>)"
    by (rule go [OF _ pipe_step.proved [where page = 1 and count = 1 and tx = "plain_result ''t''" and txs = "[]" and
        x = "Ok (zero_proof, ())" and p' = world1]])
      (simp_all add: pipe_init_def one_transaction one_proof)
  then have "run (one_init\<lparr>pp_producer := Sending 1 1 [], pp_chan := [sample_tx 5 ''t''], pp_pages := 1\<rparr>)"
    by (rule go [OF _ pipe_step.sent [where page = 1 and count = 1 and tx = "sample_tx 5 ''t''" and txs = "[]"]])
      (simp_all add: pipe_init_def TxsChanSize_def)
  then have "run (one_init\<lparr>pp_producer := Sending 1 1 [], pp_consumer := Receiving 5, pp_state := w2,
      pp_taken := [sample_tx 5 ''t''], pp_pages := 1\<rparr>)"
    by (rule go [OF _ pipe_step.taken [where tx = "sample_tx 5 ''t''" and rest = "[]" and h = 0 and x = "Ok 5" and s' = w2]])
      (simp_all add: pipe_init_def one)
  then have "run (one_init\<lparr>pp_producer := Finished None, pp_consumer := Receiving 5, pp_state := w2,
      pp_taken := [sample_tx 5 ''t''], pp_pages := 1\<rparr>)"
    by (rule go [OF _ pipe_step.paged [where page = 1 and count = 1]])
      (simp_all add: pipe_init_def page_done_def perPage_def)
  then have "run (one_init\<lparr>pp_producer := Finished None, pp_consumer := ReturnedWith (Ok ()), pp_state := w3,
      pp_taken := [sample_tx 5 ''t''], pp_pages := 1\<rparr>)"
    by (rule go [OF _ pipe_step.drained [where h = 5 and e = None and x = "Ok ()" and s' = w3]])
      (simp_all add: pipe_init_def fin)
  then show thesis unfolding run_def by (rule that) (simp_all add: pipe_init_def)
qed

theorem interleavings_equivalent_witness:
  "\<exists>P. pipe_runs TxsChanSize one_node ''tx.height>0'' one_relayer 1 one_init P \<and>
     processMessageTX (one_relayer\<lparr>rl_txQuerier := delivers [sample_tx 5 ''t''] None\<rparr>) msg world0 = (Ok (), pp_state P)"
proof -
  obtain P where P: "pipe_runs TxsChanSize one_node ''tx.height>0'' one_relayer (tx_QueryId msg) one_init P"
    "pp_consumer P = ReturnedWith (Ok ())" "\<not> pp_cancelled P"
    using one_run by (auto simp: msg_def)
  from interleavings_equivalent [OF sample_build one_search one_node_sel(1) P(1,2)] P show ?thesis
    by (auto simp: msg_def)
qed

text \<open>
  C15: the search and the loop cannot block each other and none of them is left behind: as long as
  the call has not returned, or the goroutine has not closed its channels, one of the two can take a
  step, and every run comes to its end if the pages of the search do.
\<close>

theorem pipeline_ends:
  assumes "SearchTransactions F t query p0 = (Ok y, p1)" "\<And>p. ctx_done t p = (False, p)"
    and "pipe_runs TxsChanSize t query r q (pipe_init p0 s0) P"
  shows "(\<nexists>f. f 0 = P \<and> (\<forall>i. pipe_step TxsChanSize t query r q (f i) (f (Suc i)))) \<and>
    (pipe_over P \<or> (\<exists>P'. pipe_step TxsChanSize t query r q P P'))"
  using pipe_runs_end [OF assms(3,2) assms(1) [unfolded SearchTransactions_def]]
    pipe_progress [of TxsChanSize P t query r q]
  by (auto simp: TxsChanSize_def)

theorem pipeline_ends_witness:
  "(\<nexists>f. f 0 = one_init \<and> (\<forall>i. pipe_step TxsChanSize one_node ''q'' one_relayer 1 (f i) (f (Suc i)))) \<and>
   (pipe_over one_init \<or> (\<exists>P'. pipe_step TxsChanSize one_node ''q'' one_relayer 1 one_init P'))"
  by (rule pipeline_ends [OF one_search one_node_sel(1) pipe_runs.start])

end
