(* ===== verification/Props_Lifecycle.thy ===== *)
theory Props_Lifecycle
  imports Lifecycle_Program Props_Query
begin

text \<open>
  The program and the life of its transactions: the property that ties the components' code to the
  steps of \<open>Lifecycle\<close>.
\<close>

section \<open>The program follows the steps of the node\<close>

text \<open>
  C5: the program follows these steps. When the relayer's main loop has taken any queries, of
  transactions and of values, the web server has answered any requests, and the checker has gone
  through the pending queue and its tasks, in any order and any number of times, with restarts
  between, the database is one that the steps of the node lead to, and so the entries of every
  transaction agree with its status.
\<close>

theorem program_lifecycle:
  assumes "program_ok L C V W get put clk p kv tasks used r tc"
    and "lifecycle_ok L C V W get put clk p tasks used s"
      "reachable (node_at (\<lambda>s. store_of C (V (get s))) tasks used s)"
      "cache_ok (tx_storable C) (tx_hash_of p) (store_of C (V (get s)))"
    and "(activity r (LevelDBStorage L C get put clk) (TXProcessorOf p) tc get tasks used)\<^sup>*\<^sup>* s s'"
  shows "reachable (node_at (\<lambda>s. store_of C (V (get s))) tasks used s') \<and>
    (\<nexists>q h. \<not> tx_entries_ok (store_of C (V (get s'))) q h)"
proof -
  have "reachable (node_at (\<lambda>s. store_of C (V (get s))) tasks used s')"
    by (rule activities_reachable [OF assms])
  with reachable_node_ok [OF this] show ?thesis by (auto simp: node_ok_def node_at_def)
qed

text \<open>A submitter that answers with a new hash each time, and the world in which it is used.\<close>

definition counting_submitter :: "(world, unit, unit, unit) Submitter" where
  "counting_submitter = \<lparr>sb_SubmitKVProof = (\<lambda>h rev q vs m w. (Ok (), w)),
     sb_SubmitTxProof = (\<lambda>q b w. (Ok (replicate (Suc (length (w_out w))) (CHR ''A'')), w\<lparr>w_out := CHR ''x'' # w_out w\<rparr>))\<rparr>"

definition counted :: "world \<Rightarrow> string set" where
  "counted w = {replicate k (CHR ''A'') | k. 0 < k \<and> k \<le> length (w_out w)}"

definition counting_txp :: "(world, unit, unit, unit, unit) TXProcessorSrv" where
  "counting_txp = (sample_txp (Ok []))\<lparr>txp_submitter := counting_submitter\<rparr>"

definition counting_kvp :: "(world, unit, unit, unit, unit) KVProcessorSrv" where
  "counting_kvp = \<lparr>kvp_trustedHeaderFetcher = sample_fetcher,
     kvp_querier = \<lparr>ABCIQueryWithOptions = (\<lambda>p k h prove w. (Ok \<lparr>ab_Value = ''v'', ab_ProofOps = ''p'', ab_Height = 99\<rparr>, w)),
       ChainID = ''target-1''\<rparr>,
     minKVUpdatePeriod = 10, kvp_submitter = counting_submitter, kvp_storage = sample_storage,
     kvp_QueryLatestHeight = (\<lambda>w. (Ok 100, w)), MsgUpdateClient = (\<lambda>c h w. (Ok (CosmosMessage ()), w)),
     kvp_ClientID = ''07-tendermint-0'', kvp_retry_header = retry_attempts 3, kvp_retry_msg = retry_attempts 3,
     kvp_runtime = sample_runtime\<rparr>"

definition counting_relayer :: "(world, unit) Relayer" where
  "counting_relayer = (sample_relayer (Ok []) [sample_tx 5 ''t''] None)
     \<lparr>rl_txProcessor := TXProcessorOf counting_txp, rl_kvProcessor := KVProcessorOf counting_kvp\<rparr>"

abbreviation counting_queue where
  "counting_queue \<equiv> [(sample_query InterchainQueryTypeTX, 1), (sample_query InterchainQueryTypeKV, 0)]"

abbreviation checks_of :: "world \<Rightarrow> PendingSubmittedTxInfo set" where
  "checks_of w \<equiv> set (w_checks w)"

lemma counting_submits:
  "sb_SubmitTxProof counting_submitter q b w = (Inr n, w') \<longleftrightarrow>
     n = replicate (Suc (length (w_out w))) (CHR ''A'') \<and> w' = w\<lparr>w_out := CHR ''x'' # w_out w\<rparr>"
  "sb_SubmitTxProof counting_submitter q b w \<noteq> (Inl f, w')"
  by (auto simp: counting_submitter_def)

lemma counting_accounts: "txp_accounts counting_txp checks_of counted"
proof -
  have "insert (replicate (Suc (length (w_out w))) (CHR ''A'')) (counted w) \<subseteq> counted (w\<lparr>w_out := CHR ''x'' # w_out w\<rparr>)" for w
    by (auto simp: counted_def intro: exI [of _ "Suc (length (w_out w))"] le_SucI simp del: replicate_Suc)
  moreover have "is_ascii (replicate n (CHR ''A''))" for n by (simp add: is_ascii_def list_all_iff)
  moreover have "replicate (Suc (length (w_out w))) (CHR ''A'') \<notin> counted w" for w
    by (auto simp: counted_def simp del: replicate_Suc dest: arg_cong [where f = length])
  moreover have "[] \<notin> counted w" for w by (auto simp: counted_def)
  ultimately show ?thesis
    by (auto simp: txp_accounts_def counting_txp_def unseen_def counting_submits sample_fetcher_def simp del: replicate_Suc)
      (simp_all add: counted_def)
qed

lemma counting_relayer_sel [simp]:
  "rl_storage counting_relayer = sample_storage" "rl_txProcessor counting_relayer = TXProcessorOf counting_txp"
  "rl_runtime counting_relayer = sample_runtime" "rl_tmhash counting_relayer = sample_tmhash"
  "rl_QueryLatestHeight counting_relayer w = (Ok 100, w)"
  "tq_SearchTransactions (rl_txQuerier counting_relayer) q w = (Ok ([sample_tx 5 ''t''], None), w)"
  "rl_kvProcessor counting_relayer = KVProcessorOf counting_kvp"
  by (simp_all add: counting_relayer_def sample_relayer_def)

lemma counting_deps: "lifecycle_deps put_db sample_clock counting_txp checks_of counted"
  using counting_accounts by (simp add: lifecycle_deps_def unseen_def put_db_def sample_clock_def counted_def)

lemma counting_txp_deps: "txp_deps_ok sample_leveldb sample_codec w_db put_db sample_clock counting_txp"
  by (auto simp: txp_deps_ok_def txp_keeps_def rt_keeps_def counting_txp_def sample_txp_def sample_storage_def sample_fetcher_def
      counting_submitter_def)

abbreviation counting_ok :: "world \<Rightarrow> bool" where
  "counting_ok \<equiv> lifecycle_ok sample_leveldb sample_codec map_of map_of w_db put_db sample_clock counting_txp checks_of counted"

lemma counting_ok_iff: "counting_ok w \<longleftrightarrow> db_wf sample_codec (map_of (w_db w))"
  by (simp add: lifecycle_ok_def txp_ok_def counting_deps counting_txp_deps)

lemma counting_program: "program_ok sample_leveldb sample_codec map_of map_of w_db put_db sample_clock counting_txp
    counting_kvp checks_of counted counting_relayer (sample_checker 0)"
proof -
  have "[] \<notin> counted w" for w by (auto simp: counted_def)
  moreover have "tx_hash_of counting_txp t = (case Tx t of None \<Rightarrow> [] | Some v \<Rightarrow> sample_hash (Data v))" for t
    by (simp add: tx_hash_of_def counting_txp_def sample_hash_def split: option.split)
  ultimately show ?thesis
    by (auto simp: program_ok_def program_wired_def program_quiet_def relayer_uses_def relayer_quiet_def kv_quiet_def
        op_quiet_def quiet_def checker_quiet_def check_keeps_def retry_attempts_ok sample_storage_def sample_hash_def
        counting_kvp_def counting_submitter_def sample_fetcher_def)
qed

text \<open>The world it starts in.\<close>

lemma counting_init:
  "counting_ok world0"
  "reachable (node_at (\<lambda>w. store_of sample_codec (map_of (w_db w))) checks_of counted world0)"
  "cache_ok (tx_storable sample_codec) (tx_hash_of counting_txp) (store_of sample_codec (map_of (w_db world0)))"
proof -
  have "node_at (\<lambda>w. store_of sample_codec (map_of (w_db w))) checks_of counted world0 = init_node"
    by (simp add: node_at_def init_node_def world0_def counted_def)
  then show "reachable (node_at (\<lambda>w. store_of sample_codec (map_of (w_db w))) checks_of counted world0)"
    by (simp add: reachable.init)
qed (simp_all add: counting_ok_iff cache_ok_def world0_def empty_store_def)

theorem program_lifecycle_witness:
  "\<exists>x w. Run counting_relayer counting_queue world0 = (x, w) \<and>
     reachable (node_at (\<lambda>w. store_of sample_codec (map_of (w_db w))) checks_of counted w)"
proof -
  obtain x w where run: "Run counting_relayer counting_queue world0 = (x, w)" by fastforce
  have "activity counting_relayer (LevelDBStorage sample_leveldb sample_codec w_db put_db sample_clock)
      (TXProcessorOf counting_txp) (sample_checker 0) w_db checks_of counted world0 w"
    by (rule activity.queries [OF run])
  then have act: "(activity counting_relayer (LevelDBStorage sample_leveldb sample_codec w_db put_db sample_clock)
      (TXProcessorOf counting_txp) (sample_checker 0) w_db checks_of counted)\<^sup>*\<^sup>* world0 w"
    by (rule r_into_rtranclp)
  have "reachable (node_at (\<lambda>w. store_of sample_codec (map_of (w_db w))) checks_of counted w) \<and>
      (\<nexists>q h. \<not> tx_entries_ok (store_of sample_codec (map_of (w_db w))) q h)"
    by (rule program_lifecycle [OF counting_program counting_init act])
  with run show ?thesis by blast
qed

text \<open>
  C6: the database keeps its types. Whatever the program's activities do, in any order, every
  value of the database keeps the type its key says: heights, statuses, pending and unsuccessful
  entries and cached transactions all decode, and so reading either queue never fails on what is
  stored there.
\<close>

theorem database_well_typed:
  assumes "program_ok L C V W get put clk p kv tasks used r tc"
    and "lifecycle_ok L C V W get put clk p tasks used s"
      "reachable (node_at (\<lambda>s. store_of C (V (get s))) tasks used s)"
      "cache_ok (tx_storable C) (tx_hash_of p) (store_of C (V (get s)))"
    and "(activity r (LevelDBStorage L C get put clk) (TXProcessorOf p) tc get tasks used)\<^sup>*\<^sup>* s s'"
  shows "db_wf C (V (get s')) \<and>
    (\<exists>xs. GetAllPendingTxs L (get s') = (Inr xs, get s')) \<and>
    (\<exists>xs. GetAllUnsuccessfulTxs L (get s') = (Inr xs, get s'))"
proof -
  have "leveldb_ok L V W" "db_wf C (V (get s'))"
    using activities_ok [OF assms] by (auto simp: lifecycle_ok_def txp_ok_def leveldb_storage_ok_def)
  then show ?thesis by (blast intro: GetAllPendingTxs_reads GetAllUnsuccessfulTxs_reads)
qed

theorem database_well_typed_witness:
  "\<exists>x w xs. Run counting_relayer counting_queue world0 = (x, w) \<and>
     db_wf sample_codec (map_of (w_db w)) \<and> GetAllPendingTxs sample_leveldb (w_db w) = (Inr xs, w_db w)"
proof -
  obtain x w where run: "Run counting_relayer counting_queue world0 = (x, w)" by fastforce
  have "(activity counting_relayer (LevelDBStorage sample_leveldb sample_codec w_db put_db sample_clock)
      (TXProcessorOf counting_txp) (sample_checker 0) w_db checks_of counted)\<^sup>*\<^sup>* world0 w"
    by (rule r_into_rtranclp, rule activity.queries [OF run])
  from database_well_typed [OF counting_program counting_init this] run show ?thesis by blast
qed

end
