(* ===== verification/Props_Race.thy ===== *)
theory Props_Race
  imports Props_Server
begin

text \<open>
  What two submissions of one transaction can do: a run of the relayer's processor, the web server
  and the checker on one database, after which a committed transaction is shown as failed.
\<close>

section \<open>Two submissions of one transaction\<close>

text \<open>
  A submitter that Neutron answers with one hash and then with another, and a checker whose node
  has committed the first transaction and rejected the second.
\<close>

definition race_txp :: "(world, unit, unit, unit, unit) TXProcessorSrv" where
  "race_txp = (sample_txp (Ok []))\<lparr>txp_submitter := \<lparr>sb_SubmitKVProof = (\<lambda>h rev q vs m w. (Ok (), w)),
     sb_SubmitTxProof = (\<lambda>q b w. (Ok (if w_out w = [] then ''AA'' else ''BB''), w\<lparr>w_out := CHR ''x'' # w_out w\<rparr>))\<rparr>\<rparr>"

lemma race_txp_sel [simp]:
  "txp_runtime race_txp = sample_runtime" "txp_storage race_txp = sample_storage" "tmhash race_txp = sample_tmhash"
  "sb_SubmitTxProof (txp_submitter race_txp) q b w =
     (Ok (if w_out w = [] then ''AA'' else ''BB''), w\<lparr>w_out := CHR ''x'' # w_out w\<rparr>)"
  by (simp_all add: race_txp_def sample_txp_def)

definition race_checker :: "(world, unit) TxSubmitChecker" where
  "race_checker = (sample_checker 0)\<lparr>tc_Tx := (\<lambda>b w.
     (Ok \<lparr>tr_Code = (if Inr b = hex_decode ''AA'' then 0 else 5), tr_Log = ''already submitted''\<rparr>, w))\<rparr>"

definition race_request :: bytes where
  "race_request = encode_compact (encode_ResubmitRequest
     \<lparr>rq_Txs = Some [\<lparr>rtx_QueryID = 1, rtx_Hash = sample_hash ''t''\<rparr>]\<rparr>)"

abbreviation world_store :: "world \<Rightarrow> unit tx_store" where
  "world_store w \<equiv> store_of sample_codec (map_of (w_db w))"

lemma sample_sets:
  assumes "db_wf sample_codec (map_of d)" "tx = None \<or> tx = Some (sample_tx b v)" "time_ok ti now"
  shows "\<exists>d'. SetTxStatus sample_leveldb sample_codec q (sample_hash v) n ti tx now d = (Inr (), d') \<and>
    db_wf sample_codec (map_of d') \<and>
    store_of sample_codec (map_of d') = spec_SetTxStatus q (sample_hash v) n ti tx now (store_of sample_codec (map_of d))"
proof -
  obtain d' where d': "SetTxStatus sample_leveldb sample_codec q (sample_hash v) n ti tx now d = (Inr (), d')"
    using assms(2) sample_SetTxStatus_tx sample_SetTxStatus_None by blast
  have tx: "tx_storable sample_codec tx" using assms(2) by auto
  show ?thesis
    using d' SetTxStatus_store [OF sample_leveldb_ok is_txhash_sample tx assms(3) d']
      SetTxStatus_wf [OF sample_leveldb_ok is_txhash_sample tx assms(3,1) d'] by blast
qed

lemma race_submits:
  assumes "db_wf sample_codec (map_of (w_db w))" "n = (if w_out w = [] then ''AA'' else ''BB'')"
  shows "\<exists>d'. ProcessAndSubmit race_txp q (sample_tx b v) w = (Inr (), w\<lparr>w_db := d', w_out := CHR ''x'' # w_out w,
      w_checks := w_checks w @ [\<lparr>pd_QueryID = q, pd_SubmittedTxHash = sample_hash v, pd_NeutronHash = n\<rparr>]\<rparr>) \<and>
    db_wf sample_codec (map_of d') \<and>
    store_of sample_codec (map_of d') = spec_SetTxStatus q (sample_hash v) n \<lparr>ti_Status = Submitted, ti_Message = []\<rparr>
      (Some (sample_tx b v)) [] (world_store w)"
proof -
  from sample_sets [OF assms(1), where tx = "Some (sample_tx b v)" and v = v and now = "[]" and
      ti = "\<lparr>ti_Status = Submitted, ti_Message = []\<rparr>" and q = q and n = n]
  obtain d' where d': "SetTxStatus sample_leveldb sample_codec q (sample_hash v) n \<lparr>ti_Status = Submitted, ti_Message = []\<rparr>
      (Some (sample_tx b v)) [] (w_db w) = (Inr (), d')" "db_wf sample_codec (map_of d')"
    "store_of sample_codec (map_of d') = spec_SetTxStatus q (sample_hash v) n \<lparr>ti_Status = Submitted, ti_Message = []\<rparr>
      (Some (sample_tx b v)) [] (world_store w)" by (auto simp: time_ok_def)
  have block: "txToBlock race_txp t w = (Ok \<lparr>Header = (), NextBlockHeader = (), BlockTx = Tx t\<rparr>, w)" for t w
    by (simp add: txToBlock_def prepareHeaders_def getTrustedHeader_def race_txp_def sample_txp_def sample_fetcher_def)
  have "ProcessAndSubmit race_txp q (sample_tx b v) w = (Inr (), w\<lparr>w_db := d', w_out := CHR ''x'' # w_out w,
      w_checks := w_checks w @ [\<lparr>pd_QueryID = q, pd_SubmittedTxHash = sample_hash v, pd_NeutronHash = n\<rparr>]\<rparr>)"
    using d'(1) by (simp add: ProcessAndSubmit_def block submitTxWithProofs_def processSuccessfulTxSubmission_def
        assms(2) sample_storage_ops on_part_def put_db_def sample_hash_def [symmetric] sample_tx_def [symmetric])
  with d'(2,3) show ?thesis by blast
qed

text \<open>The handler submits what is cached, whatever its status.\<close>

lemma sample_cached:
  assumes "cached (store_of sample_codec (map_of d)) (q, h) = Some t"
  shows "GetCachedTx sample_leveldb sample_codec q h d = (Inr t, d)"
proof -
  from assms obtain v where v: "map_of d (constructCacheTxKey q h) = Some v"
    "unmarshal (decode_Transaction sample_codec) v = Inr t"
    by (auto simp: store_of_sel dec_at_def ok_of_def split: option.splits sum.splits if_splits)
  with decode_map_of [OF v(2)] show ?thesis by (simp add: GetCachedTx_def sample_leveldb_def Let_def)
qed

lemma race_request_read:
  "resubmitFailedTxs sample_storage tp race_request w =
     resubmit_each sample_storage tp [\<lparr>rtx_QueryID = 1, rtx_Hash = sample_hash ''t''\<rparr>] w"
proof -
  have "clean_ResubmitTx \<lparr>rtx_QueryID = 1, rtx_Hash = sample_hash ''t''\<rparr> = \<lparr>rtx_QueryID = 1, rtx_Hash = sample_hash ''t''\<rparr>"
    by (simp add: clean_ResubmitTx_def)
  then show ?thesis by (simp add: race_request_def resubmit_request_read)
qed

lemma race_resubmits:
  assumes "db_wf sample_codec (map_of (w_db w))" "cached (world_store w) (1, sample_hash ''t'') = Some (sample_tx 5 ''t'')"
    and "n = (if w_out w = [] then ''AA'' else ''BB'')"
  shows "\<exists>d'. resubmitFailedTxs sample_storage (TXProcessorOf race_txp) race_request w =
      (Ok \<lparr>rs_StatusCode = 200, rs_Body = []\<rparr>, w\<lparr>w_db := d', w_out := CHR ''x'' # w_out w,
        w_checks := w_checks w @ [\<lparr>pd_QueryID = 1, pd_SubmittedTxHash = sample_hash ''t'', pd_NeutronHash = n\<rparr>]\<rparr>) \<and>
    db_wf sample_codec (map_of d') \<and>
    store_of sample_codec (map_of d') = spec_SetTxStatus 1 (sample_hash ''t'') n \<lparr>ti_Status = Submitted, ti_Message = []\<rparr>
      (Some (sample_tx 5 ''t'')) [] (world_store w)"
proof -
  have "put_db (w_db w) w = w" by (simp add: put_db_def)
  with race_submits [OF assms(1,3), of 1 5 "''t''"] sample_cached [OF assms(2)] show ?thesis
    by (auto simp: race_request_read sample_storage_ops on_part_def TXProcessorOf_def)
qed

lemma race_checks:
  assumes "db_wf sample_codec (map_of (w_db w))" "n = ''AA'' \<or> n = ''BB''"
  shows "\<exists>d' ti now. processSubmittedTx race_checker \<lparr>pd_QueryID = 1, pd_SubmittedTxHash = sample_hash ''t'', pd_NeutronHash = n\<rparr> w =
      (Inr (), w\<lparr>w_db := d'\<rparr>) \<and> db_wf sample_codec (map_of d') \<and>
    ti_Status ti = (if n = ''AA'' then Committed else ErrorOnCommit) \<and>
    store_of sample_codec (map_of d') = spec_SetTxStatus 1 (sample_hash ''t'') n ti None now (world_store w)"
proof -
  define code :: nat where "code = (if n = ''AA'' then 0 else 5)"
  define ti where "ti = (if code = 0 then \<lparr>ti_Status = Committed, ti_Message = []\<rparr>
    else \<lparr>ti_Status = ErrorOnCommit, ti_Message = ''Code: '' @ format_nat code @ '', Log: already submitted''\<rparr>)"
  define now where "now = (if code = 0 then [] else sample_now)"
  have hex: "hex_decode ''AA'' = Inr [CHR 0xAA]" "hex_decode ''BB'' = Inr [CHR 0xBB]" by code_simp+
  then obtain b where b: "hex_decode n = Inr b" "(Inr b = hex_decode ''AA'') = (n = ''AA'')" using assms(2) by auto
  have ask: "retryGetTxStatus race_checker b w = (Ok \<lparr>tr_Code = code, tr_Log = ''already submitted''\<rparr>, w)"
    using b by (simp add: retryGetTxStatus_def race_checker_def sample_checker_def numeral_3_eq_3 code_def)
  have "time_ok ti now" using w_ti_sel(2) [of ErrorOnCommit] by (simp add: ti_def now_def time_ok_def)
  from sample_sets [OF assms(1) _ this, where tx = None and v = "''t''" and q = 1 and n = n] obtain d' where
    d': "SetTxStatus sample_leveldb sample_codec 1 (sample_hash ''t'') n ti None now (w_db w) = (Inr (), d')"
      "db_wf sample_codec (map_of d')"
      "store_of sample_codec (map_of d') = spec_SetTxStatus 1 (sample_hash ''t'') n ti None now (world_store w)"
    by blast
  have st: "ti_Status ti = (if code = 0 then Committed else ErrorOnCommit)" by (simp add: ti_def)
  have set: "st_SetTxStatus sample_storage 1 (sample_hash ''t'') n ti None w = (Inr (), w\<lparr>w_db := d'\<rparr>)"
    using d'(1) st by (simp add: sample_storage_ops on_part_def now_def put_db_def split: if_splits)
  have "processSubmittedTx race_checker \<lparr>pd_QueryID = 1, pd_SubmittedTxHash = sample_hash ''t'', pd_NeutronHash = n\<rparr> w =
      (Inr (), w\<lparr>w_db := d'\<rparr>)"
    using b(1) ask set
    by (cases "code = 0") (simp_all add: processSubmittedTx_def updateTxStatus_def ti_def CodeTypeOK_def race_checker_def)
  with d'(2,3) st show ?thesis
    by (intro exI [of _ d'] exI [of _ ti] exI [of _ now]) (simp add: code_def)
qed

text \<open>
  C30: two submissions of one transaction may be in flight, since the web server resubmits
  anything that is cached. A run of the program: the relayer submits a transaction, which is
  pending as \<open>AA\<close>; a request resubmits it, and it is pending as \<open>BB\<close> too; the checker finds \<open>AA\<close>
  committed and then \<open>BB\<close> rejected. In the end the transaction that was committed is in the queue
  of unsuccessful transactions, with the status of a failure, has no cached copy, and a
  request to resubmit it is refused.
\<close>

theorem resubmission_race:
  "\<exists>w1 w2 w3 w4 A B u.
     A = \<lparr>pd_QueryID = 1, pd_SubmittedTxHash = sample_hash ''t'', pd_NeutronHash = ''AA''\<rparr> \<and>
     B = \<lparr>pd_QueryID = 1, pd_SubmittedTxHash = sample_hash ''t'', pd_NeutronHash = ''BB''\<rparr> \<and>
     ProcessAndSubmit race_txp 1 (sample_tx 5 ''t'') world0 = (Ok (), w1) \<and>
     resubmitFailedTxs sample_storage (TXProcessorOf race_txp) race_request w1 = (Ok \<lparr>rs_StatusCode = 200, rs_Body = []\<rparr>, w2) \<and>
     w_checks w2 = [A, B] \<and> pending (world_store w2) = [''AA'' \<mapsto> A, ''BB'' \<mapsto> B] \<and>
     processSubmittedTx race_checker A w2 = (Ok (), w3) \<and>
     map_option ti_Status (statuses (world_store w3) (1, sample_hash ''t'')) = Some Committed \<and>
     processSubmittedTx race_checker B w3 = (Ok (), w4) \<and>
     map_option ti_Status (statuses (world_store w4) (1, sample_hash ''t'')) = Some ErrorOnCommit \<and>
     pending (world_store w4) = Map.empty \<and>
     unsuccessful (world_store w4) (1, sample_hash ''t'') = Some u \<and> un_Status u = ErrorOnCommit \<and>
     cached (world_store w4) (1, sample_hash ''t'') = None \<and>
     (\<nexists>resp w5. resubmitFailedTxs sample_storage (TXProcessorOf race_txp) race_request w4 = (Ok resp, w5) \<and>
        rs_StatusCode resp = 200)"
proof -
  have wf: "db_wf sample_codec (map_of (w_db world0))" "w_out world0 = []" "w_checks world0 = []"
    "world_store world0 = empty_store" by (simp_all add: world0_def)
  obtain w1 where 1: "ProcessAndSubmit race_txp 1 (sample_tx 5 ''t'') world0 = (Inr (), w1)"
    "w_out w1 \<noteq> []" "w_checks w1 = [\<lparr>pd_QueryID = 1, pd_SubmittedTxHash = sample_hash ''t'', pd_NeutronHash = ''AA''\<rparr>]"
    "db_wf sample_codec (map_of (w_db w1))"
    "world_store w1 = spec_SetTxStatus 1 (sample_hash ''t'') ''AA'' \<lparr>ti_Status = Submitted, ti_Message = []\<rparr>
       (Some (sample_tx 5 ''t'')) [] empty_store"
    using race_submits [OF wf(1), of "''AA''" 1 5 "''t''"] wf(2-4) by auto
  have "cached (world_store w1) (1, sample_hash ''t'') = Some (sample_tx 5 ''t'')"
    by (simp add: 1(5) spec_SetTxStatus_def)
  from race_resubmits [OF 1(4) this, of "''BB''"] 1(2,3) obtain w2 where
    2: "resubmitFailedTxs sample_storage (TXProcessorOf race_txp) race_request w1 = (Inr \<lparr>rs_StatusCode = 200, rs_Body = []\<rparr>, w2)"
    "w_checks w2 = [\<lparr>pd_QueryID = 1, pd_SubmittedTxHash = sample_hash ''t'', pd_NeutronHash = ''AA''\<rparr>,
       \<lparr>pd_QueryID = 1, pd_SubmittedTxHash = sample_hash ''t'', pd_NeutronHash = ''BB''\<rparr>]"
    "db_wf sample_codec (map_of (w_db w2))"
    "world_store w2 = spec_SetTxStatus 1 (sample_hash ''t'') ''BB'' \<lparr>ti_Status = Submitted, ti_Message = []\<rparr>
       (Some (sample_tx 5 ''t'')) [] (world_store w1)"
    by auto
  from race_checks [OF 2(3), of "''AA''"] obtain w3 ta nowa where
    3: "processSubmittedTx race_checker \<lparr>pd_QueryID = 1, pd_SubmittedTxHash = sample_hash ''t'', pd_NeutronHash = ''AA''\<rparr> w2 = (Inr (), w3)"
    "db_wf sample_codec (map_of (w_db w3))" "ti_Status ta = Committed"
    "world_store w3 = spec_SetTxStatus 1 (sample_hash ''t'') ''AA'' ta None nowa (world_store w2)"
    by auto
  from race_checks [OF 3(2), of "''BB''"] obtain w4 tb nowb where
    4: "processSubmittedTx race_checker \<lparr>pd_QueryID = 1, pd_SubmittedTxHash = sample_hash ''t'', pd_NeutronHash = ''BB''\<rparr> w3 = (Inr (), w4)"
    "db_wf sample_codec (map_of (w_db w4))" "ti_Status tb = ErrorOnCommit"
    "world_store w4 = spec_SetTxStatus 1 (sample_hash ''t'') ''BB'' tb None nowb (world_store w3)"
    by auto
  have clean: "spec_pending_entry 1 (sample_hash ''t'') n = \<lparr>pd_QueryID = 1, pd_SubmittedTxHash = sample_hash ''t'', pd_NeutronHash = n\<rparr>"
    if "is_ascii n" for n
    using that by (simp add: spec_pending_entry_def clean_Pending_def)
  have none: "cached (world_store w4) (1, sample_hash ''t'') = None"
    by (simp add: 4(3,4) 3(3,4) spec_SetTxStatus_def)
  have refused: "\<nexists>resp w5. resubmitFailedTxs sample_storage (TXProcessorOf race_txp) race_request w4 = (Ok resp, w5) \<and>
      rs_StatusCode resp = 200"
    using leveldb.resubmit_missing [where L = sample_leveldb and C = sample_codec and get = w_db and put = put_db and
        clk = sample_clock and V = map_of and W = map_of and s = w4 and x = "\<lparr>rtx_QueryID = 1, rtx_Hash = sample_hash ''t''\<rparr>"
        and txs = "[]" and tp = "TXProcessorOf race_txp"] 4(2) none
    by (fastforce simp: race_request_read simp flip: sample_storage_def)
  have "pending (world_store w2) = [''AA'' \<mapsto> \<lparr>pd_QueryID = 1, pd_SubmittedTxHash = sample_hash ''t'', pd_NeutronHash = ''AA''\<rparr>,
      ''BB'' \<mapsto> \<lparr>pd_QueryID = 1, pd_SubmittedTxHash = sample_hash ''t'', pd_NeutronHash = ''BB''\<rparr>]"
    by (simp add: 2(4) 1(5) spec_SetTxStatus_def clean is_ascii_def empty_store_def)
  moreover have "pending (world_store w4) = Map.empty"
    by (auto simp: 4(3,4) 3(3,4) 2(4) 1(5) spec_SetTxStatus_def empty_store_def fun_eq_iff)
  moreover have "map_option ti_Status (statuses (world_store w3) (1, sample_hash ''t'')) = Some Committed"
    "map_option ti_Status (statuses (world_store w4) (1, sample_hash ''t'')) = Some ErrorOnCommit"
    by (simp_all add: 4(3,4) 3(3,4) spec_SetTxStatus_def clean_SubmittedTxInfo_def)
  moreover have "\<exists>u. unsuccessful (world_store w4) (1, sample_hash ''t'') = Some u \<and> un_Status u = ErrorOnCommit"
    by (simp add: 4(3,4) spec_SetTxStatus_def spec_unsuccessful_entry_def clean_Unsuccessful_def)
  ultimately show ?thesis using 1(1) 2(1,2) 3(1) 4(1) none refused by blast
qed

end
