(* ===== verification/Rest_Wire.thy ===== *)
theory Rest_Wire
  imports Rest_Client
begin

text \<open>
  What the REST node sends, as the client reads it. An answer is any JSON document that holds the
  data: the members of an object come in any order, members the client does not know are
  ignored, and a member of a zero value may be missing. Every such document is read as the body
  that holds the data, and so as the registered queries themselves.
\<close>

section \<open>Objects\<close>

text \<open>
  \<open>v\<close> is an object for a struct with the fields \<open>names\<close>: what is there under a name is right,
  nothing is there twice, and only what may be absent is missing.
\<close>

definition object_of :: "string list \<Rightarrow> (string \<Rightarrow> json \<Rightarrow> bool) \<Rightarrow> (string \<Rightarrow> bool) \<Rightarrow> json \<Rightarrow> bool" where
  "object_of names is_member absent v = (case v of
       JObj ms \<Rightarrow>
         list_all (\<lambda>(k, w). list_all (\<lambda>n. field_is n k \<longrightarrow> is_member n w) names) ms \<and>
         list_all (\<lambda>n. length (filter (\<lambda>(k, w). field_is n k) ms) \<le> 1) names \<and>
         list_all (\<lambda>n. absent n \<or> list_ex (\<lambda>(k, w). field_is n k) ms) names
     | _ \<Rightarrow> False)"

definition ptr_of :: "('a \<Rightarrow> json \<Rightarrow> bool) \<Rightarrow> 'a option \<Rightarrow> json \<Rightarrow> bool" where
  "ptr_of f p v = (case p of None \<Rightarrow> v = JNull | Some x \<Rightarrow> f x v)"

definition array_of :: "('a \<Rightarrow> json \<Rightarrow> bool) \<Rightarrow> 'a option list option \<Rightarrow> json \<Rightarrow> bool" where
  "array_of f xs v = (case xs of
       None \<Rightarrow> v = JNull
     | Some ps \<Rightarrow> (case v of JArr vs \<Rightarrow> list_all2 (ptr_of f) ps vs | _ \<Rightarrow> False))"

lemma object_not_null [simp]: "\<not> object_of names m a JNull"
  by (simp add: object_of_def)

text \<open>
  The contract of a struct that is read member by member: \<open>mix P q\<close> is the struct that has read
  the members \<open>P\<close> of \<open>q\<close> and is zero elsewhere.
\<close>

locale struct_members =
  fixes step :: "'a \<Rightarrow> string \<Rightarrow> json \<Rightarrow> 'a res" and zero :: 'a and names :: "string list"
    and is_member :: "'a \<Rightarrow> string \<Rightarrow> json \<Rightarrow> bool" and absent :: "'a \<Rightarrow> string \<Rightarrow> bool"
    and mix :: "string set \<Rightarrow> 'a \<Rightarrow> 'a"
  assumes unknown: "(\<forall>n \<in> set names. \<not> field_is n k) \<Longrightarrow> step x k v = Ok x"
    and known: "n \<in> set names \<Longrightarrow> n \<notin> P \<Longrightarrow> field_is n k \<Longrightarrow> is_member q n v \<Longrightarrow>
      step (mix P q) k v = Ok (mix (insert n P) q)"
    and none: "mix {} q = zero"
    and all: "(\<forall>n \<in> set names. n \<in> P \<or> absent q n) \<Longrightarrow> mix P q = q"
    and lower: "n \<in> set names \<Longrightarrow> ToLower n = n"
begin

lemma apart: "n \<in> set names \<Longrightarrow> m \<in> set names \<Longrightarrow> field_is n k \<Longrightarrow> field_is m k \<Longrightarrow> n = m"
  using lower [of n] lower [of m] by (simp add: field_is_def)

lemma fold_read:
  assumes "\<And>k w n. (k, w) \<in> set ms \<Longrightarrow> n \<in> set names \<Longrightarrow> field_is n k \<Longrightarrow> is_member q n w"
    and "\<And>n. n \<in> set names \<Longrightarrow> length (filter (\<lambda>(k, w). field_is n k) ms) \<le> 1"
    and "\<And>n. n \<in> set names \<Longrightarrow> n \<in> P \<Longrightarrow> filter (\<lambda>(k, w). field_is n k) ms = []"
  shows "fold_members step (mix P q) ms =
    Ok (mix (P \<union> {n \<in> set names. \<exists>k w. (k, w) \<in> set ms \<and> field_is n k}) q)"
  using assms
proof (induction ms arbitrary: P)
  case Nil
  then show ?case by (simp add: fold_members_simps)
next
  case (Cons m ms)
  obtain k w where m: "m = (k, w)" by fastforce
  show ?case
  proof (cases "\<exists>n \<in> set names. field_is n k")
    case True
    then obtain n where n: "n \<in> set names" "field_is n k" by blast
    with Cons.prems(3) [of n] m have fresh: "n \<notin> P" by auto
    from Cons.prems(1) [of k w n] n m have "is_member q n w" by simp
    from known [OF n(1) fresh n(2) this] have "step (mix P q) k w = Ok (mix (insert n P) q)" .
    moreover have rest: "filter (\<lambda>(k, w). field_is n k) ms = []"
      using Cons.prems(2) [OF n(1)] n(2) m by simp
    moreover have "length (filter (\<lambda>(k, w). field_is l k) ms) \<le> 1" if "l \<in> set names" for l
      using Cons.prems(2) [OF that] m by (auto split: if_splits)
    moreover have "filter (\<lambda>(k, w). field_is l k) ms = []" if "l \<in> set names" "l \<in> insert n P" for l
      using that rest Cons.prems(3) [of l] m by (auto split: if_splits)
    moreover have "is_member q l u" if "(j, u) \<in> set ms" "l \<in> set names" "field_is l j" for j u l
      using Cons.prems(1) [of j u l] that by simp
    ultimately have "fold_members step (mix P q) (m # ms) =
        Ok (mix (insert n P \<union> {n \<in> set names. \<exists>k w. (k, w) \<in> set ms \<and> field_is n k}) q)"
      unfolding m fold_members_simps by (simp only: res_then_simps) (rule Cons.IH)
    also have "insert n P \<union> {n \<in> set names. \<exists>k w. (k, w) \<in> set ms \<and> field_is n k} =
        P \<union> {n \<in> set names. \<exists>k w. (k, w) \<in> set (m # ms) \<and> field_is n k}"
      using n m apart by auto
    finally show ?thesis .
  next
    case False
    then have "fold_members step (mix P q) (m # ms) = fold_members step (mix P q) ms"
      by (simp add: m fold_members_simps unknown)
    also have "\<dots> = Ok (mix (P \<union> {n \<in> set names. \<exists>k w. (k, w) \<in> set ms \<and> field_is n k}) q)"
      using Cons.prems m False by (intro Cons.IH) (auto split: if_splits)
    also have "{n \<in> set names. \<exists>k w. (k, w) \<in> set ms \<and> field_is n k} =
        {n \<in> set names. \<exists>k w. (k, w) \<in> set (m # ms) \<and> field_is n k}"
      using False m by auto
    finally show ?thesis .
  qed
qed

text \<open>An object that holds the data of \<open>q\<close> is read as \<open>q\<close>.\<close>

lemma object_read:
  assumes "object_of names (is_member q) (absent q) v"
  shows "decode_struct step zero v = Ok q"
proof -
  from assms obtain ms where v: "v = JObj ms" by (cases v) (simp_all add: object_of_def)
  have "fold_members step (mix {} q) ms =
      Ok (mix ({} \<union> {n \<in> set names. \<exists>k w. (k, w) \<in> set ms \<and> field_is n k}) q)"
    using assms by (intro fold_read) (auto simp: v object_of_def list_all_iff)
  also have "mix ({} \<union> {n \<in> set names. \<exists>k w. (k, w) \<in> set ms \<and> field_is n k}) q = q"
    using assms by (intro all) (fastforce simp: v object_of_def list_all_iff list_ex_iff)
  finally show ?thesis by (simp add: v fold_members_def none)
qed

lemma ptr_read: "object_of names (is_member q) (absent q) v \<Longrightarrow> decode_struct_ptr step zero None v = Ok (Some q)"
  using object_read [of q v] by (cases v) (simp_all add: decode_struct_ptr_def decode_ptr_def object_of_def)

lemma decode_ptr_null: "decode_struct_ptr step zero p JNull = Ok None"
  by (simp add: decode_struct_ptr_def decode_ptr_def)

lemma array_read:
  assumes "array_of (\<lambda>q. object_of names (is_member q) (absent q)) xs v"
  shows "decode_structs step zero None v = Ok xs"
proof (cases xs)
  case None
  with assms show ?thesis by (simp add: array_of_def decode_structs_def decode_slice_def)
next
  case (Some ps)
  with assms obtain vs where v: "v = JArr vs" and
    all: "list_all2 (ptr_of (\<lambda>q. object_of names (is_member q) (absent q))) ps vs"
    by (cases v) (simp_all add: array_of_def)
  from all have "decode_elems (decode_struct_ptr step zero) None [] vs = Ok ps"
    by (induction rule: list_all2_induct)
      (auto simp: ptr_of_def ptr_read decode_ptr_null split: option.splits)
  with v Some show ?thesis by (simp add: decode_structs_def decode_slice_def)
qed

end

section \<open>The answers of Neutron\<close>

text \<open>What the members of the objects hold, which may be missing, and the structs half read.\<close>

definition KVKey_member :: "base64 \<Rightarrow> RestKVKey \<Rightarrow> string \<Rightarrow> json \<Rightarrow> bool" where
  "KVKey_member B x n v = (if n = ''key'' then UnmarshalJSON B v = Ok (rk_Key x) else v = JStr (rk_Path x))"

definition KVKey_absent :: "RestKVKey \<Rightarrow> string \<Rightarrow> bool" where
  "KVKey_absent x n = (if n = ''key'' then rk_Key x = [] else rk_Path x = [])"

definition KVKey_mix :: "string set \<Rightarrow> RestKVKey \<Rightarrow> RestKVKey" where
  "KVKey_mix P x = \<lparr>rk_Key = if ''key'' \<in> P then rk_Key x else [], rk_Path = if ''path'' \<in> P then rk_Path x else []\<rparr>"

definition KVKey_object :: "base64 \<Rightarrow> RestKVKey \<Rightarrow> json \<Rightarrow> bool" where
  "KVKey_object B x = object_of [''key'', ''path''] (KVKey_member B x) (KVKey_absent x)"

definition Height_member :: "RestHeight \<Rightarrow> string \<Rightarrow> json \<Rightarrow> bool" where
  "Height_member x n v =
     (v = JStr (if n = ''revision_height'' then rh_RevisionHeight x else rh_RevisionNumber x))"

definition Height_absent :: "RestHeight \<Rightarrow> string \<Rightarrow> bool" where
  "Height_absent x n = ((if n = ''revision_height'' then rh_RevisionHeight x else rh_RevisionNumber x) = [])"

definition Height_mix :: "string set \<Rightarrow> RestHeight \<Rightarrow> RestHeight" where
  "Height_mix P x = \<lparr>rh_RevisionHeight = if ''revision_height'' \<in> P then rh_RevisionHeight x else [],
     rh_RevisionNumber = if ''revision_number'' \<in> P then rh_RevisionNumber x else []\<rparr>"

definition Height_object :: "RestHeight \<Rightarrow> json \<Rightarrow> bool" where
  "Height_object x = object_of [''revision_height'', ''revision_number''] (Height_member x) (Height_absent x)"

definition Query_text :: "RestRegisteredQuery \<Rightarrow> string \<Rightarrow> string" where
  "Query_text x n =
     (if n = ''connection_id'' then rq_ConnectionID x else if n = ''id'' then rq_ID x
      else if n = ''last_submitted_result_local_height'' then rq_LastSubmittedResultLocalHeight x
      else if n = ''owner'' then rq_Owner x else if n = ''query_type'' then rq_QueryType x
      else if n = ''transactions_filter'' then rq_TransactionsFilter x else rq_UpdatePeriod x)"

definition Query_member :: "base64 \<Rightarrow> RestRegisteredQuery \<Rightarrow> string \<Rightarrow> json \<Rightarrow> bool" where
  "Query_member B x n v =
     (if n = ''keys'' then array_of (KVKey_object B) (rq_Keys x) v
      else if n = ''last_submitted_result_remote_height'' then
        ptr_of Height_object (rq_LastSubmittedResultRemoteHeight x) v
      else v = JStr (Query_text x n))"

definition Query_absent :: "RestRegisteredQuery \<Rightarrow> string \<Rightarrow> bool" where
  "Query_absent x n =
     (if n = ''keys'' then rq_Keys x = None
      else if n = ''last_submitted_result_remote_height'' then rq_LastSubmittedResultRemoteHeight x = None
      else Query_text x n = [])"

definition Query_names :: "string list" where
  "Query_names = [''connection_id'', ''id'', ''keys'', ''last_submitted_result_local_height'',
     ''last_submitted_result_remote_height'', ''owner'', ''query_type'', ''transactions_filter'', ''update_period'']"

definition Query_mix :: "string set \<Rightarrow> RestRegisteredQuery \<Rightarrow> RestRegisteredQuery" where
  "Query_mix P x = \<lparr>rq_ConnectionID = if ''connection_id'' \<in> P then rq_ConnectionID x else [],
     rq_ID = if ''id'' \<in> P then rq_ID x else [], rq_Keys = if ''keys'' \<in> P then rq_Keys x else None,
     rq_LastSubmittedResultLocalHeight =
       if ''last_submitted_result_local_height'' \<in> P then rq_LastSubmittedResultLocalHeight x else [],
     rq_LastSubmittedResultRemoteHeight =
       if ''last_submitted_result_remote_height'' \<in> P then rq_LastSubmittedResultRemoteHeight x else None,
     rq_Owner = if ''owner'' \<in> P then rq_Owner x else [],
     rq_QueryType = if ''query_type'' \<in> P then rq_QueryType x else [],
     rq_TransactionsFilter = if ''transactions_filter'' \<in> P then rq_TransactionsFilter x else [],
     rq_UpdatePeriod = if ''update_period'' \<in> P then rq_UpdatePeriod x else []\<rparr>"

definition Query_object :: "base64 \<Rightarrow> RestRegisteredQuery \<Rightarrow> json \<Rightarrow> bool" where
  "Query_object B x = object_of Query_names (Query_member B x) (Query_absent x)"

definition Pagination_member :: "base64 \<Rightarrow> RestPagination \<Rightarrow> string \<Rightarrow> json \<Rightarrow> bool" where
  "Pagination_member B x n v =
     (if n = ''next_key'' then UnmarshalJSON B v = Ok (rp_NextKey x) else v = JStr (rp_Total x))"

definition Pagination_absent :: "RestPagination \<Rightarrow> string \<Rightarrow> bool" where
  "Pagination_absent x n = (if n = ''next_key'' then rp_NextKey x = [] else rp_Total x = [])"

definition Pagination_mix :: "string set \<Rightarrow> RestPagination \<Rightarrow> RestPagination" where
  "Pagination_mix P x = \<lparr>rp_NextKey = if ''next_key'' \<in> P then rp_NextKey x else [],
     rp_Total = if ''total'' \<in> P then rp_Total x else []\<rparr>"

definition Pagination_object :: "base64 \<Rightarrow> RestPagination \<Rightarrow> json \<Rightarrow> bool" where
  "Pagination_object B x = object_of [''next_key'', ''total''] (Pagination_member B x) (Pagination_absent x)"

definition Page_member :: "base64 \<Rightarrow> RegisteredQueriesBody \<Rightarrow> string \<Rightarrow> json \<Rightarrow> bool" where
  "Page_member B x n v =
     (if n = ''pagination'' then ptr_of (Pagination_object B) (rb_Pagination x) v
      else array_of (Query_object B) (RegisteredQueries x) v)"

definition Page_absent :: "RegisteredQueriesBody \<Rightarrow> string \<Rightarrow> bool" where
  "Page_absent x n = (if n = ''pagination'' then rb_Pagination x = None else RegisteredQueries x = None)"

definition Page_mix :: "string set \<Rightarrow> RegisteredQueriesBody \<Rightarrow> RegisteredQueriesBody" where
  "Page_mix P x = \<lparr>rb_Pagination = if ''pagination'' \<in> P then rb_Pagination x else None,
     RegisteredQueries = if ''registered_queries'' \<in> P then RegisteredQueries x else None\<rparr>"

definition Page_object :: "base64 \<Rightarrow> RegisteredQueriesBody \<Rightarrow> json \<Rightarrow> bool" where
  "Page_object B x = object_of [''pagination'', ''registered_queries''] (Page_member B x) (Page_absent x)"

definition Answer_member :: "base64 \<Rightarrow> RegisteredQueryBody \<Rightarrow> string \<Rightarrow> json \<Rightarrow> bool" where
  "Answer_member B x n v = ptr_of (Query_object B) (rb_RegisteredQuery x) v"

definition Answer_absent :: "RegisteredQueryBody \<Rightarrow> string \<Rightarrow> bool" where
  "Answer_absent x n = (rb_RegisteredQuery x = None)"

definition Answer_mix :: "string set \<Rightarrow> RegisteredQueryBody \<Rightarrow> RegisteredQueryBody" where
  "Answer_mix P x = \<lparr>rb_RegisteredQuery = if ''registered_query'' \<in> P then rb_RegisteredQuery x else None\<rparr>"

definition Answer_object :: "base64 \<Rightarrow> RegisteredQueryBody \<Rightarrow> json \<Rightarrow> bool" where
  "Answer_object B x = object_of [''registered_query''] (Answer_member B x) (Answer_absent x)"

section \<open>They are read as they are\<close>

interpretation KVKey_members: struct_members "step_RestKVKey B" zero_RestKVKey "[''key'', ''path'']"
  "KVKey_member B" KVKey_absent KVKey_mix
  by unfold_locales
    (auto simp: step_RestKVKey_def zero_RestKVKey_def KVKey_member_def KVKey_absent_def KVKey_mix_def field_is_def
      field_names split: if_splits)

interpretation Height_members: struct_members "step_RestHeight B" zero_RestHeight
  "[''revision_height'', ''revision_number'']" Height_member Height_absent Height_mix
  by unfold_locales
    (auto simp: step_RestHeight_def zero_RestHeight_def Height_member_def Height_absent_def Height_mix_def field_is_def
      field_names split: if_splits)

lemma Query_parts [simp]:
  "array_of (KVKey_object B) xs v \<Longrightarrow> decode_structs (step_RestKVKey B) zero_RestKVKey None v = Ok xs"
  "ptr_of Height_object p v \<Longrightarrow> decode_struct_ptr (step_RestHeight B) zero_RestHeight None v = Ok p"
  unfolding KVKey_object_def [abs_def] Height_object_def [abs_def]
  by (rule KVKey_members.array_read)
    (auto simp: ptr_of_def Height_members.ptr_read Height_members.decode_ptr_null split: option.splits)

lemma Query_known:
  assumes "n \<in> set Query_names" "n \<notin> P" "field_is n k" "Query_member B q n v"
  shows "step_RestRegisteredQuery B (Query_mix P q) k v = Ok (Query_mix (insert n P) q)"
  using assms
  by (simp add: Query_names_def, elim disjE;
      simp add: step_RestRegisteredQuery_def Query_member_def Query_text_def Query_mix_def field_is_def field_names)

lemma Query_all:
  assumes "\<forall>n \<in> set Query_names. n \<in> P \<or> Query_absent q n"
  shows "Query_mix P q = q"
  by (rule RestRegisteredQuery.equality)
    (use assms in \<open>simp add: Query_mix_def Query_absent_def Query_text_def Query_names_def; metis\<close>)+

interpretation Query_members: struct_members "step_RestRegisteredQuery B" zero_RestRegisteredQuery Query_names
  "Query_member B" Query_absent Query_mix
proof unfold_locales
  show "step_RestRegisteredQuery B x k v = Ok x" if "\<forall>n \<in> set Query_names. \<not> field_is n k" for x k v
    using that by (simp add: step_RestRegisteredQuery_def Query_names_def)
  show "Query_mix {} q = zero_RestRegisteredQuery" for q
    by (simp add: Query_mix_def zero_RestRegisteredQuery_def)
  show "ToLower n = n" if "n \<in> set Query_names" for n
    using that by (auto simp: Query_names_def field_names)
qed (rule Query_known Query_all, assumption+)+

lemma Page_parts [simp]:
  "array_of (Query_object B) xs v \<Longrightarrow>
    decode_structs (step_RestRegisteredQuery B) zero_RestRegisteredQuery None v = Ok xs"
  "ptr_of (Query_object B) q v \<Longrightarrow>
    decode_struct_ptr (step_RestRegisteredQuery B) zero_RestRegisteredQuery None v = Ok q"
  unfolding Query_object_def [abs_def]
  by (rule Query_members.array_read)
    (auto simp: ptr_of_def Query_members.ptr_read Query_members.decode_ptr_null split: option.splits)

interpretation Pagination_members: struct_members "step_RestPagination B" zero_RestPagination
  "[''next_key'', ''total'']" "Pagination_member B" Pagination_absent Pagination_mix
  by unfold_locales
    (auto simp: step_RestPagination_def zero_RestPagination_def Pagination_member_def Pagination_absent_def
      Pagination_mix_def field_is_def field_names split: if_splits)

lemma Pagination_ptr [simp]:
  "ptr_of (Pagination_object B) p v \<Longrightarrow> decode_struct_ptr (step_RestPagination B) zero_RestPagination None v = Ok p"
  unfolding Pagination_object_def [abs_def]
  by (auto simp: ptr_of_def Pagination_members.ptr_read Pagination_members.decode_ptr_null split: option.splits)

interpretation Page_members: struct_members "step_RegisteredQueriesBody B" zero_RegisteredQueriesBody
  "[''pagination'', ''registered_queries'']" "Page_member B" Page_absent Page_mix
  by unfold_locales
    (auto simp: step_RegisteredQueriesBody_def zero_RegisteredQueriesBody_def Page_member_def Page_absent_def
      Page_mix_def field_is_def field_names split: if_splits)

interpretation Answer_members: struct_members "step_RegisteredQueryBody B" zero_RegisteredQueryBody
  "[''registered_query'']" "Answer_member B" Answer_absent Answer_mix
  by unfold_locales
    (auto simp: step_RegisteredQueryBody_def zero_RegisteredQueryBody_def Answer_member_def Answer_absent_def
      Answer_mix_def field_is_def field_names split: if_splits)

text \<open>The JSON consumer of the go-openapi runtime decodes the body into the body type.\<close>

definition json_consumer :: "('p, 'e) consumer \<Rightarrow> ('p \<Rightarrow> string \<Rightarrow> json \<Rightarrow> 'p res) \<Rightarrow> bool" where
  "json_consumer C step \<longleftrightarrow>
     (\<forall>body. Consume_OK C body = res_then (json_decode_first body) (decode_struct step (zero_OK C)))"

lemma page_read:
  assumes "json_consumer C (step_RegisteredQueriesBody B)" "zero_OK C = zero_RegisteredQueriesBody"
    and "json_decode_first body = Ok v" "Page_object B p v"
  shows "queries_ReadResponse C 200 body = Ok (RespOK p)"
  using assms Page_members.object_read [of B p v]
  by (simp add: queries_ReadResponse_def read_response_OK json_consumer_def Page_object_def)

lemma answer_read:
  assumes "json_consumer C (step_RegisteredQueryBody B)" "zero_OK C = zero_RegisteredQueryBody"
    and "json_decode_first body = Ok v" "Answer_object B p v"
  shows "query_ReadResponse C 200 body = Ok (RespOK p)"
  using assms Answer_members.object_read [of B p v]
  by (simp add: query_ReadResponse_def read_response_OK json_consumer_def Answer_object_def)

text \<open>The bodies that hold registered queries: one alone, or a page of them with the key of the next.\<close>

definition query_answer :: "RegisteredQuery \<Rightarrow> RegisteredQueryBody \<Rightarrow> bool" where
  "query_answer q y \<longleftrightarrow> (\<exists>x. rb_RegisteredQuery y = Some x \<and> renders q x)"

definition page_answer :: "RestPagination option \<Rightarrow> RegisteredQuery list \<Rightarrow> RegisteredQueriesBody \<Rightarrow> bool" where
  "page_answer p qs y \<longleftrightarrow> rb_Pagination y = p \<and>
     (RegisteredQueries y = None \<and> qs = [] \<or>
      (\<exists>xs. RegisteredQueries y = Some (map Some xs) \<and> list_all2 renders qs xs))"

lemma query_answer_read: "query_answer q y \<Longrightarrow> single_ToNeutronRegisteredQuery (rb_RegisteredQuery y) = Ok q"
  by (auto simp: query_answer_def renders_read)

lemma page_answer_read:
  assumes "page_answer p qs y"
  shows "map items_ToNeutronRegisteredQuery (elements (RegisteredQueries y)) = map Ok qs" "rb_Pagination y = p"
proof -
  have "map items_ToNeutronRegisteredQuery (map Some xs) = map Ok qs" if "list_all2 renders qs xs" for xs
    using that by (induction rule: list_all2_induct) (simp_all add: renders_read)
  with assms show "map items_ToNeutronRegisteredQuery (elements (RegisteredQueries y)) = map Ok qs" "rb_Pagination y = p"
    by (auto simp: page_answer_def)
qed

end
