(* ===== verification/Rest_Params.thy ===== *)
theory Rest_Params
  imports Rest_Client
begin

text \<open>
  The other ways to build the parameters of a call (\<open>*_parameters.go\<close>): constructors that set
  one of them and the pairs \<open>SetX\<close>, \<open>WithX\<close>, of which \<open>WithX\<close> also returns the
  parameters. Whatever way they are built, \<open>WriteToRequest\<close> writes them into the request in a
  fixed order, each under its name.
\<close>

section \<open>Operation \<open>IbcCoreConnectionV1Connection\<close>\<close>

type_synonym ('c, 'h) connection_update =
  "('c, 'h) IbcCoreConnectionV1ConnectionParams \<Rightarrow> ('c, 'h) IbcCoreConnectionV1ConnectionParams"

definition connection_Params_WithTimeout :: "int \<Rightarrow> ('c, 'h) IbcCoreConnectionV1ConnectionParams" where
  "connection_Params_WithTimeout timeout = (NewIbcCoreConnectionV1ConnectionParams 0)\<lparr>cn_timeout := timeout\<rparr>"

definition connection_Params_WithContext :: "'c option \<Rightarrow> ('c, 'h) IbcCoreConnectionV1ConnectionParams" where
  "connection_Params_WithContext ctx = (NewIbcCoreConnectionV1ConnectionParams 0)\<lparr>cn_Context := ctx\<rparr>"

definition connection_Params_WithHTTPClient :: "'h option \<Rightarrow> ('c, 'h) IbcCoreConnectionV1ConnectionParams" where
  "connection_Params_WithHTTPClient client = (NewIbcCoreConnectionV1ConnectionParams 0)\<lparr>cn_HTTPClient := client\<rparr>"

definition connection_SetDefaults :: "('c, 'h) connection_update" where
  "connection_SetDefaults p = p"

definition connection_SetTimeout :: "int \<Rightarrow> ('c, 'h) connection_update" where
  "connection_SetTimeout timeout p = p\<lparr>cn_timeout := timeout\<rparr>"

definition connection_SetContext :: "'c option \<Rightarrow> ('c, 'h) connection_update" where
  "connection_SetContext ctx p = p\<lparr>cn_Context := ctx\<rparr>"

definition connection_SetHTTPClient :: "'h option \<Rightarrow> ('c, 'h) connection_update" where
  "connection_SetHTTPClient client p = p\<lparr>cn_HTTPClient := client\<rparr>"

definition connection_SetConnectionID :: "string \<Rightarrow> ('c, 'h) connection_update" where
  "connection_SetConnectionID connectionID p = p\<lparr>cn_ConnectionID := connectionID\<rparr>"

section \<open>Operation \<open>NeutronInterchainQueriesRegisteredQuery\<close>\<close>

type_synonym ('c, 'h) query_update =
  "('c, 'h) RegisteredQueryParams \<Rightarrow> ('c, 'h) RegisteredQueryParams"

definition query_Params_WithTimeout :: "int \<Rightarrow> ('c, 'h) RegisteredQueryParams" where
  "query_Params_WithTimeout timeout = (NewRegisteredQueryParams 0)\<lparr>rg_timeout := timeout\<rparr>"

definition query_Params_WithContext :: "'c option \<Rightarrow> ('c, 'h) RegisteredQueryParams" where
  "query_Params_WithContext ctx = (NewRegisteredQueryParams 0)\<lparr>rg_Context := ctx\<rparr>"

definition query_Params_WithHTTPClient :: "'h option \<Rightarrow> ('c, 'h) RegisteredQueryParams" where
  "query_Params_WithHTTPClient client = (NewRegisteredQueryParams 0)\<lparr>rg_HTTPClient := client\<rparr>"

definition query_SetDefaults :: "('c, 'h) query_update" where
  "query_SetDefaults p = p"

definition query_SetTimeout :: "int \<Rightarrow> ('c, 'h) query_update" where
  "query_SetTimeout timeout p = p\<lparr>rg_timeout := timeout\<rparr>"

definition query_SetContext :: "'c option \<Rightarrow> ('c, 'h) query_update" where
  "query_SetContext ctx p = p\<lparr>rg_Context := ctx\<rparr>"

definition query_SetHTTPClient :: "'h option \<Rightarrow> ('c, 'h) query_update" where
  "query_SetHTTPClient client p = p\<lparr>rg_HTTPClient := client\<rparr>"

definition query_SetQueryID :: "string option \<Rightarrow> ('c, 'h) query_update" where
  "query_SetQueryID queryID p = p\<lparr>rg_QueryID := queryID\<rparr>"

section \<open>Operation \<open>NeutronInterchainQueriesRegisteredQueries\<close>\<close>

type_synonym ('c, 'h) queries_update =
  "('c, 'h) RegisteredQueriesParams \<Rightarrow> ('c, 'h) RegisteredQueriesParams"

definition queries_Params_WithTimeout :: "int \<Rightarrow> ('c, 'h) RegisteredQueriesParams" where
  "queries_Params_WithTimeout timeout = (NewRegisteredQueriesParams 0)\<lparr>rgs_timeout := timeout\<rparr>"

definition queries_Params_WithContext :: "'c option \<Rightarrow> ('c, 'h) RegisteredQueriesParams" where
  "queries_Params_WithContext ctx = (NewRegisteredQueriesParams 0)\<lparr>rgs_Context := ctx\<rparr>"

definition queries_Params_WithHTTPClient :: "'h option \<Rightarrow> ('c, 'h) RegisteredQueriesParams" where
  "queries_Params_WithHTTPClient client = (NewRegisteredQueriesParams 0)\<lparr>rgs_HTTPClient := client\<rparr>"

definition queries_SetDefaults :: "('c, 'h) queries_update" where
  "queries_SetDefaults p = p"

definition queries_SetTimeout :: "int \<Rightarrow> ('c, 'h) queries_update" where
  "queries_SetTimeout timeout p = p\<lparr>rgs_timeout := timeout\<rparr>"

definition queries_SetContext :: "'c option \<Rightarrow> ('c, 'h) queries_update" where
  "queries_SetContext ctx p = p\<lparr>rgs_Context := ctx\<rparr>"

definition queries_SetHTTPClient :: "'h option \<Rightarrow> ('c, 'h) queries_update" where
  "queries_SetHTTPClient client p = p\<lparr>rgs_HTTPClient := client\<rparr>"

definition queries_SetConnectionID :: "string option \<Rightarrow> ('c, 'h) queries_update" where
  "queries_SetConnectionID connectionID p = p\<lparr>rgs_ConnectionID := connectionID\<rparr>"

definition queries_SetOwners :: "string list option \<Rightarrow> ('c, 'h) queries_update" where
  "queries_SetOwners owners p = p\<lparr>Owners := owners\<rparr>"

definition queries_SetPaginationCountTotal :: "bool option \<Rightarrow> ('c, 'h) queries_update" where
  "queries_SetPaginationCountTotal paginationCountTotal p = p\<lparr>PaginationCountTotal := paginationCountTotal\<rparr>"

definition queries_SetPaginationKey :: "bytes option \<Rightarrow> ('c, 'h) queries_update" where
  "queries_SetPaginationKey paginationKey p = p\<lparr>PaginationKey := paginationKey\<rparr>"

definition queries_SetPaginationLimit :: "string option \<Rightarrow> ('c, 'h) queries_update" where
  "queries_SetPaginationLimit paginationLimit p = p\<lparr>PaginationLimit := paginationLimit\<rparr>"

definition queries_SetPaginationOffset :: "string option \<Rightarrow> ('c, 'h) queries_update" where
  "queries_SetPaginationOffset paginationOffset p = p\<lparr>PaginationOffset := paginationOffset\<rparr>"

definition queries_SetPaginationReverse :: "bool option \<Rightarrow> ('c, 'h) queries_update" where
  "queries_SetPaginationReverse paginationReverse p = p\<lparr>PaginationReverse := paginationReverse\<rparr>"

section \<open>What is written into a request\<close>

definition query_param :: "string \<Rightarrow> ('a \<Rightarrow> string) \<Rightarrow> 'a option \<Rightarrow> written list" where
  "query_param n fmt p = (case p of None \<Rightarrow> [] | Some x \<Rightarrow> if fmt x = [] then [] else [QueryParam n [fmt x]])"

lemma recorder_simps:
  "req_SetTimeout recorder t q = (Ok (), Timeout t # q)"
  "req_SetQueryParam recorder n vs q = (Ok (), QueryParam n vs # q)"
  "req_SetPathParam recorder n v q = (Ok (), PathParam n v # q)"
  by (simp_all add: recorder_def)

lemma write_param_query_param: "write_param recorder n fmt p q = (Ok (), query_param n fmt p @ q)"
  by (simp add: write_param_recorder query_param_def)

lemma WriteToRequest_recorder:
  "connection_WriteToRequest recorder c [] = (Ok (), [PathParam ''connection_id'' (cn_ConnectionID c), Timeout (cn_timeout c)])"
  "query_WriteToRequest recorder q [] = (Ok (), query_param ''query_id'' id (rg_QueryID q) @ [Timeout (rg_timeout q)])"
  "queries_WriteToRequest recorder p [] = (Ok (),
     query_param ''pagination.reverse'' FormatBool (PaginationReverse p) @
     query_param ''pagination.offset'' id (PaginationOffset p) @
     query_param ''pagination.limit'' id (PaginationLimit p) @
     query_param ''pagination.key'' base64_encode (PaginationKey p) @
     query_param ''pagination.count_total'' FormatBool (PaginationCountTotal p) @
     (case Owners p of None \<Rightarrow> [] | Some os \<Rightarrow> [QueryParam ''owners'' os]) @
     query_param ''connection_id'' id (rgs_ConnectionID p) @ [Timeout (rgs_timeout p)])"
  by (simp_all add: connection_WriteToRequest_def query_WriteToRequest_def queries_WriteToRequest_def
      recorder_simps write_param_query_param bindParamOwners_def split: option.split)

end
