(* ===== verification/Rest_Models.thy ===== *)
theory Rest_Models
  imports Rest_Validation
begin

text \<open>
  The generated models of the query module (\<open>internal/subscriber/querier/models\<close>): types,
  \<open>Validate\<close> and \<open>ContextValidate\<close> with the methods of their fields, \<open>MarshalBinary\<close> and
  \<open>UnmarshalBinary\<close>. A type that repeats the fields of another is a synonym of its record.
\<close>

section \<open>\<open>neutron_interchainqueries_block.go\<close>\<close>

type_synonym model_BlockHeader = RestAny

definition model_BlockHeader_Validate :: "('e, model_BlockHeader) validator" where
  "model_BlockHeader_Validate V x = None"

definition model_BlockHeader_ContextValidate :: "('e, model_BlockHeader) validator" where
  "model_BlockHeader_ContextValidate V x = None"

definition model_BlockHeader_MarshalBinary :: "model_BlockHeader marshaller" where
  "model_BlockHeader_MarshalBinary W B = MarshalBinary W (encode_RestAny B)"

definition model_BlockHeader_UnmarshalBinary :: "model_BlockHeader unmarshaller" where
  "model_BlockHeader_UnmarshalBinary R B = UnmarshalBinary R (step_RestAny B) zero_RestAny"

type_synonym model_BlockNextBlockHeader = RestAny

definition model_BlockNextBlockHeader_Validate :: "('e, model_BlockNextBlockHeader) validator" where
  "model_BlockNextBlockHeader_Validate V x = None"

definition model_BlockNextBlockHeader_ContextValidate :: "('e, model_BlockNextBlockHeader) validator" where
  "model_BlockNextBlockHeader_ContextValidate V x = None"

definition model_BlockNextBlockHeader_MarshalBinary :: "model_BlockNextBlockHeader marshaller" where
  "model_BlockNextBlockHeader_MarshalBinary W B = MarshalBinary W (encode_RestAny B)"

definition model_BlockNextBlockHeader_UnmarshalBinary :: "model_BlockNextBlockHeader unmarshaller" where
  "model_BlockNextBlockHeader_UnmarshalBinary R B = UnmarshalBinary R (step_RestAny B) zero_RestAny"

definition model_BlockTxDeliveryProof_Validate :: "('e, RestMerkleProof) validator" where
  "model_BlockTxDeliveryProof_Validate V x = None"

definition model_BlockTxDeliveryProof_ContextValidate :: "('e, RestMerkleProof) validator" where
  "model_BlockTxDeliveryProof_ContextValidate V x = None"

definition model_BlockTxDeliveryProof_MarshalBinary :: "RestMerkleProof marshaller" where
  "model_BlockTxDeliveryProof_MarshalBinary W B = MarshalBinary W (encode_RestMerkleProof B)"

definition model_BlockTxDeliveryProof_UnmarshalBinary :: "RestMerkleProof unmarshaller" where
  "model_BlockTxDeliveryProof_UnmarshalBinary R B = UnmarshalBinary R (step_RestMerkleProof B) zero_RestMerkleProof"

type_synonym model_BlockTxInclusionProof = RestMerkleProof

definition model_BlockTxInclusionProof_Validate :: "('e, model_BlockTxInclusionProof) validator" where
  "model_BlockTxInclusionProof_Validate V x = None"

definition model_BlockTxInclusionProof_ContextValidate :: "('e, model_BlockTxInclusionProof) validator" where
  "model_BlockTxInclusionProof_ContextValidate V x = None"

definition model_BlockTxInclusionProof_MarshalBinary :: "model_BlockTxInclusionProof marshaller" where
  "model_BlockTxInclusionProof_MarshalBinary W B = MarshalBinary W (encode_RestMerkleProof B)"

definition model_BlockTxInclusionProof_UnmarshalBinary :: "model_BlockTxInclusionProof unmarshaller" where
  "model_BlockTxInclusionProof_UnmarshalBinary R B = UnmarshalBinary R (step_RestMerkleProof B) zero_RestMerkleProof"

definition model_BlockTxResponseEventsItems0AttributesItems0_Validate :: "('e, RestEventAttribute) validator" where
  "model_BlockTxResponseEventsItems0AttributesItems0_Validate V x = None"

definition model_BlockTxResponseEventsItems0AttributesItems0_ContextValidate :: "('e, RestEventAttribute) validator" where
  "model_BlockTxResponseEventsItems0AttributesItems0_ContextValidate V x = None"

definition model_BlockTxResponseEventsItems0AttributesItems0_MarshalBinary :: "RestEventAttribute marshaller" where
  "model_BlockTxResponseEventsItems0AttributesItems0_MarshalBinary W B = MarshalBinary W (encode_RestEventAttribute B)"

definition model_BlockTxResponseEventsItems0AttributesItems0_UnmarshalBinary :: "RestEventAttribute unmarshaller" where
  "model_BlockTxResponseEventsItems0AttributesItems0_UnmarshalBinary R B = UnmarshalBinary R (step_RestEventAttribute B) zero_RestEventAttribute"

definition model_BlockTxResponseEventsItems0_Validate :: "('e, RestEvent) validator" where
  "model_BlockTxResponseEventsItems0_Validate V x = all_of V
     [validate_items V ''attributes'' (model_BlockTxResponseEventsItems0AttributesItems0_Validate V) (ev_Attributes x)]"

definition model_BlockTxResponseEventsItems0_ContextValidate :: "('e, RestEvent) validator" where
  "model_BlockTxResponseEventsItems0_ContextValidate V x = all_of V
     [validate_items V ''attributes'' (model_BlockTxResponseEventsItems0AttributesItems0_ContextValidate V) (ev_Attributes x)]"

definition model_BlockTxResponseEventsItems0_MarshalBinary :: "RestEvent marshaller" where
  "model_BlockTxResponseEventsItems0_MarshalBinary W B = MarshalBinary W (encode_RestEvent B)"

definition model_BlockTxResponseEventsItems0_UnmarshalBinary :: "RestEvent unmarshaller" where
  "model_BlockTxResponseEventsItems0_UnmarshalBinary R B = UnmarshalBinary R (step_RestEvent B) zero_RestEvent"

definition model_BlockTxResponse_Validate :: "('e, RestTxResponse) validator" where
  "model_BlockTxResponse_Validate V x = all_of V
     [validate_items V ''tx.response.events'' (model_BlockTxResponseEventsItems0_Validate V) (xr_Events x)]"

definition model_BlockTxResponse_ContextValidate :: "('e, RestTxResponse) validator" where
  "model_BlockTxResponse_ContextValidate V x = all_of V
     [validate_items V ''tx.response.events'' (model_BlockTxResponseEventsItems0_ContextValidate V) (xr_Events x)]"

definition model_BlockTxResponse_MarshalBinary :: "RestTxResponse marshaller" where
  "model_BlockTxResponse_MarshalBinary W B = MarshalBinary W (encode_RestTxResponse B)"

definition model_BlockTxResponse_UnmarshalBinary :: "RestTxResponse unmarshaller" where
  "model_BlockTxResponse_UnmarshalBinary R B = UnmarshalBinary R (step_RestTxResponse B) zero_RestTxResponse"

definition model_BlockTx_Validate :: "('e, RestBlockTx) validator" where
  "model_BlockTx_Validate V x = all_of V
     [validate_ptr V ''tx.delivery_proof'' (model_BlockTxDeliveryProof_Validate V) (bt_DeliveryProof x),
      validate_ptr V ''tx.inclusion_proof'' (model_BlockTxInclusionProof_Validate V) (bt_InclusionProof x),
      validate_ptr V ''tx.response'' (model_BlockTxResponse_Validate V) (bt_Response x)]"

definition model_BlockTx_ContextValidate :: "('e, RestBlockTx) validator" where
  "model_BlockTx_ContextValidate V x = all_of V
     [validate_ptr V ''tx.delivery_proof'' (model_BlockTxDeliveryProof_ContextValidate V) (bt_DeliveryProof x),
      validate_ptr V ''tx.inclusion_proof'' (model_BlockTxInclusionProof_ContextValidate V) (bt_InclusionProof x),
      validate_ptr V ''tx.response'' (model_BlockTxResponse_ContextValidate V) (bt_Response x)]"

definition model_BlockTx_MarshalBinary :: "RestBlockTx marshaller" where
  "model_BlockTx_MarshalBinary W B = MarshalBinary W (encode_RestBlockTx B)"

definition model_BlockTx_UnmarshalBinary :: "RestBlockTx unmarshaller" where
  "model_BlockTx_UnmarshalBinary R B = UnmarshalBinary R (step_RestBlockTx B) zero_RestBlockTx"

definition model_Block_Validate :: "('e, RestBlock) validator" where
  "model_Block_Validate V x = all_of V
     [validate_ptr V ''header'' (model_BlockHeader_Validate V) (bl_Header x),
      validate_ptr V ''next_block_header'' (model_BlockNextBlockHeader_Validate V) (bl_NextBlockHeader x),
      validate_ptr V ''tx'' (model_BlockTx_Validate V) (bl_Tx x)]"

definition model_Block_ContextValidate :: "('e, RestBlock) validator" where
  "model_Block_ContextValidate V x = all_of V
     [validate_ptr V ''header'' (model_BlockHeader_ContextValidate V) (bl_Header x),
      validate_ptr V ''next_block_header'' (model_BlockNextBlockHeader_ContextValidate V) (bl_NextBlockHeader x),
      validate_ptr V ''tx'' (model_BlockTx_ContextValidate V) (bl_Tx x)]"

definition model_Block_MarshalBinary :: "RestBlock marshaller" where
  "model_Block_MarshalBinary W B = MarshalBinary W (encode_RestBlock B)"

definition model_Block_UnmarshalBinary :: "RestBlock unmarshaller" where
  "model_Block_UnmarshalBinary R B = UnmarshalBinary R (step_RestBlock B) zero_RestBlock"

section \<open>\<open>neutron_interchainqueries_k_v_key.go\<close>\<close>

type_synonym model_KVKey = RestKVKey

definition model_KVKey_Validate :: "('e, model_KVKey) validator" where
  "model_KVKey_Validate V x = None"

definition model_KVKey_ContextValidate :: "('e, model_KVKey) validator" where
  "model_KVKey_ContextValidate V x = None"

definition model_KVKey_MarshalBinary :: "model_KVKey marshaller" where
  "model_KVKey_MarshalBinary W B = MarshalBinary W (encode_RestKVKey B)"

definition model_KVKey_UnmarshalBinary :: "model_KVKey unmarshaller" where
  "model_KVKey_UnmarshalBinary R B = UnmarshalBinary R (step_RestKVKey B) zero_RestKVKey"

section \<open>\<open>neutron_interchainqueries_registered_query.go\<close>\<close>

type_synonym model_RegisteredQueryKeysItems0 = RestKVKey

definition model_RegisteredQueryKeysItems0_Validate :: "('e, model_RegisteredQueryKeysItems0) validator" where
  "model_RegisteredQueryKeysItems0_Validate V x = None"

definition model_RegisteredQueryKeysItems0_ContextValidate :: "('e, model_RegisteredQueryKeysItems0) validator" where
  "model_RegisteredQueryKeysItems0_ContextValidate V x = None"

definition model_RegisteredQueryKeysItems0_MarshalBinary :: "model_RegisteredQueryKeysItems0 marshaller" where
  "model_RegisteredQueryKeysItems0_MarshalBinary W B = MarshalBinary W (encode_RestKVKey B)"

definition model_RegisteredQueryKeysItems0_UnmarshalBinary :: "model_RegisteredQueryKeysItems0 unmarshaller" where
  "model_RegisteredQueryKeysItems0_UnmarshalBinary R B = UnmarshalBinary R (step_RestKVKey B) zero_RestKVKey"

type_synonym model_RegisteredQueryLastSubmittedResultRemoteHeight = RestHeight

definition model_RegisteredQueryLastSubmittedResultRemoteHeight_Validate :: "('e, model_RegisteredQueryLastSubmittedResultRemoteHeight) validator" where
  "model_RegisteredQueryLastSubmittedResultRemoteHeight_Validate V x = None"

definition model_RegisteredQueryLastSubmittedResultRemoteHeight_ContextValidate :: "('e, model_RegisteredQueryLastSubmittedResultRemoteHeight) validator" where
  "model_RegisteredQueryLastSubmittedResultRemoteHeight_ContextValidate V x = None"

definition model_RegisteredQueryLastSubmittedResultRemoteHeight_MarshalBinary :: "model_RegisteredQueryLastSubmittedResultRemoteHeight marshaller" where
  "model_RegisteredQueryLastSubmittedResultRemoteHeight_MarshalBinary W B = MarshalBinary W (encode_RestHeight B)"

definition model_RegisteredQueryLastSubmittedResultRemoteHeight_UnmarshalBinary :: "model_RegisteredQueryLastSubmittedResultRemoteHeight unmarshaller" where
  "model_RegisteredQueryLastSubmittedResultRemoteHeight_UnmarshalBinary R B = UnmarshalBinary R (step_RestHeight B) zero_RestHeight"

type_synonym model_RegisteredQuery = RestRegisteredQuery

definition model_RegisteredQuery_Validate :: "('e, model_RegisteredQuery) validator" where
  "model_RegisteredQuery_Validate V x = all_of V
     [validate_items V ''keys'' (model_RegisteredQueryKeysItems0_Validate V) (rq_Keys x),
      validate_ptr V ''last_submitted_result_remote_height'' (model_RegisteredQueryLastSubmittedResultRemoteHeight_Validate V) (rq_LastSubmittedResultRemoteHeight x)]"

definition model_RegisteredQuery_ContextValidate :: "('e, model_RegisteredQuery) validator" where
  "model_RegisteredQuery_ContextValidate V x = all_of V
     [validate_items V ''keys'' (model_RegisteredQueryKeysItems0_ContextValidate V) (rq_Keys x),
      validate_ptr V ''last_submitted_result_remote_height'' (model_RegisteredQueryLastSubmittedResultRemoteHeight_ContextValidate V) (rq_LastSubmittedResultRemoteHeight x)]"

definition model_RegisteredQuery_MarshalBinary :: "model_RegisteredQuery marshaller" where
  "model_RegisteredQuery_MarshalBinary W B = MarshalBinary W (encode_RestRegisteredQuery B)"

definition model_RegisteredQuery_UnmarshalBinary :: "model_RegisteredQuery unmarshaller" where
  "model_RegisteredQuery_UnmarshalBinary R B = UnmarshalBinary R (step_RestRegisteredQuery B) zero_RestRegisteredQuery"

section \<open>\<open>neutron_interchainqueries_query_registered_queries_response.go\<close>\<close>

type_synonym model_QueryRegisteredQueriesResponsePagination = RestPagination

definition model_QueryRegisteredQueriesResponsePagination_Validate :: "('e, model_QueryRegisteredQueriesResponsePagination) validator" where
  "model_QueryRegisteredQueriesResponsePagination_Validate V x = None"

definition model_QueryRegisteredQueriesResponsePagination_ContextValidate :: "('e, model_QueryRegisteredQueriesResponsePagination) validator" where
  "model_QueryRegisteredQueriesResponsePagination_ContextValidate V x = None"

definition model_QueryRegisteredQueriesResponsePagination_MarshalBinary :: "model_QueryRegisteredQueriesResponsePagination marshaller" where
  "model_QueryRegisteredQueriesResponsePagination_MarshalBinary W B = MarshalBinary W (encode_RestPagination B)"

definition model_QueryRegisteredQueriesResponsePagination_UnmarshalBinary :: "model_QueryRegisteredQueriesResponsePagination unmarshaller" where
  "model_QueryRegisteredQueriesResponsePagination_UnmarshalBinary R B = UnmarshalBinary R (step_RestPagination B) zero_RestPagination"

type_synonym model_QueryRegisteredQueriesResponseRegisteredQueriesItems0KeysItems0 = RestKVKey

definition model_QueryRegisteredQueriesResponseRegisteredQueriesItems0KeysItems0_Validate :: "('e, model_QueryRegisteredQueriesResponseRegisteredQueriesItems0KeysItems0) validator" where
  "model_QueryRegisteredQueriesResponseRegisteredQueriesItems0KeysItems0_Validate V x = None"

definition model_QueryRegisteredQueriesResponseRegisteredQueriesItems0KeysItems0_ContextValidate :: "('e, model_QueryRegisteredQueriesResponseRegisteredQueriesItems0KeysItems0) validator" where
  "model_QueryRegisteredQueriesResponseRegisteredQueriesItems0KeysItems0_ContextValidate V x = None"

definition model_QueryRegisteredQueriesResponseRegisteredQueriesItems0KeysItems0_MarshalBinary :: "model_QueryRegisteredQueriesResponseRegisteredQueriesItems0KeysItems0 marshaller" where
  "model_QueryRegisteredQueriesResponseRegisteredQueriesItems0KeysItems0_MarshalBinary W B = MarshalBinary W (encode_RestKVKey B)"

definition model_QueryRegisteredQueriesResponseRegisteredQueriesItems0KeysItems0_UnmarshalBinary :: "model_QueryRegisteredQueriesResponseRegisteredQueriesItems0KeysItems0 unmarshaller" where
  "model_QueryRegisteredQueriesResponseRegisteredQueriesItems0KeysItems0_UnmarshalBinary R B = UnmarshalBinary R (step_RestKVKey B) zero_RestKVKey"

type_synonym model_QueryRegisteredQueriesResponseRegisteredQueriesItems0LastSubmittedResultRemoteHeight = RestHeight

definition model_QueryRegisteredQueriesResponseRegisteredQueriesItems0LastSubmittedResultRemoteHeight_Validate :: "('e, model_QueryRegisteredQueriesResponseRegisteredQueriesItems0LastSubmittedResultRemoteHeight) validator" where
  "model_QueryRegisteredQueriesResponseRegisteredQueriesItems0LastSubmittedResultRemoteHeight_Validate V x = None"

definition model_QueryRegisteredQueriesResponseRegisteredQueriesItems0LastSubmittedResultRemoteHeight_ContextValidate :: "('e, model_QueryRegisteredQueriesResponseRegisteredQueriesItems0LastSubmittedResultRemoteHeight) validator" where
  "model_QueryRegisteredQueriesResponseRegisteredQueriesItems0LastSubmittedResultRemoteHeight_ContextValidate V x = None"

definition model_QueryRegisteredQueriesResponseRegisteredQueriesItems0LastSubmittedResultRemoteHeight_MarshalBinary :: "model_QueryRegisteredQueriesResponseRegisteredQueriesItems0LastSubmittedResultRemoteHeight marshaller" where
  "model_QueryRegisteredQueriesResponseRegisteredQueriesItems0LastSubmittedResultRemoteHeight_MarshalBinary W B = MarshalBinary W (encode_RestHeight B)"

definition model_QueryRegisteredQueriesResponseRegisteredQueriesItems0LastSubmittedResultRemoteHeight_UnmarshalBinary :: "model_QueryRegisteredQueriesResponseRegisteredQueriesItems0LastSubmittedResultRemoteHeight unmarshaller" where
  "model_QueryRegisteredQueriesResponseRegisteredQueriesItems0LastSubmittedResultRemoteHeight_UnmarshalBinary R B = UnmarshalBinary R (step_RestHeight B) zero_RestHeight"

type_synonym model_QueryRegisteredQueriesResponseRegisteredQueriesItems0 = RestRegisteredQuery

definition model_QueryRegisteredQueriesResponseRegisteredQueriesItems0_Validate :: "('e, model_QueryRegisteredQueriesResponseRegisteredQueriesItems0) validator" where
  "model_QueryRegisteredQueriesResponseRegisteredQueriesItems0_Validate V x = all_of V
     [validate_items V ''keys'' (model_QueryRegisteredQueriesResponseRegisteredQueriesItems0KeysItems0_Validate V) (rq_Keys x),
      validate_ptr V ''last_submitted_result_remote_height'' (model_QueryRegisteredQueriesResponseRegisteredQueriesItems0LastSubmittedResultRemoteHeight_Validate V) (rq_LastSubmittedResultRemoteHeight x)]"

definition model_QueryRegisteredQueriesResponseRegisteredQueriesItems0_ContextValidate :: "('e, model_QueryRegisteredQueriesResponseRegisteredQueriesItems0) validator" where
  "model_QueryRegisteredQueriesResponseRegisteredQueriesItems0_ContextValidate V x = all_of V
     [validate_items V ''keys'' (model_QueryRegisteredQueriesResponseRegisteredQueriesItems0KeysItems0_ContextValidate V) (rq_Keys x),
      validate_ptr V ''last_submitted_result_remote_height'' (model_QueryRegisteredQueriesResponseRegisteredQueriesItems0LastSubmittedResultRemoteHeight_ContextValidate V) (rq_LastSubmittedResultRemoteHeight x)]"

definition model_QueryRegisteredQueriesResponseRegisteredQueriesItems0_MarshalBinary :: "model_QueryRegisteredQueriesResponseRegisteredQueriesItems0 marshaller" where
  "model_QueryRegisteredQueriesResponseRegisteredQueriesItems0_MarshalBinary W B = MarshalBinary W (encode_RestRegisteredQuery B)"

definition model_QueryRegisteredQueriesResponseRegisteredQueriesItems0_UnmarshalBinary :: "model_QueryRegisteredQueriesResponseRegisteredQueriesItems0 unmarshaller" where
  "model_QueryRegisteredQueriesResponseRegisteredQueriesItems0_UnmarshalBinary R B = UnmarshalBinary R (step_RestRegisteredQuery B) zero_RestRegisteredQuery"

type_synonym model_QueryRegisteredQueriesResponse = RegisteredQueriesBody

definition model_QueryRegisteredQueriesResponse_Validate :: "('e, model_QueryRegisteredQueriesResponse) validator" where
  "model_QueryRegisteredQueriesResponse_Validate V x = all_of V
     [validate_ptr V ''pagination'' (model_QueryRegisteredQueriesResponsePagination_Validate V) (rb_Pagination x),
      validate_items V ''registered_queries'' (model_QueryRegisteredQueriesResponseRegisteredQueriesItems0_Validate V) (RegisteredQueries x)]"

definition model_QueryRegisteredQueriesResponse_ContextValidate :: "('e, model_QueryRegisteredQueriesResponse) validator" where
  "model_QueryRegisteredQueriesResponse_ContextValidate V x = all_of V
     [validate_ptr V ''pagination'' (model_QueryRegisteredQueriesResponsePagination_ContextValidate V) (rb_Pagination x),
      validate_items V ''registered_queries'' (model_QueryRegisteredQueriesResponseRegisteredQueriesItems0_ContextValidate V) (RegisteredQueries x)]"

definition model_QueryRegisteredQueriesResponse_MarshalBinary :: "model_QueryRegisteredQueriesResponse marshaller" where
  "model_QueryRegisteredQueriesResponse_MarshalBinary W B = MarshalBinary W (encode_RegisteredQueriesBody B)"

definition model_QueryRegisteredQueriesResponse_UnmarshalBinary :: "model_QueryRegisteredQueriesResponse unmarshaller" where
  "model_QueryRegisteredQueriesResponse_UnmarshalBinary R B = UnmarshalBinary R (step_RegisteredQueriesBody B) zero_RegisteredQueriesBody"

section \<open>\<open>neutron_interchainqueries_query_registered_query_response.go\<close>\<close>

type_synonym model_QueryRegisteredQueryResponseRegisteredQueryKeysItems0 = RestKVKey

definition model_QueryRegisteredQueryResponseRegisteredQueryKeysItems0_Validate :: "('e, model_QueryRegisteredQueryResponseRegisteredQueryKeysItems0) validator" where
  "model_QueryRegisteredQueryResponseRegisteredQueryKeysItems0_Validate V x = None"

definition model_QueryRegisteredQueryResponseRegisteredQueryKeysItems0_ContextValidate :: "('e, model_QueryRegisteredQueryResponseRegisteredQueryKeysItems0) validator" where
  "model_QueryRegisteredQueryResponseRegisteredQueryKeysItems0_ContextValidate V x = None"

definition model_QueryRegisteredQueryResponseRegisteredQueryKeysItems0_MarshalBinary :: "model_QueryRegisteredQueryResponseRegisteredQueryKeysItems0 marshaller" where
  "model_QueryRegisteredQueryResponseRegisteredQueryKeysItems0_MarshalBinary W B = MarshalBinary W (encode_RestKVKey B)"

definition model_QueryRegisteredQueryResponseRegisteredQueryKeysItems0_UnmarshalBinary :: "model_QueryRegisteredQueryResponseRegisteredQueryKeysItems0 unmarshaller" where
  "model_QueryRegisteredQueryResponseRegisteredQueryKeysItems0_UnmarshalBinary R B = UnmarshalBinary R (step_RestKVKey B) zero_RestKVKey"

type_synonym model_QueryRegisteredQueryResponseRegisteredQueryLastSubmittedResultRemoteHeight = RestHeight

definition model_QueryRegisteredQueryResponseRegisteredQueryLastSubmittedResultRemoteHeight_Validate :: "('e, model_QueryRegisteredQueryResponseRegisteredQueryLastSubmittedResultRemoteHeight) validator" where
  "model_QueryRegisteredQueryResponseRegisteredQueryLastSubmittedResultRemoteHeight_Validate V x = None"

definition model_QueryRegisteredQueryResponseRegisteredQueryLastSubmittedResultRemoteHeight_ContextValidate :: "('e, model_QueryRegisteredQueryResponseRegisteredQueryLastSubmittedResultRemoteHeight) validator" where
  "model_QueryRegisteredQueryResponseRegisteredQueryLastSubmittedResultRemoteHeight_ContextValidate V x = None"

definition model_QueryRegisteredQueryResponseRegisteredQueryLastSubmittedResultRemoteHeight_MarshalBinary :: "model_QueryRegisteredQueryResponseRegisteredQueryLastSubmittedResultRemoteHeight marshaller" where
  "model_QueryRegisteredQueryResponseRegisteredQueryLastSubmittedResultRemoteHeight_MarshalBinary W B = MarshalBinary W (encode_RestHeight B)"

definition model_QueryRegisteredQueryResponseRegisteredQueryLastSubmittedResultRemoteHeight_UnmarshalBinary :: "model_QueryRegisteredQueryResponseRegisteredQueryLastSubmittedResultRemoteHeight unmarshaller" where
  "model_QueryRegisteredQueryResponseRegisteredQueryLastSubmittedResultRemoteHeight_UnmarshalBinary R B = UnmarshalBinary R (step_RestHeight B) zero_RestHeight"

type_synonym model_QueryRegisteredQueryResponseRegisteredQuery = RestRegisteredQuery

definition model_QueryRegisteredQueryResponseRegisteredQuery_Validate :: "('e, model_QueryRegisteredQueryResponseRegisteredQuery) validator" where
  "model_QueryRegisteredQueryResponseRegisteredQuery_Validate V x = all_of V
     [validate_items V ''registered_query.keys'' (model_QueryRegisteredQueryResponseRegisteredQueryKeysItems0_Validate V) (rq_Keys x),
      validate_ptr V ''registered_query.last_submitted_result_remote_height'' (model_QueryRegisteredQueryResponseRegisteredQueryLastSubmittedResultRemoteHeight_Validate V) (rq_LastSubmittedResultRemoteHeight x)]"

definition model_QueryRegisteredQueryResponseRegisteredQuery_ContextValidate :: "('e, model_QueryRegisteredQueryResponseRegisteredQuery) validator" where
  "model_QueryRegisteredQueryResponseRegisteredQuery_ContextValidate V x = all_of V
     [validate_items V ''registered_query.keys'' (model_QueryRegisteredQueryResponseRegisteredQueryKeysItems0_ContextValidate V) (rq_Keys x),
      validate_ptr V ''registered_query.last_submitted_result_remote_height'' (model_QueryRegisteredQueryResponseRegisteredQueryLastSubmittedResultRemoteHeight_ContextValidate V) (rq_LastSubmittedResultRemoteHeight x)]"

definition model_QueryRegisteredQueryResponseRegisteredQuery_MarshalBinary :: "model_QueryRegisteredQueryResponseRegisteredQuery marshaller" where
  "model_QueryRegisteredQueryResponseRegisteredQuery_MarshalBinary W B = MarshalBinary W (encode_RestRegisteredQuery B)"

definition model_QueryRegisteredQueryResponseRegisteredQuery_UnmarshalBinary :: "model_QueryRegisteredQueryResponseRegisteredQuery unmarshaller" where
  "model_QueryRegisteredQueryResponseRegisteredQuery_UnmarshalBinary R B = UnmarshalBinary R (step_RestRegisteredQuery B) zero_RestRegisteredQuery"

type_synonym model_QueryRegisteredQueryResponse = RegisteredQueryBody

definition model_QueryRegisteredQueryResponse_Validate :: "('e, model_QueryRegisteredQueryResponse) validator" where
  "model_QueryRegisteredQueryResponse_Validate V x = all_of V
     [validate_ptr V ''registered_query'' (model_QueryRegisteredQueryResponseRegisteredQuery_Validate V) (rb_RegisteredQuery x)]"

definition model_QueryRegisteredQueryResponse_ContextValidate :: "('e, model_QueryRegisteredQueryResponse) validator" where
  "model_QueryRegisteredQueryResponse_ContextValidate V x = all_of V
     [validate_ptr V ''registered_query'' (model_QueryRegisteredQueryResponseRegisteredQuery_ContextValidate V) (rb_RegisteredQuery x)]"

definition model_QueryRegisteredQueryResponse_MarshalBinary :: "model_QueryRegisteredQueryResponse marshaller" where
  "model_QueryRegisteredQueryResponse_MarshalBinary W B = MarshalBinary W (encode_RegisteredQueryBody B)"

definition model_QueryRegisteredQueryResponse_UnmarshalBinary :: "model_QueryRegisteredQueryResponse unmarshaller" where
  "model_QueryRegisteredQueryResponse_UnmarshalBinary R B = UnmarshalBinary R (step_RegisteredQueryBody B) zero_RegisteredQueryBody"

section \<open>What they accept\<close>

text \<open>No model has a field with a check of its own: every value is accepted.\<close>

lemmas models_Validate_defs =
  model_BlockHeader_Validate_def
  model_BlockNextBlockHeader_Validate_def
  model_BlockTxDeliveryProof_Validate_def
  model_BlockTxInclusionProof_Validate_def
  model_BlockTxResponseEventsItems0AttributesItems0_Validate_def
  model_BlockTxResponseEventsItems0_Validate_def
  model_BlockTxResponse_Validate_def
  model_BlockTx_Validate_def
  model_Block_Validate_def
  model_KVKey_Validate_def
  model_RegisteredQueryKeysItems0_Validate_def
  model_RegisteredQueryLastSubmittedResultRemoteHeight_Validate_def
  model_RegisteredQuery_Validate_def
  model_QueryRegisteredQueriesResponsePagination_Validate_def
  model_QueryRegisteredQueriesResponseRegisteredQueriesItems0KeysItems0_Validate_def
  model_QueryRegisteredQueriesResponseRegisteredQueriesItems0LastSubmittedResultRemoteHeight_Validate_def
  model_QueryRegisteredQueriesResponseRegisteredQueriesItems0_Validate_def
  model_QueryRegisteredQueriesResponse_Validate_def
  model_QueryRegisteredQueryResponseRegisteredQueryKeysItems0_Validate_def
  model_QueryRegisteredQueryResponseRegisteredQueryLastSubmittedResultRemoteHeight_Validate_def
  model_QueryRegisteredQueryResponseRegisteredQuery_Validate_def
  model_QueryRegisteredQueryResponse_Validate_def

lemma models_Validate_accept [accepts]:
  "model_BlockHeader_Validate V x0 = None"
  "model_BlockNextBlockHeader_Validate V x1 = None"
  "model_BlockTxDeliveryProof_Validate V x2 = None"
  "model_BlockTxInclusionProof_Validate V x3 = None"
  "model_BlockTxResponseEventsItems0AttributesItems0_Validate V x4 = None"
  "model_BlockTxResponseEventsItems0_Validate V x5 = None"
  "model_BlockTxResponse_Validate V x6 = None"
  "model_BlockTx_Validate V x7 = None"
  "model_Block_Validate V x8 = None"
  "model_KVKey_Validate V x9 = None"
  "model_RegisteredQueryKeysItems0_Validate V x10 = None"
  "model_RegisteredQueryLastSubmittedResultRemoteHeight_Validate V x11 = None"
  "model_RegisteredQuery_Validate V x12 = None"
  "model_QueryRegisteredQueriesResponsePagination_Validate V x13 = None"
  "model_QueryRegisteredQueriesResponseRegisteredQueriesItems0KeysItems0_Validate V x14 = None"
  "model_QueryRegisteredQueriesResponseRegisteredQueriesItems0LastSubmittedResultRemoteHeight_Validate V x15 = None"
  "model_QueryRegisteredQueriesResponseRegisteredQueriesItems0_Validate V x16 = None"
  "model_QueryRegisteredQueriesResponse_Validate V x17 = None"
  "model_QueryRegisteredQueryResponseRegisteredQueryKeysItems0_Validate V x18 = None"
  "model_QueryRegisteredQueryResponseRegisteredQueryLastSubmittedResultRemoteHeight_Validate V x19 = None"
  "model_QueryRegisteredQueryResponseRegisteredQuery_Validate V x20 = None"
  "model_QueryRegisteredQueryResponse_Validate V x21 = None"
  by (simp_all add: models_Validate_defs accepted_iff)

lemmas models_ContextValidate_defs =
  model_BlockHeader_ContextValidate_def
  model_BlockNextBlockHeader_ContextValidate_def
  model_BlockTxDeliveryProof_ContextValidate_def
  model_BlockTxInclusionProof_ContextValidate_def
  model_BlockTxResponseEventsItems0AttributesItems0_ContextValidate_def
  model_BlockTxResponseEventsItems0_ContextValidate_def
  model_BlockTxResponse_ContextValidate_def
  model_BlockTx_ContextValidate_def
  model_Block_ContextValidate_def
  model_KVKey_ContextValidate_def
  model_RegisteredQueryKeysItems0_ContextValidate_def
  model_RegisteredQueryLastSubmittedResultRemoteHeight_ContextValidate_def
  model_RegisteredQuery_ContextValidate_def
  model_QueryRegisteredQueriesResponsePagination_ContextValidate_def
  model_QueryRegisteredQueriesResponseRegisteredQueriesItems0KeysItems0_ContextValidate_def
  model_QueryRegisteredQueriesResponseRegisteredQueriesItems0LastSubmittedResultRemoteHeight_ContextValidate_def
  model_QueryRegisteredQueriesResponseRegisteredQueriesItems0_ContextValidate_def
  model_QueryRegisteredQueriesResponse_ContextValidate_def
  model_QueryRegisteredQueryResponseRegisteredQueryKeysItems0_ContextValidate_def
  model_QueryRegisteredQueryResponseRegisteredQueryLastSubmittedResultRemoteHeight_ContextValidate_def
  model_QueryRegisteredQueryResponseRegisteredQuery_ContextValidate_def
  model_QueryRegisteredQueryResponse_ContextValidate_def

lemma models_ContextValidate_accept [accepts]:
  "model_BlockHeader_ContextValidate V x0 = None"
  "model_BlockNextBlockHeader_ContextValidate V x1 = None"
  "model_BlockTxDeliveryProof_ContextValidate V x2 = None"
  "model_BlockTxInclusionProof_ContextValidate V x3 = None"
  "model_BlockTxResponseEventsItems0AttributesItems0_ContextValidate V x4 = None"
  "model_BlockTxResponseEventsItems0_ContextValidate V x5 = None"
  "model_BlockTxResponse_ContextValidate V x6 = None"
  "model_BlockTx_ContextValidate V x7 = None"
  "model_Block_ContextValidate V x8 = None"
  "model_KVKey_ContextValidate V x9 = None"
  "model_RegisteredQueryKeysItems0_ContextValidate V x10 = None"
  "model_RegisteredQueryLastSubmittedResultRemoteHeight_ContextValidate V x11 = None"
  "model_RegisteredQuery_ContextValidate V x12 = None"
  "model_QueryRegisteredQueriesResponsePagination_ContextValidate V x13 = None"
  "model_QueryRegisteredQueriesResponseRegisteredQueriesItems0KeysItems0_ContextValidate V x14 = None"
  "model_QueryRegisteredQueriesResponseRegisteredQueriesItems0LastSubmittedResultRemoteHeight_ContextValidate V x15 = None"
  "model_QueryRegisteredQueriesResponseRegisteredQueriesItems0_ContextValidate V x16 = None"
  "model_QueryRegisteredQueriesResponse_ContextValidate V x17 = None"
  "model_QueryRegisteredQueryResponseRegisteredQueryKeysItems0_ContextValidate V x18 = None"
  "model_QueryRegisteredQueryResponseRegisteredQueryLastSubmittedResultRemoteHeight_ContextValidate V x19 = None"
  "model_QueryRegisteredQueryResponseRegisteredQuery_ContextValidate V x20 = None"
  "model_QueryRegisteredQueryResponse_ContextValidate V x21 = None"
  by (simp_all add: models_ContextValidate_defs accepted_iff)

end
