(* ===== verification/Props_Rest.thy ===== *)
theory Props_Rest
  imports Rest_Wire Rest_Params Rest_Models Props_Subscriber
begin

text \<open>
  The properties of the REST client: what the subscriber gets from a call, and what the methods
  of the generated types promise.
\<close>

section \<open>Fetching registered queries\<close>

text \<open>What a request says: the values of a query parameter.\<close>

fun query_value :: "string \<Rightarrow> written list \<Rightarrow> string list option" where
  "query_value n [] = None"
| "query_value n (QueryParam m vs # q) = (if m = n then Some vs else query_value n q)"
| "query_value n (w # q) = query_value n q"

text \<open>
  Neutron's REST API: it answers a request for one query with that query, and a request for a
  page with the page that belongs to the owners, the connection and the key of the request.
\<close>

definition serves_query :: "base64 \<Rightarrow> (string list option \<Rightarrow> RegisteredQuery) \<Rightarrow>
    (string \<Rightarrow> string \<Rightarrow> written list \<Rightarrow> int \<Rightarrow> bytes \<Rightarrow> bool) \<Rightarrow> bool" where
  "serves_query B Q exchange \<longleftrightarrow> (\<forall>q body. exchange ''GET'' query_path q 200 body \<longrightarrow>
     (\<exists>v y. json_decode_first body = Ok v \<and> query_answer (Q (query_value ''query_id'' q)) y \<and> Answer_object B y v))"

definition serves_pages :: "base64 \<Rightarrow>
    (string list option \<Rightarrow> string list option \<Rightarrow> string list option \<Rightarrow> RestPagination option \<times> RegisteredQuery list) \<Rightarrow>
    (string \<Rightarrow> string \<Rightarrow> written list \<Rightarrow> int \<Rightarrow> bytes \<Rightarrow> bool) \<Rightarrow> bool" where
  "serves_pages B Pg exchange \<longleftrightarrow> (\<forall>q body. exchange ''GET'' queries_path q 200 body \<longrightarrow>
     (\<exists>v y. json_decode_first body = Ok v \<and> Page_object B y v \<and>
        (case Pg (query_value ''owners'' q) (query_value ''connection_id'' q) (query_value ''pagination.key'' q)
          of (p, qs) \<Rightarrow> page_answer p qs y)))"

lemma consumed:
  assumes "json_consumer C step" "Consume_OK C body = Inr p \<or> Consume_OK C body = Err ErrEOF \<and> p = zero_OK C"
    and "json_decode_first body = Ok v" "decode_struct step (zero_OK C) v = Ok x"
  shows "p = x"
  using assms by (auto simp: json_consumer_def)

lemma subscriber_RegisteredQuery_Inr:
  fixes Submit :: "('s, written list, 'c, 'h, ('p, 'e) api_response) transport"
  assumes tr: "transport_ok Submit [] exchange"
    and call: "subscriber_RegisteredQuery Submit recorder D C ctx i s = (Inr p, s')" and i: "i \<noteq> []"
  obtains q body where "exchange ''GET'' query_path q 200 body" "query_value ''query_id'' q = Some [i]"
    "Consume_OK C body = Inr p \<or> Consume_OK C body = Err ErrEOF \<and> p = zero_OK C"
proof -
  let ?p = "\<lparr>rg_QueryID = Some i, rg_timeout = 0, rg_Context = Some ctx, rg_HTTPClient = None :: 'h option\<rparr>"
  let ?op = "operation ''NeutronInterchainQueriesRegisteredQuery'' query_path
      (query_WriteToRequest recorder ?p) (query_ReadResponse C) (Some ctx) (None :: 'h option)"
  from call have "Submit ?op s = (Inr (RespOK p), s')"
    by (simp add: subscriber_RegisteredQuery_def NeutronInterchainQueriesRegisteredQuery_def submit_op_Inr)
  from transport_okD [OF tr this] obtain q code body where
    1: "query_WriteToRequest recorder ?p [] = (Inr (), q)" and
    2: "exchange ''GET'' query_path q code body" and 3: "query_ReadResponse C code body = Inr (RespOK p)"
    by (auto simp: operation_def)
  from 3 have "code = 200" and body: "Consume_OK C body = Inr p \<or> Consume_OK C body = Err ErrEOF \<and> p = zero_OK C"
    by (simp_all add: query_ReadResponse_def read_response_OK)
  moreover have "query_value ''query_id'' q = Some [i]"
    using 1 i by (auto simp: WriteToRequest_recorder query_param_def)
  ultimately show thesis using 2 by (intro that [of q body]) simp_all
qed

lemma subscriber_RegisteredQueries_Inr:
  fixes Submit :: "('s, written list, 'c, 'h, ('p, 'e) api_response) transport"
  assumes tr: "transport_ok Submit [] exchange"
    and call: "subscriber_RegisteredQueries Submit recorder D C ctx owners connectionID pageKey s = (Inr p, s')"
  obtains q body where "exchange ''GET'' queries_path q 200 body"
    "query_value ''owners'' q = Some owners"
    "query_value ''connection_id'' q = (if connectionID = [] then None else Some [connectionID])"
    "query_value ''pagination.key'' q =
       (case pageKey of None \<Rightarrow> None | Some k \<Rightarrow> if k = [] then None else Some [base64_encode k])"
    "Consume_OK C body = Inr p \<or> Consume_OK C body = Err ErrEOF \<and> p = zero_OK C"
proof -
  let ?p = "\<lparr>rgs_ConnectionID = Some connectionID, Owners = Some owners, PaginationCountTotal = None,
      PaginationKey = pageKey, PaginationLimit = None, PaginationOffset = None, PaginationReverse = None,
      rgs_timeout = 0, rgs_Context = Some ctx, rgs_HTTPClient = None :: 'h option\<rparr>"
  let ?op = "operation ''NeutronInterchainQueriesRegisteredQueries'' queries_path
      (queries_WriteToRequest recorder ?p) (queries_ReadResponse C) (Some ctx) (None :: 'h option)"
  from call have "Submit ?op s = (Inr (RespOK p), s')"
    by (simp add: subscriber_RegisteredQueries_def NeutronInterchainQueriesRegisteredQueries_def submit_op_Inr)
  from transport_okD [OF tr this] obtain q code body where
    1: "queries_WriteToRequest recorder ?p [] = (Inr (), q)" and
    2: "exchange ''GET'' queries_path q code body" and 3: "queries_ReadResponse C code body = Inr (RespOK p)"
    by (auto simp: operation_def)
  from 3 have "code = 200" and body: "Consume_OK C body = Inr p \<or> Consume_OK C body = Err ErrEOF \<and> p = zero_OK C"
    by (simp_all add: queries_ReadResponse_def read_response_OK)
  moreover have "query_value ''owners'' q = Some owners"
    "query_value ''connection_id'' q = (if connectionID = [] then None else Some [connectionID])"
    "query_value ''pagination.key'' q =
       (case pageKey of None \<Rightarrow> None | Some k \<Rightarrow> if k = [] then None else Some [base64_encode k])"
    using 1 by (auto simp: WriteToRequest_recorder query_param_def split: option.splits)
  ultimately show thesis using 2 by (intro that [of q body]) simp_all
qed

text \<open>
  C35: a registered query is fetched exactly. Neutron may answer with its members in any order,
  with members the client does not know, with empty strings left out, and with null or nothing
  for no keys, for a remote height of zero and for an empty page (numbers are always written, in
  decimal). The registered query that a successful call returns is then the one Neutron holds
  under the identifier that was asked for; and a page holds, in order, the queries that belong to
  the owners, the connection and the page key asked for, with Neutron's key of the next page.
\<close>

theorem registered_queries_fetched:
  fixes Submit1 :: "('s, written list, 'c, 'h, (RegisteredQueryBody, 'e) api_response) transport"
    and Submit2 :: "('s, written list, 'c, 'h, (RegisteredQueriesBody, 'e) api_response) transport"
  assumes "transport_ok Submit1 [] exchange" "transport_ok Submit2 [] exchange"
    and "json_consumer C1 (step_RegisteredQueryBody B)" "zero_OK C1 = zero_RegisteredQueryBody"
    and "json_consumer C2 (step_RegisteredQueriesBody B)" "zero_OK C2 = zero_RegisteredQueriesBody"
    and "serves_query B Q exchange" "serves_pages B Pg exchange"
    and "subscriber_RegisteredQuery Submit1 recorder D C1 ctx (FormatUint i) s = (Inr p, s1)"
    and "subscriber_RegisteredQueries Submit2 recorder D C2 ctx owners conn key s = (Inr ps, s2)"
    and "Pg (Some owners) (if conn = [] then None else Some [conn])
      (case key of None \<Rightarrow> None | Some k \<Rightarrow> if k = [] then None else Some [base64_encode k]) = (pg, qs)"
  shows "single_ToNeutronRegisteredQuery (rb_RegisteredQuery p) = Ok (Q (Some [FormatUint i])) \<and>
    map items_ToNeutronRegisteredQuery (elements (RegisteredQueries ps)) = map Ok qs \<and> rb_Pagination ps = pg"
proof -
  obtain q body where 1: "exchange ''GET'' query_path q 200 body" "query_value ''query_id'' q = Some [FormatUint i]"
    "Consume_OK C1 body = Inr p \<or> Consume_OK C1 body = Err ErrEOF \<and> p = zero_OK C1"
    by (rule subscriber_RegisteredQuery_Inr [OF assms(1,9) FormatUint_nonempty])
  with assms(7) obtain v y where v: "json_decode_first body = Ok v"
    "query_answer (Q (Some [FormatUint i])) y" "Answer_object B y v"
    unfolding serves_query_def by metis
  have "p = y"
    using consumed [OF assms(3) 1(3) v(1)] Answer_members.object_read v(3) assms(4) by (simp add: Answer_object_def)
  with v(2) have single: "single_ToNeutronRegisteredQuery (rb_RegisteredQuery p) = Ok (Q (Some [FormatUint i]))"
    by (simp add: query_answer_read)
  obtain r body' where 2: "exchange ''GET'' queries_path r 200 body'" "query_value ''owners'' r = Some owners"
    "query_value ''connection_id'' r = (if conn = [] then None else Some [conn])"
    "query_value ''pagination.key'' r =
       (case key of None \<Rightarrow> None | Some k \<Rightarrow> if k = [] then None else Some [base64_encode k])"
    "Consume_OK C2 body' = Inr ps \<or> Consume_OK C2 body' = Err ErrEOF \<and> ps = zero_OK C2"
    by (rule subscriber_RegisteredQueries_Inr [OF assms(2,10)])
  obtain w z where w: "json_decode_first body' = Ok w" "Page_object B z w"
    "case Pg (query_value ''owners'' r) (query_value ''connection_id'' r) (query_value ''pagination.key'' r)
      of (p, qs) \<Rightarrow> page_answer p qs z"
    using assms(8) [unfolded serves_pages_def, rule_format, OF 2(1)] by (elim exE conjE) (rule that)
  from w(3) have page: "page_answer pg qs z" unfolding 2(2-4) assms(11) by simp
  have "ps = z"
    using consumed [OF assms(5) 2(5) w(1)] Page_members.object_read w(2) assms(6) by (simp add: Page_object_def)
  with single page show ?thesis by (simp add: page_answer_read)
qed

text \<open>
  A node that holds two queries: it sends one with its members in another order and two more, and
  one without keys and without a remote height, which it leaves out or sends as null.
\<close>

definition fresh_rq :: RegisteredQuery where
  "fresh_rq = sample_rq 5 ''tx'' 0\<lparr>Keys := [],
     LastSubmittedResultRemoteHeight := \<lparr>RevisionNumber = 0, RevisionHeight = 0\<rparr>\<rparr>"

definition wire_query :: json where
  "wire_query = JObj [(''id'', JStr ''4''), (''owner'', JStr ''neutron1owner''), (''query_type'', JStr ''kv''),
     (''keys'', JArr [JObj [(''path'', JStr ''bank''), (''key'', JStr ''aw=='')]]),
     (''transactions_filter'', JStr ''[]''), (''connection_id'', JStr ''connection-0''),
     (''update_period'', JStr ''10''), (''last_submitted_result_local_height'', JStr ''0''),
     (''last_submitted_result_remote_height'',
        JObj [(''revision_number'', JStr ''1''), (''revision_height'', JStr ''9'')]),
     (''deposit'', JArr []), (''registered_at_height'', JStr ''7'')]"

definition wire_fresh :: json where
  "wire_fresh = JObj [(''id'', JStr ''5''), (''owner'', JStr ''neutron1owner''), (''query_type'', JStr ''tx''),
     (''keys'', JNull), (''transactions_filter'', JStr ''[]''), (''connection_id'', JStr ''connection-0''),
     (''update_period'', JStr ''10''), (''last_submitted_result_local_height'', JStr ''0'')]"

definition wire_answer :: "string \<Rightarrow> json" where
  "wire_answer path =
     (if path = query_path then JObj [(''registered_query'', wire_fresh)]
      else JObj [(''registered_queries'', JArr [wire_query, wire_fresh]),
        (''pagination'', JObj [(''next_key'', JNull), (''total'', JStr ''2'')])])"

definition wire_body :: "string \<Rightarrow> bytes" where
  "wire_body path = encode_compact (wire_answer path)"

definition wire_exchange :: "string \<Rightarrow> string \<Rightarrow> written list \<Rightarrow> int \<Rightarrow> bytes \<Rightarrow> bool" where
  "wire_exchange m path q code body \<longleftrightarrow> code = 200 \<and> body = wire_body path"

definition wire_submit :: "('s, written list, unit, unit, 'a) transport" where
  "wire_submit oper s = (case op_Params oper [] of
     (Inr u, q) \<Rightarrow> (op_Reader oper 200 (wire_body (op_PathPattern oper)), s)
   | (Inl f, q) \<Rightarrow> (Inl f, s))"

definition wire_consumer :: "('p \<Rightarrow> string \<Rightarrow> json \<Rightarrow> 'p res) \<Rightarrow> 'p \<Rightarrow> ('p, unit) consumer" where
  "wire_consumer step zero = \<lparr>zero_OK = zero, zero_Default = (),
     Consume_OK = (\<lambda>b. res_then (json_decode_first b) (decode_struct step zero)),
     Consume_Default = (\<lambda>b. Ok ()), print_Default = (\<lambda>u. [])\<rparr>"

lemma wire_transport_ok: "transport_ok wire_submit [] wire_exchange"
  by (auto simp: transport_ok_def wire_submit_def wire_exchange_def split: prod.splits sum.splits)

lemma wire_consumer_ok [simp]: "json_consumer (wire_consumer step zero) step" "zero_OK (wire_consumer step zero) = zero"
  by (simp_all add: json_consumer_def wire_consumer_def)

definition fresh_rest :: RestRegisteredQuery where
  "fresh_rest = render_query fresh_rq\<lparr>rq_Keys := None, rq_LastSubmittedResultRemoteHeight := None\<rparr>"

abbreviation "wire_pages \<equiv> (Some \<lparr>rp_NextKey = [], rp_Total = ''2''\<rparr>, [sample_rq 4 ''kv'' 0, fresh_rq])"
abbreviation "wire_single \<equiv> \<lparr>rb_RegisteredQuery = Some fresh_rest\<rparr>"
abbreviation "wire_page \<equiv> \<lparr>rb_Pagination = Some \<lparr>rp_NextKey = [], rp_Total = ''2''\<rparr>,
  RegisteredQueries = Some [Some (render_query (sample_rq 4 ''kv'' 0)), Some fresh_rest]\<rparr>"

lemma wire_holds: "query_answer fresh_rq wire_single" "page_answer (fst wire_pages) (snd wire_pages) wire_page"
proof -
  have fresh: "renders fresh_rq fresh_rest" by (simp add: renders_def fresh_rest_def fresh_rq_def)
  then show "query_answer fresh_rq wire_single" by (simp add: query_answer_def)
  have "renders q (render_query q)" for q by (simp add: renders_def)
  with fresh show "page_answer (fst wire_pages) (snd wire_pages) wire_page"
    by (auto simp: page_answer_def intro!: exI [of _ "[render_query (sample_rq 4 ''kv'' 0), fresh_rest]"])
qed

lemma wire_numbers:
  "FormatUint 4 = ''4''" "FormatUint 5 = ''5''" "FormatUint 10 = ''10''" "FormatUint 0 = ''0''" "FormatUint 1 = ''1''"
  "FormatUint 9 = ''9''" "ToLower ''deposit'' = ''deposit''" "ToLower ''registered_at_height'' = ''registered_at_height''"
  by code_simp+

lemma wire_query_object: "Query_object std_base64 (render_query (sample_rq 4 ''kv'' 0)) wire_query"
proof -
  have "KVKey_object std_base64 \<lparr>rk_Key = ''k'', rk_Path = ''bank''\<rparr>
      (JObj [(''path'', JStr ''bank''), (''key'', JStr ''aw=='')])"
    by code_simp
  then show ?thesis
    by (simp add: wire_numbers Query_object_def object_of_def wire_query_def Query_names_def Query_member_def Query_text_def
        Query_absent_def render_query_def sample_rq_def field_is_def field_names array_of_def ptr_of_def
        Height_object_def Height_member_def Height_absent_def)
qed

lemma wire_fresh_object: "Query_object std_base64 fresh_rest wire_fresh"
  by (simp add: wire_numbers Query_object_def object_of_def wire_fresh_def Query_names_def Query_member_def Query_text_def
      Query_absent_def fresh_rest_def fresh_rq_def render_query_def sample_rq_def field_is_def field_names array_of_def)

lemma wire_page_object: "Page_object std_base64 wire_page (wire_answer queries_path)"
proof -
  have "Pagination_object std_base64 \<lparr>rp_NextKey = [], rp_Total = ''2''\<rparr> (JObj [(''next_key'', JNull), (''total'', JStr ''2'')])"
    by code_simp
  with wire_query_object wire_fresh_object show ?thesis
    by (simp add: Page_object_def object_of_def Page_member_def wire_answer_def field_is_def field_names
        array_of_def ptr_of_def queries_path_def query_path_def)
qed

lemma wire_answer_object: "Answer_object std_base64 wire_single (wire_answer query_path)"
  using wire_fresh_object
  by (simp add: Answer_object_def object_of_def Answer_member_def wire_answer_def field_is_def field_names ptr_of_def)

lemma wire_body_parsed: "json_decode_first (wire_body path) = Ok (wire_answer path)"
proof -
  have "json_ok wire_query" "json_clean wire_query = wire_query" "json_ok wire_fresh" "json_clean wire_fresh = wire_fresh"
    by code_simp+
  then show ?thesis by (simp add: wire_body_def wire_answer_def is_ascii_def)
qed

lemma wire_serves:
  "serves_query std_base64 (\<lambda>i. fresh_rq) wire_exchange" "serves_pages std_base64 (\<lambda>os c k. wire_pages) wire_exchange"
  using wire_answer_object wire_page_object wire_holds
  by (auto simp: serves_query_def serves_pages_def wire_exchange_def wire_body_parsed)

abbreviation "wire_C1 \<equiv> wire_consumer (step_RegisteredQueryBody std_base64) zero_RegisteredQueryBody"
abbreviation "wire_C2 \<equiv> wire_consumer (step_RegisteredQueriesBody std_base64) zero_RegisteredQueriesBody"

lemma wire_calls:
  "subscriber_RegisteredQuery wire_submit recorder 0 wire_C1 () (FormatUint 5) () = (Inr wire_single, ())"
  "subscriber_RegisteredQueries wire_submit recorder 0 wire_C2 () [''neutron1owner''] ''connection-0'' None () =
     (Inr wire_page, ())"
  using answer_read [OF wire_consumer_ok wire_body_parsed wire_answer_object]
    page_read [OF wire_consumer_ok wire_body_parsed wire_page_object]
  by (simp_all add: subscriber_RegisteredQuery_def subscriber_RegisteredQueries_def submit_op_Inr wire_submit_def
      NeutronInterchainQueriesRegisteredQuery_def NeutronInterchainQueriesRegisteredQueries_def operation_def
      WriteToRequest_recorder)

theorem registered_queries_fetched_witness:
  "\<exists>p ps. subscriber_RegisteredQuery wire_submit recorder 0 wire_C1 () (FormatUint 5) () = (Inr p, ()) \<and>
     subscriber_RegisteredQueries wire_submit recorder 0 wire_C2 () [''neutron1owner''] ''connection-0'' None () = (Inr ps, ()) \<and>
     single_ToNeutronRegisteredQuery (rb_RegisteredQuery p) = Ok fresh_rq \<and>
     map items_ToNeutronRegisteredQuery (elements (RegisteredQueries ps)) = [Ok (sample_rq 4 ''kv'' 0), Ok fresh_rq]"
  using registered_queries_fetched [OF wire_transport_ok wire_transport_ok wire_consumer_ok wire_consumer_ok wire_serves
      wire_calls refl] wire_calls by simp

section \<open>Validation\<close>

text \<open>The documented behaviour of \<open>validate.EnumCase\<close> with case taken into account.\<close>

definition enum_case_ok :: "'e openapi \<Rightarrow> bool" where
  "enum_case_ok V \<longleftrightarrow> (\<forall>path location value enum.
     EnumCase V path location value enum True = None \<longleftrightarrow> value \<in> set enum)"

lemma connection_Validate:
  "connection_OKBodyConnection_Validate V c = all_of V [connection_validateState V (cb_State c)]"
  "connection_OKBody_Validate V b = all_of V [validate_ptr V ''ibcCoreConnectionV1ConnectionOK.connection''
     (connection_OKBodyConnection_Validate V) (Connection b)]"
proof -
  have skip: "validate_ptr V n f p = None" if "\<And>x. f x = None" for n p and f :: "'b \<Rightarrow> 'a option"
    using that by (simp add: accepted_iff)
  have skips: "validate_items V n f xs = None" if "\<And>x. f x = None" for n xs and f :: "'b \<Rightarrow> 'a option"
    using that by (simp add: accepted_iff)
  have drop: "all_of V [None, r, None] = all_of V [r]" "all_of V [r, None] = all_of V [r]" for r
    by (simp_all add: all_of_def)
  show "connection_OKBodyConnection_Validate V c = all_of V [connection_validateState V (cb_State c)]"
    by (simp add: connection_OKBodyConnection_Validate_def accepts skip skips drop)
  show "connection_OKBody_Validate V b = all_of V [validate_ptr V ''ibcCoreConnectionV1ConnectionOK.connection''
     (connection_OKBodyConnection_Validate V) (Connection b)]"
    by (simp add: connection_OKBody_Validate_def accepts skip drop)
qed

text \<open>
  C36: validation of an answer about a connection, in full. It looks at the state alone: an
  answer without a connection or without a state passes, so does one whose state is
  \<open>STATE_UNINITIALIZED_UNSPECIFIED\<close>, \<open>STATE_INIT\<close>, \<open>STATE_TRYOPEN\<close> or \<open>STATE_OPEN\<close>, spelled so; any other state
  is rejected with the library's error for this field, wrapped under the names on the way to it.
  Validation in a context looks at nothing.
\<close>

theorem connection_body_validation:
  assumes "enum_case_ok V"
  shows "connection_OKBody_Validate V b =
      (case Connection b of None \<Rightarrow> None | Some c \<Rightarrow> (case cb_State c of None \<Rightarrow> None | Some state \<Rightarrow>
         if state \<in> {''STATE_UNINITIALIZED_UNSPECIFIED'', ''STATE_INIT'', ''STATE_TRYOPEN'', ''STATE_OPEN''} then None
         else Some (CompositeValidationError V [named V ''ibcCoreConnectionV1ConnectionOK.connection''
           (CompositeValidationError V [the (EnumCase V ''ibcCoreConnectionV1ConnectionOK.connection.state'' ''body'' state
             [''STATE_UNINITIALIZED_UNSPECIFIED'', ''STATE_INIT'', ''STATE_TRYOPEN'', ''STATE_OPEN''] True)])]))) \<and>
    connection_OKBody_ContextValidate V b = None"
proof -
  have "connection_validateState V s = (case s of None \<Rightarrow> None | Some state \<Rightarrow>
      if state \<in> set connection_StateEnum then None
      else Some (the (EnumCase V ''ibcCoreConnectionV1ConnectionOK.connection.state'' ''body'' state connection_StateEnum True)))"
    for s
    using assms by (auto simp: enum_case_ok_def connection_validateState_def connection_validateStateEnum_def
        split: option.split)
  then show ?thesis
    by (auto simp: connection_Validate all_of_one validate_ptr_def accepts connection_StateEnum_def split: option.split)
qed

text \<open>Errors as the list of the names they were given, the innermost last.\<close>

definition name_errors :: "string list openapi" where
  "name_errors = \<lparr>error_kind = (\<lambda>e. IsComposite), ValidateName = (\<lambda>n e. n # e), CompositeValidationError = concat,
     EnumCase = (\<lambda>path location value enum cs. if value \<in> set enum then None else Some [path])\<rparr>"

definition wire_connection :: "string \<Rightarrow> ConnectionBody" where
  "wire_connection state = \<lparr>Connection = Some \<lparr>cb_ClientID = [], Counterparty = None, cb_DelayPeriod = [],
     cb_State = Some state, cb_Versions = None\<rparr>, ob_Proof = [], ob_ProofHeight = None\<rparr>"

theorem connection_body_validation_witness:
  "connection_OKBody_Validate name_errors (wire_connection ''STATE_TRYOPEN'') = None \<and>
   connection_OKBody_Validate name_errors (wire_connection ''state_open'') =
     Some [''ibcCoreConnectionV1ConnectionOK.connection'', ''ibcCoreConnectionV1ConnectionOK.connection.state'']"
proof -
  have V: "enum_case_ok name_errors" by (simp add: enum_case_ok_def name_errors_def)
  show ?thesis
    using connection_body_validation [OF V, of "wire_connection ''STATE_TRYOPEN''"]
      connection_body_validation [OF V, of "wire_connection ''state_open''"]
    by (simp add: wire_connection_def name_errors_def named_def)
qed

section \<open>Bodies as bytes\<close>

text \<open>
  C37: a block and an answer about a connection whose strings are valid UTF-8 come back from the
  bytes they were marshalled to, field by field, nil and empty slices told apart.
\<close>

theorem models_roundtrip:
  assumes "swag_ok W R" "base64_ok B"
    and "json_clean (encode_RestBlock B x) = encode_RestBlock B x"
      "json_clean (encode_ConnectionBody B y) = encode_ConnectionBody B y"
  shows "(\<exists>b. model_Block_MarshalBinary W B (Some x) = Ok b \<and> model_Block_UnmarshalBinary R B b = Ok x) \<and>
    (\<exists>b. connection_OKBody_MarshalBinary W B (Some y) = Ok b \<and> connection_OKBody_UnmarshalBinary R B b = Ok y)"
  using block_codec.unmarshal_marshal [OF assms(1-3)] connectionBody_codec.unmarshal_marshal [OF assms(1,2,4)]
  by (simp add: model_Block_MarshalBinary_def model_Block_UnmarshalBinary_def connection_OKBody_MarshalBinary_def
      connection_OKBody_UnmarshalBinary_def)

lemma go_json_swag: "swag_ok (\<lambda>v. Ok (json_text v)) json_parse"
  by (simp add: swag_ok_def)

definition wire_block :: RestBlock where
  "wire_block = \<lparr>bl_Header = Some \<lparr>an_AtType = ''/Header''\<rparr>, bl_NextBlockHeader = None,
     bl_Tx = Some \<lparr>bt_Data = [CHR 0xFF], bt_DeliveryProof = Some \<lparr>mk_Aunts = Some [''a'', []], mk_Index = ''1'',
         mk_LeafHash = ''h'', mk_Total = ''2''\<rparr>, bt_InclusionProof = None,
       bt_Response = Some \<lparr>xr_Code = 5, xr_Codespace = ''sdk'', xr_Data = [], xr_Events = Some [None,
           Some \<lparr>ev_Attributes = Some [], ev_Type = ''transfer''\<rparr>], xr_GasUsed = ''1'', xr_GasWanted = ''2'',
         xr_Info = [], xr_Log = ''failed''\<rparr>\<rparr>\<rparr>"

theorem models_roundtrip_witness:
  "\<exists>b. model_Block_MarshalBinary (\<lambda>v. Ok (json_text v)) std_base64 (Some wire_block) = Ok b \<and>
     model_Block_UnmarshalBinary json_parse std_base64 b = Ok wire_block"
proof -
  have "json_clean (encode_RestBlock std_base64 wire_block) = encode_RestBlock std_base64 wire_block"
    "json_clean (encode_ConnectionBody std_base64 (wire_connection ''STATE_OPEN'')) =
      encode_ConnectionBody std_base64 (wire_connection ''STATE_OPEN'')"
    by (simp_all add: wire_block_def wire_connection_def encode_RestBlock_def encode_RestAny_def encode_RestBlockTx_def
        encode_RestMerkleProof_def encode_RestTxResponse_def encode_RestEvent_def encode_ConnectionBody_def
        encode_RestConnection_def encode_slice_def encode_ptr_def str_member_def b64_member_def int_member_def
        ptr_member_def is_ascii_def std_base64_ok)
  from models_roundtrip [OF go_json_swag std_base64_ok this] show ?thesis by blast
qed

end
