(* ===== verification/Commands.thy ===== *)
theory Commands
  imports Http
begin

text \<open>
  The command line (\<open>cmd/neutron_query_relayer\<close>): the tree of commands the \<open>init\<close> functions
  build for cobra, what \<open>version\<close> prints and the exit code of the program. What the commands
  \<open>exec resubmit-tx\<close> and \<open>query unsuccessful-txs\<close> do is in \<open>Http\<close>, \<open>start\<close> in \<open>Start\<close>; cobra,
  which parses the arguments and calls one of them, is a parameter.
\<close>

section \<open>The tree of commands\<close>

text \<open>A flag has a name, a shorthand, a default and a usage text.\<close>

datatype command = Command
  (Use: string) (Short: string) (ExactArgs: "nat option") (PersistentFlags: "(string \<times> string \<times> string \<times> string) list")
  (Commands: "command list")

fun AddCommand :: "command \<Rightarrow> command \<Rightarrow> command" where
  "AddCommand (Command u sh a fs cs) c = Command u sh a fs (cs @ [c])"

fun StringVarP :: "string \<Rightarrow> string \<Rightarrow> string \<Rightarrow> string \<Rightarrow> command \<Rightarrow> command" where
  "StringVarP n h d t (Command u sh a fs cs) = Command u sh a (fs @ [(n, h, d, t)]) cs"

definition UrlFlagName :: string where
  "UrlFlagName = ''url''"

definition url_flag :: "command \<Rightarrow> command" where
  "url_flag = StringVarP UrlFlagName ''u'' ''http://localhost:9999'' ''server url''"

definition resubmitFailedTx_command :: command where
  "resubmitFailedTx_command = Command ''resubmit-tx <queryID> <transactionHash>''
     ''Resubmit previously unsuccessfully processed transactions'' (Some 2) [] []"

definition ExecCmd :: command where
  "ExecCmd = AddCommand (url_flag (Command ''exec'' [] None [] [])) resubmitFailedTx_command"

definition UnsuccessfulTxs_command :: command where
  "UnsuccessfulTxs_command = Command ''unsuccessful-txs'' ''Query unsuccessfully processed transactions'' None [] []"

definition QueryCmd :: command where
  "QueryCmd = AddCommand (url_flag (Command ''query'' [] None [] [])) UnsuccessfulTxs_command"

definition startCmd :: command where
  "startCmd = Command ''start'' ''Start the query relayer main app'' None [] []"

definition versionCmd :: command where
  "versionCmd = Command ''version'' ''Version on the query relayer'' None [] []"

text \<open>The files of a package are initialised in the order of their names.\<close>

definition rootCmd :: command where
  "rootCmd = foldl AddCommand (Command ''neutron_query_relayer'' ''Neutron Interchain Query Relayer'' None [] [])
     [ExecCmd, QueryCmd, startCmd, versionCmd]"

section \<open>Running it\<close>

text \<open>\<open>Version\<close> and \<open>Commit\<close> are set when the program is linked.\<close>

definition version_Run :: "string \<Rightarrow> string \<Rightarrow> (string \<Rightarrow> 's \<Rightarrow> 's) \<Rightarrow> 's \<Rightarrow> 's" where
  "version_Run Version Commit out s =
     out (''Commit: '' @ Commit @ [CHR 0x0A]) (out (''Version: '' @ Version @ [CHR 0x0A]) s)"

definition main :: "(command \<Rightarrow> 's \<Rightarrow> unit res \<times> 's) \<Rightarrow> 's \<Rightarrow> nat option \<times> 's" where
  "main cobra_Execute s = (case cobra_Execute rootCmd s of (r, s) \<Rightarrow> (Execute r, s))"

text \<open>The paths of the commands that do something, and the two that take the address of a server.\<close>

fun paths :: "command \<Rightarrow> string list list" where
  "paths (Command u sh a fs cs) = (if cs = [] then [[u]] else map ((#) u) (concat (map paths cs)))"

lemma rootCmd_paths: "paths rootCmd =
    [[''neutron_query_relayer'', ''exec'', ''resubmit-tx <queryID> <transactionHash>''],
     [''neutron_query_relayer'', ''query'', ''unsuccessful-txs''],
     [''neutron_query_relayer'', ''start''], [''neutron_query_relayer'', ''version'']]"
  by (simp add: rootCmd_def ExecCmd_def QueryCmd_def startCmd_def versionCmd_def url_flag_def
      resubmitFailedTx_command_def UnsuccessfulTxs_command_def)

lemma url_flags: "map Use (filter (\<lambda>c. PersistentFlags c \<noteq> []) (Commands rootCmd)) = [''exec'', ''query'']"
  by (simp add: rootCmd_def ExecCmd_def QueryCmd_def startCmd_def versionCmd_def url_flag_def
      resubmitFailedTx_command_def UnsuccessfulTxs_command_def)

end
