(* ===== verification/Spec2Isabelle.thy ===== *)
theory Spec2Isabelle
  imports Props_Storage Props_Relay Props_Query Props_Server Props_Chain Props_Subscriber Props_App
  Props_Pipeline Props_Lifecycle Props_Race Props_Rest Commands
begin

text \<open>
  A model of the Neutron interchain query relayer and its properties.

  \<^bold>\<open>The program.\<close> Smart contracts on Neutron register queries about another chain, the target. The
  relayer follows the registered queries of one IBC connection, fetches the results from the target
  chain with proofs, and submits them to Neutron. One process runs four goroutines
  (\<open>cmd/neutron_query_relayer/cmd/start.go\<close>): the subscriber, which loads the queries, keeps them up
  to date with Neutron's events and puts those that are due into a queue of tasks; the relayer, which
  takes the tasks and, for a KV query, proves and submits values of the store, and for a TX query
  searches for transactions and submits each with its proofs; the checker of submitted transactions,
  which asks Neutron whether they were committed; and a web server that shows the transactions that
  failed and submits them again on request. Relayer, checker and web server meet in a LevelDB
  database: the height each query has reached, the status of each transaction, the queues of pending
  and of unsuccessful transactions and the cache of transactions that may be submitted again.

  \<^bold>\<open>Theories of the model\<close>, each component in the order of the code:
  \<^item> \<open>Prelude\<close>: results (a value or a fault: a Go error, a panic, or a loop out of fuel), the
    sequencing of fallible steps with the code's error prefixes, strings, word bytes.
  \<^item> \<open>Strconv\<close>, \<open>Json\<close>, \<open>Json_Roundtrip\<close>, \<open>Json_Indent\<close>, \<open>Base64\<close>, \<open>Float64\<close>, \<open>Float_Text\<close>: what the code
    uses of Go's standard library: decimal and hexadecimal text, \<open>encoding/json\<close> on the types that are
    stored or sent, base64, IEEE doubles, and what their text with four digits says as a number.
  \<^item> \<open>Relay_Types\<close>: \<open>internal/relay\<close>, the records and interfaces that the components share.
  \<^item> \<open>Storage_Model\<close>, \<open>Storage_Spec\<close>: \<open>internal/storage/leveldb.go\<close>; the operations, the abstract
    store, and the locale \<open>relay_storage\<close>, the contract its clients rely on, interpreted on the
    LevelDB model.
  \<^item> \<open>Tx_Processor\<close>: \<open>internal/txprocessor\<close>, and the locale \<open>tx_processor\<close> that extends the storage's
    contract by that of a processor, interpreted on this processor over LevelDB.
  \<^item> \<open>Relayer\<close>, \<open>Tx_Querier\<close>, \<open>Tx_Submit_Checker\<close>: \<open>internal/relay/relayer.go\<close>, \<open>internal/txquerier\<close>,
    \<open>internal/txsubmitchecker\<close>.
  \<^item> \<open>Relay_Pipeline\<close>: the goroutine of \<open>SearchTransactions\<close> and the loop of \<open>processMessageTX\<close> as two
    processes with the buffered channel between them, and the proof that their interleavings end as
    the functions of \<open>Tx_Querier\<close> and \<open>Relayer\<close> do, which run the search first. The search does not
    look at the relayer's state, and one turn of the loop is one step.
  \<^item> \<open>Trusted_Headers\<close>, \<open>Kv_Processor\<close>, \<open>Submit\<close>: \<open>internal/trusted_headers\<close>, \<open>internal/kvprocessor\<close> with
    \<open>internal/tmquerier\<close>, \<open>internal/submit\<close>. \<open>Encoding\<close>: \<open>internal/raw/encoding.go\<close>, the set-up of the codecs.
  \<^item> \<open>Registry\<close>, \<open>Config\<close>, \<open>Metrics\<close>, \<open>Subscriber\<close>: \<open>internal/registry\<close>, \<open>internal/config\<close>,
    \<open>internal/metrics\<close>, \<open>internal/subscriber\<close>.
  \<^item> The generated client of Neutron's REST API (\<open>internal/subscriber/querier\<close>): \<open>Rest_Json\<close>, how
    structs with tags are written and read, and the locale \<open>rest_codec\<close>, the contract of a body type;
    \<open>Rest_Bodies\<close>, the body types by structure, each interpreting that locale; \<open>Rest_Validation\<close>, the
    shape of the generated methods; \<open>Rest_Models\<close> and \<open>Rest_Responses\<close>, these methods for every type
    of \<open>models\<close> and of the responses in \<open>client/query\<close>; \<open>Rest_Query\<close>, the hand-written conversion in
    \<open>client/query/utils.go\<close>; \<open>Rest_Client\<close> and \<open>Rest_Params\<close>, requests, responses, calls, constructors
    and setters, with \<open>internal/raw\<close>; \<open>Rest_Wire\<close>, the locale \<open>struct_members\<close> of structs read from
    objects in any layout, and Neutron's answers in that form.
  \<^item> \<open>Http\<close>: \<open>internal/http\<close> and the commands that use its client. \<open>Commands\<close>: the command line.
  \<^item> \<open>App\<close>, \<open>Start\<close>: \<open>internal/app\<close> and \<open>startRelayer\<close>: the construction of all of it, and the process
    of the four goroutines as a step relation: \<open>work_step\<close> is how their loops go on (work, \<open>select\<close>,
    queue of tasks, the end of each), \<open>proc_step\<close> adds the signal, errors and panics.
  \<^item> \<open>Lifecycle\<close>: the steps that submissions, checks, heights and restarts take on the abstract store,
    in any order. \<open>Lifecycle_Runs\<close>: the locale \<open>lifecycle_processor\<close>, the contract of a processor whose
    calls are such steps, interpreted on this processor over LevelDB; in it, the relayer's loop, the
    web server's requests and the checker's runs are sequences of steps. \<open>Lifecycle_Program\<close>: so are the
    calls of the KV processor, which records heights in the same database, and with them the activities
    of the whole program. Their hypothesis on how the parts are wired, \<open>program_wired\<close>, is what
    \<open>one_storage\<close> proves of \<open>startRelayer\<close>; \<open>program_quiet\<close> says what the parameters leave alone.
  \<^item> \<open>Retry\<close>, \<open>Runtime\<close>: \<open>retry.Do\<close> as a relation, the clock and the metrics.
  \<^item> \<open>Sample\<close>: one concrete world on which the witnesses are evaluated.

  \<^bold>\<open>State.\<close> A component is a record of its collaborators and constants; what it changes lies in a
  state \<open>'s\<close> that every operation takes and returns. The database is a part of that state, reached by
  \<open>get\<close> and \<open>put\<close>. \<open>LevelDBStorage L C get put clk\<close> is the storage over a database \<open>L\<close> (parameter; the
  predicate \<open>leveldb_ok\<close> states the documented behaviour of goleveldb: reads see what was written, a
  transaction is seen by others only when committed), a codec \<open>C\<close> of proofs and a clock. Go integers
  are words of 64 bits and wrap around; \<open>int64\<close> heights are read with \<open>sint\<close>. Channels are the lists
  of what they deliver; the iteration order of a Go map is an argument.

  \<^bold>\<open>Properties\<close>, in the theories \<open>Props_Storage\<close> (refinement of the abstract store, atomicity, keys),
  \<open>Props_Relay\<close> (no transaction is skipped or submitted twice, outcomes and errors of a submission),
  \<open>Props_Query\<close> (search, check, restart), \<open>Props_Pipeline\<close> (search and relaying side by side), \<open>Props_Server\<close>
  (requests as a client sees them), \<open>Props_Race\<close> (two submissions of one transaction),
  \<open>Props_Chain\<close> (trusted headers, KV queries, account sequence and gas price), \<open>Props_Subscriber\<close>
  (loading, events, blocks), \<open>Props_Rest\<close> (what a REST call returns, validation and coding of the
  generated types), \<open>Props_App\<close> (construction), \<open>Props_Lifecycle\<close> (the program follows the steps of the
  node, and its database keeps its types) and here (the invariant of a transaction's entries,
  shutdown). A property with hypotheses has a witness on the sample world.

  \<^bold>\<open>Loops and fuel.\<close> The three loops over pages (consensus states, transaction search, registered
  queries) run on fuel, one unit per page, and running out is a fault of its own. That as many units
  as there are pages are enough is part of \<open>trusted_height_found\<close>, \<open>search_complete\<close> and \<open>load_exact\<close>.
  The loops over channels are recursions over the list received before the cancellation.

  \<^bold>\<open>Parameters\<close>: the RPC and REST transports, \<open>go-openapi\<close> (runtime, errors, \<open>strfmt\<close>, \<open>swag\<close>), the
  Cosmos SDK (keyring, codecs, builder, chain providers), \<open>retry.Do\<close>, envconfig, regexp, cobra,
  \<open>net/http\<close>, mux, LevelDB, SHA-256 and protobuf.

  \<^bold>\<open>Not modelled\<close>: logging; the registration of metrics; mocks and tests. The types of \<open>models\<close> and
  the methods \<open>Validate\<close>, \<open>ContextValidate\<close>, \<open>MarshalBinary\<close> and \<open>UnmarshalBinary\<close> are modelled as they
  are generated, although the program never calls them.
  A Go runtime that runs out of memory or stack is not considered.
\<close>

section \<open>The life of a transaction\<close>

text \<open>
  C3: in every state that submissions, checks, heights and restarts can reach, in whatever order,
  a status tells the other entries of its transaction: a submitted one is pending and cached, a
  failed one is in the queue of unsuccessful transactions with that status, a committed one is
  in neither; one without a status is in neither. A pending entry is of a transaction broadcast
  under its hash and has a status.
\<close>

theorem lifecycle_invariant:
  assumes "reachable N"
  shows "(\<forall>q h. tx_entries_ok (nd_store N) q h) \<and>
    (\<nexists>n p. pending (nd_store N) n = Some p \<and> (pd_NeutronHash p \<noteq> n \<or> n \<notin> nd_used N \<or>
      statuses (nd_store N) (pd_QueryID p, pd_SubmittedTxHash p) = None))"
  using reachable_node_ok [OF assms] by (auto simp: node_ok_def hashes_ok_def)

theorem lifecycle_invariant_witness:
  "\<exists>N. reachable N \<and> nd_store N = race_store 1 (sample_hash ''t'') (sample_tx 5 ''t'') \<and>
     (\<exists>u. unsuccessful (nd_store N) (1, sample_hash ''t'') = Some u \<and> un_Status u = ErrorOnCommit)"
proof -
  obtain N where N: "reachable N" "nd_store N = race_store 1 (sample_hash ''t'') (sample_tx 5 ''t'')"
    using race_reachable [OF is_txhash_sample] by blast
  have "has_status (nd_store N) 1 (sample_hash ''t'') ErrorOnCommit"
    by (simp add: N(2) race_store_def has_status_SetTxStatus)
  with lifecycle_invariant [OF N(1)] N show ?thesis by (auto simp: tx_entries_ok_def)
qed

section \<open>Shutdown\<close>

text \<open>
  C27: the storage is closed only after the web server, the checker, the subscriber and the relayer
  have all ended, and none of them ends before the context is cancelled or has cancelled it.
\<close>

theorem storage_closed_last:
  assumes "runs_to cap started p"
  shows "\<not> (closed p \<and> workers p \<noteq> {}) \<and> (workers p = UNIV \<or> cancelled p) \<and> queued p \<le> cap"
  using process_ok_runs [OF assms] by (auto simp: process_ok_def)

theorem storage_closed_last_witness:
  "\<exists>p. runs_to 3 started p \<and> queued p = 3 \<and> \<not> closed p"
proof -
  have run: "runs_to 3 started (started\<lparr>queued := 3\<rparr>)" by (rule fill_queue) simp
  from storage_closed_last [OF run] run show ?thesis
    by (intro exI [of _ "started\<lparr>queued := 3\<rparr>"]) (auto simp: started_def)
qed



text \<open>
  C28: otherwise it cannot: whatever the capacity of the queue, a run leads to a cancelled process
  from which no continuation closes the storage. The relayer has ended, the queue is full, and the
  subscriber waits in a send that does not watch the context. A signal is enough to get there.
\<close>

theorem shutdown_blocked:
  "\<exists>p. runs_to cap started p \<and> cancelled p \<and> \<not> crashed p \<and> \<not> (\<exists>p'. runs_to cap p p' \<and> closed p')"
proof -
  obtain p where p: "runs_to cap started p" "cancelled p" "\<not> crashed p" "\<not> closed p" "stuck cap p"
    using stuck_reachable by blast
  with stuck_forever show ?thesis by blast
qed

end
